(* ===== verification/Rust_Prelude.thy ===== *)
theory Rust_Prelude
  imports Main "HOL-Library.Word"
begin

unbundle bit_operations_syntax

text \<open>
  The part of Rust that every component of the library uses: panics as values,
  integer arithmetic under the two standard build profiles, and the little
  monad in which device code is written.

  A build profile decides what an integer overflow does: with overflow checks
  (and debug assertions) it panics, without them it wraps.  Every arithmetic
  operation that can overflow takes the profile as an argument, so a theorem
  that does not mention a particular profile holds for both.
\<close>

type_synonym u8 = "8 word"
type_synonym u32 = "32 word"
type_synonym u64 = "64 word"

section \<open>Panics and results\<close>

datatype profile = Debug | Release

datatype panic =
    AddOverflow | SubOverflow | MulOverflow | ShlOverflow
  | DivByZero | IndexOutOfBounds | UnwrapNone | UnwrapErr
  | AssertFailed | Unreachable | ExplicitPanic

named_theorems rust_exact \<open>checked arithmetic that stays in range\<close>
named_theorems io_simps \<open>evaluation of device programs\<close>
named_theorems config_defs \<open>constants of the platform configurations\<close>

text \<open>Sequencing of computations that may panic.\<close>

fun rbind :: "'e + 'a \<Rightarrow> ('a \<Rightarrow> 'e + 'b) \<Rightarrow> 'e + 'b" where
  "rbind (Inl e) f = Inl e"
| "rbind (Inr x) f = f x"

lemma rbind_Inr_iff: "rbind m f = Inr y \<longleftrightarrow> (\<exists>x. m = Inr x \<and> f x = Inr y)"
  by (cases m) auto

lemma rbind_ret [simp]: "rbind m Inr = m"
  by (cases m) auto

lemma rbind_assoc: "rbind (rbind m f) g = rbind m (\<lambda>x. rbind (f x) g)"
  by (cases m) auto

section \<open>Integer arithmetic under a build profile\<close>

definition uadd :: "profile \<Rightarrow> 'a::len word \<Rightarrow> 'a word \<Rightarrow> panic + 'a word" where
  "uadd p a b =
     (if p = Debug \<and> 2 ^ LENGTH('a) \<le> unat a + unat b then Inl AddOverflow else Inr (a + b))"

definition usub :: "profile \<Rightarrow> 'a::len word \<Rightarrow> 'a word \<Rightarrow> panic + 'a word" where
  "usub p a b = (if p = Debug \<and> a < b then Inl SubOverflow else Inr (a - b))"

definition umul :: "profile \<Rightarrow> 'a::len word \<Rightarrow> 'a word \<Rightarrow> panic + 'a word" where
  "umul p a b =
     (if p = Debug \<and> 2 ^ LENGTH('a) \<le> unat a * unat b then Inl MulOverflow else Inr (a * b))"

text \<open>Division by zero panics in every profile.\<close>

definition udiv :: "'a::len word \<Rightarrow> 'a word \<Rightarrow> panic + 'a word" where
  "udiv a b = (if b = 0 then Inl DivByZero else Inr (a div b))"

text \<open>
  A shift by at least the width panics with overflow checks; without them the
  shift amount is reduced modulo the width.
\<close>

definition ushl :: "profile \<Rightarrow> 'a::len word \<Rightarrow> nat \<Rightarrow> panic + 'a word" where
  "ushl p a n =
     (if p = Debug \<and> LENGTH('a) \<le> n then Inl ShlOverflow
      else Inr (push_bit (n mod LENGTH('a)) a))"

lemma unat_plus_exact:
  fixes a b :: "'a::len word"
  shows "unat a + unat b < 2 ^ LENGTH('a) \<Longrightarrow> unat (a + b) = unat a + unat b"
  by (simp add: unat_word_ariths)

lemma unat_mult_exact:
  fixes a b :: "'a::len word"
  shows "unat a * unat b < 2 ^ LENGTH('a) \<Longrightarrow> unat (a * b) = unat a * unat b"
  by (simp add: unat_word_ariths)

lemma unat_minus_exact: "b \<le> a \<Longrightarrow> unat (a - b) = unat a - unat b"
  by (rule unat_sub)

lemma unat_minus_less: "unat b < unat a \<Longrightarrow> unat (a - b) = unat a - unat b"
  by (rule unat_minus_exact) (simp add: word_le_nat_alt)

lemma uadd_exact [rust_exact]:
  fixes a b :: "'a::len word"
  shows "unat a + unat b < 2 ^ LENGTH('a) \<Longrightarrow> uadd p a b = Inr (a + b)"
  by (simp add: uadd_def)

lemma usub_exact [rust_exact]: "b \<le> a \<Longrightarrow> usub p a b = Inr (a - b)"
  by (auto simp: usub_def)

lemma umul_exact [rust_exact]:
  fixes a b :: "'a::len word"
  shows "unat a * unat b < 2 ^ LENGTH('a) \<Longrightarrow> umul p a b = Inr (a * b)"
  by (simp add: umul_def)

lemma udiv_exact [rust_exact]: "b \<noteq> 0 \<Longrightarrow> udiv a b = Inr (a div b)"
  by (simp add: udiv_def)

lemma ushl_exact [rust_exact]:
  fixes a :: "'a::len word"
  shows "n < LENGTH('a) \<Longrightarrow> ushl p a n = Inr (push_bit n a)"
  by (simp add: ushl_def)

lemma unat_div_exact: "unat (a div b) = unat a div unat b"
  by (rule unat_div_distrib)

lemma add_wraps_iff: "2 ^ LENGTH('a) \<le> unat a + unat b \<longleftrightarrow> a + b < b"
  for a b :: "'a::len word"
proof (cases "unat a + unat b < 2 ^ LENGTH('a)")
  case True
  then show ?thesis by (simp add: word_less_nat_alt unat_plus_exact)
next
  case False
  moreover have small: "unat a < 2 ^ LENGTH('a)" "unat b < 2 ^ LENGTH('a)"
    by (rule unsigned_less)+
  ultimately have "unat a + unat b - 2 ^ LENGTH('a) < 2 ^ LENGTH('a)" by linarith
  then have "(unat a + unat b) mod 2 ^ LENGTH('a) = unat a + unat b - 2 ^ LENGTH('a)"
    using False by (simp add: le_mod_geq)
  also have "\<dots> < unat b" using small False by linarith
  finally have "(unat a + unat b) mod 2 ^ LENGTH('a) < unat b" .
  with False show ?thesis by (simp add: word_less_nat_alt unat_word_ariths)
qed

text \<open>Subtraction undoes addition, wrapping or not.\<close>

lemma uadd_usub_iff: "uadd p a b = Inr s \<longleftrightarrow> usub p s b = Inr a"
  by (auto simp: uadd_def usub_def add_wraps_iff)

lemma uadd_commute: "uadd p a b = uadd p b a"
  by (simp add: uadd_def add.commute)

lemma uadd_zero [simp]: "uadd p 0 b = Inr b" and uadd_zero_right [simp]: "uadd p b 0 = Inr b"
proof -
  have "unat b < 2 ^ LENGTH('a)" for b :: "'a::len word" by (rule unsigned_less)
  then show "uadd p 0 b = Inr b" and "uadd p b 0 = Inr b" by (simp_all add: uadd_def not_le)
qed

section \<open>Device programs\<close>

text \<open>
  The effect of driver code is the sequence of commands it issues: callback
  calls, register writes, calls into third-party drivers.  A device program is
  that sequence together with its outcome.  The commands issued before a panic
  stay in the sequence, as they do on the machine.
\<close>

type_synonym ('c, 'a) io = "'c list \<times> (panic + 'a)"

definition ret_io :: "'a \<Rightarrow> ('c, 'a) io" where
  [io_simps]: "ret_io x = ([], Inr x)"

definition emit :: "'c \<Rightarrow> ('c, unit) io" where
  [io_simps]: "emit c = ([c], Inr ())"

definition lift_io :: "panic + 'a \<Rightarrow> ('c, 'a) io" where
  [io_simps]: "lift_io r = ([], r)"

fun bind_io :: "('c, 'a) io \<Rightarrow> ('a \<Rightarrow> ('c, 'b) io) \<Rightarrow> ('c, 'b) io" where
  "bind_io (cs, Inl e) f = (cs, Inl e)"
| "bind_io (cs, Inr x) f = (cs @ fst (f x), snd (f x))"

definition seq_io :: "('c, 'a) io \<Rightarrow> ('c, 'b) io \<Rightarrow> ('c, 'b) io" where
  "seq_io m n = bind_io m (\<lambda>_. n)"

lemma seq_io_simps [io_simps]:
  "seq_io (cs, Inl e) n = (cs, Inl e)"
  "seq_io (cs, Inr x) n = (cs @ fst n, snd n)"
  by (simp_all add: seq_io_def)

lemma bind_io_ret [simp]: "bind_io (ret_io x) f = f x"
  by (simp add: ret_io_def)

lemma bind_io_Inr_iff:
  "bind_io m f = (cs, Inr y) \<longleftrightarrow>
     (\<exists>cs1 x cs2. m = (cs1, Inr x) \<and> f x = (cs2, Inr y) \<and> cs = cs1 @ cs2)"
proof (cases m)
  case (Pair ds r)
  show ?thesis
  proof (cases r)
    case (Inl e)
    then show ?thesis by (simp add: Pair)
  next
    case (Inr x)
    then show ?thesis by (cases "f x") (auto simp: Pair)
  qed
qed

lemma bind_io_assoc: "bind_io (bind_io m f) g = bind_io m (\<lambda>x. bind_io (f x) g)"
proof (cases "(m, f)" rule: bind_io.cases)
  case (1 cs e f)
  then show ?thesis by simp
next
  case (2 cs x f')
  obtain ds r where "f' x = (ds, r)" by fastforce
  then show ?thesis using 2 by (cases r) auto
qed

text \<open>The program that runs a body for every element of a list, in order.\<close>

fun each_io :: "('x \<Rightarrow> ('c, unit) io) \<Rightarrow> 'x list \<Rightarrow> ('c, unit) io" where
  "each_io f [] = ret_io ()"
| "each_io f (x # xs) = seq_io (f x) (each_io f xs)"

lemma each_io_total:
  assumes "\<And>x. x \<in> set xs \<Longrightarrow> f x = (g x, Inr ())"
  shows "each_io f xs = (concat (map g xs), Inr ())"
  using assms by (induction xs) (simp_all add: io_simps)

lemma concat_map_empty [simp]: "concat (map (\<lambda>_. []) xs) = []"
  by (induction xs) auto

end
