(* ===== verification/Mem_Ranges.thy ===== *)
theory Mem_Ranges
  imports Rust_Prelude
begin

text \<open>
  Physical memory ranges (\<^verbatim>\<open>axplat/src/mem.rs\<close>): the overlap check, the
  difference of two range lists, the total memory size, and the region flags.
  The width of \<^verbatim>\<open>usize\<close> is a type variable, so every theorem holds for the
  64-bit platforms and for 32-bit ARM alike.
\<close>

section \<open>Ranges and what they denote\<close>

text \<open>A raw range is a start and a size; a span is Rust's \<^verbatim>\<open>start..end\<close>.\<close>

type_synonym 'u raw_range = "'u word \<times> 'u word"
type_synonym 'u span = "'u word \<times> 'u word"
type_synonym 'u overlap_err = "'u span \<times> 'u span"

definition lo :: "'u::len raw_range \<Rightarrow> nat" where
  "lo r = unat (fst r)"

definition hi :: "'u::len raw_range \<Rightarrow> nat" where
  "hi r = unat (fst r) + unat (snd r)"

text \<open>The addresses of a range, and ranges whose end is representable.\<close>

definition addrs :: "'u::len raw_range \<Rightarrow> nat set" where
  "addrs r = {lo r ..< hi r}"

definition fits :: "'u::len raw_range \<Rightarrow> bool" where
  "fits r \<longleftrightarrow> hi r < 2 ^ LENGTH('u)"

definition addrs_of :: "'u::len raw_range list \<Rightarrow> nat set" where
  "addrs_of rs = (\<Union>r \<in> set rs. addrs r)"

text \<open>Sorted by start and free of overlaps: the precondition the code states.\<close>

definition chained :: "'u::len raw_range list \<Rightarrow> bool" where
  "chained rs \<longleftrightarrow> sorted_wrt (\<lambda>a b. hi a \<le> lo b) rs"

lemma lo_le_hi [simp]: "lo r \<le> hi r"
  by (simp add: lo_def hi_def)

lemma lo_pair [simp]: "lo (s, z) = unat s" and hi_pair [simp]: "hi (s, z) = unat s + unat z"
  by (simp_all add: lo_def hi_def)

lemma addrs_of_Nil [simp]: "addrs_of [] = {}"
  and addrs_of_Cons [simp]: "addrs_of (r # rs) = addrs r \<union> addrs_of rs"
  and addrs_of_append [simp]: "addrs_of (rs @ ts) = addrs_of rs \<union> addrs_of ts"
  by (auto simp: addrs_of_def)

lemma chained_Nil [simp]: "chained []"
  and chained_Cons: "chained (r # rs) \<longleftrightarrow> (\<forall>b \<in> set rs. hi r \<le> lo b) \<and> chained rs"
  by (auto simp: chained_def)

lemma chained_Cons2: "chained (r # q # rs) \<longleftrightarrow> hi r \<le> lo q \<and> chained (q # rs)"
proof
  assume "hi r \<le> lo q \<and> chained (q # rs)"
  moreover from this have "\<forall>b \<in> set rs. hi r \<le> lo b"
    by (auto simp: chained_Cons intro: order_trans[OF _ order_trans[OF lo_le_hi]])
  ultimately show "chained (r # q # rs)" by (simp add: chained_Cons)
qed (simp add: chained_Cons)

lemma chained_step:
  "chained (r # rs) \<longleftrightarrow> (\<forall>q \<in> set (take 1 rs). hi r \<le> lo q) \<and> chained rs"
  by (cases rs) (simp_all add: chained_Cons2, simp add: chained_def)

lemma fits_uadd [rust_exact]:
  assumes "fits (s, z)"
  shows "uadd p s z = Inr (s + z)" and "unat (s + z) = unat s + unat z"
  using assms by (simp_all add: fits_def uadd_exact unat_plus_exact)

section \<open>check_sorted_ranges_overlap\<close>

text \<open>The loop of the check; \<^verbatim>\<open>prev\<close> starts as the default range \<^verbatim>\<open>0..0\<close>.\<close>

fun check_loop ::
  "profile \<Rightarrow> 'u::len span \<Rightarrow> 'u raw_range list \<Rightarrow> panic + ('u overlap_err + unit)" where
  "check_loop p prev [] = Inr (Inr ())"
| "check_loop p prev ((start, sz) # rs) =
     (if snd prev > start
      then rbind (uadd p start sz) (\<lambda>e. Inr (Inl (prev, (start, e))))
      else rbind (uadd p start sz) (\<lambda>e. check_loop p (start, e) rs))"

definition check_sorted_ranges_overlap ::
  "profile \<Rightarrow> 'u::len raw_range list \<Rightarrow> panic + ('u overlap_err + unit)" where
  "check_sorted_ranges_overlap p ranges = check_loop p (0, 0) ranges"

text \<open>The span of a range, and the first neighbours of a list that overlap.\<close>

definition span_of :: "'u::len raw_range \<Rightarrow> 'u span" where
  "span_of r = (fst r, fst r + snd r)"

fun first_clash :: "'u::len span \<Rightarrow> 'u raw_range list \<Rightarrow> 'u overlap_err option" where
  "first_clash prev [] = None"
| "first_clash prev (r # rs) =
     (if unat (snd prev) > lo r then Some (prev, span_of r) else first_clash (span_of r) rs)"

lemma check_loop_first_clash:
  assumes "\<forall>r \<in> set rs. fits r"
  shows "check_loop p prev rs =
    Inr (case first_clash prev rs of None \<Rightarrow> Inr () | Some e \<Rightarrow> Inl e)"
  using assms
  by (induction rs arbitrary: prev)
     (auto simp: span_of_def rust_exact word_less_nat_alt)

lemma unat_span_end: "fits r \<Longrightarrow> unat (snd (span_of r)) = hi r"
  by (cases r) (simp add: span_of_def rust_exact)

lemma first_clash_None:
  assumes "\<forall>r \<in> set rs. fits r"
  shows "first_clash prev rs = None \<longleftrightarrow>
    (\<forall>r \<in> set (take 1 rs). unat (snd prev) \<le> lo r) \<and> chained rs"
  using assms
proof (induction rs arbitrary: prev)
  case Nil
  then show ?case by simp
next
  case (Cons r rs)
  have "first_clash (span_of r) rs = None \<longleftrightarrow> chained (r # rs)"
    using Cons by (simp add: chained_step[of r rs] unat_span_end)
  then show ?case by auto
qed

lemma check_sorted_chained:
  assumes "\<forall>r \<in> set rs. fits r"
  shows "check_sorted_ranges_overlap p rs = Inr (Inr ()) \<longleftrightarrow> chained rs"
  unfolding check_sorted_ranges_overlap_def check_loop_first_clash[OF assms]
  using first_clash_None[OF assms, of "(0, 0)"] by (auto split: option.splits)

text \<open>A failing check reports the first neighbours that overlap.\<close>

lemma check_sorted_reports:
  fixes rs :: "'u::len raw_range list"
  assumes "\<forall>r \<in> set rs. fits r" and "\<not> (chained rs \<and> sorted (map lo rs))"
  shows "\<exists>pre a b post. rs = pre @ a # b # post \<and> lo b < hi a \<and>
    check_sorted_ranges_overlap p rs = Inr (Inl (span_of a, span_of b))"
proof -
  have clash: "\<exists>pre a b post. r # rs' = pre @ a # b # post \<and> lo b < hi a \<and> e = (span_of a, span_of b)"
    if "first_clash (span_of r) rs' = Some e" and "\<forall>q \<in> set (r # rs'). fits q" for r rs' e
    using that
  proof (induction rs' arbitrary: r)
    case Nil
    then show ?case by simp
  next
    case (Cons q qs)
    show ?case
    proof (cases "lo q < hi r")
      case True
      with Cons.prems have "e = (span_of r, span_of q)" by (simp add: unat_span_end)
      with True show ?thesis by (intro exI[of _ "[]"]) auto
    next
      case False
      with Cons.prems Cons.IH[of q] obtain pre a b post where
        "q # qs = pre @ a # b # post" "lo b < hi a" "e = (span_of a, span_of b)"
        by (auto simp: unat_span_end)
      then show ?thesis by (intro exI[of _ "r # pre"]) auto
    qed
  qed
  have "sorted (map lo rs)" if "chained rs"
    using that by (induction rs) (auto simp: chained_Cons intro: order_trans[OF lo_le_hi])
  with assms(2) have "\<not> chained rs" by blast
  then obtain r rs' where rs: "rs = r # rs'" by (cases rs) auto
  then obtain e where "first_clash (span_of r) rs' = Some e"
    using \<open>\<not> chained rs\<close> first_clash_None[of rs "(0, 0)"] assms(1) by fastforce
  note e = this
  have "\<forall>q \<in> set (r # rs'). fits q" using assms(1) rs by simp
  from clash[OF e this] obtain pre a b post where
    "rs = pre @ a # b # post" "lo b < hi a" "e = (span_of a, span_of b)"
    unfolding rs by blast
  moreover have "check_sorted_ranges_overlap p rs = Inr (Inl e)"
    using e by (simp add: check_sorted_ranges_overlap_def check_loop_first_clash[OF assms(1)])
      (simp add: rs)
  ultimately show ?thesis by blast
qed

section \<open>ranges_difference\<close>

text \<open>
  The inner loop over \<^verbatim>\<open>exclude\<close>.  Its commands are the calls of \<^verbatim>\<open>result_op\<close>, its
  result the value of \<^verbatim>\<open>start\<close> when the loop ends or breaks.
\<close>

fun exclude_loop ::
  "profile \<Rightarrow> 'u::len word \<Rightarrow> 'u word \<Rightarrow> 'u raw_range list \<Rightarrow> ('u raw_range, 'u word) io" where
  "exclude_loop p start en [] = ret_io start"
| "exclude_loop p start en ((exclude_start, exclude_size) # ex) =
     bind_io (lift_io (uadd p exclude_start exclude_size)) (\<lambda>exclude_end.
       if exclude_end \<le> start then exclude_loop p start en ex
       else if exclude_start \<ge> en then ret_io start
       else bind_io
         (if exclude_start > start
          then bind_io (lift_io (usub p exclude_start start)) (\<lambda>d. emit (start, d))
          else ret_io ())
         (\<lambda>_. exclude_loop p exclude_end en ex))"

text \<open>The outer loop over \<^verbatim>\<open>from\<close>.\<close>

fun from_loop ::
  "profile \<Rightarrow> 'u::len raw_range list \<Rightarrow> 'u raw_range list \<Rightarrow> ('u raw_range, unit) io" where
  "from_loop p exclude [] = ret_io ()"
| "from_loop p exclude ((start, sz) # rs) =
     bind_io (lift_io (uadd p start sz)) (\<lambda>en.
     bind_io (exclude_loop p start en exclude) (\<lambda>start'.
     bind_io (if start' < en then bind_io (lift_io (usub p en start')) (\<lambda>d. emit (start', d))
              else ret_io ())
       (\<lambda>_. from_loop p exclude rs)))"

definition ranges_difference ::
  "profile \<Rightarrow> 'u::len raw_range list \<Rightarrow> 'u raw_range list \<Rightarrow>
    ('u raw_range, 'u overlap_err + unit) io" where
  "ranges_difference p from exclude =
     bind_io (lift_io (check_sorted_ranges_overlap p exclude)) (\<lambda>chk.
       case chk of
         Inl e \<Rightarrow> ret_io (Inl e)
       | Inr _ \<Rightarrow> bind_io (from_loop p exclude from) (\<lambda>_. ret_io (Inr ())))"

subsection \<open>The loops without overflow\<close>

text \<open>
  When every end is representable no arithmetic of the loops can panic, and
  they compute the following pure functions in both profiles.
\<close>

fun carve ::
  "'u::len word \<Rightarrow> 'u word \<Rightarrow> 'u raw_range list \<Rightarrow> 'u raw_range list \<times> 'u word" where
  "carve st en [] = ([], st)"
| "carve st en ((x, z) # ex) =
     (if x + z \<le> st then carve st en ex
      else if x \<ge> en then ([], st)
      else apfst (append (if x > st then [(st, x - st)] else [])) (carve (x + z) en ex))"

definition diff_one :: "'u::len raw_range list \<Rightarrow> 'u raw_range \<Rightarrow> 'u raw_range list" where
  "diff_one ex r =
     (let en = fst r + snd r; (cs, st) = carve (fst r) en ex
      in cs @ (if st < en then [(st, en - st)] else []))"

lemma exclude_loop_carve:
  assumes "\<forall>x \<in> set ex. fits x"
  shows "exclude_loop p st en ex = (fst (carve st en ex), Inr (snd (carve st en ex)))"
  using assms
  by (induction p st en ex rule: exclude_loop.induct) (auto simp: io_simps rust_exact)

lemma from_loop_diff_one:
  assumes "\<forall>x \<in> set ex. fits x" and "\<forall>r \<in> set rs. fits r"
  shows "from_loop p ex rs = (concat (map (diff_one ex) rs), Inr ())"
  using assms(2)
  by (induction rs)
     (auto simp: io_simps rust_exact exclude_loop_carve[OF assms(1)] diff_one_def
                 Let_def split_def)

lemma ranges_difference_diff_one:
  assumes "\<forall>x \<in> set ex. fits x" and "\<forall>r \<in> set rs. fits r" and "chained ex"
  shows "ranges_difference p rs ex = (concat (map (diff_one ex) rs), Inr (Inr ()))"
  using assms check_sorted_chained[OF assms(1), of p]
  by (simp add: ranges_difference_def io_simps from_loop_diff_one)

subsection \<open>What the pieces denote\<close>

lemma addrs_of_above:
  assumes "\<forall>b \<in> set ex. n \<le> lo b" and "a \<in> addrs_of ex"
  shows "n \<le> a"
  using assms by (auto simp: addrs_of_def addrs_def intro: order_trans)

lemma carve_addrs:
  assumes "\<forall>x \<in> set ex. fits x" and "chained ex"
  shows "addrs_of (fst (carve st en ex)) \<union> {unat (snd (carve st en ex)) ..< unat en} =
    {unat st ..< unat en} - addrs_of ex"
  using assms
proof (induction st en ex rule: carve.induct)
  case (1 st en)
  then show ?case by simp
next
  case (2 st en x z ex)
  note ends = fits_uadd(2)[of x z]
  have fit: "unat (x + z) = unat x + unat z" and ch: "chained ex"
    and above: "\<forall>b \<in> set ex. unat x + unat z \<le> lo b"
    using 2 ends by (auto simp: chained_Cons)
  note far = addrs_of_above[OF above]
  consider (skip) "x + z \<le> st" | (stop) "\<not> x + z \<le> st" "en \<le> x"
    | (cut) "\<not> x + z \<le> st" "\<not> en \<le> x" by blast
  then show ?case
  proof cases
    case skip
    then show ?thesis using 2 fit
      by (auto simp: addrs_def word_le_nat_alt chained_Cons)
  next
    case stop
    then show ?thesis using far
      by (fastforce simp: addrs_def word_le_nat_alt)
  next
    case cut
    have "addrs_of (fst (carve (x + z) en ex)) \<union> {unat (snd (carve (x + z) en ex)) ..< unat en}
        = {unat (x + z) ..< unat en} - addrs_of ex"
      using 2 cut ch by auto
    moreover have "{unat st ..< unat en} - addrs_of ((x, z) # ex) =
        {unat st ..< unat x} \<union> ({unat (x + z) ..< unat en} - addrs_of ex)"
      using cut fit far by (fastforce simp: addrs_def word_le_nat_alt not_le)
    ultimately show ?thesis using cut
      by (auto simp: addrs_def word_le_nat_alt word_less_nat_alt unat_minus_exact)
  qed
qed

text \<open>Every piece is a proper part of what is carved, and the pieces are in order.\<close>

lemma carve_shape:
  assumes "\<forall>x \<in> set ex. fits x" and "carve st en ex = (cs, st')"
  shows "st \<le> st' \<and> chained cs \<and>
    (\<forall>c \<in> set cs. unat st \<le> lo c \<and> lo c < hi c \<and> hi c \<le> unat st' \<and> hi c \<le> unat en)"
  using assms
proof (induction st en ex arbitrary: cs st' rule: carve.induct)
  case (1 st en)
  then show ?case by simp
next
  case (2 st en x z ex)
  have fit: "unat (x + z) = unat x + unat z" using 2 by (simp add: rust_exact)
  consider (skip) "x + z \<le> st" | (stop) "\<not> x + z \<le> st" "en \<le> x"
    | (cut) "\<not> x + z \<le> st" "\<not> en \<le> x" by blast
  then show ?case
  proof cases
    case cut
    obtain ds where rec: "carve (x + z) en ex = (ds, st')"
      and cs: "cs = (if x > st then [(st, x - st)] else []) @ ds"
      using "2.prems"(2) cut by (cases "carve (x + z) en ex") auto
    have ih: "x + z \<le> st' \<and> chained ds \<and> (\<forall>c \<in> set ds. unat (x + z) \<le> lo c \<and> lo c < hi c
        \<and> hi c \<le> unat st' \<and> hi c \<le> unat en)"
      using "2.IH"(2)[OF _ _ _ rec] cut "2.prems" by simp
    have low: "unat x + unat z \<le> lo c" if "c \<in> set ds" for c
      using ih fit that by simp
    have "unat st < unat x + unat z" using cut fit by (simp add: word_le_nat_alt)
    then show ?thesis using ih fit cut cs
      by (auto simp: chained_Cons word_le_nat_alt word_less_nat_alt unat_minus_exact
               dest!: low)
  qed (use 2 in auto)
qed

lemma fits_end_le: "fits r \<Longrightarrow> unat (fst r + snd r) = hi r"
  by (cases r) (simp add: rust_exact)

lemma unat_rest: "st \<le> en \<Longrightarrow> unat st + unat (en - st) = unat en"
  by (simp add: unat_minus_exact word_le_nat_alt)

lemma addrs_rest: "st < en \<Longrightarrow> addrs (st, en - st) = {unat st ..< unat en}"
  by (simp add: addrs_def unat_rest)

lemma diff_one_addrs:
  assumes "\<forall>x \<in> set ex. fits x" and "chained ex" and "fits r"
  shows "addrs_of (diff_one ex r) = addrs r - addrs_of ex"
proof -
  obtain cs st where c: "carve (fst r) (fst r + snd r) ex = (cs, st)" by fastforce
  let ?en = "fst r + snd r"
  have "addrs_of (diff_one ex r) = addrs_of cs \<union> {unat st ..< unat ?en}"
    by (auto simp: diff_one_def c Let_def addrs_rest word_less_nat_alt)
  also have "\<dots> = {lo r ..< unat ?en} - addrs_of ex"
    using carve_addrs[OF assms(1,2), of "fst r" ?en] by (simp add: c lo_def)
  finally show ?thesis by (simp add: addrs_def fits_end_le[OF assms(3)])
qed

lemma chained_append:
  "chained (xs @ ys) \<longleftrightarrow> chained xs \<and> chained ys \<and> (\<forall>a \<in> set xs. \<forall>b \<in> set ys. hi a \<le> lo b)"
  by (auto simp: chained_def sorted_wrt_append)

lemma diff_one_shape:
  assumes "\<forall>x \<in> set ex. fits x" and "fits r"
  shows "chained (diff_one ex r) \<and>
    (\<forall>c \<in> set (diff_one ex r). lo r \<le> lo c \<and> lo c < hi c \<and> hi c \<le> hi r)"
proof -
  obtain cs st where c: "carve (fst r) (fst r + snd r) ex = (cs, st)" by fastforce
  show ?thesis
    using carve_shape[OF assms(1) c] fits_end_le[OF assms(2)]
    by (auto simp: diff_one_def c Let_def chained_append chained_Cons lo_def[of r]
                   word_less_nat_alt word_le_nat_alt unat_minus_exact split: if_splits)
qed

lemma chained_concat_map:
  assumes "chained rs"
    and "\<And>r. r \<in> set rs \<Longrightarrow> chained (f r) \<and> (\<forall>c \<in> set (f r). lo r \<le> lo c \<and> hi c \<le> hi r)"
  shows "chained (concat (map f rs))"
  using assms
proof (induction rs)
  case Nil
  then show ?case by simp
next
  case (Cons r rs)
  have "hi a \<le> lo b" if "a \<in> set (f r)" and "q \<in> set rs" and "b \<in> set (f q)" for a q b
  proof -
    have "hi a \<le> hi r" and "hi r \<le> lo q" and "lo q \<le> lo b"
      using Cons.prems that by (auto simp: chained_Cons)
    then show ?thesis by simp
  qed
  then show ?case using Cons by (auto simp: chained_append chained_Cons)
qed

lemma ranges_difference_addrs:
  assumes "\<forall>r \<in> set rs. fits r" and "\<forall>x \<in> set ex. fits x" and "chained ex"
  shows "\<exists>calls. ranges_difference p rs ex = (calls, Inr (Inr ())) \<and>
    addrs_of calls = addrs_of rs - addrs_of ex"
proof -
  have "addrs_of (concat (map (diff_one ex) rs)) = addrs_of rs - addrs_of ex"
    using assms(1) by (induction rs) (auto simp: diff_one_addrs[OF assms(2,3)])
  then show ?thesis
    by (simp add: ranges_difference_diff_one[OF assms(2,1,3)])
qed

section \<open>total_ram_size\<close>

text \<open>The iterator sum over the sizes, with the overflow behaviour of \<^verbatim>\<open>+\<close>.\<close>

fun sum_sizes :: "profile \<Rightarrow> 'u::len word \<Rightarrow> 'u raw_range list \<Rightarrow> panic + 'u word" where
  "sum_sizes p acc [] = Inr acc"
| "sum_sizes p acc (r # rs) = rbind (uadd p acc (snd r)) (\<lambda>a. sum_sizes p a rs)"

definition total_ram_size :: "profile \<Rightarrow> 'u::len raw_range list \<Rightarrow> panic + 'u word" where
  "total_ram_size p ranges = sum_sizes p 0 ranges"

lemma sum_sizes_exact:
  assumes "unat acc + (\<Sum>r\<leftarrow>rs. unat (snd r)) < 2 ^ LENGTH('u)"
  shows "\<exists>t :: 'u::len word. sum_sizes p acc rs = Inr t \<and>
    unat t = unat acc + (\<Sum>r\<leftarrow>rs. unat (snd r))"
  using assms
proof (induction rs arbitrary: acc)
  case Nil
  then show ?case by simp
next
  case (Cons r rs)
  have fit: "unat acc + unat (snd r) < 2 ^ LENGTH('u)" using Cons.prems by simp
  show ?case
    using Cons.IH[of "acc + snd r"] Cons.prems
    by (simp add: uadd_exact[OF fit] unat_plus_exact[OF fit] add.assoc)
qed

lemma card_addrs [simp]: "card (addrs r) = unat (snd r)"
  by (cases r) (simp add: addrs_def)

lemma finite_addrs [simp]: "finite (addrs r)" and finite_addrs_of [simp]: "finite (addrs_of rs)"
  by (simp_all add: addrs_def addrs_of_def)

lemma chained_card:
  "chained rs \<Longrightarrow> card (addrs_of rs) = (\<Sum>r\<leftarrow>rs. unat (snd r))"
proof (induction rs)
  case Nil
  then show ?case by simp
next
  case (Cons r rs)
  then have "addrs r \<inter> addrs_of rs = {}"
    by (fastforce simp: chained_Cons addrs_def dest: addrs_of_above)
  then show ?case using Cons by (simp add: card_Un_disjoint chained_Cons)
qed

section \<open>Regions and their flags\<close>

text \<open>
  \<^verbatim>\<open>MemRegionFlags\<close> is a set of bits in a \<^verbatim>\<open>usize\<close>; \<^verbatim>\<open>union\<close> of two flag sets is
  their bitwise or.
\<close>

definition READ :: "'u::len word" where "READ = push_bit 0 1"
definition WRITE :: "'u::len word" where "WRITE = push_bit 1 1"
definition EXECUTE :: "'u::len word" where "EXECUTE = push_bit 2 1"
definition DEVICE :: "'u::len word" where "DEVICE = push_bit 4 1"
definition UNCACHED :: "'u::len word" where "UNCACHED = push_bit 5 1"
definition RESERVED :: "'u::len word" where "RESERVED = push_bit 6 1"
definition FREE :: "'u::len word" where "FREE = push_bit 7 1"

definition DEFAULT_RAM_FLAGS :: "'u::len word" where
  "DEFAULT_RAM_FLAGS = (READ OR WRITE) OR FREE"

definition DEFAULT_RESERVED_FLAGS :: "'u::len word" where
  "DEFAULT_RESERVED_FLAGS = (READ OR WRITE) OR RESERVED"

definition DEFAULT_MMIO_FLAGS :: "'u::len word" where
  "DEFAULT_MMIO_FLAGS = ((READ OR WRITE) OR DEVICE) OR RESERVED"

record 'w phys_mem_region =
  paddr :: 'w
  region_size :: 'w
  flags :: 'w
  region_name :: string

definition new_ram :: "'u::len word \<Rightarrow> 'u word \<Rightarrow> string \<Rightarrow> 'u word phys_mem_region" where
  "new_ram start sz nm = \<lparr>paddr = start, region_size = sz, flags = DEFAULT_RAM_FLAGS, region_name = nm\<rparr>"

definition new_mmio :: "'u::len word \<Rightarrow> 'u word \<Rightarrow> string \<Rightarrow> 'u word phys_mem_region" where
  "new_mmio start sz nm = \<lparr>paddr = start, region_size = sz, flags = DEFAULT_MMIO_FLAGS, region_name = nm\<rparr>"

definition new_reserved :: "'u::len word \<Rightarrow> 'u word \<Rightarrow> string \<Rightarrow> 'u word phys_mem_region" where
  "new_reserved start sz nm =
     \<lparr>paddr = start, region_size = sz, flags = DEFAULT_RESERVED_FLAGS, region_name = nm\<rparr>"

definition has_flag :: "'u::len word \<Rightarrow> 'u word \<Rightarrow> bool" where
  "has_flag fs f \<longleftrightarrow> fs AND f = f"

lemmas flag_defs = READ_def WRITE_def EXECUTE_def DEVICE_def UNCACHED_def RESERVED_def FREE_def
  DEFAULT_RAM_FLAGS_def DEFAULT_RESERVED_FLAGS_def DEFAULT_MMIO_FLAGS_def

lemmas region_defs = new_ram_def new_mmio_def new_reserved_def

section \<open>Properties\<close>

text \<open>
  C1: For a sorted, non-overlapping \<^verbatim>\<open>exclude\<close> and any \<^verbatim>\<open>from\<close> whose ends are
  representable, \<^verbatim>\<open>ranges_difference\<close> succeeds in both build profiles, and the
  ranges given to the callback cover exactly the addresses of \<^verbatim>\<open>from\<close> that are
  not in \<^verbatim>\<open>exclude\<close>.
\<close>

theorem ranges_difference_correct:
  fixes rs ex :: "'u::len raw_range list"
  assumes "\<forall>r \<in> set rs. fits r" and "\<forall>x \<in> set ex. fits x" and "chained ex"
  shows "\<exists>calls. ranges_difference p rs ex = (calls, Inr (Inr ())) \<and>
    addrs_of calls = addrs_of rs - addrs_of ex"
  by (rule ranges_difference_addrs[OF assms])

theorem ranges_difference_correct_witness:
  "\<exists>calls. ranges_difference Debug [(0, 10), (20, 10)] [(5, 10), (15, 10 :: 64 word)]
      = (calls, Inr (Inr ())) \<and>
    addrs_of calls = addrs_of [(0, 10), (20, 10 :: 64 word)] - addrs_of [(5, 10), (15, 10 :: 64 word)]"
  by (rule ranges_difference_correct) (simp_all add: fits_def chained_Cons)

text \<open>
  The ranges given to the callback are never empty, each lies within one
  range of \<^verbatim>\<open>from\<close>, and when \<^verbatim>\<open>from\<close> is itself sorted and non-overlapping so is
  the result: it passes the overlap check and can be used as an argument again.
\<close>

theorem ranges_difference_shape:
  fixes rs ex :: "'u::len raw_range list"
  assumes "\<forall>r \<in> set rs. fits r" and "\<forall>x \<in> set ex. fits x" and "chained ex"
    and "ranges_difference p rs ex = (calls, Inr (Inr ()))"
  shows "(\<forall>c \<in> set calls. addrs c \<noteq> {} \<and> (\<exists>r \<in> set rs. addrs c \<subseteq> addrs r)) \<and>
    (chained rs \<longrightarrow> check_sorted_ranges_overlap q calls = Inr (Inr ()))"
proof -
  have calls: "calls = concat (map (diff_one ex) rs)"
    using assms(4) by (simp add: ranges_difference_diff_one[OF assms(2,1,3)])
  have one: "lo r \<le> lo c \<and> lo c < hi c \<and> hi c \<le> hi r"
    if "r \<in> set rs" and "c \<in> set (diff_one ex r)" for r c
    using that assms(1) diff_one_shape[OF assms(2)] by blast
  have from_one: "\<exists>r \<in> set rs. c \<in> set (diff_one ex r)" if "c \<in> set calls" for c
    using that by (auto simp: calls)
  have "fits c" if "c \<in> set calls" for c
    using from_one[OF that] one assms(1) unfolding fits_def by (meson order.strict_trans1)
  moreover have "chained calls" if "chained rs"
    unfolding calls using that assms(1) diff_one_shape[OF assms(2)]
    by (intro chained_concat_map) auto
  moreover have "addrs c \<noteq> {} \<and> (\<exists>r \<in> set rs. addrs c \<subseteq> addrs r)" if c: "c \<in> set calls" for c
  proof -
    obtain r where r: "r \<in> set rs" "c \<in> set (diff_one ex r)" using from_one[OF c] ..
    have "addrs c \<noteq> {}" and "addrs c \<subseteq> addrs r" using one[OF r] by (auto simp: addrs_def)
    with r(1) show ?thesis by blast
  qed
  ultimately show ?thesis by (simp add: check_sorted_chained)
qed

theorem ranges_difference_shape_witness:
  "check_sorted_ranges_overlap Debug [(0, 5), (25, 5 :: 64 word)] = Inr (Inr ())"
proof -
  have "ranges_difference Debug [(0, 10), (20, 10)] [(5, 10), (15, 10 :: 64 word)]
      = ([(0, 5), (25, 5)], Inr (Inr ()))"
    by (simp add: ranges_difference_def check_sorted_ranges_overlap_def io_simps uadd_def usub_def)
  from ranges_difference_shape[OF _ _ _ this, of Debug] show ?thesis
    by (simp add: fits_def chained_Cons)
qed

text \<open>
  C2: On ranges that are not empty and whose ends are representable the check
  succeeds exactly when the list is sorted by start and no two of its ranges
  share an address.
\<close>

theorem check_sorted_iff_disjoint:
  fixes rs :: "'u::len raw_range list"
  assumes "\<forall>r \<in> set rs. fits r \<and> snd r \<noteq> 0"
  shows "check_sorted_ranges_overlap p rs = Inr (Inr ()) \<longleftrightarrow>
    sorted (map lo rs) \<and> sorted_wrt (\<lambda>a b. addrs a \<inter> addrs b = {}) rs"
proof -
  have "chained rs \<longleftrightarrow> sorted (map lo rs) \<and> sorted_wrt (\<lambda>a b. addrs a \<inter> addrs b = {}) rs"
    using assms
  proof (induction rs)
    case Nil
    then show ?case by simp
  next
    case (Cons r rs)
    have proper: "lo q < hi q" if "q \<in> set (r # rs)" for q
      using Cons.prems that by (cases q) (auto simp: unat_gt_0)
    have "hi r \<le> lo b \<longleftrightarrow> lo r \<le> lo b \<and> addrs r \<inter> addrs b = {}" if "b \<in> set rs" for b
      using proper[of r] proper[of b] that
      by (auto simp: addrs_def ivl_disj_un disjoint_iff intro: order_trans[OF lo_le_hi])
    then show ?case using Cons by (auto simp: chained_Cons)
  qed
  then show ?thesis using check_sorted_chained[of rs p] assms by simp
qed

theorem check_sorted_iff_disjoint_witness:
  "check_sorted_ranges_overlap Debug [(0, 10), (10, 10), (20, 10 :: 64 word)] = Inr (Inr ())"
  using check_sorted_iff_disjoint[of "[(0, 10), (10, 10), (20, 10 :: 64 word)]" Debug]
  by (auto simp: fits_def addrs_def)

text \<open>
  When the check fails it reports two neighbours of the list, as spans,
  the first of which ends after the second starts; and it fails on every list
  that is not sorted by start.
\<close>

theorem check_sorted_err:
  fixes rs :: "'u::len raw_range list"
  assumes "\<forall>r \<in> set rs. fits r" and "\<not> (chained rs \<and> sorted (map lo rs))"
  shows "\<exists>pre a b post. rs = pre @ a # b # post \<and> lo b < hi a \<and>
    check_sorted_ranges_overlap p rs = Inr (Inl (span_of a, span_of b))"
  by (rule check_sorted_reports[OF assms])

theorem check_sorted_err_witness:
  "check_sorted_ranges_overlap Release [(0, 10), (20, 10), (10, 10 :: 64 word)]
    = Inr (Inl ((20, 30), (10, 20)))"
proof -
  have "\<exists>pre a b post. [(0, 10), (20, 10), (10, 10 :: 64 word)] = pre @ a # b # post \<and>
      lo b < hi a \<and> check_sorted_ranges_overlap Release [(0, 10), (20, 10), (10, 10 :: 64 word)]
        = Inr (Inl (span_of a, span_of b))"
    by (rule check_sorted_err) (simp_all add: fits_def chained_Cons)
  then show ?thesis
    by (auto simp: Cons_eq_append_conv span_of_def)
qed

text \<open>
  With an \<^verbatim>\<open>exclude\<close> that is unsorted or overlapping, \<^verbatim>\<open>ranges_difference\<close>
  returns an error before the callback has been called at all.
\<close>

theorem ranges_difference_rejects:
  fixes rs ex :: "'u::len raw_range list"
  assumes "\<forall>x \<in> set ex. fits x" and "\<not> chained ex"
  shows "\<exists>a b. a \<in> set ex \<and> b \<in> set ex \<and> lo b < hi a \<and>
    ranges_difference p rs ex = ([], Inr (Inl (span_of a, span_of b)))"
proof -
  have "\<not> (chained ex \<and> sorted (map lo ex))" using assms(2) by simp
  with assms(1) obtain pre a b post where
    "ex = pre @ a # b # post" "lo b < hi a"
    "check_sorted_ranges_overlap p ex = Inr (Inl (span_of a, span_of b))"
    using check_sorted_reports[of ex p] by blast
  then show ?thesis
    by (intro exI[of _ a] exI[of _ b]) (simp add: ranges_difference_def io_simps)
qed

theorem ranges_difference_rejects_witness:
  "fst (ranges_difference Debug [(0, 30)] [(10, 10), (5, 2 :: 64 word)]) = []"
  using ranges_difference_rejects[of "[(10, 10), (5, 2 :: 64 word)]" Debug "[(0, 30)]"]
  by (auto simp: fits_def chained_Cons)

text \<open>
  \<^verbatim>\<open>total_ram_size\<close> of sorted, non-overlapping RAM ranges is the number of RAM
  addresses, in both build profiles, as long as that number is representable.
\<close>

theorem total_ram_size_counts:
  fixes rs :: "'u::len raw_range list"
  assumes "chained rs" and "card (addrs_of rs) < 2 ^ LENGTH('u)"
  shows "\<exists>t. total_ram_size p rs = Inr t \<and> unat t = card (addrs_of rs)"
  using assms sum_sizes_exact[of 0 rs p]
  by (simp add: total_ram_size_def chained_card)

theorem total_ram_size_counts_witness:
  "total_ram_size Debug [(0, 0x1000), (0x100000, 0x7000 :: 64 word)] = Inr 0x8000"
proof -
  let ?rs = "[(0, 0x1000), (0x100000, 0x7000 :: 64 word)]"
  have ch: "chained ?rs" by (simp add: chained_Cons)
  have "\<exists>t. total_ram_size Debug ?rs = Inr t \<and> unat t = card (addrs_of ?rs)"
    by (rule total_ram_size_counts[OF ch]) (unfold chained_card[OF ch], simp)
  then show ?thesis unfolding chained_card[OF ch] by (auto simp: word_unat_eq_iff)
qed

end
