(* ===== verification/Platform_Config.thy ===== *)
theory Platform_Config
  imports Rust_Prelude
begin

text \<open>
  The platform configurations: the constants that each platform crate takes
  from its \<^verbatim>\<open>axconfig.toml\<close> (modules \<^verbatim>\<open>config::plat\<close> and \<^verbatim>\<open>config::devices\<close>).  The
  file can be replaced at build time, so the models of the platform code take
  the configuration as an argument; the definitions below are the defaults that
  the repository ships.  A constant that only some platforms have is a field of
  an extension of the common record.
\<close>

section \<open>The constants\<close>

record 'w plat_config =
  MAX_CPU_NUM :: 'w
  PHYS_MEMORY_BASE :: 'w
  PHYS_MEMORY_SIZE :: 'w
  KERNEL_BASE_PADDR :: 'w
  KERNEL_BASE_VADDR :: 'w
  PHYS_VIRT_OFFSET :: 'w
  KERNEL_ASPACE_BASE :: 'w
  KERNEL_ASPACE_SIZE :: 'w
  BOOT_STACK_SIZE :: 'w
  MMIO_RANGES :: "('w \<times> 'w) list"
  TIMER_IRQ :: 'w
  IPI_IRQ :: 'w

record 'w freq_config = "'w plat_config" +
  TIMER_FREQUENCY :: 'w

record 'w riscv_config = "'w freq_config" +
  riscv_RTC_PADDR :: 'w

record 'w loongarch_config = "'w freq_config" +
  la_RTC_PADDR :: 'w
  la_UART_PADDR :: 'w
  GED_PADDR :: 'w

text \<open>The Arm boards; only the QEMU ones have an RTC, only two list their CPU ids.\<close>

record 'w arm_config = "'w plat_config" +
  UART_PADDR :: 'w
  UART_IRQ :: 'w
  GICD_PADDR :: 'w
  GICC_PADDR :: 'w

record 'w psci_config = "'w arm_config" +
  PSCI_METHOD :: string

record 'w virt_config = "'w psci_config" +
  RTC_PADDR :: 'w

record 'w listed_config = "'w psci_config" +
  CPU_ID_LIST :: "'w list"

section \<open>The default configurations\<close>

definition x86_pc_config :: "64 word freq_config" where
  [config_defs]: "x86_pc_config =
    \<lparr>MAX_CPU_NUM = 1,
     PHYS_MEMORY_BASE = 0,
     PHYS_MEMORY_SIZE = 0x8000000,
     KERNEL_BASE_PADDR = 0x200000,
     KERNEL_BASE_VADDR = 0xFFFF800000200000,
     PHYS_VIRT_OFFSET = 0xFFFF800000000000,
     KERNEL_ASPACE_BASE = 0xFFFF800000000000,
     KERNEL_ASPACE_SIZE = 0x7FFFFFFFF000,
     BOOT_STACK_SIZE = 0x40000,
     MMIO_RANGES = [
       (0xB0000000, 0x10000000), (0xFE000000, 0xC00000), (0xFEC00000, 0x1000),
       (0xFED00000, 0x1000), (0xFEE00000, 0x1000)],
     TIMER_IRQ = 0xF0,
     IPI_IRQ = 0xF3,
     TIMER_FREQUENCY = 0xEE6B2800\<rparr>"

definition riscv64_qemu_config :: "64 word riscv_config" where
  [config_defs]: "riscv64_qemu_config =
    \<lparr>MAX_CPU_NUM = 1,
     PHYS_MEMORY_BASE = 0x80000000,
     PHYS_MEMORY_SIZE = 0x8000000,
     KERNEL_BASE_PADDR = 0x80200000,
     KERNEL_BASE_VADDR = 0xFFFFFFC080200000,
     PHYS_VIRT_OFFSET = 0xFFFFFFC000000000,
     KERNEL_ASPACE_BASE = 0xFFFFFFC000000000,
     KERNEL_ASPACE_SIZE = 0x3FFFFFF000,
     BOOT_STACK_SIZE = 0x40000,
     MMIO_RANGES = [
       (0x101000, 0x1000), (0xC000000, 0x210000), (0x10000000, 0x1000),
       (0x10001000, 0x8000), (0x30000000, 0x10000000), (0x40000000, 0x40000000)],
     TIMER_IRQ = 0x8000000000000005,
     IPI_IRQ = 0x8000000000000001,
     TIMER_FREQUENCY = 0x989680,
     riscv_RTC_PADDR = 0x101000\<rparr>"

definition loongarch64_qemu_config :: "64 word loongarch_config" where
  [config_defs]: "loongarch64_qemu_config =
    \<lparr>MAX_CPU_NUM = 1,
     PHYS_MEMORY_BASE = 0x80000000,
     PHYS_MEMORY_SIZE = 0x8000000,
     KERNEL_BASE_PADDR = 0x80000000,
     KERNEL_BASE_VADDR = 0xFFFF000080000000,
     PHYS_VIRT_OFFSET = 0xFFFF000000000000,
     KERNEL_ASPACE_BASE = 0xFFFF000000000000,
     KERNEL_ASPACE_SIZE = 0xFFFFFFFFF000,
     BOOT_STACK_SIZE = 0x40000,
     MMIO_RANGES = [
       (0x100D0000, 0x1000), (0x100E0000, 0x1000), (0x1FE00000, 0x1000),
       (0x20000000, 0x10000000), (0x40000000, 0x20000)],
     TIMER_IRQ = 0xB,
     IPI_IRQ = 0xC,
     TIMER_FREQUENCY = 0x5F5E100,
     la_RTC_PADDR = 0x100D0100,
     la_UART_PADDR = 0x1FE001E0,
     GED_PADDR = 0x100E001C\<rparr>"

definition aarch64_qemu_config :: "64 word virt_config" where
  [config_defs]: "aarch64_qemu_config =
    \<lparr>MAX_CPU_NUM = 1,
     PHYS_MEMORY_BASE = 0x40000000,
     PHYS_MEMORY_SIZE = 0x8000000,
     KERNEL_BASE_PADDR = 0x40200000,
     KERNEL_BASE_VADDR = 0xFFFF000040200000,
     PHYS_VIRT_OFFSET = 0xFFFF000000000000,
     KERNEL_ASPACE_BASE = 0xFFFF000000000000,
     KERNEL_ASPACE_SIZE = 0xFFFFFFFFF000,
     BOOT_STACK_SIZE = 0x40000,
     MMIO_RANGES = [
       (0x9000000, 0x1000), (0x9100000, 0x1000), (0x8000000, 0x20000),
       (0xA000000, 0x4000), (0x10000000, 0x2EFF0000), (0x4010000000, 0x10000000)],
     TIMER_IRQ = 0x1E,
     IPI_IRQ = 1,
     UART_PADDR = 0x9000000,
     UART_IRQ = 0x21,
     GICD_PADDR = 0x8000000,
     GICC_PADDR = 0x8010000,
     PSCI_METHOD = ''hvc'',
     RTC_PADDR = 0x9010000\<rparr>"

definition raspi_config :: "64 word arm_config" where
  [config_defs]: "raspi_config =
    \<lparr>MAX_CPU_NUM = 4,
     PHYS_MEMORY_BASE = 0,
     PHYS_MEMORY_SIZE = 0x80000000,
     KERNEL_BASE_PADDR = 0x80000,
     KERNEL_BASE_VADDR = 0xFFFF000000080000,
     PHYS_VIRT_OFFSET = 0xFFFF000000000000,
     KERNEL_ASPACE_BASE = 0xFFFF000000000000,
     KERNEL_ASPACE_SIZE = 0xFFFFFFFFF000,
     BOOT_STACK_SIZE = 0x40000,
     MMIO_RANGES = [(0xFE201000, 0x1000), (0xFE340000, 0x1000), (0xFF841000, 0x3000)],
     TIMER_IRQ = 0x1E,
     IPI_IRQ = 1,
     UART_PADDR = 0xFE201000,
     UART_IRQ = 0x99,
     GICD_PADDR = 0xFF841000,
     GICC_PADDR = 0xFF842000\<rparr>"

definition phytium_pi_config :: "64 word listed_config" where
  [config_defs]: "phytium_pi_config =
    \<lparr>MAX_CPU_NUM = 4,
     PHYS_MEMORY_BASE = 0x80000000,
     PHYS_MEMORY_SIZE = 0x80000000,
     KERNEL_BASE_PADDR = 0x90000000,
     KERNEL_BASE_VADDR = 0xFFFF000090000000,
     PHYS_VIRT_OFFSET = 0xFFFF000000000000,
     KERNEL_ASPACE_BASE = 0xFFFF000000000000,
     KERNEL_ASPACE_SIZE = 0xFFFFFFFFF000,
     BOOT_STACK_SIZE = 0x40000,
     MMIO_RANGES = [
       (0x2800C000, 0x1000), (0x2800D000, 0x1000), (0x2800E000, 0x1000),
       (0x2800F000, 0x1000), (0x30000000, 0x8000000), (0x40000000, 0x10000000),
       (0x58000000, 0x28000000), (0x28014000, 0x2000), (0x28016000, 0x2000),
       (0x28018000, 0x2000), (0x2801A000, 0x2000), (0x2801C000, 0x2000),
       (0x28034000, 0x1000), (0x28035000, 0x1000), (0x28036000, 0x1000),
       (0x28037000, 0x1000), (0x28038000, 0x1000), (0x28039000, 0x1000)],
     TIMER_IRQ = 0x1E,
     IPI_IRQ = 1,
     UART_PADDR = 0x2800D000,
     UART_IRQ = 0x74,
     GICD_PADDR = 0x30880000,
     GICC_PADDR = 0x30800000,
     PSCI_METHOD = ''smc'',
     CPU_ID_LIST = [0x200, 0x201, 0, 0x100]\<rparr>"

definition bsta1000b_config :: "64 word listed_config" where
  [config_defs]: "bsta1000b_config =
    \<lparr>MAX_CPU_NUM = 8,
     PHYS_MEMORY_BASE = 0x80000000,
     PHYS_MEMORY_SIZE = 0x70000000,
     KERNEL_BASE_PADDR = 0x81000000,
     KERNEL_BASE_VADDR = 0xFFFF000081000000,
     PHYS_VIRT_OFFSET = 0xFFFF000000000000,
     KERNEL_ASPACE_BASE = 0xFFFF000000000000,
     KERNEL_ASPACE_SIZE = 0xFFFFFFFFF000,
     BOOT_STACK_SIZE = 0x40000,
     MMIO_RANGES = [
       (0x20008000, 0x1000), (0x32000000, 0x8000), (0x32011000, 0x1000),
       (0x33002000, 0x1000), (0x70035000, 0x1000), (0x70038000, 0x1000)],
     TIMER_IRQ = 0x1E,
     IPI_IRQ = 1,
     UART_PADDR = 0x20008000,
     UART_IRQ = 0xF5,
     GICD_PADDR = 0x32001000,
     GICC_PADDR = 0x32002000,
     PSCI_METHOD = ''smc'',
     CPU_ID_LIST = [0, 0x100, 0x200, 0x300, 0x400, 0x500, 0x600, 0x700]\<rparr>"

definition arm_qemu_config :: "32 word virt_config" where
  [config_defs]: "arm_qemu_config =
    \<lparr>MAX_CPU_NUM = 1,
     PHYS_MEMORY_BASE = 0x40000000,
     PHYS_MEMORY_SIZE = 0x8000000,
     KERNEL_BASE_PADDR = 0x40010000,
     KERNEL_BASE_VADDR = 0xC0010000,
     PHYS_VIRT_OFFSET = 0x80000000,
     KERNEL_ASPACE_BASE = 0x80000000,
     KERNEL_ASPACE_SIZE = 0x7FFFF000,
     BOOT_STACK_SIZE = 0x40000,
     MMIO_RANGES = [
       (0x9000000, 0x1000), (0x9010000, 0x1000), (0x8000000, 0x20000),
       (0xA000000, 0x4000), (0x3F000000, 0x1000000), (0x10000000, 0x2EFF0000)],
     TIMER_IRQ = 0x1E,
     IPI_IRQ = 1,
     UART_PADDR = 0x9000000,
     UART_IRQ = 0x21,
     GICD_PADDR = 0x8000000,
     GICC_PADDR = 0x8010000,
     PSCI_METHOD = ''hvc'',
     RTC_PADDR = 0x9010000\<rparr>"

text \<open>The register blocks of the BST A1000B board that its reset code uses.\<close>

definition A1000BASE_TOPCRM :: "64 word" where
  [config_defs]: "A1000BASE_TOPCRM = 0x33002000"

definition A1000BASE_SAFETYCRM :: "64 word" where
  [config_defs]: "A1000BASE_SAFETYCRM = 0x70035000"

end
