(* ===== verification/Mem_If.thy ===== *)
theory Mem_If
  imports Mem_Ranges Platform_Config
begin

text \<open>
  The physical memory interface \<^verbatim>\<open>MemIf\<close> (\<^verbatim>\<open>axplat/src/mem.rs\<close>) and its eight
  implementations (\<^verbatim>\<open>platforms/*/src/mem.rs\<close>).  A trait of the library is a
  record of functions, the implementation that a platform crate links in is a
  value of that record, and the contract of the trait is a locale over it.
\<close>

section \<open>The trait\<close>

record 'w mem_if =
  phys_ram_ranges :: "('w \<times> 'w) list"
  reserved_phys_ram_ranges :: "('w \<times> 'w) list"
  mmio_ranges :: "('w \<times> 'w) list"
  phys_to_virt :: "'w \<Rightarrow> panic + 'w"
  virt_to_phys :: "'w \<Rightarrow> panic + 'w"

text \<open>
  The contract of the two translations: each undoes the other wherever it
  returns.
\<close>

locale address_translation =
  fixes M :: "'u::len word mem_if"
  assumes virt_to_phys_phys_to_virt: "phys_to_virt M a = Inr v \<Longrightarrow> virt_to_phys M v = Inr a"
    and phys_to_virt_virt_to_phys: "virt_to_phys M v = Inr a \<Longrightarrow> phys_to_virt M a = Inr v"
begin

lemma translation_iff: "phys_to_virt M a = Inr v \<longleftrightarrow> virt_to_phys M v = Inr a"
  using virt_to_phys_phys_to_virt phys_to_virt_virt_to_phys by blast

lemma translation_inj:
  "phys_to_virt M a = Inr v \<Longrightarrow> phys_to_virt M b = Inr v \<Longrightarrow> a = b"
  by (auto dest!: virt_to_phys_phys_to_virt)

end

text \<open>
  The contract of the range lists: RAM and reserved ranges are acceptable
  arguments of \<^verbatim>\<open>ranges_difference\<close>, device memory is not RAM, and the kernel
  image lies in RAM, outside the reserved ranges, at the address the
  translation gives it.
\<close>

locale memory_map = address_translation M for M :: "'u::len word mem_if" +
  fixes kernel_paddr :: "'u word" and kernel_vaddr :: "'u word"
  assumes ram_ok: "chained (phys_ram_ranges M)" "\<forall>r \<in> set (phys_ram_ranges M). fits r"
    and reserved_ok: "chained (reserved_phys_ram_ranges M)"
      "\<forall>r \<in> set (reserved_phys_ram_ranges M). fits r"
    and mmio_not_ram: "\<forall>r \<in> set (phys_ram_ranges M). \<forall>d \<in> set (mmio_ranges M).
      hi r \<le> lo d \<or> hi d \<le> lo r"
    and kernel_in_ram: "unat kernel_paddr \<in> addrs_of (phys_ram_ranges M)"
      "unat kernel_paddr \<notin> addrs_of (reserved_phys_ram_ranges M)"
    and kernel_mapped: "phys_to_virt M kernel_paddr = Inr kernel_vaddr"
begin

lemma ram_mmio_disjoint: "addrs_of (phys_ram_ranges M) \<inter> addrs_of (mmio_ranges M) = {}"
  using mmio_not_ram by (fastforce simp: addrs_of_def addrs_def)

lemma allocatable_memory:
  "\<exists>free. ranges_difference p (phys_ram_ranges M) (reserved_phys_ram_ranges M)
      = (free, Inr (Inr ())) \<and>
    addrs_of free \<union> (addrs_of (phys_ram_ranges M) \<inter> addrs_of (reserved_phys_ram_ranges M))
      = addrs_of (phys_ram_ranges M) \<and>
    addrs_of free \<inter> addrs_of (reserved_phys_ram_ranges M) = {} \<and>
    addrs_of free \<inter> addrs_of (mmio_ranges M) = {} \<and>
    unat kernel_paddr \<in> addrs_of free"
  using ranges_difference_addrs[OF ram_ok(2) reserved_ok(2,1), of p] ram_mmio_disjoint kernel_in_ram
  by auto

end

section \<open>The implementations with a static memory map\<close>

text \<open>The translations that every platform implements: a linear offset.\<close>

definition add_offset :: "profile \<Rightarrow> 'u::len word \<Rightarrow> 'u word \<Rightarrow> panic + 'u word" where
  "add_offset p off a = uadd p a off"

definition sub_offset :: "profile \<Rightarrow> 'u::len word \<Rightarrow> 'u word \<Rightarrow> panic + 'u word" where
  "sub_offset p off v = usub p v off"

lemma offset_translations: "add_offset p off a = Inr v \<longleftrightarrow> sub_offset p off v = Inr a"
  by (simp add: add_offset_def sub_offset_def uadd_usub_iff)

definition aarch64_qemu_mem_if :: "profile \<Rightarrow> (64 word, 'm) plat_config_scheme \<Rightarrow> 64 word mem_if" where
  "aarch64_qemu_mem_if p cfg =
    \<lparr>phys_ram_ranges = [(PHYS_MEMORY_BASE cfg, PHYS_MEMORY_SIZE cfg)],
     reserved_phys_ram_ranges = [],
     mmio_ranges = MMIO_RANGES cfg,
     phys_to_virt = add_offset p (PHYS_VIRT_OFFSET cfg),
     virt_to_phys = sub_offset p (PHYS_VIRT_OFFSET cfg)\<rparr>"

text \<open>On the Raspberry Pi the first page holds the spin table and is reserved.\<close>

definition raspi_mem_if :: "profile \<Rightarrow> (64 word, 'm) plat_config_scheme \<Rightarrow> 64 word mem_if" where
  "raspi_mem_if p cfg =
    \<lparr>phys_ram_ranges = [(PHYS_MEMORY_BASE cfg, PHYS_MEMORY_SIZE cfg)],
     reserved_phys_ram_ranges = [(0, 0x1000)],
     mmio_ranges = MMIO_RANGES cfg,
     phys_to_virt = add_offset p (PHYS_VIRT_OFFSET cfg),
     virt_to_phys = sub_offset p (PHYS_VIRT_OFFSET cfg)\<rparr>"

definition phytium_pi_mem_if :: "profile \<Rightarrow> (64 word, 'm) plat_config_scheme \<Rightarrow> 64 word mem_if" where
  "phytium_pi_mem_if p cfg =
    \<lparr>phys_ram_ranges = [(PHYS_MEMORY_BASE cfg, PHYS_MEMORY_SIZE cfg)],
     reserved_phys_ram_ranges = [],
     mmio_ranges = MMIO_RANGES cfg,
     phys_to_virt = add_offset p (PHYS_VIRT_OFFSET cfg),
     virt_to_phys = sub_offset p (PHYS_VIRT_OFFSET cfg)\<rparr>"

definition bsta1000b_mem_if :: "profile \<Rightarrow> (64 word, 'm) plat_config_scheme \<Rightarrow> 64 word mem_if" where
  "bsta1000b_mem_if p cfg =
    \<lparr>phys_ram_ranges = [(PHYS_MEMORY_BASE cfg, PHYS_MEMORY_SIZE cfg)],
     reserved_phys_ram_ranges = [],
     mmio_ranges = MMIO_RANGES cfg,
     phys_to_virt = add_offset p (PHYS_VIRT_OFFSET cfg),
     virt_to_phys = sub_offset p (PHYS_VIRT_OFFSET cfg)\<rparr>"

definition loongarch64_qemu_mem_if :: "profile \<Rightarrow> (64 word, 'm) plat_config_scheme \<Rightarrow> 64 word mem_if" where
  "loongarch64_qemu_mem_if p cfg =
    \<lparr>phys_ram_ranges = [(PHYS_MEMORY_BASE cfg, PHYS_MEMORY_SIZE cfg)],
     reserved_phys_ram_ranges = [],
     mmio_ranges = MMIO_RANGES cfg,
     phys_to_virt = add_offset p (PHYS_VIRT_OFFSET cfg),
     virt_to_phys = sub_offset p (PHYS_VIRT_OFFSET cfg)\<rparr>"

definition arm_qemu_mem_if :: "profile \<Rightarrow> (32 word, 'm) plat_config_scheme \<Rightarrow> 32 word mem_if" where
  "arm_qemu_mem_if p cfg =
    \<lparr>phys_ram_ranges = [(PHYS_MEMORY_BASE cfg, PHYS_MEMORY_SIZE cfg)],
     reserved_phys_ram_ranges = [],
     mmio_ranges = MMIO_RANGES cfg,
     phys_to_virt = add_offset p (PHYS_VIRT_OFFSET cfg),
     virt_to_phys = sub_offset p (PHYS_VIRT_OFFSET cfg)\<rparr>"

text \<open>
  On RISC-V the first part of memory may belong to the SBI firmware, so RAM
  starts at the kernel image.  The sizes are constant expressions: the compiler
  rejects a configuration for which they overflow.
\<close>

definition riscv64_qemu_mem_if :: "profile \<Rightarrow> (64 word, 'm) plat_config_scheme \<Rightarrow> 64 word mem_if" where
  "riscv64_qemu_mem_if p cfg =
    \<lparr>phys_ram_ranges = 
       [(KERNEL_BASE_PADDR cfg,
         PHYS_MEMORY_BASE cfg + PHYS_MEMORY_SIZE cfg - KERNEL_BASE_PADDR cfg)],
     reserved_phys_ram_ranges = [],
     mmio_ranges = MMIO_RANGES cfg,
     phys_to_virt = add_offset p (PHYS_VIRT_OFFSET cfg),
     virt_to_phys = sub_offset p (PHYS_VIRT_OFFSET cfg)\<rparr>"

lemmas static_mem_if_defs =
  aarch64_qemu_mem_if_def
  raspi_mem_if_def
  phytium_pi_mem_if_def
  bsta1000b_mem_if_def
  loongarch64_qemu_mem_if_def
  arm_qemu_mem_if_def
  riscv64_qemu_mem_if_def

text \<open>Every configuration gives a translation in both directions, in both profiles.\<close>

interpretation aarch64_qemu_mem: address_translation "aarch64_qemu_mem_if p cfg" for p cfg
  by unfold_locales (simp_all add: static_mem_if_defs offset_translations)

interpretation raspi_mem: address_translation "raspi_mem_if p cfg" for p cfg
  by unfold_locales (simp_all add: static_mem_if_defs offset_translations)

interpretation phytium_pi_mem: address_translation "phytium_pi_mem_if p cfg" for p cfg
  by unfold_locales (simp_all add: static_mem_if_defs offset_translations)

interpretation bsta1000b_mem: address_translation "bsta1000b_mem_if p cfg" for p cfg
  by unfold_locales (simp_all add: static_mem_if_defs offset_translations)

interpretation loongarch64_qemu_mem: address_translation "loongarch64_qemu_mem_if p cfg" for p cfg
  by unfold_locales (simp_all add: static_mem_if_defs offset_translations)

interpretation arm_qemu_mem: address_translation "arm_qemu_mem_if p cfg" for p cfg
  by unfold_locales (simp_all add: static_mem_if_defs offset_translations)

interpretation riscv64_qemu_mem: address_translation "riscv64_qemu_mem_if p cfg" for p cfg
  by unfold_locales (simp_all add: static_mem_if_defs offset_translations)

text \<open>The default configurations describe a consistent memory map.\<close>

interpretation aarch64_qemu_map: memory_map "aarch64_qemu_mem_if p aarch64_qemu_config"
  "KERNEL_BASE_PADDR aarch64_qemu_config" "KERNEL_BASE_VADDR aarch64_qemu_config" for p
  by unfold_locales
    (simp_all add: static_mem_if_defs config_defs chained_Cons fits_def addrs_def
       add_offset_def uadd_def)

interpretation raspi_map: memory_map "raspi_mem_if p raspi_config"
  "KERNEL_BASE_PADDR raspi_config" "KERNEL_BASE_VADDR raspi_config" for p
  by unfold_locales
    (simp_all add: static_mem_if_defs config_defs chained_Cons fits_def addrs_def
       add_offset_def uadd_def)

interpretation phytium_pi_map: memory_map "phytium_pi_mem_if p phytium_pi_config"
  "KERNEL_BASE_PADDR phytium_pi_config" "KERNEL_BASE_VADDR phytium_pi_config" for p
  by unfold_locales
    (simp_all add: static_mem_if_defs config_defs chained_Cons fits_def addrs_def
       add_offset_def uadd_def)

interpretation bsta1000b_map: memory_map "bsta1000b_mem_if p bsta1000b_config"
  "KERNEL_BASE_PADDR bsta1000b_config" "KERNEL_BASE_VADDR bsta1000b_config" for p
  by unfold_locales
    (simp_all add: static_mem_if_defs config_defs chained_Cons fits_def addrs_def
       add_offset_def uadd_def)

interpretation loongarch64_qemu_map: memory_map "loongarch64_qemu_mem_if p loongarch64_qemu_config"
  "KERNEL_BASE_PADDR loongarch64_qemu_config" "KERNEL_BASE_VADDR loongarch64_qemu_config" for p
  by unfold_locales
    (simp_all add: static_mem_if_defs config_defs chained_Cons fits_def addrs_def
       add_offset_def uadd_def)

interpretation arm_qemu_map: memory_map "arm_qemu_mem_if p arm_qemu_config"
  "KERNEL_BASE_PADDR arm_qemu_config" "KERNEL_BASE_VADDR arm_qemu_config" for p
  by unfold_locales
    (simp_all add: static_mem_if_defs config_defs chained_Cons fits_def addrs_def
       add_offset_def uadd_def)

interpretation riscv64_qemu_map: memory_map "riscv64_qemu_mem_if p riscv64_qemu_config"
  "KERNEL_BASE_PADDR riscv64_qemu_config" "KERNEL_BASE_VADDR riscv64_qemu_config" for p
  by unfold_locales
    (simp_all add: static_mem_if_defs config_defs chained_Cons fits_def addrs_def
       add_offset_def uadd_def)

section \<open>The x86 PC: memory regions from the boot loader\<close>

text \<open>
  The multiboot information is parsed by a third-party crate: what reaches the
  code is a list of regions, or nothing when the parse or the lookup fails and
  the code unwraps.  The fixed-capacity vector of the \<^verbatim>\<open>heapless\<close> crate is a
  parameter too; its documentation says that a push appends below the capacity
  and is refused at it.
\<close>

record mb_region =
  base_address :: "64 word"
  region_length :: "64 word"
  is_available :: bool

definition MAX_REGIONS :: nat where "MAX_REGIONS = 16"

definition heapless_push_doc :: "nat \<Rightarrow> ('a \<Rightarrow> 'a list \<Rightarrow> 'a list option) \<Rightarrow> bool" where
  "heapless_push_doc capacity push \<longleftrightarrow>
     (\<forall>x xs. push x xs = (if length xs < capacity then Some (xs @ [x]) else None))"

fun x86_collect_regions ::
  "(64 raw_range \<Rightarrow> 64 raw_range list \<Rightarrow> 64 raw_range list option) \<Rightarrow>
    64 raw_range list \<Rightarrow> mb_region list \<Rightarrow> panic + 64 raw_range list" where
  "x86_collect_regions push regions [] = Inr regions"
| "x86_collect_regions push regions (r # rs) =
     (if is_available r
      then case push (base_address r, region_length r) regions of
             None \<Rightarrow> Inl UnwrapErr
           | Some regions' \<Rightarrow> x86_collect_regions push regions' rs
      else x86_collect_regions push regions rs)"

text \<open>
  \<^verbatim>\<open>mem::init\<close>: the value it stores in \<^verbatim>\<open>RAM_REGIONS\<close>.  The outer option is the
  result of parsing, the inner one of looking up the memory regions.
\<close>

definition x86_mem_init ::
  "(64 raw_range \<Rightarrow> 64 raw_range list \<Rightarrow> 64 raw_range list option) \<Rightarrow>
    mb_region list option option \<Rightarrow> panic + 64 raw_range list" where
  "x86_mem_init push info =
     (case info of
        None \<Rightarrow> Inl UnwrapNone
      | Some None \<Rightarrow> Inl UnwrapNone
      | Some (Some rs) \<Rightarrow> x86_collect_regions push [] rs)"

definition x86_pc_mem_if ::
  "profile \<Rightarrow> (64 word, 'm) plat_config_scheme \<Rightarrow> 64 raw_range list \<Rightarrow> 64 word mem_if" where
  "x86_pc_mem_if p cfg ram_regions =
    \<lparr>phys_ram_ranges = ram_regions,
     reserved_phys_ram_ranges = [(0, 0x100000)],
     mmio_ranges = MMIO_RANGES cfg,
     phys_to_virt = add_offset p (PHYS_VIRT_OFFSET cfg),
     virt_to_phys = sub_offset p (PHYS_VIRT_OFFSET cfg)\<rparr>"

interpretation x86_pc_mem: address_translation "x86_pc_mem_if p cfg ram" for p cfg ram
  by unfold_locales (simp_all add: x86_pc_mem_if_def offset_translations)

text \<open>The RAM ranges that a list of regions describes.\<close>

definition available_ranges :: "mb_region list \<Rightarrow> 64 raw_range list" where
  "available_ranges rs = [(base_address r, region_length r). r \<leftarrow> rs, is_available r]"

lemma available_ranges_simps [simp]:
  "available_ranges [] = []"
  "available_ranges (r # rs) =
     (if is_available r then [(base_address r, region_length r)] else []) @ available_ranges rs"
  by (simp_all add: available_ranges_def)

lemma x86_collect_regions_eq:
  assumes "heapless_push_doc n push" and "length regions \<le> n"
  shows "x86_collect_regions push regions rs =
    (if length regions + length (available_ranges rs) \<le> n
     then Inr (regions @ available_ranges rs) else Inl UnwrapErr)"
  using assms(2)
  by (induction rs arbitrary: regions) (use assms(1) in \<open>auto simp: heapless_push_doc_def\<close>)

section \<open>The boards together\<close>

text \<open>Which 64-bit platform crate is linked in, and the memory interface it provides.\<close>

datatype board = Riscv64_Qemu | Loongarch64_Qemu | Aarch64_Qemu | Raspi | Phytium_Pi | Bsta1000b

fun board_mem_if :: "profile \<Rightarrow> board \<Rightarrow> 64 word mem_if" where
  "board_mem_if p Riscv64_Qemu = riscv64_qemu_mem_if p riscv64_qemu_config"
| "board_mem_if p Loongarch64_Qemu = loongarch64_qemu_mem_if p loongarch64_qemu_config"
| "board_mem_if p Aarch64_Qemu = aarch64_qemu_mem_if p aarch64_qemu_config"
| "board_mem_if p Raspi = raspi_mem_if p raspi_config"
| "board_mem_if p Phytium_Pi = phytium_pi_mem_if p phytium_pi_config"
| "board_mem_if p Bsta1000b = bsta1000b_mem_if p bsta1000b_config"

fun board_kernel :: "board \<Rightarrow> 64 word \<times> 64 word" where
  "board_kernel Riscv64_Qemu =
     (KERNEL_BASE_PADDR riscv64_qemu_config, KERNEL_BASE_VADDR riscv64_qemu_config)"
| "board_kernel Loongarch64_Qemu =
     (KERNEL_BASE_PADDR loongarch64_qemu_config, KERNEL_BASE_VADDR loongarch64_qemu_config)"
| "board_kernel Aarch64_Qemu =
     (KERNEL_BASE_PADDR aarch64_qemu_config, KERNEL_BASE_VADDR aarch64_qemu_config)"
| "board_kernel Raspi = (KERNEL_BASE_PADDR raspi_config, KERNEL_BASE_VADDR raspi_config)"
| "board_kernel Phytium_Pi =
     (KERNEL_BASE_PADDR phytium_pi_config, KERNEL_BASE_VADDR phytium_pi_config)"
| "board_kernel Bsta1000b =
     (KERNEL_BASE_PADDR bsta1000b_config, KERNEL_BASE_VADDR bsta1000b_config)"

text \<open>
  The physical bases of the register blocks that the board's code turns into
  pointers with \<^verbatim>\<open>phys_to_virt\<close>: UART, interrupt controller, RTC, power off,
  reset control.
\<close>

fun register_blocks :: "board \<Rightarrow> 64 word list" where
  "register_blocks Riscv64_Qemu = [riscv_RTC_PADDR riscv64_qemu_config]"
| "register_blocks Loongarch64_Qemu =
     [la_UART_PADDR loongarch64_qemu_config, GED_PADDR loongarch64_qemu_config,
      la_RTC_PADDR loongarch64_qemu_config]"
| "register_blocks Aarch64_Qemu =
     [UART_PADDR aarch64_qemu_config, GICD_PADDR aarch64_qemu_config,
      GICC_PADDR aarch64_qemu_config, RTC_PADDR aarch64_qemu_config]"
| "register_blocks Raspi =
     [UART_PADDR raspi_config, GICD_PADDR raspi_config, GICC_PADDR raspi_config]"
| "register_blocks Phytium_Pi =
     [UART_PADDR phytium_pi_config, GICD_PADDR phytium_pi_config, GICC_PADDR phytium_pi_config]"
| "register_blocks Bsta1000b =
     [UART_PADDR bsta1000b_config, GICD_PADDR bsta1000b_config, GICC_PADDR bsta1000b_config,
      A1000BASE_SAFETYCRM, A1000BASE_TOPCRM]"

definition in_mmio :: "'u::len word mem_if \<Rightarrow> 'u word \<Rightarrow> bool" where
  "in_mmio M a \<longleftrightarrow> list_ex (\<lambda>r. lo r \<le> unat a \<and> unat a < hi r) (mmio_ranges M)"

section \<open>Properties\<close>

text \<open>
  C22: On every platform and for every configuration, in both build profiles,
  the two address translations are inverse to each other wherever they return.
\<close>

theorem address_translations_inverse:
  "(phys_to_virt (aarch64_qemu_mem_if p cfg) a = Inr v \<longleftrightarrow>
      virt_to_phys (aarch64_qemu_mem_if p cfg) v = Inr a) \<and>
   (phys_to_virt (raspi_mem_if p cfg) a = Inr v \<longleftrightarrow> virt_to_phys (raspi_mem_if p cfg) v = Inr a) \<and>
   (phys_to_virt (phytium_pi_mem_if p cfg) a = Inr v \<longleftrightarrow>
      virt_to_phys (phytium_pi_mem_if p cfg) v = Inr a) \<and>
   (phys_to_virt (bsta1000b_mem_if p cfg) a = Inr v \<longleftrightarrow>
      virt_to_phys (bsta1000b_mem_if p cfg) v = Inr a) \<and>
   (phys_to_virt (loongarch64_qemu_mem_if p cfg) a = Inr v \<longleftrightarrow>
      virt_to_phys (loongarch64_qemu_mem_if p cfg) v = Inr a) \<and>
   (phys_to_virt (riscv64_qemu_mem_if p cfg) a = Inr v \<longleftrightarrow>
      virt_to_phys (riscv64_qemu_mem_if p cfg) v = Inr a) \<and>
   (phys_to_virt (x86_pc_mem_if p cfg ram) a = Inr v \<longleftrightarrow>
      virt_to_phys (x86_pc_mem_if p cfg ram) v = Inr a) \<and>
   (phys_to_virt (arm_qemu_mem_if p acfg) b = Inr w \<longleftrightarrow>
      virt_to_phys (arm_qemu_mem_if p acfg) w = Inr b)"
  by (intro conjI aarch64_qemu_mem.translation_iff raspi_mem.translation_iff
        phytium_pi_mem.translation_iff bsta1000b_mem.translation_iff
        loongarch64_qemu_mem.translation_iff riscv64_qemu_mem.translation_iff
        x86_pc_mem.translation_iff arm_qemu_mem.translation_iff)



text \<open>
  C24: The x86 boot code keeps exactly the available regions of the boot
  loader, in their order, when there are at most sixteen of them, and panics
  when there are more or when the boot information cannot be read.
\<close>

theorem x86_mem_init_regions:
  assumes "heapless_push_doc MAX_REGIONS push"
  shows "x86_mem_init push info =
    (case info of
       Some (Some rs) \<Rightarrow>
         if length (available_ranges rs) \<le> 16 then Inr (available_ranges rs) else Inl UnwrapErr
     | _ \<Rightarrow> Inl UnwrapNone)"
  using assms
  by (auto simp: x86_mem_init_def x86_collect_regions_eq MAX_REGIONS_def split: option.splits)

theorem x86_mem_init_regions_witness:
  "x86_mem_init (\<lambda>x xs. if length xs < 16 then Some (xs @ [x]) else None)
     (Some (Some [\<lparr>base_address = 0, region_length = 0x9FC00, is_available = True\<rparr>,
       \<lparr>base_address = 0xF0000, region_length = 0x10000, is_available = False\<rparr>,
       \<lparr>base_address = 0x100000, region_length = 0x7EE0000, is_available = True\<rparr>]))
   = Inr [(0, 0x9FC00), (0x100000, 0x7EE0000)]"
  by (subst x86_mem_init_regions) (simp_all add: heapless_push_doc_def MAX_REGIONS_def)

end
