(* ===== verification/Mem_Tests.thy ===== *)
theory Mem_Tests
  imports Mem_Ranges
begin

text \<open>
  The unit tests of \<^verbatim>\<open>axplat/src/mem.rs\<close>, on the model: what the tests expect of the code is
  what the definitions compute, in both build profiles.
\<close>

definition overlap_check :: "profile \<Rightarrow> (u64 \<times> u64) list \<Rightarrow> panic + (64 overlap_err + unit)" where
  "overlap_check p rs = check_sorted_ranges_overlap p rs"

definition test_check_sorted_ranges_overlap :: "profile \<Rightarrow> bool" where
  "test_check_sorted_ranges_overlap p \<longleftrightarrow>
     overlap_check p [(0, 10), (10, 10), (20, 10)] = Inr (Inr ()) \<and>
     overlap_check p [(0, 10), (20, 10), (40, 10)] = Inr (Inr ()) \<and>
     overlap_check p [(0, 1), (0, 2)] = Inr (Inl ((0, 1), (0, 2))) \<and>
     overlap_check p [(0, 11), (10, 10), (20, 10)] = Inr (Inl ((0, 11), (10, 20))) \<and>
     overlap_check p [(0, 10), (20, 10), (10, 10)] = Inr (Inl ((20, 30), (10, 20)))"

text \<open>The ranges that the function reports, when it succeeds.\<close>

definition difference :: "profile \<Rightarrow> (u64 \<times> u64) list \<Rightarrow> (u64 \<times> u64) list \<Rightarrow> (u64 \<times> u64) list option" where
  "difference p from_ranges exclude =
     (case ranges_difference p from_ranges exclude of (res, Inr (Inr _)) \<Rightarrow> Some res | _ \<Rightarrow> None)"

definition test_ranges_difference :: "profile \<Rightarrow> bool" where
  "test_ranges_difference p \<longleftrightarrow>
     difference p [(0, 10), (20, 10)] [(5, 5), (25, 5)] = Some [(0, 5), (20, 5)] \<and>
     difference p [(0, 10), (20, 10)] [(5, 10), (15, 5)] = Some [(0, 5), (20, 10)] \<and>
     difference p [(0, 10), (20, 10)] [(5, 1), (25, 1), (30, 1)] = Some [(0, 5), (6, 4), (20, 5), (26, 4)] \<and>
     difference p [(0, 10), (20, 10)] [(5, 20)] = Some [(0, 5), (25, 5)] \<and>
     difference p [(0, 10), (20, 10)] [(0, 30)] = Some [] \<and>
     difference p [(0, 30)] [(0, 5), (10, 5), (20, 5)] = Some [(5, 5), (15, 5), (25, 5)] \<and>
     difference p [(0, 30)] [(0, 5), (5, 5), (10, 5), (15, 5), (20, 5), (25, 5)] = Some [] \<and>
     difference p [(10, 10)] [(0, 30)] = Some []"

lemma tests_of_profiles:
  "test_check_sorted_ranges_overlap Debug" "test_check_sorted_ranges_overlap Release"
  "test_ranges_difference Debug" "test_ranges_difference Release"
  by (simp_all add: test_check_sorted_ranges_overlap_def test_ranges_difference_def overlap_check_def difference_def
      check_sorted_ranges_overlap_def ranges_difference_def io_simps uadd_def usub_def)

lemma unit_tests_pass: "test_check_sorted_ranges_overlap p \<and> test_ranges_difference p"
  by (cases p) (simp_all add: tests_of_profiles)

end
