(* ===== verification/Console_If.thy ===== *)
theory Console_If
  imports Rust_Prelude
begin

text \<open>
  The console: the interface \<^verbatim>\<open>ConsoleIf\<close> and the early print function
  (\<^verbatim>\<open>axplat/src/console.rs\<close>), and its implementations on the PL011
  (\<^verbatim>\<open>axplat-arm-peripherals/src/pl011.rs\<close>), the DesignWare UART of the BST A1000b,
  the 16550 of the PC, the NS16550A of LoongArch and the SBI console of RISC-V.

  The UART drivers are third-party crates, so a driver is a parameter: what it
  does with a byte and how it is asked for one, on a device state of any type.
  A lock is held for the time of the operations between which the device state
  is passed on.
\<close>

section \<open>The trait and its client\<close>

abbreviation CR :: u8 where "CR \<equiv> 13"
abbreviation LF :: u8 where "LF \<equiv> 10"

text \<open>\<^verbatim>\<open>read_bytes\<close> fills a buffer and returns the number of bytes it has read.\<close>

record 'd console_if =
  write_bytes :: "u8 list \<Rightarrow> 'd \<Rightarrow> 'd"
  read_bytes :: "u8 list \<Rightarrow> 'd \<Rightarrow> nat \<times> u8 list \<times> 'd"

text \<open>
  Formatting calls \<^verbatim>\<open>EarlyConsole::write_str\<close> for each piece of the message, in
  order, while \<^verbatim>\<open>CONSOLE_LOCK\<close> is held.
\<close>

definition write_str :: "'d console_if \<Rightarrow> u8 list \<Rightarrow> 'd \<Rightarrow> 'd" where
  "write_str C s d = write_bytes C s d"

fun simple_print :: "'d console_if \<Rightarrow> u8 list list \<Rightarrow> 'd \<Rightarrow> 'd" where
  "simple_print C [] d = d"
| "simple_print C (piece # pieces) d = simple_print C pieces (write_str C piece d)"

definition console_println :: "'d console_if \<Rightarrow> u8 list list \<Rightarrow> 'd \<Rightarrow> 'd" where
  "console_println C pieces d = simple_print C (pieces @ [[LF]]) d"

text \<open>
  The contract: writing is sequential, and reading changes only the bytes it
  reports.
\<close>

locale console =
  fixes C :: "'d console_if"
  assumes write_Nil: "write_bytes C [] d = d"
    and write_append: "write_bytes C (bs @ cs) d = write_bytes C cs (write_bytes C bs d)"
    and read_bounds: "read_bytes C buf d = (n, buf', d') \<Longrightarrow> n \<le> length buf \<and> length buf' = length buf"
    and read_frame: "read_bytes C buf d = (n, buf', d') \<Longrightarrow> drop n buf' = drop n buf"
begin

lemma simple_print_concat: "simple_print C pieces d = write_bytes C (concat pieces) d"
  by (induction pieces arbitrary: d) (simp_all add: write_Nil write_append write_str_def)

lemma println_concat: "console_println C pieces d = write_bytes C (concat pieces @ [LF]) d"
  by (simp add: console_println_def simple_print_concat)

end

section \<open>UART drivers\<close>

record 'd uart_ops =
  uart_init :: "'d \<Rightarrow> 'd"
  put :: "u8 \<Rightarrow> 'd \<Rightarrow> 'd"
  get :: "'d \<Rightarrow> u8 option \<times> 'd"

text \<open>
  What the drivers document, for a device with a transmit log and a receive
  queue: a byte put is transmitted, a byte got leaves the queue.
\<close>

definition uart_doc :: "('d, 'm) uart_ops_scheme \<Rightarrow> ('d \<Rightarrow> u8 list) \<Rightarrow> ('d \<Rightarrow> u8 list) \<Rightarrow> bool" where
  "uart_doc U tx rx \<longleftrightarrow>
     (\<forall>c d. tx (put U c d) = tx d @ [c] \<and> rx (put U c d) = rx d) \<and>
     (\<forall>d. (case rx d of
            [] \<Rightarrow> fst (get U d) = None \<and> rx (snd (get U d)) = []
          | c # cs \<Rightarrow> fst (get U d) = Some c \<and> rx (snd (get U d)) = cs) \<and>
          tx (snd (get U d)) = tx d)"

text \<open>An instance: the device is its log and its queue.\<close>

definition wire_uart :: "(u8 list \<times> u8 list) uart_ops" where
  "wire_uart =
    \<lparr>uart_init = (\<lambda>d. d),
     put = (\<lambda>c (t, r). (t @ [c], r)),
     get = (\<lambda>(t, r). case r of [] \<Rightarrow> (None, (t, r)) | c # cs \<Rightarrow> (Some c, (t, cs)))\<rparr>"

lemma wire_uart_doc: "uart_doc wire_uart fst snd"
  by (auto simp: uart_doc_def wire_uart_def split: list.splits)

text \<open>The reading loop that three of the drivers share.\<close>

function read_loop :: "('d, 'm) uart_ops_scheme \<Rightarrow> nat \<Rightarrow> u8 list \<Rightarrow> 'd \<Rightarrow> nat \<times> u8 list \<times> 'd" where
  "read_loop U read_len bytes d =
    (if read_len < length bytes
     then case get U d of
            (Some c, d') \<Rightarrow> read_loop U (read_len + 1) (bytes[read_len := c]) d'
          | (None, d') \<Rightarrow> (read_len, bytes, d')
     else (read_len, bytes, d))"
  by pat_completeness auto

termination
  by (relation "measure (\<lambda>(U, i, bytes, d). length bytes - i)") auto

declare read_loop.simps [simp del]

lemma read_loop_steps:
  "length bytes \<le> i \<Longrightarrow> read_loop U i bytes d = (i, bytes, d)"
  "i < length bytes \<Longrightarrow> get U d = (None, d') \<Longrightarrow> read_loop U i bytes d = (i, bytes, d')"
  "i < length bytes \<Longrightarrow> get U d = (Some c, d') \<Longrightarrow>
     read_loop U i bytes d = read_loop U (i + 1) (bytes[i := c]) d'"
  by (subst read_loop.simps; simp)+

text \<open>The bytes a driver delivers when it is asked for at most \<open>n\<close>.\<close>

fun get_upto :: "('d, 'm) uart_ops_scheme \<Rightarrow> nat \<Rightarrow> 'd \<Rightarrow> u8 list \<times> 'd" where
  "get_upto U 0 d = ([], d)"
| "get_upto U (Suc n) d =
     (case get U d of
        (None, d') \<Rightarrow> ([], d')
      | (Some c, d') \<Rightarrow> (let (cs, d'') = get_upto U n d' in (c # cs, d'')))"

lemma get_upto_length: "length (fst (get_upto U n d)) \<le> n"
  by (induction U n d rule: get_upto.induct) (auto split: prod.splits option.splits)

lemma read_loop_get_upto:
  assumes "i \<le> length bytes"
  shows "read_loop U i bytes d =
    (let (cs, d') = get_upto U (length bytes - i) d
     in (i + length cs, take i bytes @ cs @ drop (i + length cs) bytes, d'))"
  using assms
proof (induction U i bytes d rule: read_loop.induct)
  case (1 U i bytes d)
  show ?case
  proof (cases "i < length bytes")
    case False
    with 1(2) show ?thesis by (simp add: read_loop_steps(1))
  next
    case True
    then obtain m where m: "length bytes - i = Suc m" by (cases "length bytes - i") auto
    then have m1: "length bytes - Suc i = m" by linarith
    show ?thesis
    proof (cases "get U d")
      case (Pair r d')
      show ?thesis
      proof (cases r)
        case None
        then show ?thesis using True m Pair by (simp add: read_loop_steps(2))
      next
        case (Some c)
        have "read_loop U (i + 1) (bytes[i := c]) d' = (let (cs, d') = get_upto U m d'
            in (i + 1 + length cs,
                take (i + 1) (bytes[i := c]) @ cs @ drop (i + 1 + length cs) (bytes[i := c]), d'))"
          using 1(1)[OF True Pair[symmetric] Some] True by (simp add: m1)
        then show ?thesis
          using True m Pair Some
          by (simp add: read_loop_steps(3) case_prod_unfold Let_def take_Suc_conv_app_nth)
      qed
    qed
  qed
qed

text \<open>Under the documented behaviour these are the first bytes of the queue.\<close>

lemma get_upto_queue:
  assumes "uart_doc U tx rx"
  shows "fst (get_upto U n d) = take n (rx d) \<and> rx (snd (get_upto U n d)) = drop n (rx d) \<and>
    tx (snd (get_upto U n d)) = tx d"
proof (induction n arbitrary: d)
  case 0
  then show ?case by simp
next
  case (Suc n)
  have g: "case rx d of [] \<Rightarrow> fst (get U d) = None \<and> rx (snd (get U d)) = []
     | c # cs \<Rightarrow> fst (get U d) = Some c \<and> rx (snd (get U d)) = cs"
    "tx (snd (get U d)) = tx d"
    using assms by (auto simp: uart_doc_def)
  show ?case
  proof (cases "rx d")
    case Nil
    then show ?thesis using g by (simp add: case_prod_unfold)
  next
    case (Cons c cs)
    then show ?thesis using g Suc.IH[of "snd (get U d)"] by (simp add: case_prod_unfold Let_def)
  qed
qed

lemma read_loop_bounds:
  assumes "read_loop U 0 buf d = (n, buf', d')"
  shows "n \<le> length buf \<and> length buf' = length buf \<and> drop n buf' = drop n buf"
  using assms get_upto_length[of U "length buf" d]
  by (auto simp: read_loop_get_upto case_prod_unfold Let_def)

section \<open>The PL011\<close>

fun pl011_do_putchar :: "('d, 'm) uart_ops_scheme \<Rightarrow> u8 \<Rightarrow> 'd \<Rightarrow> 'd" where
  "pl011_do_putchar U c d = (if c = LF then put U LF (put U CR d) else put U c d)"

definition pl011_write_bytes :: "('d, 'm) uart_ops_scheme \<Rightarrow> u8 list \<Rightarrow> 'd \<Rightarrow> 'd" where
  "pl011_write_bytes U bytes d = fold (pl011_do_putchar U) bytes d"

definition pl011_read_bytes :: "('d, 'm) uart_ops_scheme \<Rightarrow> u8 list \<Rightarrow> 'd \<Rightarrow> nat \<times> u8 list \<times> 'd" where
  "pl011_read_bytes U bytes d = read_loop U 0 bytes d"

definition pl011_console_if :: "('d, 'm) uart_ops_scheme \<Rightarrow> 'd console_if" where
  "pl011_console_if U =
    \<lparr>write_bytes = pl011_write_bytes U, read_bytes = pl011_read_bytes U\<rparr>"

interpretation pl011: console "pl011_console_if U" for U
  by unfold_locales
    (auto simp: pl011_console_if_def pl011_write_bytes_def pl011_read_bytes_def
       dest: read_loop_bounds)

text \<open>The static is initialised once, with the driver for the mapped registers.\<close>

definition pl011_init_early :: "('d, 'm) uart_ops_scheme \<Rightarrow> ('v \<Rightarrow> 'd) \<Rightarrow> 'v \<Rightarrow> 'd option \<Rightarrow> panic + 'd option" where
  "pl011_init_early U new uart_base UART =
    (case UART of
       Some _ \<Rightarrow> Inl ExplicitPanic
     | None \<Rightarrow> Inr (Some (uart_init U (new uart_base))))"

text \<open>The interrupt handler echoes what has been received.\<close>

record 'd pl011_ops = "'d uart_ops" +
  is_receive_interrupt :: "'d \<Rightarrow> bool"
  ack_interrupts :: "'d \<Rightarrow> 'd"

partial_function (option) echo_loop :: "('d, 'm) uart_ops_scheme \<Rightarrow> 'd \<Rightarrow> 'd option" where
  [code]: "echo_loop U d =
     (case get U d of
        (Some c, d') \<Rightarrow> echo_loop U (pl011_do_putchar U c d')
      | (None, d') \<Rightarrow> Some d')"

definition pl011_irq_handler :: "'d pl011_ops \<Rightarrow> 'd \<Rightarrow> 'd option" where
  "pl011_irq_handler U d =
    (let receive = is_receive_interrupt U d;
         d1 = ack_interrupts U d
     in if receive then echo_loop U d1 else Some d1)"

section \<open>The DesignWare UART, the 16550 and the NS16550A\<close>

fun dw_apb_putchar :: "('d, 'm) uart_ops_scheme \<Rightarrow> u8 \<Rightarrow> 'd \<Rightarrow> 'd" where
  "dw_apb_putchar U c d = (if c = CR \<or> c = LF then put U LF (put U CR d) else put U c d)"

definition dw_apb_console_if :: "('d, 'm) uart_ops_scheme \<Rightarrow> 'd console_if" where
  "dw_apb_console_if U =
    \<lparr>write_bytes = (\<lambda>bytes d. fold (dw_apb_putchar U) bytes d),
     read_bytes = (\<lambda>bytes d. read_loop U 0 bytes d)\<rparr>"

interpretation dw_apb: console "dw_apb_console_if U" for U
  by unfold_locales (auto simp: dw_apb_console_if_def dest: read_loop_bounds)

definition x86_putchar :: "('d, 'm) uart_ops_scheme \<Rightarrow> u8 \<Rightarrow> 'd \<Rightarrow> 'd" where
  "x86_putchar U c d = put U c d"

definition x86_console_if :: "('d, 'm) uart_ops_scheme \<Rightarrow> 'd console_if" where
  "x86_console_if U =
    \<lparr>write_bytes = (\<lambda>bytes d. fold (x86_putchar U) bytes d),
     read_bytes = (\<lambda>bytes d. read_loop U 0 bytes d)\<rparr>"

interpretation x86: console "x86_console_if U" for U
  by unfold_locales (auto simp: x86_console_if_def dest: read_loop_bounds)

text \<open>On LoongArch the reading loop iterates over the buffer and returns early.\<close>

fun ns16550a_putchar :: "('d, 'm) uart_ops_scheme \<Rightarrow> u8 \<Rightarrow> 'd \<Rightarrow> 'd" where
  "ns16550a_putchar U c d = (if c = LF then put U LF (put U CR d) else put U c d)"

fun ns16550a_read_from :: "('d, 'm) uart_ops_scheme \<Rightarrow> nat \<Rightarrow> u8 list \<Rightarrow> 'd \<Rightarrow> nat \<times> u8 list \<times> 'd" where
  "ns16550a_read_from U i [] d = (i, [], d)"
| "ns16550a_read_from U i (byte # bytes) d =
     (case get U d of
        (Some c, d') \<Rightarrow>
          (let (n, rest, d'') = ns16550a_read_from U (i + 1) bytes d' in (n, c # rest, d''))
      | (None, d') \<Rightarrow> (i, byte # bytes, d'))"

definition ns16550a_console_if :: "('d, 'm) uart_ops_scheme \<Rightarrow> 'd console_if" where
  "ns16550a_console_if U =
    \<lparr>write_bytes = (\<lambda>bytes d. fold (ns16550a_putchar U) bytes d),
     read_bytes = (\<lambda>bytes d. ns16550a_read_from U 0 bytes d)\<rparr>"

lemma ns16550a_read_get_upto:
  "ns16550a_read_from U i bytes d =
    (let (cs, d') = get_upto U (length bytes) d in (i + length cs, cs @ drop (length cs) bytes, d'))"
proof (induction U i bytes d rule: ns16550a_read_from.induct)
  case (2 U i byte bytes d)
  show ?case
  proof (cases "get U d")
    case (Pair r d')
    then show ?thesis using 2 by (cases r) (auto simp: case_prod_unfold Let_def)
  qed
qed simp

text \<open>The two ways to write the loop are the same function.\<close>

lemma ns16550a_read_loop: "ns16550a_read_from U 0 bytes d = read_loop U 0 bytes d"
  by (simp add: ns16550a_read_get_upto read_loop_get_upto)

interpretation ns16550a: console "ns16550a_console_if U" for U
  by unfold_locales
    (auto simp: ns16550a_console_if_def ns16550a_read_loop dest: read_loop_bounds)

section \<open>The SBI console\<close>

text \<open>
  The firmware is a parameter: a write is given the bytes at the physical
  address of the kernel buffer and returns how many it took; a read is given the
  most it may deliver.
\<close>

record 's sbi_console =
  sbi_console_write :: "u8 list \<Rightarrow> 's \<Rightarrow> nat \<times> 's"
  sbi_console_read :: "nat \<Rightarrow> 's \<Rightarrow> u8 list \<times> 's"

definition MAX_RW_SIZE :: nat where "MAX_RW_SIZE = 256"

definition try_write_bytes :: "'s sbi_console \<Rightarrow> u8 list \<Rightarrow> 's \<Rightarrow> nat \<times> 's" where
  "try_write_bytes B bytes s = sbi_console_write B (take (min (length bytes) MAX_RW_SIZE) bytes) s"

partial_function (option) sbi_write_from ::
  "'s sbi_console \<Rightarrow> u8 list \<Rightarrow> nat \<Rightarrow> 's \<Rightarrow> 's option" where
  [code]: "sbi_write_from B bytes write_len s =
    (if write_len < length bytes
     then let n = min MAX_RW_SIZE (length bytes - write_len)
          in if n = 0 then Some s
             else case try_write_bytes B (take n (drop write_len bytes)) s of
                    (v, s') \<Rightarrow> sbi_write_from B bytes (write_len + v) s'
     else Some s)"

definition sbi_write_bytes :: "'s sbi_console \<Rightarrow> u8 list \<Rightarrow> 's \<Rightarrow> 's option" where
  "sbi_write_bytes B bytes s = sbi_write_from B bytes 0 s"

definition sbi_read_bytes :: "'s sbi_console \<Rightarrow> u8 list \<Rightarrow> 's \<Rightarrow> nat \<times> u8 list \<times> 's" where
  "sbi_read_bytes B bytes s =
    (let (cs, s') = sbi_console_read B (min (length bytes) MAX_RW_SIZE) s
     in (length cs, cs @ drop (length cs) bytes, s'))"

text \<open>What SBI documents for a write, and that the firmware makes progress.\<close>

definition sbi_write_doc :: "'s sbi_console \<Rightarrow> ('s \<Rightarrow> u8 list) \<Rightarrow> bool" where
  "sbi_write_doc B out \<longleftrightarrow>
     (\<forall>bs s. fst (sbi_console_write B bs s) \<le> length bs \<and>
        out (snd (sbi_console_write B bs s)) = out s @ take (fst (sbi_console_write B bs s)) bs)"

definition sbi_write_progress :: "'s sbi_console \<Rightarrow> bool" where
  "sbi_write_progress B \<longleftrightarrow> (\<forall>bs s. bs \<noteq> [] \<longrightarrow> 0 < fst (sbi_console_write B bs s))"

section \<open>What is transmitted\<close>

definition crlf :: "u8 \<Rightarrow> u8 list" where
  "crlf c = (if c = LF then [CR, LF] else [c])"

definition crlf_both :: "u8 \<Rightarrow> u8 list" where
  "crlf_both c = (if c = CR \<or> c = LF then [CR, LF] else [c])"

lemma fold_transmits:
  assumes "\<And>c d. tx (f c d) = tx d @ g c \<and> rx (f c d) = rx d"
  shows "tx (fold f bs d) = tx d @ concat (map g bs) \<and> rx (fold f bs d) = rx d"
  using assms by (induction bs arbitrary: d) simp_all

lemma putchar_transmits:
  assumes "uart_doc U tx rx"
  shows "tx (pl011_do_putchar U c d) = tx d @ crlf c \<and> rx (pl011_do_putchar U c d) = rx d"
    and "tx (ns16550a_putchar U c d) = tx d @ crlf c \<and> rx (ns16550a_putchar U c d) = rx d"
    and "tx (dw_apb_putchar U c d) = tx d @ crlf_both c \<and> rx (dw_apb_putchar U c d) = rx d"
    and "tx (x86_putchar U c d) = tx d @ [c] \<and> rx (x86_putchar U c d) = rx d"
  using assms by (auto simp: uart_doc_def crlf_def crlf_both_def x86_putchar_def)

lemma read_loop_queue:
  assumes "uart_doc U tx rx"
  shows "\<exists>d'. read_loop U 0 buf d =
      (min (length buf) (length (rx d)),
       take (length buf) (rx d) @ drop (length (rx d)) buf, d') \<and>
    rx d' = drop (length buf) (rx d) \<and> tx d' = tx d"
  using get_upto_queue[OF assms, of "length buf" d]
  by (auto simp: read_loop_get_upto case_prod_unfold Let_def min_def)

text \<open>The echo of a queue, one received byte at a time.\<close>

lemma echo_loop_echoes:
  assumes "uart_doc U tx rx"
  shows "\<exists>d'. echo_loop U d = Some d' \<and> tx d' = tx d @ concat (map crlf (rx d)) \<and> rx d' = []"
proof (induction "rx d" arbitrary: d)
  case Nil
  have "fst (get U d) = None" "rx (snd (get U d)) = []" "tx (snd (get U d)) = tx d"
    using assms Nil by (auto simp: uart_doc_def split: list.splits)
  then show ?case
    using Nil by (subst echo_loop.simps) (auto simp: case_prod_unfold)
next
  case (Cons c cs)
  define d1 where "d1 = pl011_do_putchar U c (snd (get U d))"
  have g: "fst (get U d) = Some c" "rx (snd (get U d)) = cs" "tx (snd (get U d)) = tx d"
    using assms Cons.hyps(2)[symmetric] by (auto simp: uart_doc_def split: list.splits)
  then have d1: "rx d1 = cs" "tx d1 = tx d @ crlf c"
    using putchar_transmits(1)[OF assms] by (simp_all add: d1_def)
  have "echo_loop U d = echo_loop U d1"
    using g(1) by (subst echo_loop.simps) (simp add: case_prod_unfold d1_def)
  with Cons.hyps(1)[OF d1(1)[symmetric]] d1 Cons.hyps(2)[symmetric] show ?case by simp
qed

lemma sbi_write_from_complete:
  assumes "sbi_write_doc B out" and "sbi_write_progress B" and "write_len \<le> length bytes"
  shows "\<exists>s'. sbi_write_from B bytes write_len s = Some s' \<and>
    out s' = out s @ drop write_len bytes"
  using assms(3)
proof (induction "length bytes - write_len" arbitrary: write_len s rule: less_induct)
  case less
  show ?case
  proof (cases "write_len < length bytes")
    case False
    with less.prems show ?thesis by (subst sbi_write_from.simps) simp
  next
    case True
    define n where "n = min MAX_RW_SIZE (length bytes - write_len)"
    define chunk where "chunk = take n (drop write_len bytes)"
    obtain v s1 where w: "try_write_bytes B chunk s = (v, s1)" by fastforce
    have n: "0 < n" "length chunk = n" "n \<le> MAX_RW_SIZE" using True
      by (auto simp: n_def chunk_def MAX_RW_SIZE_def)
    then have "sbi_console_write B chunk s = (v, s1)"
      using w by (simp add: try_write_bytes_def)
    then have v: "v \<le> n" "out s1 = out s @ take v chunk" "0 < v"
      using assms(1,2) n by (auto simp: sbi_write_doc_def sbi_write_progress_def
          dest!: spec[of _ chunk] spec[of _ s])
    have "write_len + v \<le> length bytes" using v(1) True by (simp add: n_def) linarith
    moreover have "length bytes - (write_len + v) < length bytes - write_len"
      using v(3) True by linarith
    ultimately obtain s' where
      "sbi_write_from B bytes (write_len + v) s1 = Some s'"
      "out s' = out s1 @ drop (write_len + v) bytes"
      using less.hyps[of "write_len + v" s1] by blast
    moreover have "sbi_write_from B bytes write_len s = sbi_write_from B bytes (write_len + v) s1"
      using True n(1) w by (subst sbi_write_from.simps) (auto simp: Let_def n_def chunk_def)
    moreover have "take v chunk @ drop (write_len + v) bytes = drop write_len bytes"
      using v(1) by (simp add: chunk_def min_absorb1) (metis append_take_drop_id drop_drop add.commute)
    ultimately show ?thesis using v(2) by simp
  qed
qed

lemma sbi_write_from_stuck:
  assumes "\<And>bs s. sbi_console_write B bs s = (0, s)" and "write_len < length bytes"
  shows "sbi_write_from B bytes write_len s \<noteq> Some s'"
proof
  assume returned: "sbi_write_from B bytes write_len s = Some s'"
  have "B = B \<longrightarrow> \<not> write_len < length bytes"
  proof (rule sbi_write_from.raw_induct[where P = "\<lambda>B' bs l s r. B' = B \<longrightarrow> \<not> l < length bs",
        OF _ returned], goal_cases)
    case (1 f B' bs l s r)
    show ?case
    proof
      assume "B' = B"
      with 1(2) 1(1)[of B bs "l + 0" s r] show "\<not> l < length bs"
        by (auto simp: try_write_bytes_def assms(1) Let_def MAX_RW_SIZE_def split: if_splits)
    qed
  qed
  with assms(2) show False by simp
qed

section \<open>Properties\<close>



text \<open>
  C32: Reading takes the first received bytes that fit the buffer, in order,
  leaves the rest of the buffer and of the queue alone and returns their number,
  with either of the two loops and on every UART.
\<close>

theorem read_bytes_input:
  assumes "uart_doc U tx rx"
    and "C \<in> {pl011_console_if U, dw_apb_console_if U, x86_console_if U, ns16550a_console_if U}"
  shows "\<exists>d'. read_bytes C buf d =
      (min (length buf) (length (rx d)),
       take (length buf) (rx d) @ drop (length (rx d)) buf, d') \<and>
    rx d' = drop (length buf) (rx d) \<and> tx d' = tx d"
  using read_loop_queue[OF assms(1), of buf d] assms(2)
  by (auto simp: pl011_console_if_def pl011_read_bytes_def dw_apb_console_if_def
      x86_console_if_def ns16550a_console_if_def ns16550a_read_loop)

theorem read_bytes_input_witness:
  "\<exists>d'. read_bytes (ns16550a_console_if wire_uart) [0, 0, 0] ([], [97, 98]) = (2, [97, 98, 0], d')"
  using read_bytes_input[OF wire_uart_doc, of "ns16550a_console_if wire_uart" "[0, 0, 0]" "([], [97, 98])"]
  by auto

text \<open>
  The PL011 interrupt handler returns, and after a receive interrupt it has
  echoed everything that had been received, in order and with carriage returns
  before newlines, and emptied the queue; otherwise it only acknowledges.
\<close>

theorem pl011_irq_echoes:
  assumes "uart_doc U tx rx"
    and "\<And>d. tx (ack_interrupts U d) = tx d \<and> rx (ack_interrupts U d) = rx d"
  shows "\<exists>d'. pl011_irq_handler U d = Some d' \<and>
    (if is_receive_interrupt U d
     then tx d' = tx d @ concat (map crlf (rx d)) \<and> rx d' = []
     else d' = ack_interrupts U d)"
  using echo_loop_echoes[OF assms(1), of "ack_interrupts U d"] assms(2)[of d]
  by (cases "is_receive_interrupt U d") (auto simp: pl011_irq_handler_def)

theorem pl011_irq_echoes_witness:
  "\<exists>d'. pl011_irq_handler
      (uart_ops.extend wire_uart
        \<lparr>is_receive_interrupt = (\<lambda>d. snd d \<noteq> []), ack_interrupts = (\<lambda>d. d)\<rparr>) ([], [97, LF]) = Some d' \<and>
    fst d' = [97, CR, LF] \<and> snd d' = []"
proof -
  let ?U = "uart_ops.extend wire_uart
        \<lparr>is_receive_interrupt = (\<lambda>d. snd d \<noteq> []), ack_interrupts = (\<lambda>d. d)\<rparr>"
  have "uart_doc ?U fst snd"
    by (auto simp: uart_doc_def wire_uart_def uart_ops.extend_def split: list.splits)
  from pl011_irq_echoes[OF this, of "([], [97, LF])"]
  show ?thesis by (simp add: uart_ops.extend_def crlf_def)
qed

text \<open>
  C33: Writing to the SBI console, in chunks of at most 256 bytes of which the
  firmware may take any part, transmits all bytes once and in order, and returns
  if the firmware always takes something.
\<close>

theorem sbi_write_complete:
  assumes "sbi_write_doc B out" and "sbi_write_progress B"
  shows "\<exists>s'. sbi_write_bytes B bytes s = Some s' \<and> out s' = out s @ bytes"
  using sbi_write_from_complete[OF assms, of 0 bytes s] by (simp add: sbi_write_bytes_def)

theorem sbi_write_complete_witness:
  "\<exists>s'. sbi_write_bytes
      \<lparr>sbi_console_write = (\<lambda>bs s. (min (length bs) 2, s @ take 2 bs)), sbi_console_read = (\<lambda>n s. ([], s))\<rparr>
      [1, 2, 3, 4, 5] [] = Some s' \<and> s' = [1, 2, 3, 4, 5]"
proof -
  let ?B = "\<lparr>sbi_console_write = (\<lambda>bs s. (min (length bs) 2, s @ take 2 bs)),
      sbi_console_read = (\<lambda>n s. ([], s))\<rparr> :: u8 list sbi_console"
  have "take (min (length bs) 2) bs = take 2 bs" for bs :: "u8 list"
    by (cases "length bs \<le> 2") (simp_all add: min_def)
  then have "sbi_write_doc ?B id" by (simp add: sbi_write_doc_def)
  moreover have "sbi_write_progress ?B" by (simp add: sbi_write_progress_def)
  ultimately show ?thesis
    using sbi_write_complete[of ?B id "[1, 2, 3, 4, 5]" "[]"] by simp
qed

text \<open>
  There is no bound on the retries: firmware that takes no byte, which the
  SBI allows when its buffer is full, keeps the caller in the loop forever.
\<close>

theorem sbi_write_may_hang:
  assumes "\<And>bs s. sbi_console_write B bs s = (0, s)"
  shows "sbi_write_bytes B bytes s = None \<longleftrightarrow> bytes \<noteq> []"
proof (cases bytes)
  case Nil
  then show ?thesis by (simp add: sbi_write_bytes_def sbi_write_from.simps)
next
  case (Cons c cs)
  then show ?thesis
    using sbi_write_from_stuck[OF assms, of 0 bytes s]
    by (cases "sbi_write_bytes B bytes s") (simp_all add: sbi_write_bytes_def)
qed

theorem sbi_write_may_hang_witness:
  "sbi_write_bytes \<lparr>sbi_console_write = (\<lambda>bs s. (0, s)), sbi_console_read = (\<lambda>n s. ([], s))\<rparr>
     [72] () = None"
  using sbi_write_may_hang[of "\<lparr>sbi_console_write = (\<lambda>bs s. (0, s)),
      sbi_console_read = (\<lambda>n s. ([], s))\<rparr>" "[72]" "()"]
  by simp

end
