(* ===== verification/Time_If.thy ===== *)
theory Time_If
  imports Platform_Config
begin

text \<open>
  Clocks and timers: the interface \<^verbatim>\<open>TimeIf\<close> and its callers
  (\<^verbatim>\<open>axplat/src/time.rs\<close>), and the four implementations: the Arm generic timer with
  the PL031 RTC (\<^verbatim>\<open>axplat-arm-peripherals\<close>), the x86 TSC and local APIC timer, the
  RISC-V time register with the SBI timer, and the LoongArch stable counter.

  A function that reads the hardware counter takes the value it reads as an
  argument, so a sequence of readings is an input of the model.
\<close>

section \<open>Durations\<close>

text \<open>
  \<^verbatim>\<open>core::time::Duration\<close>: whole seconds and nanoseconds below a second, compared
  seconds first.
\<close>

datatype duration = Duration (dur_secs: u64) (dur_subsec: u32)

instantiation duration :: linorder
begin

definition less_eq_duration :: "duration \<Rightarrow> duration \<Rightarrow> bool" where
  "d \<le> e \<longleftrightarrow> dur_secs d < dur_secs e \<or> (dur_secs d = dur_secs e \<and> dur_subsec d \<le> dur_subsec e)"

definition less_duration :: "duration \<Rightarrow> duration \<Rightarrow> bool" where
  "d < e \<longleftrightarrow> dur_secs d < dur_secs e \<or> (dur_secs d = dur_secs e \<and> dur_subsec d < dur_subsec e)"

instance
  by standard (auto simp: less_eq_duration_def less_duration_def intro: duration.expand)

end

definition MILLIS_PER_SEC :: u64 where "MILLIS_PER_SEC = 1000"
definition MICROS_PER_SEC :: u64 where "MICROS_PER_SEC = 1000000"
definition NANOS_PER_SEC :: u64 where "NANOS_PER_SEC = 1000000000"
definition NANOS_PER_MILLIS :: u64 where "NANOS_PER_MILLIS = 1000000"
definition NANOS_PER_MICROS :: u64 where "NANOS_PER_MICROS = 1000"

definition from_nanos :: "u64 \<Rightarrow> duration" where
  "from_nanos n = Duration (n div 1000000000) (ucast (n mod 1000000000))"

text \<open>\<^verbatim>\<open>Duration + Duration\<close>, which panics when the seconds overflow.\<close>

definition add_duration :: "duration \<Rightarrow> duration \<Rightarrow> panic + duration" where
  "add_duration d e =
    (let n = dur_subsec d + dur_subsec e;
         carry = (if n \<ge> 1000000000 then 1 else 0 :: nat);
         n' = (if n \<ge> 1000000000 then n - 1000000000 else n);
         s = unat (dur_secs d) + unat (dur_secs e) + carry
     in if s < 2 ^ 64 then Inr (Duration (of_nat s) n') else Inl UnwrapNone)"

text \<open>A duration that the standard library can build, and its length in nanoseconds.\<close>

definition proper :: "duration \<Rightarrow> bool" where
  "proper d \<longleftrightarrow> dur_subsec d < 1000000000"

definition dur_nanos :: "duration \<Rightarrow> nat" where
  "dur_nanos d = unat (dur_secs d) * 1000000000 + unat (dur_subsec d)"

lemma unat_subsec: "unat (ucast (n mod 1000000000 :: u64) :: u32) = unat n mod 1000000000"
proof -
  have small: "unat n mod 1000000000 < 2 ^ 32"
    by (rule less_trans[OF mod_less_divisor]) simp_all
  have m: "unat (n mod 1000000000) = unat n mod 1000000000"
    by (simp add: unat_mod_distrib)
  have "unat (ucast (n mod 1000000000) :: u32) = take_bit 32 (unat n mod 1000000000)"
    by (simp add: unsigned_ucast_eq m)
  then show ?thesis using small by (simp add: take_bit_nat_eq_self)
qed

lemma from_nanos_proper: "proper (from_nanos n)"
  using mod_less_divisor[of 1000000000 "unat n"]
  by (simp add: proper_def from_nanos_def word_less_nat_alt unat_subsec)

lemma dur_nanos_from_nanos [simp]: "dur_nanos (from_nanos n) = unat n"
  by (simp add: dur_nanos_def from_nanos_def unat_subsec unat_div_exact)

lemma less_duration_nanos:
  assumes "proper d" and "proper e"
  shows "d < e \<longleftrightarrow> dur_nanos d < dur_nanos e"
  using assms unfolding less_duration_def dur_nanos_def proper_def word_less_nat_alt word_unat_eq_iff
  by (simp, linarith)

lemma add_duration_exact:
  assumes "proper d" and "proper e" and "add_duration d e = Inr s"
  shows "proper s \<and> dur_nanos s = dur_nanos d + dur_nanos e"
proof -
  have n: "unat (dur_subsec d + dur_subsec e) = unat (dur_subsec d) + unat (dur_subsec e)"
    using assms(1,2) by (intro unat_plus_exact) (simp add: proper_def word_less_nat_alt)
  have le: "dur_subsec d + dur_subsec e \<ge> 1000000000 \<longleftrightarrow>
      1000000000 \<le> unat (dur_subsec d) + unat (dur_subsec e)"
    using n by (simp add: word_le_nat_alt)
  show ?thesis
    using assms n
    by (auto simp: add_duration_def Let_def le proper_def dur_nanos_def word_less_nat_alt
        unat_of_nat unat_minus_exact simp del: of_nat_add of_nat_Suc split: if_splits)
qed

section \<open>The trait and its callers\<close>

text \<open>
  What timer code does to the hardware, and the interface itself.  The first
  argument of \<^verbatim>\<open>current_ticks\<close> and \<^verbatim>\<open>set_oneshot_timer\<close> is the counter value read.
\<close>

datatype timer_cmd =
    SetCountdown u32
  | CounterEnable bool
  | LapicOneShot | LapicDivideBy1 | LapicTimerEnable
  | LapicInitial u32
  | PrintTscFrequency u64
  | SbiSetTimer u64
  | TcfgInitVal u64 | TcfgPeriodic bool | TcfgEnable bool
  | RtcWrite u64 u32 | RtcRead u64
  | IrqSetEnable u64 bool

record time_if =
  current_ticks :: "u64 \<Rightarrow> panic + u64"
  ticks_to_nanos :: "u64 \<Rightarrow> panic + u64"
  nanos_to_ticks :: "u64 \<Rightarrow> panic + u64"
  epochoffset_nanos :: u64
  set_oneshot_timer :: "u64 \<Rightarrow> u64 \<Rightarrow> (timer_cmd, unit) io"

definition monotonic_time_nanos :: "time_if \<Rightarrow> u64 \<Rightarrow> panic + u64" where
  "monotonic_time_nanos T c = rbind (current_ticks T c) (ticks_to_nanos T)"

definition monotonic_time :: "time_if \<Rightarrow> u64 \<Rightarrow> panic + duration" where
  "monotonic_time T c = rbind (monotonic_time_nanos T c) (\<lambda>n. Inr (from_nanos n))"

definition wall_time_nanos :: "profile \<Rightarrow> time_if \<Rightarrow> u64 \<Rightarrow> panic + u64" where
  "wall_time_nanos p T c = rbind (monotonic_time_nanos T c) (\<lambda>n. uadd p n (epochoffset_nanos T))"

definition wall_time :: "profile \<Rightarrow> time_if \<Rightarrow> u64 \<Rightarrow> panic + duration" where
  "wall_time p T c =
     rbind (rbind (monotonic_time_nanos T c) (\<lambda>n. uadd p n (epochoffset_nanos T)))
       (\<lambda>n. Inr (from_nanos n))"

text \<open>
  The spinning loop.  The \<^verbatim>\<open>i\<close>-th test of its condition reads the counter value
  \<^verbatim>\<open>reads i\<close>.  A loop that never ends is \<^verbatim>\<open>None\<close>; one that ends says at which
  reading it did, and whether it panicked.
\<close>

partial_function (option) busy_wait_until ::
  "profile \<Rightarrow> time_if \<Rightarrow> (nat \<Rightarrow> u64) \<Rightarrow> nat \<Rightarrow> duration \<Rightarrow> (nat \<times> (panic + unit)) option" where
  [code]: "busy_wait_until p T reads i deadline =
     (case wall_time p T (reads i) of
        Inl e \<Rightarrow> Some (i, Inl e)
      | Inr t \<Rightarrow>
          if t < deadline then busy_wait_until p T reads (Suc i) deadline else Some (i, Inr ()))"

definition busy_wait ::
  "profile \<Rightarrow> time_if \<Rightarrow> (nat \<Rightarrow> u64) \<Rightarrow> duration \<Rightarrow> (nat \<times> (panic + unit)) option" where
  "busy_wait p T reads dur =
     (case rbind (wall_time p T (reads 0)) (\<lambda>t. add_duration t dur) of
        Inl e \<Rightarrow> Some (0, Inl e)
      | Inr deadline \<Rightarrow> busy_wait_until p T reads 1 deadline)"

lemma wall_time_proper: "wall_time p T c = Inr t \<Longrightarrow> proper t"
  by (auto simp: wall_time_def rbind_Inr_iff from_nanos_proper)

lemma wall_time_nanos_eq:
  "wall_time p T c = Inr t \<Longrightarrow> \<exists>n. wall_time_nanos p T c = Inr n \<and> dur_nanos t = unat n"
  by (auto simp: wall_time_def wall_time_nanos_def rbind_Inr_iff)

text \<open>The loop returns exactly at the first reading at which the deadline is reached.\<close>

definition running :: "profile \<Rightarrow> time_if \<Rightarrow> (nat \<Rightarrow> u64) \<Rightarrow> duration \<Rightarrow> nat \<Rightarrow> bool" where
  "running p T reads deadline j \<longleftrightarrow>
     (case wall_time p T (reads j) of Inl e \<Rightarrow> False | Inr t \<Rightarrow> t < deadline)"

definition stops_with :: "profile \<Rightarrow> time_if \<Rightarrow> (nat \<Rightarrow> u64) \<Rightarrow> nat \<Rightarrow> panic + unit" where
  "stops_with p T reads j =
     (case wall_time p T (reads j) of Inl e \<Rightarrow> Inl e | Inr t \<Rightarrow> Inr ())"

lemma busy_wait_until_step:
  "busy_wait_until p T reads i d =
     (if running p T reads d i then busy_wait_until p T reads (Suc i) d
      else Some (i, stops_with p T reads i))"
  by (subst busy_wait_until.simps) (auto simp: running_def stops_with_def split: sum.splits)

lemma busy_wait_until_runs:
  "(\<And>j. i \<le> j \<Longrightarrow> j < k \<Longrightarrow> running p T reads d j) \<Longrightarrow> i \<le> k \<Longrightarrow>
     busy_wait_until p T reads i d = busy_wait_until p T reads k d"
proof (induction "k - i" arbitrary: i)
  case 0
  then show ?case by simp
next
  case (Suc n)
  then have "i < k" by simp
  have "busy_wait_until p T reads i d = busy_wait_until p T reads (Suc i) d"
    using Suc.prems(1)[of i] \<open>i < k\<close> by (simp add: busy_wait_until_step)
  also have "\<dots> = busy_wait_until p T reads k d"
    using Suc.hyps(2) Suc.prems \<open>i < k\<close> by (intro Suc.hyps(1)) auto
  finally show ?case .
qed

lemma busy_wait_until_SomeD:
  assumes "busy_wait_until p T reads i d = Some y"
  shows "i \<le> fst y \<and> (\<forall>j. i \<le> j \<and> j < fst y \<longrightarrow> running p T reads d j) \<and>
     \<not> running p T reads d (fst y) \<and> snd y = stops_with p T reads (fst y)"
proof (rule busy_wait_until.raw_induct[where P = "\<lambda>p T reads i d y.
    i \<le> fst y \<and> (\<forall>j. i \<le> j \<and> j < fst y \<longrightarrow> running p T reads d j) \<and>
    \<not> running p T reads d (fst y) \<and> snd y = stops_with p T reads (fst y)", OF _ assms], goal_cases)
  case (1 bw p T reads i d y)
  show ?case
  proof (cases "running p T reads d i")
    case True
    then have "bw p T reads (Suc i) d = Some y"
      using 1(2) by (auto simp: running_def split: sum.splits if_splits)
    from 1(1)[OF this] True show ?thesis
      by (metis Suc_leD Suc_leI le_neq_implies_less)
  next
    case False
    then have "y = (i, stops_with p T reads i)"
      using 1(2) by (auto simp: running_def stops_with_def split: sum.splits if_splits)
    with False show ?thesis by auto
  qed
qed

lemma busy_wait_until_Some_iff:
  "busy_wait_until p T reads i d = Some (k, r) \<longleftrightarrow>
     i \<le> k \<and> (\<forall>j. i \<le> j \<and> j < k \<longrightarrow> running p T reads d j) \<and>
     \<not> running p T reads d k \<and> r = stops_with p T reads k"
proof
  assume "i \<le> k \<and> (\<forall>j. i \<le> j \<and> j < k \<longrightarrow> running p T reads d j) \<and>
     \<not> running p T reads d k \<and> r = stops_with p T reads k"
  then show "busy_wait_until p T reads i d = Some (k, r)"
    using busy_wait_until_runs[of i k p T reads d] busy_wait_until_step[of p T reads k d] by simp
qed (auto dest: busy_wait_until_SomeD)

text \<open>Divisions that undo each other up to rounding.\<close>

lemma div_roundtrip:
  fixes t num den :: nat
  assumes "0 < num" and "0 < den"
  defines "t' \<equiv> (t * num div den) * den div num"
  shows "t' \<le> t" and "(t - t') * num \<le> den + num - 2"
proof -
  define q where "q = t * num div den * den"
  have q: "q \<le> t * num" "t * num < q + den"
    using assms(2) dividend_less_div_times[of den "t * num"] by (auto simp: q_def)
  have t': "t' * num \<le> q" "q < t' * num + num"
    using assms(1) dividend_less_div_times[of num q] by (auto simp: t'_def q_def)
  from q(1) t'(1) have "t' * num \<le> t * num" by linarith
  with assms(1) show "t' \<le> t" by simp
  have "(t - t') * num = t * num - t' * num" by (rule diff_mult_distrib)
  with q t' show "(t - t') * num \<le> den + num - 2" by linarith
qed

section \<open>The contract of a clock\<close>

text \<open>
  Ticks are counted from \<^verbatim>\<open>start\<close>, and below \<^verbatim>\<open>limit\<close> ticks the conversions are
  the multiplication by \<^verbatim>\<open>num / den\<close> nanoseconds per tick, rounded down.
\<close>

locale clock =
  fixes T :: time_if and start :: u64 and limit num den :: nat
  assumes counter: "start \<le> c \<Longrightarrow> current_ticks T c = Inr (c - start)"
    and scale: "0 < limit \<Longrightarrow> 0 < num \<and> 0 < den"
    and to_nanos: "unat t < limit \<Longrightarrow>
      \<exists>n. ticks_to_nanos T t = Inr n \<and> unat n = unat t * num div den"
    and to_ticks: "0 < limit \<Longrightarrow> unat n \<le> (limit - 1) * num div den \<Longrightarrow>
      \<exists>t. nanos_to_ticks T n = Inr t \<and> unat t = unat n * den div num"
begin

lemma monotonic_time_exact:
  assumes "start \<le> c" and "unat (c - start) < limit"
  shows "\<exists>n. monotonic_time_nanos T c = Inr n \<and> unat n = unat (c - start) * num div den"
  using to_nanos[OF assms(2)] by (simp add: monotonic_time_nanos_def counter assms(1))

lemma monotonic_time_mono:
  assumes "start \<le> a" and "a \<le> b" and "unat (b - start) < limit"
  shows "\<exists>m n. monotonic_time_nanos T a = Inr m \<and> monotonic_time_nanos T b = Inr n \<and> m \<le> n"
proof -
  have le: "unat (a - start) \<le> unat (b - start)"
    using assms(1,2) by (simp add: unat_minus_exact word_le_nat_alt diff_le_mono)
  with assms(3) have "unat (a - start) < limit" by simp
  from monotonic_time_exact[OF assms(1) this]
    monotonic_time_exact[OF order_trans[OF assms(1,2)] assms(3)]
  obtain m n where "monotonic_time_nanos T a = Inr m" "unat m = unat (a - start) * num div den"
    "monotonic_time_nanos T b = Inr n" "unat n = unat (b - start) * num div den"
    by auto
  moreover from this le have "m \<le> n" by (simp add: word_le_nat_alt div_le_mono)
  ultimately show ?thesis by blast
qed

lemma ticks_nanos_ticks:
  assumes "unat t < limit"
  shows "\<exists>n t'. ticks_to_nanos T t = Inr n \<and> nanos_to_ticks T n = Inr t' \<and> t' \<le> t \<and>
    (unat t - unat t') * num \<le> den + num - 2"
proof -
  have pos: "0 < limit" using assms by simp
  obtain n where n: "ticks_to_nanos T t = Inr n" "unat n = unat t * num div den"
    using to_nanos[OF assms] by blast
  have "unat t \<le> limit - 1" using assms by simp
  with n(2) have "unat n \<le> (limit - 1) * num div den" by (simp add: div_le_mono)
  then obtain t' where t': "nanos_to_ticks T n = Inr t'" "unat t' = unat n * den div num"
    using to_ticks[OF pos] by blast
  show ?thesis
    using n t' div_roundtrip[of num den "unat t"] scale[OF pos] by (auto simp: word_le_nat_alt)
qed

lemma rounded_roundtrip:
  assumes "unat t < limit"
  shows "\<exists>t'. rbind (ticks_to_nanos T t) (nanos_to_ticks T) = Inr t' \<and> t' \<le> t \<and>
    (unat t - unat t') * num \<le> den + num - 2"
  using ticks_nanos_ticks[OF assms] by (auto simp: rbind_Inr_iff)

lemma exact_roundtrip:
  assumes "den = 1" and "unat t < limit"
  shows "rbind (ticks_to_nanos T t) (nanos_to_ticks T) = Inr t"
proof -
  obtain t' where t': "rbind (ticks_to_nanos T t) (nanos_to_ticks T) = Inr t'" "t' \<le> t"
    "(unat t - unat t') * num \<le> num - 1"
    using rounded_roundtrip[OF assms(2)] assms(1) by auto
  moreover have "0 < num" using scale assms(2) by simp
  ultimately have "unat t - unat t' = 0" by (cases "unat t - unat t'") auto
  with t'(2) have "t' = t" by (simp add: word_le_nat_alt word_unat_eq_iff)
  with t'(1) show ?thesis by simp
qed

end

section \<open>The Arm generic timer and the PL031\<close>

text \<open>
  The crate \<^verbatim>\<open>int_ratio\<close> is a parameter: the zero ratio, a ratio from numerator
  and denominator, its inverse, and the multiplication that rounds down.
\<close>

record 'r ratio_ops =
  ratio_new :: "u32 \<Rightarrow> u32 \<Rightarrow> 'r"
  ratio_inverse :: "'r \<Rightarrow> 'r"
  mul_trunc :: "'r \<Rightarrow> u64 \<Rightarrow> u64"

text \<open>What the crate documents.\<close>

definition ratio_doc :: "'r ratio_ops \<Rightarrow> bool" where
  "ratio_doc R \<longleftrightarrow>
     (\<forall>n d. n \<noteq> 0 \<and> d \<noteq> 0 \<longrightarrow> ratio_inverse R (ratio_new R n d) = ratio_new R d n) \<and>
     (\<forall>n d v. d \<noteq> 0 \<and> unat v * unat n div unat d < 2 ^ 64 \<longrightarrow>
        unat (mul_trunc R (ratio_new R n d) v) = unat v * unat n div unat d)"

text \<open>An instance: a ratio is the pair of its numerator and denominator.\<close>

definition exact_ratio :: "(u32 \<times> u32) ratio_ops" where
  "exact_ratio =
    \<lparr>ratio_new = (\<lambda>n d. (n, d)), ratio_inverse = (\<lambda>(n, d). (d, n)),
     mul_trunc = (\<lambda>(n, d) v. of_nat (unat v * unat n div unat d))\<rparr>"

lemma exact_ratio_doc: "ratio_doc exact_ratio"
  by (auto simp: ratio_doc_def exact_ratio_def unat_of_nat simp del: of_nat_mult)

text \<open>The statics \<^verbatim>\<open>CNTPCT_TO_NANOS_RATIO\<close> and \<^verbatim>\<open>NANOS_TO_CNTPCT_RATIO\<close>.\<close>

record 'r generic_timer =
  CNTPCT_TO_NANOS_RATIO :: 'r
  NANOS_TO_CNTPCT_RATIO :: 'r

definition generic_timer_init_early :: "'r ratio_ops \<Rightarrow> u32 \<Rightarrow> 'r generic_timer" where
  "generic_timer_init_early R freq =
    (let r = ratio_new R 1000000000 freq
     in \<lparr>CNTPCT_TO_NANOS_RATIO = r, NANOS_TO_CNTPCT_RATIO = ratio_inverse R r\<rparr>)"

definition generic_ticks_to_nanos :: "'r ratio_ops \<Rightarrow> 'r generic_timer \<Rightarrow> u64 \<Rightarrow> u64" where
  "generic_ticks_to_nanos R st ticks = mul_trunc R (CNTPCT_TO_NANOS_RATIO st) ticks"

definition generic_nanos_to_ticks :: "'r ratio_ops \<Rightarrow> 'r generic_timer \<Rightarrow> u64 \<Rightarrow> u64" where
  "generic_nanos_to_ticks R st nanos = mul_trunc R (NANOS_TO_CNTPCT_RATIO st) nanos"

text \<open>\<^verbatim>\<open>debug_assert!\<close> is checked in the debug profile only.\<close>

definition debug_assert :: "profile \<Rightarrow> bool \<Rightarrow> panic + unit" where
  "debug_assert p b = (if p = Debug \<and> \<not> b then Inl AssertFailed else Inr ())"

definition generic_set_oneshot_timer ::
  "profile \<Rightarrow> 'r ratio_ops \<Rightarrow> 'r generic_timer \<Rightarrow> u64 \<Rightarrow> u64 \<Rightarrow> (timer_cmd, unit) io" where
  "generic_set_oneshot_timer p R st cur_ticks deadline_ns =
    (let deadline_ticks = generic_nanos_to_ticks R st deadline_ns
     in if cur_ticks < deadline_ticks
        then bind_io (lift_io (usub p deadline_ticks cur_ticks)) (\<lambda>interval.
             bind_io (lift_io (debug_assert p (interval \<le> 0xFFFFFFFF))) (\<lambda>_.
             emit (SetCountdown (ucast interval))))
        else emit (SetCountdown 0))"

definition generic_timer_enable_irqs :: "u64 \<Rightarrow> (timer_cmd, unit) io" where
  "generic_timer_enable_irqs timer_irq_num =
     seq_io (emit (CounterEnable True))
     (seq_io (emit (SetCountdown 0))
     (emit (IrqSetEnable timer_irq_num True)))"

text \<open>The implementation that the macro \<^verbatim>\<open>time_if_impl!\<close> generates.\<close>

definition arm_time_if :: "profile \<Rightarrow> 'r ratio_ops \<Rightarrow> 'r generic_timer \<Rightarrow> u64 \<Rightarrow> time_if" where
  "arm_time_if p R st offset =
    \<lparr>current_ticks = (\<lambda>c. Inr c),
     ticks_to_nanos = (\<lambda>t. Inr (generic_ticks_to_nanos R st t)),
     nanos_to_ticks = (\<lambda>n. Inr (generic_nanos_to_ticks R st n)),
     epochoffset_nanos = offset,
     set_oneshot_timer = generic_set_oneshot_timer p R st\<rparr>"

text \<open>
  \<^verbatim>\<open>pl031::init_early\<close>, from the address of the RTC, the seconds it reports and
  the counter value; the result is the new value of \<^verbatim>\<open>RTC_EPOCHOFFSET_NANOS\<close>,
  whose old value is the last argument.
\<close>

definition pl031_init_early ::
  "profile \<Rightarrow> 'r ratio_ops \<Rightarrow> 'r generic_timer \<Rightarrow> u64 \<Rightarrow> u32 \<Rightarrow> u64 \<Rightarrow> u64 \<Rightarrow> panic + u64" where
  "pl031_init_early p R st rtc_base timestamp c offset =
    (if rtc_base = 0 then Inr offset
     else rbind (umul p (ucast timestamp) 1000000000) (\<lambda>epoch_time_nanos.
          usub p epoch_time_nanos (generic_ticks_to_nanos R st c)))"

text \<open>The number of ticks below which the conversions to nanoseconds are exact.\<close>

definition arm_tick_limit :: "u32 \<Rightarrow> nat" where
  "arm_tick_limit freq =
     (if freq = 0 \<or> 1000000000 < freq then 0
      else (2 ^ 64 - 1) * unat freq div 1000000000 + 1)"

lemma arm_clock:
  assumes "ratio_doc R"
  shows "clock (arm_time_if p R (generic_timer_init_early R freq) offset) 0
    (arm_tick_limit freq) 1000000000 (unat freq)"
proof
  fix t :: u64
  assume t: "unat t < arm_tick_limit freq"
  then have f: "freq \<noteq> 0" and "unat t \<le> (2 ^ 64 - 1) * unat freq div 1000000000"
    by (auto simp: arm_tick_limit_def split: if_splits)
  then have "unat t * 1000000000 \<le> (2 ^ 64 - 1) * unat freq"
    by (simp add: less_eq_div_iff_mult_less_eq)
  moreover have "0 < unat freq" using f by (simp add: unat_gt_0)
  ultimately have "unat t * 1000000000 div unat freq \<le> 2 ^ 64 - 1"
    by (metis div_le_mono nonzero_mult_div_cancel_right not_gr_zero)
  then show "\<exists>n. ticks_to_nanos (arm_time_if p R (generic_timer_init_early R freq) offset) t = Inr n \<and>
      unat n = unat t * 1000000000 div unat freq"
    using assms f
    by (simp add: arm_time_if_def generic_ticks_to_nanos_def generic_timer_init_early_def
        ratio_doc_def Let_def)
next
  fix n :: u64
  assume "0 < arm_tick_limit freq"
  then have f: "freq \<noteq> 0" "unat freq \<le> 1000000000"
    by (auto simp: arm_tick_limit_def word_less_nat_alt not_less split: if_splits)
  have "unat n * unat freq div 1000000000 \<le> unat n * 1000000000 div 1000000000"
    by (rule div_le_mono) (rule mult_le_mono2[OF f(2)])
  moreover have "unat n < 2 ^ LENGTH(64)" by (rule unsigned_less)
  ultimately have small: "unat n * unat freq div 1000000000 < 2 ^ 64" by simp
  then show "\<exists>t. nanos_to_ticks (arm_time_if p R (generic_timer_init_early R freq) offset) n = Inr t \<and>
      unat t = unat n * unat freq div 1000000000"
    using assms f small
    by (simp add: arm_time_if_def generic_nanos_to_ticks_def generic_timer_init_early_def
        ratio_doc_def Let_def)
qed (auto simp: arm_time_if_def arm_tick_limit_def unat_gt_0 split: if_splits)

section \<open>The x86 TSC and the local APIC timer\<close>

text \<open>The statics of the module; \<open>x86_EPOCHOFFSET\<close> is its \<^verbatim>\<open>RTC_EPOCHOFFSET_NANOS\<close>.\<close>

record 'r x86_time =
  INIT_TICK :: u64
  CPU_FREQ_MHZ :: u64
  x86_EPOCHOFFSET :: u64
  NANOS_TO_LAPIC_TICKS_RATIO :: 'r

definition LAPIC_TICKS_PER_SEC :: u64 where "LAPIC_TICKS_PER_SEC = 1000000000"

definition x86_time_static :: "(u64, 'm) freq_config_scheme \<Rightarrow> 'r \<Rightarrow> 'r x86_time" where
  "x86_time_static cfg ratio_zero =
    \<lparr>INIT_TICK = 0, CPU_FREQ_MHZ = TIMER_FREQUENCY cfg div 1000000, x86_EPOCHOFFSET = 0,
     NANOS_TO_LAPIC_TICKS_RATIO = ratio_zero\<rparr>"

definition x86_ticks_to_nanos :: "profile \<Rightarrow> 'r x86_time \<Rightarrow> u64 \<Rightarrow> panic + u64" where
  "x86_ticks_to_nanos p st ticks =
     rbind (umul p ticks 1000) (\<lambda>m. udiv m (CPU_FREQ_MHZ st))"

definition x86_nanos_to_ticks :: "profile \<Rightarrow> 'r x86_time \<Rightarrow> u64 \<Rightarrow> panic + u64" where
  "x86_nanos_to_ticks p st nanos =
     rbind (umul p nanos (CPU_FREQ_MHZ st)) (\<lambda>m. udiv m 1000)"

text \<open>
  \<^verbatim>\<open>time::init_early\<close>: the base frequency that CPUID reports in MHz, the TSC, and
  with the feature \<^verbatim>\<open>rtc\<close> the seconds that the RTC reports.
\<close>

definition x86_time_init_early ::
  "profile \<Rightarrow> bool \<Rightarrow> 16 word option \<Rightarrow> u64 \<Rightarrow> u64 \<Rightarrow> 'r x86_time \<Rightarrow>
    (timer_cmd, 'r x86_time) io" where
  "x86_time_init_early p rtc cpuid_mhz tsc timestamp st =
    (let st1 = (case cpuid_mhz of
                  Some freq \<Rightarrow> if freq > 0 then st\<lparr>CPU_FREQ_MHZ := ucast freq\<rparr> else st
                | None \<Rightarrow> st);
         st2 = st1\<lparr>INIT_TICK := tsc\<rparr>
     in seq_io (emit (PrintTscFrequency (CPU_FREQ_MHZ st1)))
        (if rtc
         then bind_io (lift_io (umul p timestamp 1000000000)) (\<lambda>epoch.
              bind_io (lift_io (x86_ticks_to_nanos p st2 (INIT_TICK st2))) (\<lambda>n.
              bind_io (lift_io (usub p epoch n)) (\<lambda>offset.
              ret_io (st2\<lparr>x86_EPOCHOFFSET := offset\<rparr>))))
         else ret_io st2))"

definition x86_time_init_primary ::
  "bool \<Rightarrow> 'r ratio_ops \<Rightarrow> 'r x86_time \<Rightarrow> (timer_cmd, 'r x86_time) io" where
  "x86_time_init_primary irq R st =
    (if irq
     then seq_io (emit LapicOneShot) (seq_io (emit LapicDivideBy1) (seq_io (emit LapicTimerEnable)
            (ret_io (st\<lparr>NANOS_TO_LAPIC_TICKS_RATIO :=
               ratio_new R (ucast LAPIC_TICKS_PER_SEC) (ucast NANOS_PER_SEC)\<rparr>))))
     else ret_io st)"

definition x86_time_init_secondary :: "bool \<Rightarrow> (timer_cmd, unit) io" where
  "x86_time_init_secondary irq = (if irq then emit LapicTimerEnable else ret_io ())"

definition x86_current_ticks :: "profile \<Rightarrow> 'r x86_time \<Rightarrow> u64 \<Rightarrow> panic + u64" where
  "x86_current_ticks p st tsc = usub p tsc (INIT_TICK st)"

definition x86_set_oneshot_timer ::
  "profile \<Rightarrow> 'r ratio_ops \<Rightarrow> 'r x86_time \<Rightarrow> u64 \<Rightarrow> u64 \<Rightarrow> (timer_cmd, unit) io" where
  "x86_set_oneshot_timer p R st tsc deadline_ns =
     bind_io (lift_io (rbind (x86_current_ticks p st tsc) (x86_ticks_to_nanos p st))) (\<lambda>now_ns.
       if now_ns < deadline_ns
       then bind_io (lift_io (usub p deadline_ns now_ns)) (\<lambda>d.
            let apic_ticks = mul_trunc R (NANOS_TO_LAPIC_TICKS_RATIO st) d
            in bind_io (lift_io (if apic_ticks \<le> 0xFFFFFFFF then Inr () else Inl AssertFailed))
                 (\<lambda>_. emit (LapicInitial (ucast (max apic_ticks 1)))))
       else emit (LapicInitial 1))"

definition x86_time_if :: "profile \<Rightarrow> 'r ratio_ops \<Rightarrow> 'r x86_time \<Rightarrow> time_if" where
  "x86_time_if p R st =
    \<lparr>current_ticks = x86_current_ticks p st,
     ticks_to_nanos = x86_ticks_to_nanos p st,
     nanos_to_ticks = x86_nanos_to_ticks p st,
     epochoffset_nanos = x86_EPOCHOFFSET st,
     set_oneshot_timer = x86_set_oneshot_timer p R st\<rparr>"

definition x86_tick_limit :: "'r x86_time \<Rightarrow> nat" where
  "x86_tick_limit st = (if CPU_FREQ_MHZ st = 0 then 0 else (2 ^ 64 - 1) div 1000 + 1)"

interpretation x86_clock: clock "x86_time_if p R st" "INIT_TICK st"
  "x86_tick_limit st" 1000 "unat (CPU_FREQ_MHZ st)" for p R st
proof
  fix t :: u64
  assume t: "unat t < x86_tick_limit st"
  then have "CPU_FREQ_MHZ st \<noteq> 0" and "unat t * unat (1000 :: u64) < 2 ^ 64"
    by (auto simp: x86_tick_limit_def split: if_splits)
  then show "\<exists>n. ticks_to_nanos (x86_time_if p R st) t = Inr n \<and>
      unat n = unat t * 1000 div unat (CPU_FREQ_MHZ st)"
    by (simp add: x86_time_if_def x86_ticks_to_nanos_def umul_exact udiv_exact unat_div_exact
        unat_mult_exact)
next
  fix n :: u64
  assume pos: "0 < x86_tick_limit st"
    and n: "unat n \<le> (x86_tick_limit st - 1) * 1000 div unat (CPU_FREQ_MHZ st)"
  then have "0 < unat (CPU_FREQ_MHZ st)" "x86_tick_limit st - 1 = (2 ^ 64 - 1) div 1000"
    by (auto simp: x86_tick_limit_def unat_gt_0 split: if_splits)
  with n have "unat n * unat (CPU_FREQ_MHZ st) < 2 ^ 64"
    by (simp add: less_eq_div_iff_mult_less_eq)
  then show "\<exists>t. nanos_to_ticks (x86_time_if p R st) n = Inr t \<and>
      unat t = unat n * unat (CPU_FREQ_MHZ st) div 1000"
    by (simp add: x86_time_if_def x86_nanos_to_ticks_def umul_exact udiv_exact unat_div_exact
        unat_mult_exact)
qed (auto simp: x86_time_if_def x86_current_ticks_def usub_exact x86_tick_limit_def unat_gt_0
      split: if_splits)

section \<open>The RISC-V time register\<close>

text \<open>The constant expression is evaluated by the compiler, which rejects a zero frequency.\<close>

definition riscv_NANOS_PER_TICK :: "(u64, 'm) freq_config_scheme \<Rightarrow> u64" where
  "riscv_NANOS_PER_TICK cfg = 1000000000 div TIMER_FREQUENCY cfg"

definition riscv_time_if :: "profile \<Rightarrow> (u64, 'm) freq_config_scheme \<Rightarrow> u64 \<Rightarrow> time_if" where
  "riscv_time_if p cfg offset =
    \<lparr>current_ticks = (\<lambda>c. Inr c),
     ticks_to_nanos = (\<lambda>t. umul p t (riscv_NANOS_PER_TICK cfg)),
     nanos_to_ticks = (\<lambda>n. udiv n (riscv_NANOS_PER_TICK cfg)),
     epochoffset_nanos = offset,
     set_oneshot_timer = (\<lambda>c deadline_ns.
       bind_io (lift_io (udiv deadline_ns (riscv_NANOS_PER_TICK cfg))) (\<lambda>t. emit (SbiSetTimer t)))\<rparr>"

text \<open>\<^verbatim>\<open>time::init_early\<close>, from the seconds the goldfish RTC reports, and \<^verbatim>\<open>init_percpu\<close>.\<close>

definition riscv_time_init_early ::
  "profile \<Rightarrow> bool \<Rightarrow> (u64, 'm) riscv_config_scheme \<Rightarrow> u64 \<Rightarrow> u64 \<Rightarrow> u64 \<Rightarrow> panic + u64" where
  "riscv_time_init_early p rtc cfg timestamp c offset =
    (if rtc \<and> riscv_RTC_PADDR cfg \<noteq> 0
     then rbind (umul p timestamp 1000000000) (\<lambda>epoch.
          rbind (rbind (current_ticks (riscv_time_if p cfg offset) c)
                   (ticks_to_nanos (riscv_time_if p cfg offset))) (\<lambda>n.
          usub p epoch n))
     else Inr offset)"

definition riscv_time_init_percpu :: "bool \<Rightarrow> (timer_cmd, unit) io" where
  "riscv_time_init_percpu irq = (if irq then emit (SbiSetTimer 0) else ret_io ())"

text \<open>The ticks that a whole number of nanoseconds per tick does not overflow.\<close>

definition whole_tick_limit :: "u64 \<Rightarrow> nat" where
  "whole_tick_limit npt = (if npt = 0 then 0 else (2 ^ 64 - 1) div unat npt + 1)"

lemma whole_tick_law:
  assumes "unat t < whole_tick_limit npt"
  shows "umul p t npt = Inr (t * npt)" and "unat (t * npt) = unat t * unat npt"
proof -
  have "unat t * unat npt < 2 ^ 64"
    using assms
    by (auto simp: whole_tick_limit_def unat_gt_0 less_Suc_eq_le less_eq_div_iff_mult_less_eq
        split: if_splits)
  then show "umul p t npt = Inr (t * npt)" and "unat (t * npt) = unat t * unat npt"
    by (simp_all add: umul_exact unat_mult_exact)
qed

lemma whole_tick_limit_pos: "0 < whole_tick_limit npt \<longleftrightarrow> npt \<noteq> 0"
  by (simp add: whole_tick_limit_def)

interpretation riscv_clock: clock "riscv_time_if p cfg offset" 0
  "whole_tick_limit (riscv_NANOS_PER_TICK cfg)" "unat (riscv_NANOS_PER_TICK cfg)" 1 for p cfg offset
  by unfold_locales
    (auto simp: riscv_time_if_def whole_tick_law whole_tick_limit_pos udiv_exact unat_div_exact
       unat_gt_0)

section \<open>The LoongArch stable counter\<close>

text \<open>\<^verbatim>\<open>init_early\<close> stores the nanoseconds per tick of the frequency that the CPU reports.\<close>

definition loongarch_nanos_per_tick :: "u64 \<Rightarrow> panic + u64" where
  "loongarch_nanos_per_tick freq = udiv NANOS_PER_SEC freq"

definition loongarch_set_oneshot_timer ::
  "profile \<Rightarrow> u64 \<Rightarrow> u64 \<Rightarrow> u64 \<Rightarrow> (timer_cmd, unit) io" where
  "loongarch_set_oneshot_timer p npt ticks_now deadline_ns =
     bind_io (lift_io (udiv deadline_ns npt)) (\<lambda>ticks_deadline.
     bind_io (lift_io (usub p ticks_deadline ticks_now)) (\<lambda>init_value.
     seq_io (emit (TcfgInitVal init_value)) (emit (TcfgEnable True))))"

definition loongarch_time_if :: "profile \<Rightarrow> u64 \<Rightarrow> u64 \<Rightarrow> time_if" where
  "loongarch_time_if p npt offset =
    \<lparr>current_ticks = (\<lambda>c. Inr c),
     ticks_to_nanos = (\<lambda>t. umul p t npt),
     nanos_to_ticks = (\<lambda>n. udiv n npt),
     epochoffset_nanos = offset,
     set_oneshot_timer = loongarch_set_oneshot_timer p npt\<rparr>"

text \<open>
  \<^verbatim>\<open>init_rtc\<close>: the time-of-year counter of the LS7A.  The \<^verbatim>\<open>chrono\<close> crate is a
  parameter: the date of six fields, setting its nanoseconds, and the
  nanoseconds since 1970, each of which it may refuse.
\<close>

definition SYS_TOY_READ0 :: u64 where "SYS_TOY_READ0 = 0x2C"
definition SYS_TOY_READ1 :: u64 where "SYS_TOY_READ1 = 0x30"
definition SYS_RTCCTRL :: u64 where "SYS_RTCCTRL = 0x40"
definition TOY_ENABLE :: u32 where "TOY_ENABLE = push_bit 11 1"
definition OSC_ENABLE :: u32 where "OSC_ENABLE = push_bit 8 1"

definition extract_bits :: "u32 \<Rightarrow> nat \<Rightarrow> nat \<Rightarrow> u32" where
  "extract_bits v s e = drop_bit s v AND (push_bit (e - s) 1 - 1)"

lemma extract_bits_eq: "extract_bits v s e = take_bit (e - s) (drop_bit s v)"
  by (simp add: extract_bits_def take_bit_eq_mask mask_eq_exp_minus_1 push_bit_eq_mult)

lemma bit_field:
  "bit (push_bit s (take_bit n (drop_bit s v))) k \<longleftrightarrow> s \<le> k \<and> k < s + n \<and> bit v k" for v :: u32
  by (auto simp: bit_push_bit_iff bit_take_bit_iff bit_drop_bit_eq
      dest: bit_imp_le_length)

record 'd chrono_ops =
  with_ymd_and_hms :: "u32 \<Rightarrow> u32 \<Rightarrow> u32 \<Rightarrow> u32 \<Rightarrow> u32 \<Rightarrow> u32 \<Rightarrow> 'd option"
  with_nanosecond :: "'d \<Rightarrow> u32 \<Rightarrow> 'd option"
  timestamp_nanos_opt :: "'d \<Rightarrow> u64 option"

text \<open>The sum \<^verbatim>\<open>1900 + toy_high as i32\<close> is a signed one.\<close>

definition sadd32 :: "profile \<Rightarrow> u32 \<Rightarrow> u32 \<Rightarrow> panic + u32" where
  "sadd32 p a b =
    (if p = Debug \<and> (sint a + sint b < - (2 ^ 31) \<or> 2 ^ 31 \<le> sint a + sint b)
     then Inl AddOverflow else Inr (a + b))"

definition unwrap :: "'a option \<Rightarrow> panic + 'a" where
  "unwrap x = (case x of None \<Rightarrow> Inl UnwrapNone | Some y \<Rightarrow> Inr y)"

definition toy_date :: "profile \<Rightarrow> 'd chrono_ops \<Rightarrow> u32 \<Rightarrow> u32 \<Rightarrow> panic + 'd" where
  "toy_date p C toy_high toy_low =
     rbind (sadd32 p 1900 toy_high) (\<lambda>year.
     rbind (unwrap (with_ymd_and_hms C year
              (extract_bits toy_low 26 32) (extract_bits toy_low 21 26) (extract_bits toy_low 16 21)
              (extract_bits toy_low 10 16) (extract_bits toy_low 4 10))) (\<lambda>d.
     rbind (umul p (extract_bits toy_low 0 4) (ucast NANOS_PER_MILLIS)) (\<lambda>ns.
     unwrap (with_nanosecond C d ns))))"

definition loongarch_init_rtc ::
  "profile \<Rightarrow> 'd chrono_ops \<Rightarrow> u64 \<Rightarrow> u32 \<Rightarrow> u32 \<Rightarrow> u64 \<Rightarrow> u64 \<Rightarrow> (timer_cmd, u64) io" where
  "loongarch_init_rtc p C npt toy_high toy_low c offset =
     seq_io (emit (RtcWrite SYS_RTCCTRL (TOY_ENABLE OR OSC_ENABLE)))
     (seq_io (emit (RtcRead SYS_TOY_READ1))
     (seq_io (emit (RtcRead SYS_TOY_READ0))
     (bind_io (lift_io (toy_date p C toy_high toy_low)) (\<lambda>date_time.
      case timestamp_nanos_opt C date_time of
        None \<Rightarrow> ret_io offset
      | Some epoch \<Rightarrow> lift_io (rbind (monotonic_time_nanos (loongarch_time_if p npt offset) c)
                                 (\<lambda>n. usub p epoch n))))))"

text \<open>The second result of \<^verbatim>\<open>init_early\<close> is the new \<^verbatim>\<open>RTC_EPOCHOFFSET_NANOS\<close>.\<close>

definition loongarch_time_init_early ::
  "profile \<Rightarrow> bool \<Rightarrow> 'd chrono_ops \<Rightarrow> u64 \<Rightarrow> u32 \<Rightarrow> u32 \<Rightarrow> u64 \<Rightarrow> (timer_cmd, u64 \<times> u64) io" where
  "loongarch_time_init_early p rtc C freq toy_high toy_low c =
     bind_io (lift_io (loongarch_nanos_per_tick freq)) (\<lambda>npt.
       if rtc
       then bind_io (loongarch_init_rtc p C npt toy_high toy_low c 0) (\<lambda>off. ret_io (npt, off))
       else ret_io (npt, 0))"

definition loongarch_time_init_percpu :: "bool \<Rightarrow> (u64, 'm) plat_config_scheme \<Rightarrow> (timer_cmd, unit) io" where
  "loongarch_time_init_percpu irq cfg =
    (if irq
     then seq_io (emit (TcfgInitVal 0)) (seq_io (emit (TcfgPeriodic False))
            (seq_io (emit (TcfgEnable True)) (emit (IrqSetEnable (TIMER_IRQ cfg) True))))
     else ret_io ())"

interpretation loongarch_clock: clock "loongarch_time_if p npt offset" 0
  "whole_tick_limit npt" "unat npt" 1 for p npt offset
  by unfold_locales
    (auto simp: loongarch_time_if_def whole_tick_law whole_tick_limit_pos udiv_exact unat_div_exact
       unat_gt_0)

section \<open>Waiting, and the epoch offset\<close>

text \<open>A wait on a clock that has reached the deadline by reading \<open>K\<close> ends by then.\<close>

lemma wall_time_nanosD: "wall_time_nanos p T c = Inr n \<Longrightarrow> wall_time p T c = Inr (from_nanos n)"
  by (auto simp: wall_time_def wall_time_nanos_def rbind_Inr_iff)

lemma add_duration_fits:
  assumes "dur_nanos d + dur_nanos e < 2 ^ 64"
  shows "\<exists>s. add_duration d e = Inr s"
proof -
  have "unat (dur_secs d) + unat (dur_secs e) \<le> dur_nanos d + dur_nanos e"
    by (simp add: dur_nanos_def)
  moreover have "unat (dur_secs d) * 1000000000 \<le> dur_nanos d"
    "unat (dur_secs e) * 1000000000 \<le> dur_nanos e"
    by (simp_all add: dur_nanos_def)
  ultimately show ?thesis using assms by (auto simp: add_duration_def Let_def)
qed

lemma busy_wait_reached:
  assumes "proper dur" and "1 \<le> K"
    and walls: "\<And>j. j \<le> K \<Longrightarrow> wall_time_nanos p T (reads j) = Inr (w j)"
    and reached: "unat (w 0) + dur_nanos dur \<le> unat (w K)"
  shows "\<exists>k. 1 \<le> k \<and> k \<le> K \<and> busy_wait p T reads dur = Some (k, Inr ()) \<and>
    unat (w 0) + dur_nanos dur \<le> unat (w k) \<and>
    (\<forall>j. 1 \<le> j \<and> j < k \<longrightarrow> unat (w j) < unat (w 0) + dur_nanos dur)"
proof -
  have wall: "wall_time p T (reads j) = Inr (from_nanos (w j))" if "j \<le> K" for j
    using walls[OF that] by (rule wall_time_nanosD)
  have "unat (w K) < 2 ^ LENGTH(64)" by (rule unsigned_less)
  with reached have "dur_nanos (from_nanos (w 0)) + dur_nanos dur < 2 ^ 64" by simp
  then obtain d where d: "add_duration (from_nanos (w 0)) dur = Inr d"
    using add_duration_fits by blast
  from add_duration_exact[OF from_nanos_proper assms(1) d]
  have "proper d" and dn: "dur_nanos d = unat (w 0) + dur_nanos dur" by auto
  have run: "running p T reads d j \<longleftrightarrow> unat (w j) < dur_nanos d" if "j \<le> K" for j
    using wall[OF that] less_duration_nanos[OF from_nanos_proper \<open>proper d\<close>]
    by (simp add: running_def)
  define k where "k = (LEAST j. 1 \<le> j \<and> \<not> running p T reads d j)"
  have K: "1 \<le> K \<and> \<not> running p T reads d K" using assms(2) run[of K] reached dn by simp
  have k: "1 \<le> k" "\<not> running p T reads d k" "k \<le> K"
    unfolding k_def using LeastI[of "\<lambda>j. 1 \<le> j \<and> \<not> running p T reads d j", OF K] Least_le[of "\<lambda>j. 1 \<le> j \<and> \<not> running p T reads d j", OF K]
    by auto
  have before: "running p T reads d j" if "1 \<le> j" "j < k" for j
    using that not_less_Least[of j "\<lambda>j. 1 \<le> j \<and> \<not> running p T reads d j"] unfolding k_def by blast
  have "busy_wait_until p T reads 1 d = Some (k, Inr ())"
    using k before wall[OF k(3)] by (simp add: busy_wait_until_Some_iff stops_with_def)
  moreover have "wall_time p T (reads 0) = Inr (from_nanos (w 0))" by (rule wall) simp
  ultimately have "busy_wait p T reads dur = Some (k, Inr ())"
    by (simp add: busy_wait_def d)
  moreover have "unat (w 0) + dur_nanos dur \<le> unat (w k)" using k run[OF k(3)] dn by simp
  moreover have "unat (w j) < unat (w 0) + dur_nanos dur" if "1 \<le> j" "j < k" for j
    using before[OF that] run[of j] that k(3) dn by simp
  ultimately show ?thesis using k by blast
qed

text \<open>An offset that is the difference of two times gives back the later one.\<close>

lemma offset_gives_epoch: "usub p epoch n = Inr offset \<Longrightarrow> uadd p n offset = Inr epoch"
  by (metis uadd_commute uadd_usub_iff)

section \<open>Properties\<close>

text \<open>Two readings of a clock, the second not earlier than the first.\<close>

definition never_backwards :: "time_if \<Rightarrow> u64 \<Rightarrow> u64 \<Rightarrow> bool" where
  "never_backwards T a b =
    (case (monotonic_time_nanos T a, monotonic_time_nanos T b) of
       (Inr m, Inr n) \<Rightarrow> m \<le> n | _ \<Rightarrow> False)"

lemma never_backwardsI:
  "\<exists>m n. monotonic_time_nanos T a = Inr m \<and> monotonic_time_nanos T b = Inr n \<and> m \<le> n \<Longrightarrow>
     never_backwards T a b"
  by (auto simp: never_backwards_def)

text \<open>
  C27: On every platform and in both build profiles the monotonic time of a
  later counter value is not smaller, and neither panics, as long as the ticks
  since boot stay below the platform's limit (the ticks whose nanoseconds fit
  64 bits; on x86 the ticks whose thousandfold does).
\<close>

theorem monotonic_time_monotone:
  assumes "ratio_doc R" and "a \<le> b"
  shows "(unat b < arm_tick_limit freq \<longrightarrow>
      never_backwards (arm_time_if p R (generic_timer_init_early R freq) offset) a b) \<and>
    (unat b < whole_tick_limit (riscv_NANOS_PER_TICK cfg) \<longrightarrow>
      never_backwards (riscv_time_if p cfg offset) a b) \<and>
    (unat b < whole_tick_limit npt \<longrightarrow> never_backwards (loongarch_time_if p npt offset) a b) \<and>
    (INIT_TICK st \<le> a \<and> unat (b - INIT_TICK st) < x86_tick_limit st \<longrightarrow>
      never_backwards (x86_time_if p R' st) a b)"
  by (intro conjI impI; rule never_backwardsI;
      rule clock.monotonic_time_mono[OF arm_clock[OF assms(1)] _ assms(2)]
        riscv_clock.monotonic_time_mono[OF _ assms(2)]
        loongarch_clock.monotonic_time_mono[OF _ assms(2)]
        x86_clock.monotonic_time_mono[OF _ assms(2)];
      simp)

theorem monotonic_time_monotone_witness:
  "never_backwards (arm_time_if Debug exact_ratio (generic_timer_init_early exact_ratio 62500000) 0)
     1000 2000"
proof -
  have "(1000 :: u64) \<le> 2000" by simp
  from conjunct1[OF monotonic_time_monotone[OF exact_ratio_doc this, of 62500000 Debug 0]]
  show ?thesis by (simp add: arm_tick_limit_def)
qed



text \<open>
  C26: \<^verbatim>\<open>busy_wait_until\<close> returns exactly when some reading of the clock has
  reached the deadline (or panics), at the first such reading; without one it
  spins forever.
\<close>

theorem busy_wait_until_returns_iff:
  "(\<exists>r. busy_wait_until p T reads i d = Some (k, r)) \<longleftrightarrow>
     i \<le> k \<and> (\<forall>j. i \<le> j \<and> j < k \<longrightarrow> (\<exists>t. wall_time p T (reads j) = Inr t \<and> t < d)) \<and>
     \<not> (\<exists>t. wall_time p T (reads k) = Inr t \<and> t < d)"
proof -
  have "running p T reads d j \<longleftrightarrow> (\<exists>t. wall_time p T (reads j) = Inr t \<and> t < d)" for j
    by (auto simp: running_def split: sum.splits)
  then show ?thesis by (simp add: busy_wait_until_Some_iff)
qed

theorem busy_wait_until_returns_iff_witness:
  "\<exists>r. busy_wait_until Debug (riscv_time_if Debug riscv64_qemu_config 0) (\<lambda>j. of_nat j * 1000) 0
     (Duration 0 250000) = Some (3, r)"
proof -
  note ev = wall_time_def monotonic_time_nanos_def riscv_time_if_def riscv_NANOS_PER_TICK_def
    config_defs umul_def uadd_def from_nanos_def less_duration_def
  let ?wall = "\<lambda>j. wall_time Debug (riscv_time_if Debug riscv64_qemu_config 0) (of_nat j * 1000)"
  have "\<exists>t. ?wall j = Inr t \<and> t < Duration 0 250000" if "j < 3" for j :: nat
  proof -
    from that have "j = 0 \<or> j = 1 \<or> j = 2" by auto
    then show ?thesis by (elim disjE) (simp_all add: ev)
  qed
  moreover have "\<not> (\<exists>t. ?wall 3 = Inr t \<and> t < Duration 0 250000)" by (simp add: ev)
  ultimately show ?thesis by (subst busy_wait_until_returns_iff) blast
qed

text \<open>
  C25: \<^verbatim>\<open>busy_wait\<close> waits at least the given duration and stops at the first
  reading of the wall clock that is that much later than the one at its start;
  it does return once the clock shows such a time.
\<close>

theorem busy_wait_waits:
  assumes "proper dur" and "1 \<le> K"
    and "\<And>j. j \<le> K \<Longrightarrow> wall_time_nanos p T (reads j) = Inr (w j)"
    and "unat (w 0) + dur_nanos dur \<le> unat (w K)"
  shows "\<exists>k. 1 \<le> k \<and> k \<le> K \<and> busy_wait p T reads dur = Some (k, Inr ()) \<and>
    unat (w 0) + dur_nanos dur \<le> unat (w k) \<and>
    (\<forall>j. 1 \<le> j \<and> j < k \<longrightarrow> unat (w j) < unat (w 0) + dur_nanos dur)"
  by (rule busy_wait_reached[OF assms])

theorem busy_wait_waits_witness:
  "\<exists>k. 1 \<le> k \<and> k \<le> 2 \<and>
    busy_wait Debug (riscv_time_if Debug riscv64_qemu_config 7) (\<lambda>j. of_nat j * 1000) (Duration 0 150000)
      = Some (k, Inr ())"
proof -
  let ?w = "\<lambda>j :: nat. of_nat j * 100000 + 7 :: u64"
  have "wall_time_nanos Debug (riscv_time_if Debug riscv64_qemu_config 7) (of_nat j * 1000) = Inr (?w j)"
    if "j \<le> 2" for j :: nat
  proof -
    from that have "j = 0 \<or> j = 1 \<or> j = 2" by auto
    then show ?thesis
      by (elim disjE) (simp_all add: wall_time_nanos_def monotonic_time_nanos_def riscv_time_if_def
          riscv_NANOS_PER_TICK_def config_defs umul_def uadd_def)
  qed
  from busy_wait_waits[of "Duration 0 150000" 2 Debug _ "\<lambda>j. of_nat j * 1000" ?w, OF _ _ this]
  show ?thesis by (auto simp: proper_def dur_nanos_def)
qed

text \<open>
  C29: After the RTC has been read at boot, the wall clock agrees with it: at
  the counter value of that moment it shows the time the RTC reported, on Arm,
  RISC-V and LoongArch and in both build profiles.
\<close>

theorem rtc_wall_clock:
  "(pl031_init_early p R gt base ts c off = Inr off1 \<and> base \<noteq> 0 \<longrightarrow>
      wall_time_nanos p (arm_time_if p R gt off1) c = umul p (ucast ts) 1000000000) \<and>
   (riscv_time_init_early p True cfg secs c off = Inr off2 \<and> riscv_RTC_PADDR cfg \<noteq> 0 \<longrightarrow>
      wall_time_nanos p (riscv_time_if p cfg off2) c = umul p secs 1000000000) \<and>
   (loongarch_init_rtc p C npt high low c off = (cmds, Inr off3) \<and>
      toy_date p C high low = Inr date \<and> timestamp_nanos_opt C date = Some epoch \<longrightarrow>
      wall_time_nanos p (loongarch_time_if p npt off3) c = Inr epoch)"
proof (intro conjI impI; elim conjE)
  assume "pl031_init_early p R gt base ts c off = Inr off1" and "base \<noteq> 0"
  then show "wall_time_nanos p (arm_time_if p R gt off1) c = umul p (ucast ts) 1000000000"
    by (auto simp: pl031_init_early_def rbind_Inr_iff wall_time_nanos_def monotonic_time_nanos_def
        arm_time_if_def offset_gives_epoch)
next
  assume "riscv_time_init_early p True cfg secs c off = Inr off2" and "riscv_RTC_PADDR cfg \<noteq> 0"
  then show "wall_time_nanos p (riscv_time_if p cfg off2) c = umul p secs 1000000000"
    by (auto simp: riscv_time_init_early_def rbind_Inr_iff wall_time_nanos_def
        monotonic_time_nanos_def riscv_time_if_def offset_gives_epoch)
next
  assume "loongarch_init_rtc p C npt high low c off = (cmds, Inr off3)"
    and "toy_date p C high low = Inr date" and "timestamp_nanos_opt C date = Some epoch"
  then show "wall_time_nanos p (loongarch_time_if p npt off3) c = Inr epoch"
    by (auto simp: loongarch_init_rtc_def io_simps rbind_Inr_iff wall_time_nanos_def
        monotonic_time_nanos_def loongarch_time_if_def offset_gives_epoch)
qed

theorem rtc_wall_clock_witness:
  "wall_time_nanos Debug (riscv_time_if Debug riscv64_qemu_config 1699999999999000000) 10000
    = Inr 1700000000000000000"
proof -
  have "riscv_time_init_early Debug True riscv64_qemu_config 1700000000 10000 0
      = Inr 1699999999999000000"
    by (simp add: riscv_time_init_early_def riscv_time_if_def riscv_NANOS_PER_TICK_def config_defs
        umul_def usub_def)
  moreover have "riscv_RTC_PADDR riscv64_qemu_config \<noteq> 0" by (simp add: config_defs)
  ultimately show ?thesis
    using conjunct1[OF conjunct2[OF rtc_wall_clock[of Debug exact_ratio undefined 0 0 10000 0 0
      riscv64_qemu_config 1700000000]]]
    by (simp add: umul_def)
qed

text \<open>
  On x86 the monotonic clock starts at the counter value read at boot, yet
  the epoch offset subtracts that value again: at boot the wall clock shows the
  RTC's time minus the time the counter has run before.
\<close>

theorem x86_wall_clock_lags:
  assumes "snd (x86_time_init_early p True mhz tsc secs st) = Inr st'"
    and "unat tsc * 1000 < 2 ^ 64"
  shows "\<exists>lag. x86_ticks_to_nanos p st' tsc = Inr lag \<and>
    unat lag = unat tsc * 1000 div unat (CPU_FREQ_MHZ st') \<and>
    rbind (wall_time_nanos p (x86_time_if p R st') tsc) (\<lambda>w. uadd p w lag) = umul p secs 1000000000"
proof -
  define st2 where "st2 = (case mhz of
      Some freq \<Rightarrow> if freq > 0 then st\<lparr>CPU_FREQ_MHZ := ucast freq\<rparr> else st
    | None \<Rightarrow> st)\<lparr>INIT_TICK := tsc\<rparr>"
  from assms(1) obtain epoch n off where e: "umul p secs 1000000000 = Inr epoch"
    and n: "x86_ticks_to_nanos p st2 tsc = Inr n" and off: "usub p epoch n = Inr off"
    and st': "st' = st2\<lparr>x86_EPOCHOFFSET := off\<rparr>"
    by (cases "umul p secs 1000000000"; cases "x86_ticks_to_nanos p st2 tsc";
        cases "usub p (projr (umul p secs 1000000000)) (projr (x86_ticks_to_nanos p st2 tsc))")
      (auto simp: x86_time_init_early_def Let_def io_simps st2_def split: option.splits if_splits)
  have st2: "INIT_TICK st2 = tsc" by (simp add: st2_def)
  have same: "x86_ticks_to_nanos p st' t = x86_ticks_to_nanos p st2 t" for t
    by (simp add: x86_ticks_to_nanos_def st')
  have fits: "umul p tsc 1000 = Inr (tsc * 1000)" "unat (tsc * 1000) = unat tsc * 1000"
    using assms(2) umul_exact[of tsc 1000] unat_mult_exact[of tsc 1000] by simp_all
  with n have f0: "CPU_FREQ_MHZ st2 \<noteq> 0" and "n = tsc * 1000 div CPU_FREQ_MHZ st2"
    by (auto simp: x86_ticks_to_nanos_def udiv_def split: if_splits)
  then have lag: "unat n = unat tsc * 1000 div unat (CPU_FREQ_MHZ st')"
    by (simp add: unat_div_exact fits st')
  have "wall_time_nanos p (x86_time_if p R st') tsc = Inr off"
    using f0 st2
    by (simp add: wall_time_nanos_def monotonic_time_nanos_def x86_time_if_def
        x86_current_ticks_def usub_def x86_ticks_to_nanos_def umul_def udiv_def st')
  then show ?thesis
    using n lag offset_gives_epoch[OF off] by (simp add: same e uadd_commute)
qed

theorem x86_wall_clock_lags_witness:
  "\<exists>lag. x86_ticks_to_nanos Debug
      \<lparr>INIT_TICK = 4000000000, CPU_FREQ_MHZ = 4000, x86_EPOCHOFFSET = 1699999999000000000,
       NANOS_TO_LAPIC_TICKS_RATIO = (1, 1) :: u32 \<times> u32\<rparr> 4000000000 = Inr lag \<and> unat lag = 1000000000"
proof -
  let ?st = "x86_time_static x86_pc_config (1 :: u32, 1 :: u32)"
  have "snd (x86_time_init_early Debug True None 4000000000 1700000000 ?st) =
    Inr \<lparr>INIT_TICK = 4000000000, CPU_FREQ_MHZ = 4000, x86_EPOCHOFFSET = 1699999999000000000,
       NANOS_TO_LAPIC_TICKS_RATIO = (1, 1)\<rparr>"
    by (simp add: x86_time_init_early_def x86_time_static_def config_defs io_simps
        x86_ticks_to_nanos_def umul_def udiv_def usub_def)
  from x86_wall_clock_lags[OF this, of exact_ratio] show ?thesis by auto
qed

text \<open>
  On x86 the conversion to nanoseconds multiplies first: at the first tick
  count whose thousandfold does not fit 64 bits (at 4 GHz, after 53 days) it
  panics in a debug build, and in a release build the clock falls back to zero.
\<close>

theorem x86_clock_overflow:
  assumes "2 ^ 64 \<le> unat t * 1000" and "unat t * 1000 < 2 ^ 64 + 1000"
    and "1000 \<le> CPU_FREQ_MHZ st"
  shows "x86_ticks_to_nanos Debug st t = Inl MulOverflow \<and>
    x86_ticks_to_nanos Release st t = Inr 0 \<and> \<not> unat t < x86_tick_limit st"
proof -
  have "unat (t * 1000) = unat t * 1000 - 2 ^ 64"
    using assms(1,2) by (simp add: unat_word_ariths le_mod_geq)
  with assms(2) have "unat (t * 1000) < 1000" by linarith
  with assms(3) have "t * 1000 div CPU_FREQ_MHZ st = 0" and "CPU_FREQ_MHZ st \<noteq> 0"
    by (auto simp: word_unat_eq_iff unat_div_exact word_le_nat_alt)
  with assms(1) show ?thesis
    by (auto simp: x86_ticks_to_nanos_def umul_def udiv_def x86_tick_limit_def)
qed

theorem x86_clock_overflow_witness:
  "x86_ticks_to_nanos Release (x86_time_static x86_pc_config ()) 18446744073709552 = Inr 0"
  using x86_clock_overflow[of 18446744073709552 "x86_time_static x86_pc_config ()"]
  by (simp add: x86_time_static_def config_defs)

text \<open>
  C30: A one-shot timer on Arm counts down to the tick of the deadline, and at
  once when that tick has passed.  The countdown register has 32 bits: a
  deadline further away panics in a debug build, and in a release build it fires
  early, by a whole number of register periods.
\<close>

theorem generic_oneshot_fires:
  assumes "deadline = generic_nanos_to_ticks R st deadline_ns"
  shows "\<exists>out. generic_set_oneshot_timer p R st now deadline_ns = out \<and>
    (if deadline \<le> now then out = ([SetCountdown 0], Inr ())
     else if unat deadline < unat now + 2 ^ 32
     then \<exists>k. out = ([SetCountdown k], Inr ()) \<and> unat now + unat k = unat deadline
     else if p = Debug then out = ([], Inl AssertFailed)
     else \<exists>k m. out = ([SetCountdown k], Inr ()) \<and> 0 < m \<and>
       unat now + unat k + m * 2 ^ 32 = unat deadline)"
proof (cases "deadline \<le> now")
  case True
  then show ?thesis using assms leD[OF True]
    by (simp add: generic_set_oneshot_timer_def Let_def io_simps)
next
  case False
  define d where "d = deadline - now"
  have d: "unat d = unat deadline - unat now" "unat now < unat deadline"
    using False by (simp_all add: d_def unat_minus_less word_less_nat_alt not_le)
  have far: "d \<le> 0xFFFFFFFF \<longleftrightarrow> unat deadline < unat now + 2 ^ 32"
    using d by (simp add: word_le_nat_alt) linarith
  have k: "unat (ucast d :: u32) = unat d mod 2 ^ 32"
    by (simp add: unsigned_ucast_eq take_bit_eq_mod)
  have out: "generic_set_oneshot_timer p R st now deadline_ns =
    (if p = Debug \<and> \<not> d \<le> 0xFFFFFFFF then ([], Inl AssertFailed)
     else ([SetCountdown (ucast d)], Inr ()))"
    using False assms usub_exact[of now deadline p]
    by (simp add: generic_set_oneshot_timer_def Let_def io_simps debug_assert_def d_def not_le)
  show ?thesis
  proof (cases "unat deadline < unat now + 2 ^ 32")
    case True
    then have "unat (ucast d :: u32) = unat d" using d by (simp add: k)
    then show ?thesis using True False d far by (simp add: out)
  next
    case wide: False
    then have "2 ^ 32 \<le> unat d" using d by linarith
    then have "0 < unat d div 2 ^ 32" by (simp add: div_greater_zero_iff)
    moreover have "unat now + unat (ucast d :: u32) + unat d div 2 ^ 32 * 2 ^ 32 = unat deadline"
      using d mod_mult_div_eq[of "unat d" "2 ^ 32"] unfolding k
      by (simp add: mult.commute)
    ultimately show ?thesis using wide False far by (auto simp: out)
  qed
qed

theorem generic_oneshot_fires_witness:
  "generic_set_oneshot_timer Debug exact_ratio (generic_timer_init_early exact_ratio 62500000)
     1000 1000000 = ([SetCountdown 61500], Inr ())"
  using generic_oneshot_fires[OF refl, of Debug exact_ratio
      "generic_timer_init_early exact_ratio 62500000" 1000 1000000]
  by (auto simp: generic_nanos_to_ticks_def generic_timer_init_early_def exact_ratio_def
      word_unat_eq_iff)

text \<open>
  A one-shot timer on x86 is armed, with the ratio that the boot code sets,
  for exactly the nanoseconds that remain, and for one tick when the deadline
  has passed; a deadline at least \<open>2 ^ 32\<close> nanoseconds (4.3 seconds) away
  panics in both build profiles.
\<close>

theorem x86_oneshot_fires:
  assumes "ratio_doc R" and "x86_time_init_primary True R st0 = (cmds, Inr st)"
    and "monotonic_time_nanos (x86_time_if p R st) tsc = Inr now"
  shows "x86_set_oneshot_timer p R st tsc deadline =
    (if deadline \<le> now then ([LapicInitial 1], Inr ())
     else if unat deadline < unat now + 2 ^ 32
     then ([LapicInitial (of_nat (unat deadline - unat now))], Inr ())
     else ([], Inl AssertFailed))"
proof -
  have ratio: "mul_trunc R (NANOS_TO_LAPIC_TICKS_RATIO st) v = v" for v
  proof -
    have "unat v < 2 ^ LENGTH(64)" by (rule unsigned_less)
    then have "unat (mul_trunc R (ratio_new R 1000000000 1000000000) v) = unat v"
      using assms(1) by (simp add: ratio_doc_def)
    then show ?thesis
      using assms(2)
      by (auto simp: x86_time_init_primary_def io_simps LAPIC_TICKS_PER_SEC_def NANOS_PER_SEC_def
          word_unat_eq_iff)
  qed
  have now: "rbind (x86_current_ticks p st tsc) (x86_ticks_to_nanos p st) = Inr now"
    using assms(3) by (simp add: monotonic_time_nanos_def x86_time_if_def)
  show ?thesis
  proof (cases "deadline \<le> now")
    case True
    then show ?thesis using now leD[OF True] by (simp add: x86_set_oneshot_timer_def io_simps)
  next
    case False
    define d where "d = deadline - now"
    have d: "unat d = unat deadline - unat now" "unat now < unat deadline"
      using False by (simp_all add: d_def unat_minus_less word_less_nat_alt not_le)
    have near: "d \<le> 0xFFFFFFFF \<longleftrightarrow> unat deadline < unat now + 2 ^ 32"
      using d by (simp add: word_le_nat_alt) linarith
    have "1 \<le> d" using d by (simp add: word_le_nat_alt)
    then have "max d 1 = d" by (simp add: max_def)
    moreover have "(ucast d :: u32) = of_nat (unat deadline - unat now)"
      by (simp add: d(1)[symmetric])
    ultimately show ?thesis
      using False now near usub_exact[of now deadline p]
      by (simp add: x86_set_oneshot_timer_def io_simps Let_def ratio d_def[symmetric] not_le)
  qed
qed

theorem x86_oneshot_fires_witness:
  "x86_set_oneshot_timer Release exact_ratio
     \<lparr>INIT_TICK = 0, CPU_FREQ_MHZ = 4000, x86_EPOCHOFFSET = 0,
      NANOS_TO_LAPIC_TICKS_RATIO = (1000000000, 1000000000)\<rparr> 4000 2500
   = ([LapicInitial 1500], Inr ())"
proof -
  let ?st = "\<lparr>INIT_TICK = 0, CPU_FREQ_MHZ = 4000, x86_EPOCHOFFSET = 0,
      NANOS_TO_LAPIC_TICKS_RATIO = (1000000000, 1000000000)\<rparr> :: (u32 \<times> u32) x86_time"
  have init: "x86_time_init_primary True exact_ratio (x86_time_static x86_pc_config (0, 0)) =
      ([LapicOneShot, LapicDivideBy1, LapicTimerEnable], Inr ?st)"
    by (simp add: x86_time_init_primary_def x86_time_static_def config_defs exact_ratio_def io_simps
        LAPIC_TICKS_PER_SEC_def NANOS_PER_SEC_def)
  have "monotonic_time_nanos (x86_time_if Release exact_ratio ?st) 4000 = Inr 1000"
    by (simp add: monotonic_time_nanos_def x86_time_if_def x86_current_ticks_def usub_def
        x86_ticks_to_nanos_def umul_def udiv_def)
  from x86_oneshot_fires[OF exact_ratio_doc init this] show ?thesis by simp
qed

text \<open>
  A one-shot timer on LoongArch is armed for the ticks that remain while
  the deadline lies ahead; a deadline whose tick has passed panics in a debug
  build, and in a release build arms a timer that fires almost \<open>2 ^ 64\<close> ticks
  later instead of at once.
\<close>

theorem loongarch_oneshot_fires:
  assumes "npt \<noteq> 0"
  shows "loongarch_set_oneshot_timer p npt now deadline =
    (if unat now \<le> unat deadline div unat npt
     then ([TcfgInitVal (of_nat (unat deadline div unat npt - unat now)), TcfgEnable True], Inr ())
     else if p = Debug then ([], Inl SubOverflow)
     else ([TcfgInitVal (of_nat (2 ^ 64 - (unat now - unat deadline div unat npt))),
            TcfgEnable True], Inr ()))"
proof -
  define t where "t = deadline div npt"
  have t: "unat t = unat deadline div unat npt" by (simp add: t_def unat_div_exact)
  have diff: "t - now = of_nat (if unat now \<le> unat t then unat t - unat now
      else 2 ^ 64 - (unat now - unat t))"
    using unsigned_less[of t, where ?'a = nat] unsigned_less[of now, where ?'a = nat]
    by (auto simp: word_unat_eq_iff unat_of_nat unat_sub_if' word_le_nat_alt simp del: of_nat_diff)
  show ?thesis
    using assms diff t
    by (auto simp: loongarch_set_oneshot_timer_def io_simps udiv_def usub_def t_def[symmetric]
        word_less_nat_alt word_le_nat_alt simp del: of_nat_diff)
qed

theorem loongarch_oneshot_fires_witness:
  "loongarch_set_oneshot_timer Release 10 200 1000 =
    ([TcfgInitVal 0xFFFFFFFFFFFFFF9C, TcfgEnable True], Inr ())"
  using loongarch_oneshot_fires[of 10 Release 200 1000] by simp

text \<open>
  The six fields that the LoongArch boot code extracts from the low
  time-of-year register are disjoint and lose nothing: put back at their
  positions they give the register.
\<close>

theorem toy_fields_complete:
  "push_bit 26 (extract_bits v 26 32) OR push_bit 21 (extract_bits v 21 26) OR
   push_bit 16 (extract_bits v 16 21) OR push_bit 10 (extract_bits v 10 16) OR
   push_bit 4 (extract_bits v 4 10) OR extract_bits v 0 4 = v \<and>
   extract_bits v 26 32 < 64 \<and> extract_bits v 21 26 < 32 \<and> extract_bits v 16 21 < 32 \<and>
   extract_bits v 10 16 < 64 \<and> extract_bits v 4 10 < 64 \<and> extract_bits v 0 4 < 16"
proof -
  have lt: "take_bit n w < 2 ^ n" if "n < 32" for n and w :: u32
    using that by (simp add: take_bit_eq_mask and_mask_less_size word_size)
  have "push_bit 26 (extract_bits v 26 32) OR push_bit 21 (extract_bits v 21 26) OR
    push_bit 16 (extract_bits v 16 21) OR push_bit 10 (extract_bits v 10 16) OR
    push_bit 4 (extract_bits v 4 10) OR extract_bits v 0 4 = v"
    by (rule bit_word_eqI) (auto simp: extract_bits_eq bit_or_iff bit_field bit_take_bit_iff)
  then show ?thesis
    using lt[of 6 "drop_bit 26 v"] lt[of 5 "drop_bit 21 v"] lt[of 5 "drop_bit 16 v"]
      lt[of 6 "drop_bit 10 v"] lt[of 6 "drop_bit 4 v"] lt[of 4 v]
    by (simp add: extract_bits_eq)
qed

end
