(* ===== verification/Power_If.thy ===== *)
theory Power_If
  imports Time_If
begin

text \<open>
  Power management and the start of secondary CPUs: \<^verbatim>\<open>PowerIf\<close>
  (\<^verbatim>\<open>axplat/src/power.rs\<close>), the PSCI client of \<^verbatim>\<open>axplat-arm-peripherals\<close>, the
  \<^verbatim>\<open>power.rs\<close> and \<^verbatim>\<open>mp.rs\<close> of the platforms and the reset code of the BST A1000b.

  Firmware calls, register and memory writes are commands; what firmware or a
  register answers is an input.  A function that does not return ends with the
  command \<open>HaltForever\<close>.  Log output is left out.
\<close>

section \<open>Commands\<close>

datatype 'w power_cmd =
    Smc u32 'w 'w 'w | Hvc u32 'w 'w 'w
  | HartStart 'w 'w 'w | SbiShutdown
  | WriteSlot 'w | FlushDcache 'w | WriteRelease 'w 'w | Sev
  | MailSend 'w 'w 'w | SendIpiSingle 'w u32
  | CopyStartCode | WriteStartPage nat u64
  | SendInitIpi u32 | SendSipi u8 u32 | BusyWait duration
  | PortWrite8 u64 u8 | PortWrite16 u64 "16 word"
  | WriteReg8 'w u8 | ReadReg 'w | WriteReg 'w u32
  | Print string | GetKey
  | Halt | HaltForever

definition from_millis :: "u64 \<Rightarrow> duration" where
  "from_millis ms = Duration (ms div 1000) (ucast (ms mod 1000) * 1000000)"

definition from_micros :: "u64 \<Rightarrow> duration" where
  "from_micros us = Duration (us div 1000000) (ucast (us mod 1000000) * 1000)"

text \<open>Indexing a constant array, which panics out of bounds.\<close>

definition index :: "'a list \<Rightarrow> 'w::len word \<Rightarrow> panic + 'a" where
  "index xs i = (if unat i < length xs then Inr (xs ! unat i) else Inl IndexOutOfBounds)"

section \<open>PSCI\<close>

definition PSCI_0_2_FN_BASE :: u32 where "PSCI_0_2_FN_BASE = 0x84000000"
definition PSCI_0_2_64BIT :: u32 where "PSCI_0_2_64BIT = 0x40000000"
definition PSCI_0_2_FN_CPU_SUSPEND :: u32 where "PSCI_0_2_FN_CPU_SUSPEND = PSCI_0_2_FN_BASE + 1"
definition PSCI_0_2_FN_CPU_OFF :: u32 where "PSCI_0_2_FN_CPU_OFF = PSCI_0_2_FN_BASE + 2"
definition PSCI_0_2_FN_CPU_ON :: u32 where "PSCI_0_2_FN_CPU_ON = PSCI_0_2_FN_BASE + 3"
definition PSCI_0_2_FN_MIGRATE :: u32 where "PSCI_0_2_FN_MIGRATE = PSCI_0_2_FN_BASE + 5"
definition PSCI_0_2_FN_SYSTEM_OFF :: u32 where "PSCI_0_2_FN_SYSTEM_OFF = PSCI_0_2_FN_BASE + 8"
definition PSCI_0_2_FN_SYSTEM_RESET :: u32 where "PSCI_0_2_FN_SYSTEM_RESET = PSCI_0_2_FN_BASE + 9"
definition PSCI_0_2_FN64_CPU_SUSPEND :: u32 where
  "PSCI_0_2_FN64_CPU_SUSPEND = PSCI_0_2_FN_BASE + PSCI_0_2_64BIT + 1"
definition PSCI_0_2_FN64_CPU_ON :: u32 where
  "PSCI_0_2_FN64_CPU_ON = PSCI_0_2_FN_BASE + PSCI_0_2_64BIT + 3"
definition PSCI_0_2_FN64_MIGRATE :: u32 where
  "PSCI_0_2_FN64_MIGRATE = PSCI_0_2_FN_BASE + PSCI_0_2_64BIT + 5"

lemmas psci_numbers = PSCI_0_2_FN_BASE_def PSCI_0_2_64BIT_def PSCI_0_2_FN_CPU_SUSPEND_def
  PSCI_0_2_FN_CPU_OFF_def PSCI_0_2_FN_CPU_ON_def PSCI_0_2_FN_MIGRATE_def
  PSCI_0_2_FN_SYSTEM_OFF_def PSCI_0_2_FN_SYSTEM_RESET_def PSCI_0_2_FN64_CPU_SUSPEND_def
  PSCI_0_2_FN64_CPU_ON_def PSCI_0_2_FN64_MIGRATE_def

datatype psci_error =
    NotSupported | InvalidParams | Denied | AlreadyOn | OnPending | InternalFailure
  | NotPresent | Disabled | InvalidAddress

definition psci_error_from :: "int \<Rightarrow> panic + psci_error" where
  "psci_error_from code =
    (if code = -1 then Inr NotSupported
     else if code = -2 then Inr InvalidParams
     else if code = -3 then Inr Denied
     else if code = -4 then Inr AlreadyOn
     else if code = -5 then Inr OnPending
     else if code = -6 then Inr InternalFailure
     else if code = -7 then Inr NotPresent
     else if code = -8 then Inr Disabled
     else if code = -9 then Inr InvalidAddress
     else Inl ExplicitPanic)"

text \<open>The discriminants of the error type.\<close>

fun psci_error_code :: "psci_error \<Rightarrow> int" where
  "psci_error_code NotSupported = -1"
| "psci_error_code InvalidParams = -2"
| "psci_error_code Denied = -3"
| "psci_error_code AlreadyOn = -4"
| "psci_error_code OnPending = -5"
| "psci_error_code InternalFailure = -6"
| "psci_error_code NotPresent = -7"
| "psci_error_code Disabled = -8"
| "psci_error_code InvalidAddress = -9"

text \<open>
  The argument \<open>hvc\<close> is the static \<^verbatim>\<open>PSCI_METHOD_HVC\<close>, \<open>ret\<close> what the firmware
  returns in the first register.
\<close>

definition psci_call ::
  "bool \<Rightarrow> 'w::len word \<Rightarrow> u32 \<Rightarrow> 'w word \<Rightarrow> 'w word \<Rightarrow> 'w word \<Rightarrow>
    ('w word power_cmd, psci_error + unit) io" where
  "psci_call hvc ret func arg0 arg1 arg2 =
     seq_io (emit (if hvc then Hvc func arg0 arg1 arg2 else Smc func arg0 arg1 arg2))
       (if ret = 0 then ret_io (Inr ())
        else bind_io (lift_io (psci_error_from (sint (ucast ret :: u32)))) (\<lambda>e. ret_io (Inl e)))"

definition psci_init :: "string \<Rightarrow> panic + bool" where
  "psci_init method =
    (if method = ''smc'' then Inr False
     else if method = ''hvc'' then Inr True
     else Inl ExplicitPanic)"

definition psci_system_off :: "bool \<Rightarrow> 'w::len word \<Rightarrow> ('w word power_cmd, unit) io" where
  "psci_system_off hvc ret =
     seq_io (psci_call hvc ret PSCI_0_2_FN_SYSTEM_OFF 0 0 0) (emit HaltForever)"

definition psci_cpu_on ::
  "bool \<Rightarrow> 'w::len word \<Rightarrow> 'w word \<Rightarrow> 'w word \<Rightarrow> 'w word \<Rightarrow> ('w word power_cmd, unit) io" where
  "psci_cpu_on hvc ret target_cpu entry_point arg =
    (let fn_num = (if LENGTH('w) = 64 then PSCI_0_2_FN64_CPU_ON else PSCI_0_2_FN_CPU_ON)
     in seq_io (psci_call hvc ret fn_num target_cpu entry_point arg) (ret_io ()))"

definition psci_cpu_off :: "bool \<Rightarrow> 'w::len word \<Rightarrow> ('w word power_cmd, unit) io" where
  "psci_cpu_off hvc ret =
    (let state = push_bit 16 1 :: u32
     in seq_io (psci_call hvc ret PSCI_0_2_FN_CPU_OFF (ucast state) 0 0) (ret_io ()))"

section \<open>Arm boards\<close>

text \<open>
  \<open>v2p\<close> is the platform's \<^verbatim>\<open>virt_to_phys\<close>, \<open>entry\<close> the link address of the function
  that a secondary CPU starts at: \<^verbatim>\<open>_start_secondary\<close>, or \<^verbatim>\<open>modify_stack_and_start\<close>
  on the Raspberry Pi.
\<close>

definition qemu_cpu_boot ::
  "('w::len word \<Rightarrow> panic + 'w word) \<Rightarrow> 'w word \<Rightarrow> bool \<Rightarrow> 'w word \<Rightarrow> 'w word \<Rightarrow> 'w word \<Rightarrow>
    ('w word power_cmd, unit) io" where
  "qemu_cpu_boot v2p entry hvc ret cpu_id stack_top_paddr =
     bind_io (lift_io (v2p entry)) (\<lambda>entry_paddr.
       psci_cpu_on hvc ret cpu_id entry_paddr stack_top_paddr)"

definition phytium_cpu_boot ::
  "(u64, 'm) listed_config_scheme \<Rightarrow> (u64 \<Rightarrow> panic + u64) \<Rightarrow> u64 \<Rightarrow> bool \<Rightarrow> u64 \<Rightarrow> u64 \<Rightarrow> u64 \<Rightarrow>
    (u64 power_cmd, unit) io" where
  "phytium_cpu_boot cfg v2p entry hvc ret cpu_id stack_top_paddr =
     bind_io (lift_io (v2p entry)) (\<lambda>e.
     bind_io (lift_io (index (CPU_ID_LIST cfg) cpu_id)) (\<lambda>target.
       psci_cpu_on hvc ret target e stack_top_paddr))"

definition bsta_start_secondary_cpu ::
  "(u64, 'm) listed_config_scheme \<Rightarrow> (u64 \<Rightarrow> panic + u64) \<Rightarrow> u64 \<Rightarrow> bool \<Rightarrow> u64 \<Rightarrow> u64 \<Rightarrow> u64 \<Rightarrow>
    (u64 power_cmd, unit) io" where
  "bsta_start_secondary_cpu cfg v2p entry hvc ret cpu_id stack_top =
    (if length (CPU_ID_LIST cfg) \<le> unat cpu_id then ret_io ()
     else bind_io (lift_io (v2p entry)) (\<lambda>e.
          bind_io (lift_io (index (CPU_ID_LIST cfg) cpu_id)) (\<lambda>target.
            psci_cpu_on hvc ret target e stack_top)))"

text \<open>The Phytium's \<^verbatim>\<open>hart_to_logid\<close>: the position in the list.\<close>

fun position :: "'a \<Rightarrow> 'a list \<Rightarrow> nat option" where
  "position y [] = None"
| "position y (x # xs) = (if x = y then Some 0 else map_option Suc (position y xs))"

definition hart_to_logid :: "(u64, 'm) listed_config_scheme \<Rightarrow> u64 \<Rightarrow> panic + u64" where
  "hart_to_logid cfg hard_id =
    (case position hard_id (CPU_ID_LIST cfg) of
       None \<Rightarrow> Inl UnwrapNone
     | Some n \<Rightarrow> Inr (of_nat n))"

text \<open>
  The Raspberry Pi's spin table.  The writes of the boot stack and of the release
  address, each made visible to CPUs without caches, in their order; the slot
  of the stack is one static for all CPUs.
\<close>

definition CPU_SPIN_TABLE :: "u64 list" where
  "CPU_SPIN_TABLE = [0xD8, 0xE0, 0xE8, 0xF0]"

definition raspi_start_secondary_cpu ::
  "(u64 \<Rightarrow> panic + u64) \<Rightarrow> (u64 \<Rightarrow> panic + u64) \<Rightarrow> u64 \<Rightarrow> u64 \<Rightarrow> u64 \<Rightarrow> u64 \<Rightarrow>
    (u64 power_cmd, unit) io" where
  "raspi_start_secondary_cpu p2v v2p entry stack_top_ptr cpu_id stack_top =
     bind_io (lift_io (v2p entry)) (\<lambda>entry_paddr.
     seq_io (emit (WriteSlot stack_top))
     (seq_io (emit (FlushDcache stack_top_ptr))
     (bind_io (lift_io (rbind (index CPU_SPIN_TABLE cpu_id) p2v)) (\<lambda>spintable_vaddr.
     seq_io (emit (WriteRelease spintable_vaddr entry_paddr))
     (seq_io (emit (FlushDcache spintable_vaddr))
     (emit Sev))))))"

definition raspi_system_off :: "(u64 power_cmd, unit) io" where
  "raspi_system_off = emit HaltForever"

section \<open>LoongArch, RISC-V and x86\<close>

definition ACTION_BOOT_CPU :: u32 where "ACTION_BOOT_CPU = 1"

definition la_start_secondary_cpu ::
  "(u64 \<Rightarrow> panic + u64) \<Rightarrow> u64 \<Rightarrow> u64 \<Rightarrow> u64 \<Rightarrow> (u64 power_cmd, unit) io" where
  "la_start_secondary_cpu p2v entry cpu_id stack_top =
     bind_io (lift_io (p2v stack_top)) (\<lambda>stack_top_virt_addr.
     seq_io (emit (WriteSlot stack_top_virt_addr))
     (seq_io (emit (MailSend entry cpu_id 0))
     (emit (SendIpiSingle cpu_id ACTION_BOOT_CPU))))"

definition la_system_off :: "u64 \<Rightarrow> (u64 power_cmd, unit) io" where
  "la_system_off halt_addr =
     seq_io (emit (WriteReg8 halt_addr 0x34)) (seq_io (emit Halt) (emit HaltForever))"

definition riscv_cpu_boot ::
  "(u64 \<Rightarrow> panic + u64) \<Rightarrow> u64 \<Rightarrow> bool \<Rightarrow> u64 \<Rightarrow> u64 \<Rightarrow> (u64 power_cmd, unit) io" where
  "riscv_cpu_boot v2p entry hsm_available cpu_id stack_top_paddr =
    (if \<not> hsm_available then ret_io ()
     else bind_io (lift_io (v2p entry)) (\<lambda>e. emit (HartStart cpu_id e stack_top_paddr)))"

definition riscv_system_off :: "(u64 power_cmd, unit) io" where
  "riscv_system_off = seq_io (emit SbiShutdown) (emit HaltForever)"

text \<open>
  On x86 the real-mode start code is copied to the page at \<open>0x6000\<close>, whose last two
  words hold the stack and the entry that \<^verbatim>\<open>ap_start.S\<close> reads at \<open>0xFF0\<close> and
  \<open>0xFF8\<close>.  The page and the code are lists of 64-bit words.
\<close>

definition PAGE_SIZE_4K :: nat where "PAGE_SIZE_4K = 4096"
definition START_PAGE_IDX :: u8 where "START_PAGE_IDX = 6"
definition START_PAGE_PADDR :: u64 where "START_PAGE_PADDR = ucast START_PAGE_IDX * of_nat PAGE_SIZE_4K"
definition U64_PER_PAGE :: nat where "U64_PER_PAGE = PAGE_SIZE_4K div 8"

definition setup_startup_page :: "u64 list \<Rightarrow> u64 \<Rightarrow> u64 \<Rightarrow> u64 list \<Rightarrow> u64 list" where
  "setup_startup_page code ap_entry32 stack_top start_page =
     ((code @ drop (length code) start_page)
        [U64_PER_PAGE - 2 := stack_top])[U64_PER_PAGE - 1 := ap_entry32]"

text \<open>The INIT-SIPI-SIPI sequence; \<open>raw_id\<close> is \<^verbatim>\<open>apic::raw_apic_id\<close>.\<close>

definition x86_start_secondary_cpu ::
  "(u8 \<Rightarrow> u32) \<Rightarrow> u64 list \<Rightarrow> u64 \<Rightarrow> u64 \<Rightarrow> u64 \<Rightarrow> u64 list \<Rightarrow> (u64 power_cmd, u64 list) io" where
  "x86_start_secondary_cpu raw_id code ap_entry32 apic_id stack_top start_page =
    (let page = setup_startup_page code ap_entry32 stack_top start_page;
         raw = raw_id (ucast apic_id)
     in seq_io (emit CopyStartCode)
        (seq_io (emit (WriteStartPage (U64_PER_PAGE - 2) stack_top))
        (seq_io (emit (WriteStartPage (U64_PER_PAGE - 1) ap_entry32))
        (seq_io (emit (SendInitIpi raw))
        (seq_io (emit (BusyWait (from_millis 10)))
        (seq_io (emit (SendSipi START_PAGE_IDX raw))
        (seq_io (emit (BusyWait (from_micros 200)))
        (seq_io (emit (SendSipi START_PAGE_IDX raw))
        (ret_io page)))))))))"

text \<open>
  Shutdown in QEMU, or a reboot after a key with the feature
  \<^verbatim>\<open>reboot-on-system-off\<close>; \<open>keys\<close> says at which poll a key is there, if ever.  A
  wait that never ends is \<open>None\<close>.
\<close>

definition x86_system_off :: "bool \<Rightarrow> nat option \<Rightarrow> (u64 power_cmd, unit) io option" where
  "x86_system_off reboot keys =
    (if reboot
     then case keys of
            None \<Rightarrow> None
          | Some n \<Rightarrow> Some (seq_io (emit (Print ''System will reboot, press any key to continue ...''))
              (seq_io (each_io (\<lambda>_. emit GetKey) [0..<n + 1])
              (seq_io (emit (Print ''Rebooting ...''))
              (seq_io (emit (PortWrite8 0x64 0xFE))
              (seq_io (emit Halt) (emit HaltForever))))))
     else Some (seq_io (emit (PortWrite16 0x604 0x2000)) (seq_io (emit Halt) (emit HaltForever))))"

definition plat_cpu_num :: "('w, 'm) plat_config_scheme \<Rightarrow> 'w" where
  "plat_cpu_num cfg = MAX_CPU_NUM cfg"

section \<open>Reset of the BST A1000b\<close>

text \<open>The values that the two registers hold when they are read are inputs.\<close>

definition reset_qspi :: "(u64 \<Rightarrow> panic + u64) \<Rightarrow> u32 \<Rightarrow> (u64 power_cmd, unit) io" where
  "reset_qspi p2v reg =
     bind_io (lift_io (p2v (A1000BASE_SAFETYCRM + 0x8))) (\<lambda>ptr.
     seq_io (emit (ReadReg ptr))
     (seq_io (emit (WriteReg ptr (reg AND NOT (push_bit 15 3))))
     (seq_io (emit (BusyWait (from_millis 100)))
     (seq_io (emit (WriteReg ptr (reg OR push_bit 15 3)))
     (emit (BusyWait (from_millis 100)))))))"

definition reset_cpu :: "(u64 \<Rightarrow> panic + u64) \<Rightarrow> u32 \<Rightarrow> u32 \<Rightarrow> (u64 power_cmd, unit) io" where
  "reset_cpu p2v reg reg' =
     seq_io (reset_qspi p2v reg)
     (bind_io (lift_io (p2v (A1000BASE_SAFETYCRM + 0x8))) (\<lambda>ptr.
     seq_io (emit (ReadReg ptr))
     (seq_io (emit (WriteReg ptr (reg' AND NOT 1)))
     (emit HaltForever))))"

definition do_reset :: "(u64 \<Rightarrow> panic + u64) \<Rightarrow> u32 \<Rightarrow> u32 \<Rightarrow> (u64 power_cmd, unit) io" where
  "do_reset p2v reg reg' = seq_io (emit (BusyWait (from_millis 50))) (reset_cpu p2v reg reg')"

definition get_bootmode :: "u32 \<Rightarrow> u32" where
  "get_bootmode reg = drop_bit 26 reg AND 0x7"

section \<open>Properties\<close>

lemma psci_error_roundtrip: "psci_error_from (psci_error_code e) = Inr e"
  by (cases e) (simp_all add: psci_error_from_def)

lemma psci_error_from_Inr: "psci_error_from n = Inr e \<longleftrightarrow> n = psci_error_code e"
  by (auto simp: psci_error_roundtrip) (auto simp: psci_error_from_def split: if_splits)

lemma psci_error_from_unknown: "(\<forall>e. n \<noteq> psci_error_code e) \<Longrightarrow> psci_error_from n = Inl ExplicitPanic"
  using psci_error_from_Inr[of n]
  by (cases "psci_error_from n") (auto simp: psci_error_from_def split: if_splits)

text \<open>The instruction that a call is made with.\<close>

definition psci_issued :: "bool \<Rightarrow> u32 \<Rightarrow> 'w \<Rightarrow> 'w \<Rightarrow> 'w \<Rightarrow> 'w power_cmd list" where
  "psci_issued hvc func a b c = [if hvc then Hvc func a b c else Smc func a b c]"

text \<open>
  A PSCI call goes to the hypervisor or the secure monitor as the
  configured method says, succeeds on a zero result, yields the error whose code
  the low 32 bits of the result hold, and panics on any other result.
\<close>

theorem psci_call_decodes:
  fixes ret :: u64
  shows "(psci_init method = Inr hvc \<longrightarrow> (if hvc then method = ''hvc'' else method = ''smc'')) \<and>
    psci_call hvc 0 func a b c = (psci_issued hvc func a b c, Inr (Inr ())) \<and>
    (ret \<noteq> 0 \<longrightarrow>
      (sint (ucast ret :: u32) = psci_error_code e \<longrightarrow>
        psci_call hvc ret func a b c = (psci_issued hvc func a b c, Inr (Inl e))) \<and>
      (sint (ucast ret :: u32) \<notin> range psci_error_code \<longrightarrow>
        psci_call hvc ret func a b c = (psci_issued hvc func a b c, Inl ExplicitPanic)))"
proof -
  have "psci_call hvc ret func a b c = (psci_issued hvc func a b c, Inl ExplicitPanic)"
    if "ret \<noteq> 0" and "sint (ucast ret :: u32) \<notin> range psci_error_code"
  proof -
    have "\<forall>e. sint (ucast ret :: u32) \<noteq> psci_error_code e" using that(2) by auto
    then have "psci_error_from (sint (ucast ret :: u32)) = Inl ExplicitPanic"
      by (rule psci_error_from_unknown)
    with that(1) show ?thesis by (simp add: psci_call_def psci_issued_def io_simps)
  qed
  moreover have "psci_call hvc ret func a b c = (psci_issued hvc func a b c, Inr (Inl e))"
    if "ret \<noteq> 0" and "sint (ucast ret :: u32) = psci_error_code e"
    using that by (simp add: psci_call_def psci_issued_def io_simps psci_error_roundtrip)
  moreover have "psci_call hvc 0 func a b c = (psci_issued hvc func a b c, Inr (Inr ()))"
    by (simp add: psci_call_def psci_issued_def io_simps)
  ultimately show ?thesis by (auto simp: psci_init_def split: if_splits)
qed

theorem psci_call_decodes_witness:
  "psci_call True 0xFFFFFFFC PSCI_0_2_FN64_CPU_ON 1 2 (3 :: u64) =
    ([Hvc PSCI_0_2_FN64_CPU_ON 1 2 3], Inr (Inl AlreadyOn))"
proof -
  have "sint (ucast (0xFFFFFFFC :: u64) :: u32) = psci_error_code AlreadyOn" by simp
  then show ?thesis
    using psci_call_decodes[where hvc = True and ret = "0xFFFFFFFC" and e = AlreadyOn and
      func = PSCI_0_2_FN64_CPU_ON and a = 1 and b = 2 and c = 3]
    by (simp add: psci_issued_def)
qed

lemma position_nth: "distinct xs \<Longrightarrow> i < length xs \<Longrightarrow> position (xs ! i) xs = Some i"
proof (induction xs arbitrary: i)
  case (Cons x xs)
  then show ?case by (cases i) (auto simp: nth_Cons)
qed simp

lemma position_Some: "position y xs = Some i \<Longrightarrow> i < length xs \<and> xs ! i = y"
  by (induction xs arbitrary: i) (auto split: if_splits)

text \<open>
  On the Phytium Pi the CPU that is started for a logical id finds that
  logical id again from the hardware id it is started by, as long as the listed
  hardware ids are distinct; an id outside the list is a panic there and a no-op
  on the BST A1000b.
\<close>

theorem phytium_boot_logical_id:
  assumes "distinct (CPU_ID_LIST cfg)" and "v2p entry = Inr e"
  shows "(unat cpu_id < length (CPU_ID_LIST cfg) \<longrightarrow>
      (\<exists>target. phytium_cpu_boot cfg v2p entry hvc 0 cpu_id stack =
          ([if hvc then Hvc PSCI_0_2_FN64_CPU_ON target e stack
            else Smc PSCI_0_2_FN64_CPU_ON target e stack], Inr ()) \<and>
        hart_to_logid cfg target = Inr cpu_id)) \<and>
    (length (CPU_ID_LIST cfg) \<le> unat cpu_id \<longrightarrow>
      phytium_cpu_boot cfg v2p entry hvc ret cpu_id stack = ([], Inl IndexOutOfBounds) \<and>
      bsta_start_secondary_cpu cfg v2p entry hvc ret cpu_id stack = ([], Inr ()))"
  using assms
  by (auto simp: phytium_cpu_boot_def bsta_start_secondary_cpu_def psci_cpu_on_def psci_call_def
      index_def io_simps Let_def hart_to_logid_def position_nth)

theorem phytium_boot_logical_id_witness:
  "hart_to_logid phytium_pi_config 0 = Inr 2 \<and>
   phytium_cpu_boot phytium_pi_config (\<lambda>v. Inr (v - 0xFFFF000000000000)) 0xFFFF000090001000 False 0 2 0x90100000
     = ([Smc PSCI_0_2_FN64_CPU_ON 0 0x90001000 0x90100000], Inr ())"
proof -
  let ?v2p = "\<lambda>v :: u64. Inr (v - 0xFFFF000000000000) :: panic + u64"
  have "distinct (CPU_ID_LIST phytium_pi_config)" by (simp add: config_defs)
  moreover have "?v2p 0xFFFF000090001000 = Inr 0x90001000" by simp
  ultimately have "\<exists>target. phytium_cpu_boot phytium_pi_config ?v2p 0xFFFF000090001000 False 0 2 0x90100000 =
      ([Smc PSCI_0_2_FN64_CPU_ON target 0x90001000 0x90100000], Inr ()) \<and>
      hart_to_logid phytium_pi_config target = Inr 2"
    using phytium_boot_logical_id[of phytium_pi_config ?v2p "0xFFFF000090001000" "0x90001000" 2 False
        "0x90100000"]
    by (simp add: config_defs)
  then show ?thesis
    by (auto simp: phytium_cpu_boot_def psci_cpu_on_def psci_call_def index_def io_simps config_defs Let_def)
qed

text \<open>
  The x86 start page keeps the start code, which must leave its last two
  words free, and holds the stack and the entry at the byte offsets \<open>0xFF0\<close> and
  \<open>0xFF8\<close> where the start code reads them.
\<close>

theorem startup_page_slots:
  assumes "length page = U64_PER_PAGE" and "length code \<le> U64_PER_PAGE - 2"
  shows "length (setup_startup_page code ap_entry stack page) = U64_PER_PAGE \<and>
    take (length code) (setup_startup_page code ap_entry stack page) = code \<and>
    setup_startup_page code ap_entry stack page ! (0xFF0 div 8) = stack \<and>
    setup_startup_page code ap_entry stack page ! (0xFF8 div 8) = ap_entry"
  using assms by (simp add: setup_startup_page_def U64_PER_PAGE_def PAGE_SIZE_4K_def)

theorem startup_page_slots_witness:
  "setup_startup_page [1, 2, 3] 0x200100 0x8000 (replicate 512 0) ! (0xFF0 div 8) = 0x8000"
  using startup_page_slots[of "replicate 512 0" "[1, 2, 3]" "0x200100" "0x8000"]
  by (simp add: U64_PER_PAGE_def PAGE_SIZE_4K_def)

end
