(* ===== verification/Boot.thy ===== *)
theory Boot
  imports Power_If Mem_If
begin

text \<open>
  Early boot: the boot page tables that the \<^verbatim>\<open>boot.rs\<close> of every platform fills in
  before paging is on, and the entry points of the primary and the secondary
  CPUs up to the call of the kernel.

  The page table entries of the Arm and LoongArch boards come from the
  \<^verbatim>\<open>page_table_entry\<close> crate: its constructors are a parameter, with what its
  documentation says of them as \<open>pte_doc\<close>.  The naked functions are sequences of
  calls and of register moves; a call into the CPU crate is a command.
\<close>

section \<open>Page table entries\<close>

datatype mapping_flag = MF_READ | MF_WRITE | MF_EXECUTE | MF_DEVICE

record ('w, 'e) pte_ops =
  empty_pte :: 'e
  new_table :: "'w \<Rightarrow> 'e"
  new_page :: "'w \<Rightarrow> mapping_flag set \<Rightarrow> bool \<Rightarrow> 'e"

text \<open>
  How the memory management unit reads an entry.  The constructors take an
  aligned physical address below the limit of the format; \<open>n\<close> is the width in
  bits of the blocks that the boot code uses.
\<close>

datatype 'w pte_view = Invalid | Table 'w | Block 'w "mapping_flag set"

definition pte_doc ::
  "nat \<Rightarrow> nat \<Rightarrow> ('u::len word, 'e) pte_ops \<Rightarrow> ('e \<Rightarrow> 'u word pte_view) \<Rightarrow> bool" where
  "pte_doc limit n ops view \<longleftrightarrow>
     view (empty_pte ops) = Invalid \<and>
     (\<forall>a. unat a < limit \<longrightarrow> take_bit 12 a = 0 \<longrightarrow> view (new_table ops a) = Table a) \<and>
     (\<forall>a f. unat a < limit \<longrightarrow> take_bit n a = 0 \<longrightarrow> MF_READ \<in> f \<longrightarrow>
        view (new_page ops a f True) = Block a f)"

text \<open>An instance for the witnesses: entries that are their own reading.\<close>

definition plain_ptes :: "('w, 'w pte_view) pte_ops" where
  "plain_ptes = \<lparr>empty_pte = Invalid, new_table = Table, new_page = (\<lambda>a f huge. Block a f)\<rparr>"

lemma plain_ptes_doc: "pte_doc limit n plain_ptes id"
  by (simp add: pte_doc_def plain_ptes_def)

section \<open>The two-level tables of the 64-bit Arm boards and of LoongArch\<close>

record 'e boot_pt =
  BOOT_PT_L0 :: "'e list"
  BOOT_PT_L1 :: "'e list"

definition boot_pt_static :: "('w, 'e) pte_ops \<Rightarrow> 'e boot_pt" where
  "boot_pt_static ops =
    \<lparr>BOOT_PT_L0 = replicate 512 (empty_pte ops), BOOT_PT_L1 = replicate 512 (empty_pte ops)\<rparr>"

definition set_l0 :: "nat \<Rightarrow> 'e \<Rightarrow> 'e boot_pt \<Rightarrow> 'e boot_pt" where
  "set_l0 i e t = t\<lparr>BOOT_PT_L0 := (BOOT_PT_L0 t)[i := e]\<rparr>"

definition set_l1 :: "nat \<Rightarrow> 'e \<Rightarrow> 'e boot_pt \<Rightarrow> 'e boot_pt" where
  "set_l1 i e t = t\<lparr>BOOT_PT_L1 := (BOOT_PT_L1 t)[i := e]\<rparr>"

text \<open>
  The physical address \<open>l1\<close> of the second table is the one the code computes:
  position independent on Arm, through \<^verbatim>\<open>virt_to_phys\<close> on LoongArch.
\<close>

definition qemu_init_boot_page_table ::
  "(u64, 'e) pte_ops \<Rightarrow> u64 \<Rightarrow> 'e boot_pt \<Rightarrow> 'e boot_pt" where
  "qemu_init_boot_page_table ops l1 t =
    (let t1 = set_l0 0 (new_table ops l1) t;
         t2 = set_l1 0 (new_page ops 0 {MF_READ, MF_WRITE, MF_DEVICE} True) t1
     in set_l1 1 (new_page ops 0x40000000 {MF_READ, MF_WRITE, MF_EXECUTE} True) t2)"

definition phytium_init_boot_page_table ::
  "(u64, 'e) pte_ops \<Rightarrow> u64 \<Rightarrow> 'e boot_pt \<Rightarrow> 'e boot_pt" where
  "phytium_init_boot_page_table ops l1 t =
    (let t1 = set_l0 0 (new_table ops l1) t;
         t2 = set_l1 0 (new_page ops 0 {MF_READ, MF_WRITE, MF_DEVICE} True) t1
     in set_l1 2 (new_page ops 0x80000000 {MF_READ, MF_WRITE, MF_EXECUTE} True) t2)"

definition bsta_init_boot_page_table ::
  "(u64, 'e) pte_ops \<Rightarrow> u64 \<Rightarrow> 'e boot_pt \<Rightarrow> 'e boot_pt" where
  "bsta_init_boot_page_table ops l1 t =
    (let t1 = set_l0 0 (new_table ops l1) t;
         t2 = set_l1 0 (new_page ops 0 {MF_READ, MF_WRITE, MF_DEVICE} True) t1;
         t3 = set_l1 1 (new_page ops 0x40000000 {MF_READ, MF_WRITE, MF_DEVICE} True) t2
     in set_l1 2 (new_page ops 0x80000000 {MF_READ, MF_WRITE, MF_EXECUTE} True) t3)"

definition raspi_init_boot_page_table ::
  "(u64, 'e) pte_ops \<Rightarrow> u64 \<Rightarrow> 'e boot_pt \<Rightarrow> 'e boot_pt" where
  "raspi_init_boot_page_table ops l1 t =
    (let t1 = set_l0 0 (new_table ops l1) t;
         t2 = set_l1 0 (new_page ops 0 {MF_READ, MF_WRITE, MF_EXECUTE} True) t1;
         t3 = set_l1 1 (new_page ops 0x40000000 {MF_READ, MF_WRITE, MF_EXECUTE} True) t2;
         t4 = set_l1 2 (new_page ops 0x80000000 {MF_READ, MF_WRITE, MF_EXECUTE} True) t3
     in set_l1 3 (new_page ops 0xC0000000 {MF_READ, MF_WRITE, MF_DEVICE} True) t4)"

definition la_init_boot_page_table ::
  "(u64, 'e) pte_ops \<Rightarrow> (u64 \<Rightarrow> panic + u64) \<Rightarrow> u64 \<Rightarrow> 'e boot_pt \<Rightarrow> panic + 'e boot_pt" where
  "la_init_boot_page_table ops v2p l1_va t =
     rbind (v2p l1_va) (\<lambda>l1.
       let t1 = set_l0 0 (new_table ops l1) t;
           t2 = set_l1 0 (new_page ops 0 {MF_READ, MF_WRITE, MF_DEVICE} True) t1
       in Inr (set_l1 2 (new_page ops 0x80000000 {MF_READ, MF_WRITE, MF_EXECUTE} True) t2))"

text \<open>
  The walk of the memory management unit from the first table: bits 47 to 39 of
  the address index the first level, bits 38 to 30 the second.
\<close>

definition boot_walk ::
  "('e \<Rightarrow> u64 pte_view) \<Rightarrow> u64 \<Rightarrow> 'e boot_pt \<Rightarrow> u64 \<Rightarrow> (u64 \<times> mapping_flag set) option" where
  "boot_walk view l1 t v =
    (case view (BOOT_PT_L0 t ! unat (take_bit 9 (drop_bit 39 v))) of
       Table a \<Rightarrow>
         if a = l1
         then (case view (BOOT_PT_L1 t ! unat (take_bit 9 (drop_bit 30 v))) of
                 Block b f \<Rightarrow> Some (b + take_bit 30 v, f)
               | _ \<Rightarrow> None)
         else None
     | _ \<Rightarrow> None)"

section \<open>The Sv39 table of RISC-V\<close>

definition riscv_init_boot_page_table :: "u64 list \<Rightarrow> u64 list" where
  "riscv_init_boot_page_table t =
    (((t[0 := push_bit 10 0x0 OR 0xEF])
        [2 := push_bit 10 0x80000 OR 0xEF])
        [0x100 := push_bit 10 0x0 OR 0xEF])
        [0x102 := push_bit 10 0x80000 OR 0xEF]"

definition riscv_boot_pt_static :: "u64 list" where
  "riscv_boot_pt_static = replicate 512 0"

text \<open>
  The Sv39 walk, as far as the boot table needs it: the address must be
  sign-extended from bit 38; an entry is valid with bit 0 and a leaf with one of
  bits 1 to 3 (readable, writable, executable); a leaf of the root table is a
  gigapage, whose page number (bits 53 to 10) must be a multiple of 512 pages
  squared and must already be marked accessed and dirty (bits 6 and 7).
\<close>

definition sv39_flags :: "u64 \<Rightarrow> mapping_flag set" where
  "sv39_flags e = (if bit e 1 then {MF_READ} else {}) \<union> (if bit e 2 then {MF_WRITE} else {}) \<union>
     (if bit e 3 then {MF_EXECUTE} else {})"

definition sv39_walk :: "u64 list \<Rightarrow> u64 \<Rightarrow> (u64 \<times> mapping_flag set) option" where
  "sv39_walk t v =
    (let e = t ! unat (take_bit 9 (drop_bit 30 v));
         ppn = take_bit 44 (drop_bit 10 e)
     in if drop_bit 38 v \<noteq> 0 \<and> drop_bit 38 v \<noteq> 0x3FFFFFF then None
        else if bit e 0 \<and> (bit e 1 \<or> bit e 3) \<and> bit e 6 \<and> bit e 7 \<and> take_bit 18 ppn = 0
        then Some (push_bit 12 ppn + take_bit 30 v, sv39_flags e)
        else None)"

section \<open>The sections of the 32-bit Arm board\<close>

text \<open>An entry of 4096, for every MiB; writing its bits is storing the entry.\<close>

definition EARLY_BOOT_SECTION_NUM :: nat where "EARLY_BOOT_SECTION_NUM = 4"
definition SECTION_SIZE :: u32 where "SECTION_SIZE = 0x100000"

definition arm_boot_pt_static :: "(u32, 'e) pte_ops \<Rightarrow> 'e list" where
  "arm_boot_pt_static ops = replicate 4096 (empty_pte ops)"

definition init_page_tables :: "(u32, 'e) pte_ops \<Rightarrow> 'e list \<Rightarrow> 'e list" where
  "init_page_tables ops t =
    (let page = (\<lambda>paddr. new_page ops paddr {MF_READ, MF_WRITE, MF_EXECUTE} True);
         t1 = fold (\<lambda>i t. let paddr = 0x40000000 + of_nat i * 0x100000 :: u32
                in t[unat (drop_bit 20 paddr) := page paddr]) [0..<EARLY_BOOT_SECTION_NUM] t;
         start_idx = unat (drop_bit 20 0xC0000000 :: u32)
     in fold (\<lambda>i t. let paddr = 0x40000000 + of_nat i * 0x100000 :: u32
                in t[start_idx + i := page paddr]) [0..<EARLY_BOOT_SECTION_NUM] t1)"

definition init_page_tables_after_mmu :: "(u32, 'e) pte_ops \<Rightarrow> 'e list \<Rightarrow> 'e list" where
  "init_page_tables_after_mmu ops t =
    (let n = unat (0x40000000 div SECTION_SIZE);
         t1 = fold (\<lambda>i t. t[0x800 + i := new_page ops (of_nat i * SECTION_SIZE)
                {MF_READ, MF_WRITE, MF_DEVICE} True]) [0..<n] t
     in fold (\<lambda>i t. t[0xC00 + i := new_page ops (0x40000000 + of_nat i * SECTION_SIZE)
                {MF_READ, MF_WRITE, MF_EXECUTE} True]) [0..<n] t1)"

definition section_walk ::
  "('e \<Rightarrow> u32 pte_view) \<Rightarrow> 'e list \<Rightarrow> u32 \<Rightarrow> (u32 \<times> mapping_flag set) option" where
  "section_walk view t v =
    (case view (t ! unat (drop_bit 20 v)) of
       Block b f \<Rightarrow> Some (b + take_bit 20 v, f)
     | _ \<Rightarrow> None)"

section \<open>What the tables map\<close>

abbreviation rwx :: "mapping_flag set" where "rwx \<equiv> {MF_READ, MF_WRITE, MF_EXECUTE}"
abbreviation rwd :: "mapping_flag set" where "rwd \<equiv> {MF_READ, MF_WRITE, MF_DEVICE}"

text \<open>A block that starts where its index says maps every address to itself.\<close>

lemma block_base: "drop_bit n a = k \<Longrightarrow> push_bit n k + take_bit n a = a"
  for a :: "'a::len word"
  using bits_ident[of n a] by simp

lemma take_bit_high_half: "take_bit 48 (a + 0xFFFF000000000000 :: u64) = take_bit 48 a"
proof -
  have dvd: "(2 :: nat) ^ 48 dvd 2 ^ LENGTH(64)" by (rule le_imp_power_dvd) simp
  have c: "unat (0xFFFF000000000000 :: u64) = 65535 * 2 ^ 48" by simp
  have "unat (a + 0xFFFF000000000000) mod 2 ^ 48 = (unat a + 65535 * 2 ^ 48) mod 2 ^ LENGTH(64) mod 2 ^ 48"
    by (simp only: unat_word_ariths(1) c)
  also have "\<dots> = unat a mod 2 ^ 48"
    by (simp only: mod_mod_cancel[OF dvd] mod_mult_self1)
  finally have "unat (take_bit 48 (a + 0xFFFF000000000000)) = unat (take_bit 48 a)"
    by (simp only: unsigned_take_bit_eq take_bit_eq_mod[where 'a = nat])
  then show ?thesis by (simp only: word_unat_eq_iff)
qed

lemma field_of_take: "n + k \<le> m \<Longrightarrow> take_bit k (drop_bit n (take_bit m a)) = take_bit k (drop_bit n a)"
  for a :: "'a::len word"
  by (rule bit_word_eqI) (auto simp: bit_simps)

lemma field_small: "unat a < 2 ^ (n + k) \<Longrightarrow> take_bit k (drop_bit n a) = drop_bit n a"
  for a :: "'a::len word"
proof -
  assume "unat a < 2 ^ (n + k)"
  then have "drop_bit n (unat a) < 2 ^ k"
    by (simp add: drop_bit_eq_div less_mult_imp_div_less power_add mult.commute)
  then show ?thesis
    by (simp add: word_unat_eq_iff unat_drop_bit_eq unsigned_take_bit_eq take_bit_nat_eq_self)
qed

lemma drop_bit_small: "unat a < 2 ^ n \<Longrightarrow> drop_bit n a = 0" for a :: "'a::len word"
proof -
  assume "unat a < 2 ^ n"
  then have "unat (drop_bit n a) = 0" by (simp only: unat_drop_bit_eq) (simp add: drop_bit_eq_div)
  then show ?thesis by (simp only: unat_eq_0)
qed

lemma boot_walk_take: "boot_walk view l1 t v = boot_walk view l1 t (take_bit 48 v)"
proof -
  have "take_bit 9 (drop_bit 39 (take_bit 48 v)) = take_bit 9 (drop_bit 39 v)"
    and "take_bit 9 (drop_bit 30 (take_bit 48 v)) = take_bit 9 (drop_bit 30 v)"
    by (rule field_of_take; simp)+
  moreover have "take_bit 30 (take_bit 48 v) = take_bit 30 v" by simp
  ultimately show ?thesis by (simp only: boot_walk_def)
qed

lemma boot_walk_high_half:
  "boot_walk view l1 t (a + 0xFFFF000000000000) = boot_walk view l1 t a"
  by (metis boot_walk_take take_bit_high_half)

text \<open>
  The abstract form of a two-level boot table: which of the first 512 GiB it
  maps, each to itself, and with which flags.
\<close>

definition gib_map :: "(nat \<Rightarrow> mapping_flag set option) \<Rightarrow> u64 \<Rightarrow> (u64 \<times> mapping_flag set) option" where
  "gib_map G v =
    (if take_bit 9 (drop_bit 39 v) = 0
     then map_option (\<lambda>f. (take_bit 39 v, f)) (G (unat (take_bit 9 (drop_bit 30 v))))
     else None)"

definition refines_gibs ::
  "('e \<Rightarrow> u64 pte_view) \<Rightarrow> u64 \<Rightarrow> 'e boot_pt \<Rightarrow> (nat \<Rightarrow> mapping_flag set option) \<Rightarrow> bool" where
  "refines_gibs view l1 t G \<longleftrightarrow>
     length (BOOT_PT_L0 t) = 512 \<and> length (BOOT_PT_L1 t) = 512 \<and>
     (\<forall>i<512. view (BOOT_PT_L0 t ! i) = (if i = 0 then Table l1 else Invalid)) \<and>
     (\<forall>i<512. view (BOOT_PT_L1 t ! i) =
       (case G i of None \<Rightarrow> Invalid | Some f \<Rightarrow> Block (push_bit 30 (of_nat i)) f))"

lemma gib_base: "push_bit 30 (take_bit 9 (drop_bit 30 v)) + take_bit 30 v = take_bit 39 (v :: u64)"
proof -
  have "take_bit 9 (drop_bit 30 v) = drop_bit 30 (take_bit 39 v)"
    by (rule bit_word_eqI) (auto simp: bit_simps)
  moreover have "take_bit 30 v = take_bit 30 (take_bit 39 v)" by simp
  ultimately show ?thesis by (simp only: bits_ident)
qed

lemma nine_bits: "unat (take_bit 9 x) < 512" for x :: u64
  using take_bit_nat_less_exp[of 9 "unat x"] by (simp add: unsigned_take_bit_eq)

lemma refines_gibs_walk:
  assumes "refines_gibs view l1 t G"
  shows "boot_walk view l1 t = gib_map G"
proof
  fix v
  show "boot_walk view l1 t v = gib_map G v"
    using assms nine_bits[of "drop_bit 39 v"] nine_bits[of "drop_bit 30 v"]
    by (auto simp: boot_walk_def gib_map_def refines_gibs_def unat_eq_0 gib_base split: option.splits)
qed

lemma refines_gibs_table:
  assumes "pte_doc (2 ^ 48) 30 ops view" and "unat l1 < 2 ^ 48" and "take_bit 12 l1 = 0"
  shows "refines_gibs view l1 (set_l0 0 (new_table ops l1) (boot_pt_static ops)) Map.empty"
  using assms by (simp add: refines_gibs_def set_l0_def boot_pt_static_def pte_doc_def nth_list_update)

lemma refines_gibs_block:
  assumes "pte_doc (2 ^ 48) 30 ops view" and "refines_gibs view l1 t G"
    and "MF_READ \<in> f" and "k < 512" and "base = push_bit 30 (of_nat k)"
  shows "refines_gibs view l1 (set_l1 k (new_page ops base f True) t) (G(k \<mapsto> f))"
proof -
  have "unat (of_nat k :: u64) = k" using assms(4) by (simp add: unat_of_nat)
  then have "unat base < 2 ^ 48"
    using assms(4,5) by (simp add: push_bit_eq_mult unat_word_ariths)
  moreover have "take_bit 30 base = 0"
    unfolding assms(5) by (rule bit_word_eqI) (auto simp: bit_simps)
  ultimately have "view (new_page ops base f True) = Block base f"
    using assms(1,3) by (simp add: pte_doc_def)
  then show ?thesis
    using assms(2,4,5) by (auto simp: refines_gibs_def set_l1_def nth_list_update split: option.splits)
qed

text \<open>The boards: which gibibytes their tables map.\<close>

lemmas refines_gibs_init = refines_gibs_table refines_gibs_block

lemma boards_refine_gibs:
  assumes "pte_doc (2 ^ 48) 30 ops view" and "unat l1 < 2 ^ 48" and "take_bit 12 l1 = 0"
  shows qemu_gibs: "refines_gibs view l1 (qemu_init_boot_page_table ops l1 (boot_pt_static ops))
      [0 \<mapsto> rwd, 1 \<mapsto> rwx]"
    and phytium_gibs: "refines_gibs view l1 (phytium_init_boot_page_table ops l1 (boot_pt_static ops))
      [0 \<mapsto> rwd, 2 \<mapsto> rwx]"
    and bsta_gibs: "refines_gibs view l1 (bsta_init_boot_page_table ops l1 (boot_pt_static ops))
      [0 \<mapsto> rwd, 1 \<mapsto> rwd, 2 \<mapsto> rwx]"
    and raspi_gibs: "refines_gibs view l1 (raspi_init_boot_page_table ops l1 (boot_pt_static ops))
      [0 \<mapsto> rwx, 1 \<mapsto> rwx, 2 \<mapsto> rwx, 3 \<mapsto> rwd]"
  unfolding qemu_init_boot_page_table_def phytium_init_boot_page_table_def
    bsta_init_boot_page_table_def raspi_init_boot_page_table_def Let_def
  by (intro refines_gibs_block refines_gibs_table assms; simp)+

lemma la_gibs:
  assumes "pte_doc (2 ^ 48) 30 ops view" and "unat l1 < 2 ^ 48" and "take_bit 12 l1 = 0"
    and "v2p l1_va = Inr l1"
  shows "\<exists>t. la_init_boot_page_table ops v2p l1_va (boot_pt_static ops) = Inr t \<and>
    refines_gibs view l1 t [0 \<mapsto> rwd, 2 \<mapsto> rwx]"
  unfolding la_init_boot_page_table_def Let_def assms(4) rbind.simps
  by (rule exI, rule conjI[OF refl]) (intro refines_gibs_block refines_gibs_table assms; simp)

text \<open>The table of a board after \<^verbatim>\<open>init_boot_page_table\<close>, as the hardware walks it.\<close>

definition board_boot_walk ::
  "profile \<Rightarrow> (u64, 'e) pte_ops \<Rightarrow> ('e \<Rightarrow> u64 pte_view) \<Rightarrow> u64 \<Rightarrow> board \<Rightarrow>
    panic + (u64 \<Rightarrow> (u64 \<times> mapping_flag set) option)" where
  "board_boot_walk p ops view l1 b =
    (case b of
       Riscv64_Qemu \<Rightarrow> Inr (sv39_walk (riscv_init_boot_page_table riscv_boot_pt_static))
     | Loongarch64_Qemu \<Rightarrow>
         rbind (add_offset p (PHYS_VIRT_OFFSET loongarch64_qemu_config) l1) (\<lambda>l1_va.
         rbind (la_init_boot_page_table ops (virt_to_phys (board_mem_if p b)) l1_va (boot_pt_static ops))
           (\<lambda>t. Inr (boot_walk view l1 t)))
     | Aarch64_Qemu \<Rightarrow> Inr (boot_walk view l1 (qemu_init_boot_page_table ops l1 (boot_pt_static ops)))
     | Raspi \<Rightarrow> Inr (boot_walk view l1 (raspi_init_boot_page_table ops l1 (boot_pt_static ops)))
     | Phytium_Pi \<Rightarrow> Inr (boot_walk view l1 (phytium_init_boot_page_table ops l1 (boot_pt_static ops)))
     | Bsta1000b \<Rightarrow> Inr (boot_walk view l1 (bsta_init_boot_page_table ops l1 (boot_pt_static ops))))"

fun board_gibs :: "board \<Rightarrow> nat \<Rightarrow> mapping_flag set option" where
  "board_gibs Riscv64_Qemu = [0 \<mapsto> rwx, 2 \<mapsto> rwx]"
| "board_gibs Loongarch64_Qemu = [0 \<mapsto> rwd, 2 \<mapsto> rwx]"
| "board_gibs Aarch64_Qemu = [0 \<mapsto> rwd, 1 \<mapsto> rwx]"
| "board_gibs Raspi = [0 \<mapsto> rwx, 1 \<mapsto> rwx, 2 \<mapsto> rwx, 3 \<mapsto> rwd]"
| "board_gibs Phytium_Pi = [0 \<mapsto> rwd, 2 \<mapsto> rwx]"
| "board_gibs Bsta1000b = [0 \<mapsto> rwd, 1 \<mapsto> rwd, 2 \<mapsto> rwx]"

lemma board_boot_walk_gibs:
  assumes "pte_doc (2 ^ 48) 30 ops view" and "unat l1 < 2 ^ 48" and "take_bit 12 l1 = 0"
    and "b \<noteq> Riscv64_Qemu"
  shows "board_boot_walk p ops view l1 b = Inr (gib_map (board_gibs b))"
proof (cases b)
  case Loongarch64_Qemu
  have "add_offset p 0xFFFF000000000000 l1 = Inr (l1 + 0xFFFF000000000000)"
    using assms(2) by (simp add: add_offset_def uadd_def)
  moreover from this have "sub_offset p 0xFFFF000000000000 (l1 + 0xFFFF000000000000) = Inr l1"
    by (simp only: offset_translations)
  ultimately show ?thesis
    using la_gibs[OF assms(1-3), of "sub_offset p 0xFFFF000000000000" "l1 + 0xFFFF000000000000"]
    by (auto simp: Loongarch64_Qemu board_boot_walk_def config_defs static_mem_if_defs refines_gibs_walk)
qed (use assms(4) boards_refine_gibs[OF assms(1-3)] in
  \<open>simp_all add: board_boot_walk_def refines_gibs_walk\<close>)

text \<open>The Sv39 table: its four entries, seen through an identity and a high mapping.\<close>

lemma riscv_boot_pt_nth:
  "i < 512 \<Longrightarrow> riscv_init_boot_page_table riscv_boot_pt_static ! i =
    (if i = 0 \<or> i = 0x100 then 0xEF else if i = 2 \<or> i = 0x102 then 0x200000EF else 0)"
  by (simp add: riscv_init_boot_page_table_def riscv_boot_pt_static_def nth_list_update)

lemma sv39_boot_walk:
  "sv39_walk (riscv_init_boot_page_table riscv_boot_pt_static) v =
    (let g = unat (take_bit 9 (drop_bit 30 v))
     in if drop_bit 38 v \<noteq> 0 \<and> drop_bit 38 v \<noteq> 0x3FFFFFF then None
        else if g = 0 \<or> g = 0x100 then Some (take_bit 30 v, rwx)
        else if g = 2 \<or> g = 0x102 then Some (0x80000000 + take_bit 30 v, rwx)
        else None)"
  by (simp add: sv39_walk_def Let_def riscv_boot_pt_nth nine_bits sv39_flags_def)
    (auto simp: insert_commute)

lemma gib_address: "unat (drop_bit 30 a) = k \<Longrightarrow> push_bit 30 (of_nat k) + take_bit 30 a = a"
  for a :: u64
  by (rule block_base) auto

lemma sv39_high:
  fixes a :: u64
  assumes "unat a < 2 ^ 38"
  defines "v \<equiv> a + 0xFFFFFFC000000000"
  shows "unat v = unat a + 0x3FFFFFF * 2 ^ 38" and "drop_bit 38 v = 0x3FFFFFF"
    and "unat (take_bit 9 (drop_bit 30 v)) = 0x100 + unat (drop_bit 30 a)"
    and "take_bit 30 v = take_bit 30 a"
proof -
  show v: "unat v = unat a + 0x3FFFFFF * 2 ^ 38"
    using assms by (simp add: v_def unat_word_ariths)
  have small: "unat a div 2 ^ 38 = 0" using assms(1) by simp
  have "unat (drop_bit 38 v) = (unat a + 0x3FFFFFF * 2 ^ 38) div 2 ^ 38"
    by (simp only: unat_drop_bit_eq v drop_bit_eq_div[where 'a = nat])
  also have "\<dots> = 0x3FFFFFF" by (subst div_mult_self1) (simp_all only: small, simp_all)
  finally show "drop_bit 38 v = 0x3FFFFFF" by (simp add: word_unat_eq_iff)
  have k: "unat a div 2 ^ 30 < 256" using assms(1) by (simp add: less_mult_imp_div_less)
  have "unat (take_bit 9 (drop_bit 30 v)) = (unat a + 0x3FFFFFF00 * 2 ^ 30) div 2 ^ 30 mod 2 ^ 9"
    by (simp add: unat_drop_bit_eq unsigned_take_bit_eq v drop_bit_eq_div[where 'a = nat] take_bit_eq_mod[where 'a = nat])
  also have "(unat a + 0x3FFFFFF00 * 2 ^ 30) div 2 ^ 30 = 0x3FFFFFF00 + unat a div 2 ^ 30"
    by (subst div_mult_self1) simp_all
  also have "(0x3FFFFFF00 + unat a div 2 ^ 30) mod 2 ^ 9 = 0x100 + unat a div 2 ^ 30"
  proof -
    have "0x3FFFFFF00 + unat a div 2 ^ 30 = (0x100 + unat a div 2 ^ 30) + 0x1FFFFFF * 2 ^ 9" by simp
    then show ?thesis using k by (simp only: mod_mult_self1) simp
  qed
  finally show "unat (take_bit 9 (drop_bit 30 v)) = 0x100 + unat (drop_bit 30 a)"
    by (simp only: unat_drop_bit_eq drop_bit_eq_div[where 'a = nat])
  have "unat (take_bit 30 v) = (unat a + 0x3FFFFFF00 * 2 ^ 30) mod 2 ^ 30"
    by (simp add: unsigned_take_bit_eq v take_bit_eq_mod[where 'a = nat])
  also have "\<dots> = unat a mod 2 ^ 30" by (simp only: mod_mult_self1)
  also have "\<dots> = unat (take_bit 30 a)" by (simp only: unsigned_take_bit_eq take_bit_eq_mod[where 'a = nat])
  finally show "take_bit 30 v = take_bit 30 a" by (simp only: word_unat_eq_iff)
qed

text \<open>
  What every board's table gives for an address of a mapped gibibyte: the
  identity, on which the code runs while it turns paging on, and the same
  memory at the address of \<^verbatim>\<open>phys_to_virt\<close>.
\<close>

definition walks_linearly ::
  "board \<Rightarrow> profile \<Rightarrow> (u64 \<Rightarrow> (u64 \<times> mapping_flag set) option) \<Rightarrow> u64 \<Rightarrow> mapping_flag set \<Rightarrow> bool" where
  "walks_linearly b p walk a f \<longleftrightarrow>
     walk a = Some (a, f) \<and> (\<exists>v. phys_to_virt (board_mem_if p b) a = Inr v \<and> walk v = Some (a, f))"

lemma board_gibs_small: "board_gibs b k = Some f \<Longrightarrow> k < 4"
  by (cases b) (auto split: if_splits)

lemma gib_small: "unat (drop_bit 30 a) < 4 \<Longrightarrow> unat a < 2 ^ 32" for a :: u64
  by (simp add: unat_drop_bit_eq drop_bit_eq_div[where 'a = nat])

lemma gib_map_linear:
  assumes "unat (drop_bit 30 a) < 4" and "G (unat (drop_bit 30 a)) = Some f"
  shows "gib_map G a = Some (a, f)" and "gib_map G (a + 0xFFFF000000000000) = Some (a, f)"
proof -
  have "unat a < 2 ^ 32" using gib_small[OF assms(1)] .
  then have low: "take_bit 9 (drop_bit 39 a) = 0" "take_bit 9 (drop_bit 30 a) = drop_bit 30 a"
      "take_bit 39 a = a"
    using drop_bit_small[of a 39] field_small[of a 30 9] field_small[of a 0 39] by simp_all
  then show "gib_map G a = Some (a, f)" using assms(2) by (simp add: gib_map_def)
  have same: "take_bit k (drop_bit n (a + 0xFFFF000000000000)) = take_bit k (drop_bit n a)"
    if "n + k \<le> 48" for n k
    by (metis field_of_take[OF that] take_bit_high_half)
  show "gib_map G (a + 0xFFFF000000000000) = Some (a, f)"
    using low assms(2) same[of 39 9] same[of 30 9] same[of 0 39] by (simp add: gib_map_def)
qed

lemma riscv_walks_linearly:
  assumes "unat (drop_bit 30 a) = 0 \<or> unat (drop_bit 30 a) = 2"
  shows "walks_linearly Riscv64_Qemu p
    (sv39_walk (riscv_init_boot_page_table riscv_boot_pt_static)) a rwx"
proof -
  have small: "unat a < 2 ^ 32" using gib_small[of a] assms by auto
  then have low: "drop_bit 38 a = 0" "take_bit 9 (drop_bit 30 a) = drop_bit 30 a" "unat a < 2 ^ 38"
    using drop_bit_small[of a 38] field_small[of a 30 9] by simp_all
  have base: "of_nat (unat (drop_bit 30 a)) = drop_bit 30 a" by simp
  have "unat (drop_bit 30 a) = 0 \<Longrightarrow> take_bit 30 a = a"
    and "unat (drop_bit 30 a) = 2 \<Longrightarrow> 0x80000000 + take_bit 30 a = a"
    using gib_address[of a 0] gib_address[of a 2] by simp_all
  moreover have "add_offset p 0xFFFFFFC000000000 a = Inr (a + 0xFFFFFFC000000000)"
    using small by (simp add: add_offset_def uadd_def)
  ultimately show ?thesis
    using assms low sv39_high[OF low(3)]
    by (auto simp: walks_linearly_def sv39_boot_walk Let_def static_mem_if_defs config_defs)
qed

lemma board_walks_linearly:
  assumes "pte_doc (2 ^ 48) 30 ops view" and "unat l1 < 2 ^ 48" and "take_bit 12 l1 = 0"
  obtains walk where "board_boot_walk p ops view l1 b = Inr walk"
    and "\<And>a f. board_gibs b (unat (drop_bit 30 a)) = Some f \<Longrightarrow> walks_linearly b p walk a f"
proof (cases "b = Riscv64_Qemu")
  case True
  then have "walks_linearly b p (sv39_walk (riscv_init_boot_page_table riscv_boot_pt_static)) a f"
    if "board_gibs b (unat (drop_bit 30 a)) = Some f" for a f
    using that riscv_walks_linearly[of a p] by (auto split: if_splits)
  then show thesis using that True by (simp add: board_boot_walk_def)
next
  case False
  have "walks_linearly b p (gib_map (board_gibs b)) a f"
    if "board_gibs b (unat (drop_bit 30 a)) = Some f" for a f
  proof -
    have k: "unat (drop_bit 30 a) < 4" using that by (rule board_gibs_small)
    have "add_offset p 0xFFFF000000000000 a = Inr (a + 0xFFFF000000000000)"
      using gib_small[OF k] by (simp add: add_offset_def uadd_def)
    then have "phys_to_virt (board_mem_if p b) a = Inr (a + 0xFFFF000000000000)"
      using False by (cases b) (simp_all add: static_mem_if_defs config_defs)
    then show ?thesis
      using gib_map_linear[where G = "board_gibs b", OF k that] by (simp add: walks_linearly_def)
  qed
  then show thesis using that board_boot_walk_gibs[OF assms False, of p] by blast
qed

lemma low_address: "push_bit 30 (take_bit 2 (take_bit 9 (drop_bit 30 v))) + take_bit 30 v = take_bit 32 (v :: u64)"
proof -
  have "take_bit 2 (take_bit 9 (drop_bit 30 v)) = drop_bit 30 (take_bit 32 v)"
    by (rule bit_word_eqI) (auto simp: bit_simps)
  moreover have "take_bit 30 v = take_bit 30 (take_bit 32 v)" by simp
  ultimately show ?thesis by (simp only: bits_ident)
qed

lemma board_walk_low:
  assumes "pte_doc (2 ^ 48) 30 ops view" and "unat l1 < 2 ^ 48" and "take_bit 12 l1 = 0"
    and "board_boot_walk p ops view l1 b = Inr walk" and "walk v = Some (a, f)"
  shows "a = take_bit 32 v"
proof (cases "b = Riscv64_Qemu")
  case True
  define x where "x = take_bit 9 (drop_bit 30 v)"
  have "walk = sv39_walk (riscv_init_boot_page_table riscv_boot_pt_static)"
    using assms(4) True by (simp add: board_boot_walk_def)
  then have "unat x = 0 \<or> unat x = 0x100 \<or> unat x = 2 \<or> unat x = 0x102"
    and "a = (if unat x = 0 \<or> unat x = 0x100 then 0 else 0x80000000) + take_bit 30 v"
    using assms(5) by (auto simp: sv39_boot_walk Let_def x_def split: if_splits)
  then have "x = 0 \<or> x = 0x100 \<or> x = 2 \<or> x = 0x102"
    and "a = (if x = 0 \<or> x = 0x100 then 0 else 0x80000000) + take_bit 30 v"
    by (simp_all add: word_unat_eq_iff)
  then show ?thesis using low_address[of v] by (auto simp: x_def[symmetric])
next
  case False
  define x where "x = take_bit 9 (drop_bit 30 v)"
  have "walk = gib_map (board_gibs b)"
    using assms(4) board_boot_walk_gibs[OF assms(1-3) False, of p] by simp
  then have "board_gibs b (unat x) = Some f" and a: "a = take_bit 39 v"
    using assms(5) by (auto simp: gib_map_def x_def split: if_splits)
  then have "unat x < 4" by (blast intro: board_gibs_small)
  then have "take_bit 2 x = x" using field_small[of x 0 2] by simp
  then show ?thesis using low_address[of v] gib_base[of v] a by (simp add: x_def[symmetric])
qed

text \<open>
  C7: On every 64-bit board with boot page tables, the tables let the code that
  turns paging on run at its physical addresses, map the gibibyte of the kernel
  image executable at the address of \<^verbatim>\<open>phys_to_virt\<close>, map every register block
  that the board's code uses readable and writable there (as device memory and
  not executable, where the format has device memory), and map no address to
  anything but the physical address in its low 32 bits.
\<close>

theorem boot_tables_linear:
  assumes "pte_doc (2 ^ 48) 30 ops view" and "unat l1 < 2 ^ 48" and "take_bit 12 l1 = 0"
  shows "\<exists>walk. board_boot_walk p ops view l1 b = Inr walk \<and>
    (\<forall>a. drop_bit 30 a = drop_bit 30 (fst (board_kernel b)) \<longrightarrow> walks_linearly b p walk a rwx) \<and>
    (\<forall>d \<in> set (register_blocks b).
       walks_linearly b p walk d (if b = Riscv64_Qemu then rwx else rwd)) \<and>
    (\<forall>v a f. walk v = Some (a, f) \<longrightarrow> a = take_bit 32 v)"
proof -
  obtain walk where walk: "board_boot_walk p ops view l1 b = Inr walk"
    and lin: "\<And>a f. board_gibs b (unat (drop_bit 30 a)) = Some f \<Longrightarrow> walks_linearly b p walk a f"
    using board_walks_linearly[OF assms, where p = p and b = b] by blast
  have "board_gibs b (unat (drop_bit 30 (fst (board_kernel b)))) = Some rwx"
    by (cases b) (simp_all add: config_defs)
  then have "\<forall>a. drop_bit 30 a = drop_bit 30 (fst (board_kernel b)) \<longrightarrow> walks_linearly b p walk a rwx"
    using lin by simp
  moreover have "\<forall>d \<in> set (register_blocks b).
      board_gibs b (unat (drop_bit 30 d)) = Some (if b = Riscv64_Qemu then rwx else rwd)"
    by (cases b) (simp_all add: config_defs)
  then have "\<forall>d \<in> set (register_blocks b).
      walks_linearly b p walk d (if b = Riscv64_Qemu then rwx else rwd)"
    using lin by blast
  moreover have "\<forall>v a f. walk v = Some (a, f) \<longrightarrow> a = take_bit 32 v"
    using board_walk_low[OF assms walk] by blast
  ultimately show ?thesis using walk by blast
qed

theorem boot_tables_linear_witness:
  "\<exists>walk. board_boot_walk Debug plain_ptes id 0x80205000 Phytium_Pi = Inr walk \<and>
    walks_linearly Phytium_Pi Debug walk 0x90000000 rwx \<and>
    walks_linearly Phytium_Pi Debug walk 0x30880000 rwd"
proof -
  have "unat (0x80205000 :: u64) < 2 ^ 48" and "take_bit 12 (0x80205000 :: u64) = 0" by simp_all
  from boot_tables_linear[OF plain_ptes_doc this, where p = Debug and b = Phytium_Pi]
  show ?thesis by (auto simp: config_defs)
qed

text \<open>The 32-bit board: a loop that stores consecutive entries.\<close>

lemma fold_stores:
  "s + n \<le> length t \<Longrightarrow>
    length (fold (\<lambda>i t. t[s + i := g i]) [0..<n] t) = length t \<and>
    (\<forall>k. fold (\<lambda>i t. t[s + i := g i]) [0..<n] t ! k =
      (if s \<le> k \<and> k < s + n then g (k - s) else t ! k))"
  by (induction n) (auto simp: nth_list_update)

lemma early_entries:
  "length (init_page_tables ops (arm_boot_pt_static ops)) = 4096"
  "k < 4096 \<Longrightarrow> init_page_tables ops (arm_boot_pt_static ops) ! k =
    (if 0x400 \<le> k \<and> k < 0x404 then new_page ops (push_bit 20 (of_nat k)) rwx True
     else if 0xC00 \<le> k \<and> k < 0xC04 then new_page ops (push_bit 20 (of_nat (k - 0x800))) rwx True
     else empty_pte ops)"
proof -
  let ?t = "arm_boot_pt_static ops"
  have upt: "[0..<EARLY_BOOT_SECTION_NUM] = [0, 1, 2, 3]"
    by (simp add: EARLY_BOOT_SECTION_NUM_def upt_rec)
  show "length (init_page_tables ops ?t) = 4096"
    unfolding init_page_tables_def upt by (simp add: arm_boot_pt_static_def Let_def)
  assume "k < 4096"
  moreover have "k = 0x400 \<or> k = 0x401 \<or> k = 0x402 \<or> k = 0x403 \<or> \<not> (0x400 \<le> k \<and> k < 0x404)"
    and "k = 0xC00 \<or> k = 0xC01 \<or> k = 0xC02 \<or> k = 0xC03 \<or> \<not> (0xC00 \<le> k \<and> k < 0xC04)"
    by linarith+
  ultimately show "init_page_tables ops ?t ! k =
    (if 0x400 \<le> k \<and> k < 0x404 then new_page ops (push_bit 20 (of_nat k)) rwx True
     else if 0xC00 \<le> k \<and> k < 0xC04 then new_page ops (push_bit 20 (of_nat (k - 0x800))) rwx True
     else empty_pte ops)"
    unfolding init_page_tables_def upt by (auto simp: arm_boot_pt_static_def Let_def nth_list_update)
qed

lemma final_entries:
  assumes "length t = 4096" and "k < 4096"
  shows "init_page_tables_after_mmu ops t ! k =
    (if k < 0x800 then t ! k
     else new_page ops (push_bit 20 (of_nat (k - 0x800))) (if k < 0xC00 then rwd else rwx) True)"
proof -
  have n: "unat (0x40000000 div SECTION_SIZE) = 1024" by (simp add: SECTION_SIZE_def)
  have "0x40000000 + push_bit 20 (x - 0xC00) = push_bit 20 (x - 0x800)" for x :: u32
    by (simp add: push_bit_eq_mult algebra_simps)
  moreover have "of_nat i * SECTION_SIZE = push_bit 20 (of_nat i)" for i
    by (simp add: push_bit_eq_mult SECTION_SIZE_def)
  ultimately show ?thesis
    using assms
    by (simp add: init_page_tables_after_mmu_def Let_def n fold_stores)
qed

lemma section_high:
  fixes a :: u32
  assumes "unat a < 2 ^ 31"
  shows "unat (drop_bit 20 (a + 0x80000000)) = 0x800 + unat (drop_bit 20 a)"
    and "take_bit 20 (a + 0x80000000) = take_bit 20 a" and "unat (drop_bit 20 a) < 0x800"
proof -
  have v: "unat (a + 0x80000000) = unat a + 0x800 * 2 ^ 20"
    using assms by (simp add: unat_word_ariths)
  have "unat (drop_bit 20 (a + 0x80000000)) = (unat a + 0x800 * 2 ^ 20) div 2 ^ 20"
    by (simp only: unat_drop_bit_eq v drop_bit_eq_div[where 'a = nat])
  also have "\<dots> = 0x800 + unat a div 2 ^ 20" by (subst div_mult_self1) simp_all
  finally show "unat (drop_bit 20 (a + 0x80000000)) = 0x800 + unat (drop_bit 20 a)"
    by (simp only: unat_drop_bit_eq drop_bit_eq_div[where 'a = nat])
  have "unat (take_bit 20 (a + 0x80000000)) = (unat a + 0x800 * 2 ^ 20) mod 2 ^ 20"
    by (simp only: unsigned_take_bit_eq v take_bit_eq_mod[where 'a = nat])
  also have "\<dots> = unat (take_bit 20 a)"
    by (simp only: mod_mult_self1 unsigned_take_bit_eq take_bit_eq_mod[where 'a = nat])
  finally show "take_bit 20 (a + 0x80000000) = take_bit 20 a" by (simp only: word_unat_eq_iff)
  show "unat (drop_bit 20 a) < 0x800"
    using assms by (simp add: unat_drop_bit_eq drop_bit_eq_div[where 'a = nat] less_mult_imp_div_less)
qed

lemma section_block:
  assumes "pte_doc (2 ^ 32) 20 ops view" and "MF_READ \<in> f"
  shows "view (new_page ops (push_bit 20 x) f True) = Block (push_bit 20 x :: u32) f"
proof -
  have "take_bit 20 (push_bit 20 x) = 0" by (rule bit_word_eqI) (auto simp: bit_simps)
  moreover have "unat (push_bit 20 x :: u32) < 2 ^ 32" using unsigned_less[of "push_bit 20 x :: u32"] by simp
  ultimately show ?thesis using assms by (simp add: pte_doc_def)
qed

text \<open>
  C9: The 32-bit board's first tables map the four MiB from \<open>0x4000_0000\<close>
  executable, at their physical address and at the address of
  \<^verbatim>\<open>phys_to_virt\<close>; the final ones map all of the low two GiB at that address,
  below \<open>0x4000_0000\<close> as device memory and above as RAM, and leave the identity
  mapping of the start code in place.
\<close>

theorem arm_boot_sections:
  assumes "pte_doc (2 ^ 32) 20 ops view"
  shows "(0x40000000 \<le> a \<and> a < 0x40400000 \<longrightarrow>
      section_walk view (init_page_tables ops (arm_boot_pt_static ops)) a = Some (a, rwx) \<and>
      section_walk view (init_page_tables ops (arm_boot_pt_static ops)) (a + 0x80000000) = Some (a, rwx) \<and>
      section_walk view (init_page_tables_after_mmu ops (init_page_tables ops (arm_boot_pt_static ops))) a
        = Some (a, rwx)) \<and>
    (a < 0x80000000 \<longrightarrow>
      phys_to_virt (arm_qemu_mem_if p arm_qemu_config) a = Inr (a + 0x80000000) \<and>
      section_walk view (init_page_tables_after_mmu ops (init_page_tables ops (arm_boot_pt_static ops)))
        (a + 0x80000000) = Some (a, if a < 0x40000000 then rwd else rwx))"
proof (intro conjI impI)
  let ?early = "init_page_tables ops (arm_boot_pt_static ops)"
  let ?final = "init_page_tables_after_mmu ops ?early"
  let ?k = "unat (drop_bit 20 a)"
  have base: "push_bit 20 (of_nat ?k) + take_bit 20 a = a" by (rule block_base) simp
  { assume "0x40000000 \<le> a \<and> a < 0x40400000"
    then have a: "0x40000000 \<le> unat a" "unat a < 0x40400000"
      by (simp_all add: word_le_nat_alt word_less_nat_alt)
    then have k: "0x400 \<le> ?k" "?k < 0x404" "unat a < 2 ^ 31"
      by (simp_all add: unat_drop_bit_eq drop_bit_eq_div[where 'a = nat] less_mult_imp_div_less)
    note high = section_high[OF k(3)]
    show "section_walk view ?early a = Some (a, rwx)"
      using k base by (simp add: section_walk_def early_entries section_block[OF assms] del: of_nat_unat)
    show "section_walk view ?early (a + 0x80000000) = Some (a, rwx)"
      using k base high by (simp add: section_walk_def early_entries section_block[OF assms] del: of_nat_unat)
    show "section_walk view ?final a = Some (a, rwx)"
      using k base by (simp add: section_walk_def early_entries final_entries section_block[OF assms]
          del: of_nat_unat)
  }
  { assume "a < 0x80000000"
    then have a: "unat a < 2 ^ 31" by (simp add: word_less_nat_alt)
    note high = section_high[OF a]
    show "phys_to_virt (arm_qemu_mem_if p arm_qemu_config) a = Inr (a + 0x80000000)"
      using a by (simp add: static_mem_if_defs config_defs add_offset_def uadd_def)
    have "(a < 0x40000000) = (0x800 + ?k < 0xC00)"
      by (simp add: word_less_nat_alt unat_drop_bit_eq drop_bit_eq_div[where 'a = nat] div_less_iff_less_mult)
    then show "section_walk view ?final (a + 0x80000000) = Some (a, if a < 0x40000000 then rwd else rwx)"
      using base high by (simp add: section_walk_def early_entries final_entries section_block[OF assms]
          del: of_nat_unat)
  }
qed

theorem arm_boot_sections_witness:
  "section_walk id (init_page_tables_after_mmu plain_ptes (init_page_tables plain_ptes
     (arm_boot_pt_static plain_ptes))) 0x89000000 = Some (0x9000000, rwd)"
  using arm_boot_sections[OF plain_ptes_doc, where a = "0x9000000"] by simp

end
