(* ===== verification/Boot_Entry.thy ===== *)
theory Boot_Entry
  imports Boot
begin

text \<open>
  The entry points of every platform: \<^verbatim>\<open>_start\<close> or \<^verbatim>\<open>_start_primary\<close> for the CPU
  that the boot loader starts, \<^verbatim>\<open>_start_secondary\<close> for the CPUs that
  \<^verbatim>\<open>cpu_boot\<close> starts.  A naked function is the sequence of its calls, with the
  registers it passes on; \<open>EnterMain\<close> and \<open>EnterSecondary\<close> are the jumps to the
  kernel with the stack pointer at that moment.  What the boot loader, the
  firmware or a system register gives is an argument, and so are the link-time
  addresses.
\<close>

section \<open>Commands\<close>

datatype 'w boot_cmd =
    SwitchToEl1 | FpEnable | LsxEnable | InitBootPageTable
  | InitMmu 'w | InitMmuOffset 'w 'w | WriteKernelPageTable 'w | FlushTlb
  | InitPageTables 'w | InitPageTablesAfterMmu | SetWindow nat 'w
  | EnterMain (entry_sp: 'w) (entry_cpu: 'w) (entry_arg: 'w)
  | EnterSecondary (entry_sp: 'w) (entry_cpu: 'w)

text \<open>
  The addresses of the boot stack and of the first boot page table, as the
  instruction that loads them sees them.
\<close>

record 'w boot_image =
  BOOT_STACK :: 'w
  BOOT_PT :: 'w

text \<open>\<^verbatim>\<open>enable_fp\<close> depends on the feature \<^verbatim>\<open>fp-simd\<close>.\<close>

definition enable_fp :: "bool \<Rightarrow> ('w boot_cmd, unit) io" where
  "enable_fp fp = (if fp then emit FpEnable else ret_io ())"

definition cpu_id_of_mpidr :: "'w::len word \<Rightarrow> 'w word" where
  "cpu_id_of_mpidr mpidr = mpidr AND 0xFFFFFF"

section \<open>The 64-bit Arm boards\<close>

definition FLAG_LE :: u64 where "FLAG_LE = 0"
definition FLAG_PAGE_SIZE_4K :: u64 where "FLAG_PAGE_SIZE_4K = 2"
definition FLAG_ANY_MEM :: u64 where "FLAG_ANY_MEM = 8"

definition image_flags :: u64 where
  "image_flags = FLAG_LE OR FLAG_PAGE_SIZE_4K OR FLAG_ANY_MEM"

definition qemu_start_primary ::
  "bool \<Rightarrow> (u64, 'm) plat_config_scheme \<Rightarrow> u64 boot_image \<Rightarrow> u64 \<Rightarrow> u64 \<Rightarrow> (u64 boot_cmd, unit) io" where
  "qemu_start_primary fp cfg img mpidr dtb =
    (let x19 = cpu_id_of_mpidr mpidr;
         sp = BOOT_STACK img + BOOT_STACK_SIZE cfg
     in seq_io (emit SwitchToEl1)
        (seq_io (enable_fp fp)
        (seq_io (emit InitBootPageTable)
        (seq_io (emit (InitMmu (BOOT_PT img)))
        (emit (EnterMain (sp + PHYS_VIRT_OFFSET cfg) x19 dtb))))))"

definition qemu_start_secondary ::
  "bool \<Rightarrow> (u64, 'm) plat_config_scheme \<Rightarrow> u64 boot_image \<Rightarrow> u64 \<Rightarrow> u64 \<Rightarrow> (u64 boot_cmd, unit) io" where
  "qemu_start_secondary fp cfg img mpidr x0 =
    (let x19 = cpu_id_of_mpidr mpidr;
         sp = x0
     in seq_io (emit SwitchToEl1)
        (seq_io (enable_fp fp)
        (seq_io (emit (InitMmu (BOOT_PT img)))
        (emit (EnterSecondary (sp + PHYS_VIRT_OFFSET cfg) x19)))))"

definition raspi_start_primary ::
  "bool \<Rightarrow> (u64, 'm) plat_config_scheme \<Rightarrow> u64 boot_image \<Rightarrow> u64 \<Rightarrow> u64 \<Rightarrow> (u64 boot_cmd, unit) io" where
  "raspi_start_primary fp cfg img mpidr dtb =
    (let x19 = cpu_id_of_mpidr mpidr;
         sp = BOOT_STACK img + BOOT_STACK_SIZE cfg
     in seq_io (emit SwitchToEl1)
        (seq_io (enable_fp fp)
        (seq_io (emit InitBootPageTable)
        (seq_io (emit (InitMmu (BOOT_PT img)))
        (emit (EnterMain (sp + PHYS_VIRT_OFFSET cfg) x19 dtb))))))"

definition raspi_start_secondary ::
  "bool \<Rightarrow> (u64, 'm) plat_config_scheme \<Rightarrow> u64 boot_image \<Rightarrow> u64 \<Rightarrow> u64 \<Rightarrow> (u64 boot_cmd, unit) io" where
  "raspi_start_secondary fp cfg img mpidr x0 =
    (let x19 = cpu_id_of_mpidr mpidr;
         sp = x0
     in seq_io (emit SwitchToEl1)
        (seq_io (enable_fp fp)
        (seq_io (emit (InitMmu (BOOT_PT img)))
        (emit (EnterSecondary (sp + PHYS_VIRT_OFFSET cfg) x19)))))"

text \<open>
  On the Raspberry Pi the spin table releases a CPU into
  \<^verbatim>\<open>modify_stack_and_start\<close>, which fetches its stack from the slot, at the slot's
  physical address, and goes on to the common entry.
\<close>

definition modify_stack_and_start ::
  "bool \<Rightarrow> (u64, 'm) plat_config_scheme \<Rightarrow> u64 boot_image \<Rightarrow> u64 \<Rightarrow> (u64 \<Rightarrow> u64) \<Rightarrow> u64 \<Rightarrow>
    (u64 boot_cmd, unit) io" where
  "modify_stack_and_start fp cfg img mpidr load secondary_boot_stack =
    (let x0 = load (secondary_boot_stack - PHYS_VIRT_OFFSET cfg)
     in raspi_start_secondary fp cfg img mpidr x0)"

definition bsta_start_primary ::
  "bool \<Rightarrow> (u64, 'm) plat_config_scheme \<Rightarrow> u64 boot_image \<Rightarrow> u64 \<Rightarrow> u64 \<Rightarrow> (u64 boot_cmd, unit) io" where
  "bsta_start_primary fp cfg img mpidr dtb =
    (let x19 = cpu_id_of_mpidr mpidr;
         sp = BOOT_STACK img + BOOT_STACK_SIZE cfg
     in seq_io (emit SwitchToEl1)
        (seq_io (enable_fp fp)
        (seq_io (emit InitBootPageTable)
        (seq_io (emit (InitMmu (BOOT_PT img)))
        (emit (EnterMain (sp + PHYS_VIRT_OFFSET cfg) x19 dtb))))))"

definition bsta_start_secondary ::
  "bool \<Rightarrow> (u64, 'm) plat_config_scheme \<Rightarrow> u64 boot_image \<Rightarrow> u64 \<Rightarrow> u64 \<Rightarrow> (u64 boot_cmd, unit) io" where
  "bsta_start_secondary fp cfg img mpidr x0 =
    (let x19 = cpu_id_of_mpidr mpidr;
         sp = x0
     in seq_io (emit SwitchToEl1)
        (seq_io (emit (InitMmu (BOOT_PT img)))
        (seq_io (enable_fp fp)
        (emit (EnterSecondary (sp + PHYS_VIRT_OFFSET cfg) x19)))))"

definition phytium_start_primary ::
  "bool \<Rightarrow> (u64, 'm) listed_config_scheme \<Rightarrow> u64 boot_image \<Rightarrow> u64 \<Rightarrow> u64 \<Rightarrow> (u64 boot_cmd, unit) io" where
  "phytium_start_primary fp cfg img mpidr dtb =
    (let x19 = cpu_id_of_mpidr mpidr;
         sp = BOOT_STACK img + BOOT_STACK_SIZE cfg
     in seq_io (emit SwitchToEl1)
        (seq_io (enable_fp fp)
        (seq_io (emit InitBootPageTable)
        (seq_io (emit (InitMmu (BOOT_PT img)))
        (bind_io (lift_io (hart_to_logid cfg x19)) (\<lambda>x0.
          emit (EnterMain (sp + PHYS_VIRT_OFFSET cfg) x0 dtb)))))))"

definition phytium_start_secondary ::
  "bool \<Rightarrow> (u64, 'm) listed_config_scheme \<Rightarrow> u64 boot_image \<Rightarrow> u64 \<Rightarrow> u64 \<Rightarrow> (u64 boot_cmd, unit) io" where
  "phytium_start_secondary fp cfg img mpidr x0 =
    (let x19 = cpu_id_of_mpidr mpidr;
         sp = x0
     in seq_io (emit SwitchToEl1)
        (seq_io (emit (InitMmu (BOOT_PT img)))
        (seq_io (enable_fp fp)
        (bind_io (lift_io (hart_to_logid cfg x19)) (\<lambda>x0.
          emit (EnterSecondary (sp + PHYS_VIRT_OFFSET cfg) x0))))))"

section \<open>The 32-bit Arm board\<close>

text \<open>
  Here the addresses are link-time ones, from which the code subtracts the
  offset while paging is off.  The primary CPU loads its virtual stack afresh
  after it has jumped to the high addresses.
\<close>

definition arm_start ::
  "bool \<Rightarrow> (u32, 'm) plat_config_scheme \<Rightarrow> u32 boot_image \<Rightarrow> u32 \<Rightarrow> u32 \<Rightarrow> (u32 boot_cmd, unit) io" where
  "arm_start fp cfg img mpidr dtb =
    (let r11 = cpu_id_of_mpidr mpidr;
         r0 = BOOT_PT img - PHYS_VIRT_OFFSET cfg
     in seq_io (enable_fp fp)
        (seq_io (emit (InitPageTables r0))
        (seq_io (emit (InitMmu r0))
        (seq_io (emit InitPageTablesAfterMmu)
        (emit (EnterMain (BOOT_STACK img + BOOT_STACK_SIZE cfg) r11 dtb))))))"

definition arm_start_secondary ::
  "bool \<Rightarrow> (u32, 'm) plat_config_scheme \<Rightarrow> u32 boot_image \<Rightarrow> u32 \<Rightarrow> u32 \<Rightarrow> (u32 boot_cmd, unit) io" where
  "arm_start_secondary fp cfg img mpidr r0 =
    (let r11 = cpu_id_of_mpidr mpidr;
         sp = r0
     in seq_io (enable_fp fp)
        (seq_io (emit (InitMmu (BOOT_PT img - PHYS_VIRT_OFFSET cfg)))
        (emit (EnterSecondary (sp + PHYS_VIRT_OFFSET cfg) r11))))"

section \<open>RISC-V\<close>

definition riscv_init_mmu :: "u64 boot_image \<Rightarrow> (u64 boot_cmd, unit) io" where
  "riscv_init_mmu img = seq_io (emit (WriteKernelPageTable (BOOT_PT img))) (emit FlushTlb)"

definition riscv_start ::
  "(u64, 'm) plat_config_scheme \<Rightarrow> u64 boot_image \<Rightarrow> u64 \<Rightarrow> u64 \<Rightarrow> (u64 boot_cmd, unit) io" where
  "riscv_start cfg img a0 a1 =
    (let sp = BOOT_STACK img + BOOT_STACK_SIZE cfg
     in seq_io (emit InitBootPageTable)
        (seq_io (riscv_init_mmu img)
        (emit (EnterMain (sp + PHYS_VIRT_OFFSET cfg) a0 a1))))"

definition riscv_start_secondary ::
  "(u64, 'm) plat_config_scheme \<Rightarrow> u64 boot_image \<Rightarrow> u64 \<Rightarrow> u64 \<Rightarrow> (u64 boot_cmd, unit) io" where
  "riscv_start_secondary cfg img a0 a1 =
    (let sp = a1
     in seq_io (riscv_init_mmu img)
        (emit (EnterSecondary (sp + PHYS_VIRT_OFFSET cfg) a0)))"

section \<open>LoongArch\<close>

text \<open>
  \<^verbatim>\<open>ori\<close> and \<^verbatim>\<open>lu52i.d\<close> build the two direct-mapping windows: the instruction puts
  its 12-bit immediate, as a two's complement number, above the low 52 bits.
  Addresses are virtual from the start, as the CPU drops their high bits while
  paging is off.
\<close>

definition lu52i :: "u64 \<Rightarrow> int \<Rightarrow> u64" where
  "lu52i r imm = push_bit 52 (word_of_int imm) OR take_bit 52 r"

definition la_set_windows :: "(u64 boot_cmd, unit) io" where
  "la_set_windows =
     seq_io (emit (SetWindow 0x180 (lu52i (0 OR 0x1) (- 2048))))
       (emit (SetWindow 0x181 (lu52i (0 OR 0x11) (- 1792))))"

definition enable_fp_simd :: "bool \<Rightarrow> (u64 boot_cmd, unit) io" where
  "enable_fp_simd fp = (if fp then seq_io (emit FpEnable) (emit LsxEnable) else ret_io ())"

definition la_init_mmu ::
  "(u64, 'm) plat_config_scheme \<Rightarrow> (u64 \<Rightarrow> panic + u64) \<Rightarrow> u64 boot_image \<Rightarrow> (u64 boot_cmd, unit) io" where
  "la_init_mmu cfg v2p img =
     bind_io (lift_io (v2p (BOOT_PT img))) (\<lambda>root. emit (InitMmuOffset root (PHYS_VIRT_OFFSET cfg)))"

definition la_start ::
  "bool \<Rightarrow> (u64, 'm) plat_config_scheme \<Rightarrow> (u64 \<Rightarrow> panic + u64) \<Rightarrow> u64 boot_image \<Rightarrow> u64 \<Rightarrow>
    (u64 boot_cmd, unit) io" where
  "la_start fp cfg v2p img cpuid =
    (let sp = BOOT_STACK img + BOOT_STACK_SIZE cfg
     in seq_io la_set_windows
        (seq_io (enable_fp_simd fp)
        (seq_io (emit InitBootPageTable)
        (seq_io (la_init_mmu cfg v2p img)
        (emit (EnterMain sp cpuid 0))))))"

definition la_start_secondary ::
  "bool \<Rightarrow> (u64, 'm) plat_config_scheme \<Rightarrow> (u64 \<Rightarrow> panic + u64) \<Rightarrow> u64 boot_image \<Rightarrow> u64 \<Rightarrow> u64 \<Rightarrow>
    (u64 boot_cmd, unit) io" where
  "la_start_secondary fp cfg v2p img cpuid smp_boot_stack_top =
    (let sp = smp_boot_stack_top
     in seq_io la_set_windows
        (seq_io (enable_fp_simd fp)
        (seq_io (la_init_mmu cfg v2p img)
        (emit (EnterSecondary sp cpuid)))))"

section \<open>x86\<close>

text \<open>
  The entry points called by the multiboot assembly: they return, and the
  assembly halts, when the boot loader's magic value is not in place.  The CPU
  id is the initial local APIC id, when CPUID tells it.  The stack pointer is
  the assembly's business and not known here, hence \<open>sp\<close>.
\<close>

definition MULTIBOOT_HEADER_FLAGS :: u64 where "MULTIBOOT_HEADER_FLAGS = 0x00010002"
definition MULTIBOOT_HEADER_MAGIC :: u64 where "MULTIBOOT_HEADER_MAGIC = 0x1BADB002"
definition MULTIBOOT_BOOTLOADER_MAGIC :: u64 where "MULTIBOOT_BOOTLOADER_MAGIC = 0x2BADB002"

definition x86_current_cpu_id :: "u8 option \<Rightarrow> u64" where
  "x86_current_cpu_id finfo = (case finfo of Some apic_id \<Rightarrow> ucast apic_id | None \<Rightarrow> 0)"

definition rust_entry :: "u8 option \<Rightarrow> u64 \<Rightarrow> u64 \<Rightarrow> u64 \<Rightarrow> (u64 boot_cmd, unit) io" where
  "rust_entry finfo sp magic mbi =
    (if magic = MULTIBOOT_BOOTLOADER_MAGIC
     then emit (EnterMain sp (x86_current_cpu_id finfo) mbi) else ret_io ())"

definition rust_entry_secondary :: "bool \<Rightarrow> u8 option \<Rightarrow> u64 \<Rightarrow> u64 \<Rightarrow> (u64 boot_cmd, unit) io" where
  "rust_entry_secondary smp finfo sp magic =
    (if smp \<and> magic = MULTIBOOT_BOOTLOADER_MAGIC
     then emit (EnterSecondary sp (x86_current_cpu_id finfo)) else ret_io ())"

section \<open>From the start of a secondary CPU to its kernel entry\<close>

text \<open>
  What the firmware is asked to start (target, entry and argument), what is left
  in the shared stack slot, and with which stack and CPU id an entry point
  reaches the kernel.
\<close>

definition started :: "('w power_cmd, 'a) io \<Rightarrow> ('w \<times> 'w \<times> 'w) option" where
  "started m =
    (case m of
       ([Smc f t e a], Inr _) \<Rightarrow> Some (t, e, a)
     | ([Hvc f t e a], Inr _) \<Rightarrow> Some (t, e, a)
     | ([HartStart t e a], Inr _) \<Rightarrow> Some (t, e, a)
     | _ \<Rightarrow> None)"

definition left_in_slot :: "('w power_cmd, 'a) io \<Rightarrow> 'w option" where
  "left_in_slot m = (case m of (WriteSlot s # cs, Inr _) \<Rightarrow> Some s | _ \<Rightarrow> None)"

definition entered :: "('w boot_cmd, unit) io \<Rightarrow> ('w \<times> 'w) option" where
  "entered m =
    (if fst m = [] then None
     else case (last (fst m), snd m) of
            (EnterSecondary sp cpu, Inr _) \<Rightarrow> Some (sp, cpu)
          | _ \<Rightarrow> None)"

lemma sub_offset_undone: "sub_offset p off v = Inr s \<Longrightarrow> s + off = v"
  by (auto simp: sub_offset_def usub_def split: if_splits)

lemmas start_secondary_defs = qemu_start_secondary_def raspi_start_secondary_def
  modify_stack_and_start_def bsta_start_secondary_def phytium_start_secondary_def
  arm_start_secondary_def riscv_start_secondary_def riscv_init_mmu_def la_start_secondary_def
  la_init_mmu_def la_set_windows_def enable_fp_def enable_fp_simd_def

lemmas cpu_boot_defs = qemu_cpu_boot_def phytium_cpu_boot_def bsta_start_secondary_cpu_def
  riscv_cpu_boot_def raspi_start_secondary_cpu_def la_start_secondary_cpu_def psci_cpu_on_def
  psci_call_def

lemma qemu_secondary:
  assumes "v2p entry = Inr e" and "virt_to_phys (aarch64_qemu_mem_if p cfg) stack = Inr s"
    and "cpu_id_of_mpidr mpidr = cpu"
  shows "started (qemu_cpu_boot v2p entry hvc 0 cpu s) = Some (cpu, e, s)"
    and "entered (qemu_start_secondary fp cfg img mpidr s) = Some (stack, cpu)"
  using assms
  by (auto simp: static_mem_if_defs start_secondary_defs cpu_boot_defs io_simps started_def entered_def
      Let_def dest!: sub_offset_undone)

lemma riscv_secondary:
  assumes "v2p entry = Inr e" and "virt_to_phys (riscv64_qemu_mem_if p cfg) stack = Inr s"
  shows "started (riscv_cpu_boot v2p entry True cpu s) = Some (cpu, e, s)"
    and "entered (riscv_start_secondary cfg img cpu s) = Some (stack, cpu)"
  using assms
  by (auto simp: static_mem_if_defs start_secondary_defs cpu_boot_defs io_simps started_def entered_def
      Let_def dest!: sub_offset_undone)

lemma phytium_secondary:
  assumes "v2p entry = Inr e" and "virt_to_phys (phytium_pi_mem_if p cfg) stack = Inr s"
    and "distinct (CPU_ID_LIST cfg)" and "unat cpu < length (CPU_ID_LIST cfg)"
    and "cpu_id_of_mpidr mpidr = CPU_ID_LIST cfg ! unat cpu"
  shows "started (phytium_cpu_boot cfg v2p entry hvc 0 cpu s) = Some (cpu_id_of_mpidr mpidr, e, s)"
    and "entered (phytium_start_secondary fp cfg img mpidr s) = Some (stack, cpu)"
  using assms
  by (auto simp: static_mem_if_defs start_secondary_defs cpu_boot_defs io_simps started_def entered_def
      Let_def index_def hart_to_logid_def position_nth dest!: sub_offset_undone)

lemma bsta_secondary:
  assumes "v2p entry = Inr e" and "virt_to_phys (bsta1000b_mem_if p cfg) stack = Inr s"
    and "unat cpu < length (CPU_ID_LIST cfg)"
    and "cpu_id_of_mpidr mpidr = CPU_ID_LIST cfg ! unat cpu"
  shows "started (bsta_start_secondary_cpu cfg v2p entry hvc 0 cpu s) = Some (cpu_id_of_mpidr mpidr, e, s)"
    and "entered (bsta_start_secondary fp cfg img mpidr s) = Some (stack, CPU_ID_LIST cfg ! unat cpu)"
  using assms
  by (auto simp: static_mem_if_defs start_secondary_defs cpu_boot_defs io_simps started_def entered_def
      Let_def index_def dest!: sub_offset_undone)

lemma raspi_secondary:
  assumes "v2p entry = Inr e" and "virt_to_phys (raspi_mem_if p cfg) stack = Inr s"
    and "unat cpu < 4" and "phys_to_virt (raspi_mem_if p cfg) (CPU_SPIN_TABLE ! unat cpu) = Inr r"
    and "load (ptr - PHYS_VIRT_OFFSET cfg) = s" and "cpu_id_of_mpidr mpidr = cpu"
  shows "left_in_slot (raspi_start_secondary_cpu (phys_to_virt (raspi_mem_if p cfg)) v2p entry ptr cpu s)
      = Some s"
    and "entered (modify_stack_and_start fp cfg img mpidr load ptr) = Some (stack, cpu)"
proof -
  show "left_in_slot (raspi_start_secondary_cpu (phys_to_virt (raspi_mem_if p cfg)) v2p entry ptr cpu s)
      = Some s"
    using assms(1,3,4)
    by (simp add: raspi_start_secondary_cpu_def left_in_slot_def io_simps index_def CPU_SPIN_TABLE_def)
  have "s + PHYS_VIRT_OFFSET cfg = stack"
    using assms(2) by (auto simp: static_mem_if_defs dest!: sub_offset_undone)
  then show "entered (modify_stack_and_start fp cfg img mpidr load ptr) = Some (stack, cpu)"
    using assms(5,6) by (simp add: start_secondary_defs io_simps entered_def Let_def)
qed

lemma la_secondary:
  assumes "virt_to_phys (loongarch64_qemu_mem_if p cfg) stack = Inr s" and "v2p (BOOT_PT img) = Inr root"
  shows "left_in_slot (la_start_secondary_cpu (phys_to_virt (loongarch64_qemu_mem_if p cfg)) entry cpu s)
      = Some stack"
    and "entered (la_start_secondary fp cfg v2p img cpu stack) = Some (stack, cpu)"
proof -
  have "phys_to_virt (loongarch64_qemu_mem_if p cfg) s = Inr stack"
    using assms(1) by (simp only: loongarch64_qemu_mem.translation_iff)
  then show "left_in_slot (la_start_secondary_cpu (phys_to_virt (loongarch64_qemu_mem_if p cfg)) entry cpu s)
      = Some stack"
    by (simp add: la_start_secondary_cpu_def left_in_slot_def io_simps)
  show "entered (la_start_secondary fp cfg v2p img cpu stack) = Some (stack, cpu)"
    using assms(2) by (simp add: start_secondary_defs io_simps entered_def Let_def)
qed



end
