(* ===== verification/Image_Header.thy ===== *)
theory Image_Header
  imports Boot_Entry
begin

text \<open>
  The first 64 bytes of the image of a 64-bit Arm board (\<^verbatim>\<open>_start\<close> in \<^verbatim>\<open>boot.rs\<close>): the header
  by which boot loaders know an arm64 kernel, as bytes, and how a boot loader reads it.
\<close>

section \<open>Bytes\<close>

definition le_bytes :: "nat \<Rightarrow> u64 \<Rightarrow> u8 list" where
  "le_bytes n w = map (\<lambda>i. ucast (drop_bit (8 * i) w)) [0..<n]"

fun le_word :: "u8 list \<Rightarrow> u64" where
  "le_word [] = 0"
| "le_word (b # bs) = ucast b OR push_bit 8 (le_word bs)"

lemma le_bytes_Suc: "le_bytes (Suc n) w = ucast w # le_bytes n (drop_bit 8 w)"
proof -
  have "le_bytes (Suc n) w = ucast (drop_bit (8 * 0) w) # map (\<lambda>i. ucast (drop_bit (8 * Suc i) w)) [0..<n]"
    unfolding le_bytes_def by (simp only: upt_conv_Cons[of 0 "Suc n"] map_Suc_upt[symmetric]) simp
  then show ?thesis by (simp add: le_bytes_def add.commute del: upt_Suc)
qed

lemma le_word_bytes: "le_word (le_bytes n w) = take_bit (8 * n) w"
proof (induction n arbitrary: w)
  case (Suc n)
  have "ucast (ucast w :: u8) OR push_bit 8 (take_bit (8 * n) (drop_bit 8 w)) = take_bit (8 * Suc n) w"
    by (rule bit_word_eqI) (auto simp: bit_simps)
  then show ?case using Suc by (simp add: le_bytes_Suc)
qed (simp add: le_bytes_def)

lemma length_le_bytes [simp]: "length (le_bytes n w) = n"
  by (simp add: le_bytes_def)

section \<open>The header\<close>

text \<open>The two instructions, as the architecture encodes them.\<close>

definition add_imm :: "u64 \<Rightarrow> u64 \<Rightarrow> u64 \<Rightarrow> u64" where
  "add_imm rd rn imm = 0x91000000 OR push_bit 10 imm OR push_bit 5 rn OR rd"

definition branch :: "u64 \<Rightarrow> u64" where
  "branch off = 0x14000000 OR take_bit 26 (drop_bit 2 off)"

text \<open>\<open>entry\<close> is the distance to \<^verbatim>\<open>_start_primary\<close>, \<open>len\<close> is \<^verbatim>\<open>_ekernel - _start\<close>.\<close>

definition image_start :: "u64 \<Rightarrow> u64 \<Rightarrow> u8 list" where
  "image_start entry len =
     le_bytes 4 (add_imm 13 18 0x16) @ le_bytes 4 (branch entry) @
     le_bytes 8 0 @ le_bytes 8 len @ le_bytes 8 image_flags @
     le_bytes 8 0 @ le_bytes 8 0 @ le_bytes 8 0 @
     [0x41, 0x52, 0x4D, 0x64] @ le_bytes 4 0"

text \<open>The fields as the documentation of the arm64 boot protocol places them.\<close>

record image_header =
  code0 :: u64
  text_offset :: u64
  image_size :: u64
  header_flags :: u64
  header_magic :: u64

definition field :: "u8 list \<Rightarrow> nat \<Rightarrow> nat \<Rightarrow> u64" where
  "field bs at n = le_word (take n (drop at bs))"

definition read_header :: "u8 list \<Rightarrow> image_header" where
  "read_header bs = \<lparr>code0 = field bs 0 4, text_offset = field bs 8 8, image_size = field bs 16 8,
     header_flags = field bs 24 8, header_magic = field bs 56 4\<rparr>"

lemma field_skip: "length xs = k \<Longrightarrow> k \<le> at \<Longrightarrow> field (xs @ ys) at n = field ys (at - k) n"
  by (simp add: field_def)

lemma field_here: "field (le_bytes n w @ ys) 0 n = take_bit (8 * n) w"
  by (simp add: field_def le_word_bytes)

text \<open>
  A boot loader reads what the platform means: little endian, pages of 4 KiB, anywhere in memory,
  the size of the image and the magic number \<open>ARM\<close>, 0x64; the first two bytes are those of an executable for
  UEFI, \<open>MZ\<close>.
\<close>

theorem image_header_read:
  "length (image_start entry len) = 64 \<and>
   read_header (image_start entry len @ rest) =
     \<lparr>code0 = 0x91005A4D, text_offset = 0, image_size = len, header_flags = 0xA, header_magic = 0x644D5241\<rparr> \<and>
   take 2 (image_start entry len) = [0x4D, 0x5A]"
proof -
  have magic: "field ([0x41, 0x52, 0x4D, 0x64] @ le_bytes 4 0 @ rest) 0 4 = 0x644D5241"
    by (simp add: field_def)
  have size: "take_bit 64 len = len" by (simp add: take_bit_word_eq_self)
  have "read_header (image_start entry len @ rest) =
     \<lparr>code0 = 0x91005A4D, text_offset = 0, image_size = len, header_flags = 0xA, header_magic = 0x644D5241\<rparr>"
    unfolding read_header_def image_start_def append_assoc
    using magic size
    by (simp add: field_skip[where k = 4] field_skip[where k = 8] field_here add_imm_def image_flags_def FLAG_LE_def
        FLAG_PAGE_SIZE_4K_def FLAG_ANY_MEM_def)
  moreover have "le_bytes 4 (add_imm 13 18 0x16) = [0x4D, 0x5A, 0x00, 0x91]"
    by (simp add: le_bytes_def upt_rec add_imm_def)
  then have "take 2 (image_start entry len) = [0x4D, 0x5A]"
    by (simp add: image_start_def)
  ultimately show ?thesis by (simp add: image_start_def)
qed

end
