(* ===== verification/X86_Start.thy ===== *)
theory X86_Start
  imports Boot_Entry
begin

text \<open>
  The start of an x86 machine: \<^verbatim>\<open>boot.rs\<close> with the assembly that it includes (\<^verbatim>\<open>multiboot.S\<close>,
  and \<^verbatim>\<open>ap_start.S\<close> of \<^verbatim>\<open>mp.rs\<close>).  The first CPU comes from a boot loader in 32-bit mode, the
  others come from the start page in real mode; both turn paging on with the temporary tables
  and enter the kernel.  The flags of the control registers are those of the crates \<^verbatim>\<open>x86_64\<close> and
  \<^verbatim>\<open>x86\<close>, parameters with the bits that the architecture gives them.
\<close>

section \<open>Control registers\<close>

record x86_flags =
  PROTECTED_MODE_ENABLE :: u64
  MONITOR_COPROCESSOR :: u64
  NUMERIC_ERROR :: u64
  WRITE_PROTECT :: u64
  PAGING :: u64
  PHYSICAL_ADDRESS_EXTENSION :: u64
  PAGE_GLOBAL :: u64
  OSFXSR :: u64
  OSXMMEXCPT_ENABLE :: u64
  LONG_MODE_ENABLE :: u64
  NO_EXECUTE_ENABLE :: u64
  IA32_EFER :: u32

definition x86_flags_doc :: "x86_flags \<Rightarrow> bool" where
  "x86_flags_doc f \<longleftrightarrow>
     PROTECTED_MODE_ENABLE f = 2 ^ 0 \<and> MONITOR_COPROCESSOR f = 2 ^ 1 \<and> NUMERIC_ERROR f = 2 ^ 5 \<and>
     WRITE_PROTECT f = 2 ^ 16 \<and> PAGING f = 2 ^ 31 \<and>
     PHYSICAL_ADDRESS_EXTENSION f = 2 ^ 5 \<and> PAGE_GLOBAL f = 2 ^ 7 \<and> OSFXSR f = 2 ^ 9 \<and> OSXMMEXCPT_ENABLE f = 2 ^ 10 \<and>
     LONG_MODE_ENABLE f = 2 ^ 8 \<and> NO_EXECUTE_ENABLE f = 2 ^ 11 \<and> IA32_EFER f = 0xC0000080"

definition CR0 :: "x86_flags \<Rightarrow> u64" where
  "CR0 f = PROTECTED_MODE_ENABLE f OR MONITOR_COPROCESSOR f OR NUMERIC_ERROR f OR WRITE_PROTECT f OR PAGING f"

definition CR4 :: "bool \<Rightarrow> x86_flags \<Rightarrow> u64" where
  "CR4 fp_simd f = PHYSICAL_ADDRESS_EXTENSION f OR PAGE_GLOBAL f OR
     (if fp_simd then OSFXSR f OR OSXMMEXCPT_ENABLE f else 0)"

definition EFER :: "x86_flags \<Rightarrow> u64" where
  "EFER f = LONG_MODE_ENABLE f OR NO_EXECUTE_ENABLE f"

section \<open>The image\<close>

text \<open>The link-time addresses, all in the high half.\<close>

record x86_image =
  multiboot_header_at :: u64
  skernel :: u64
  edata :: u64
  ebss :: u64
  start_at :: u64
  tmp_gdt_desc :: u64
  tmp_pml4_at :: u64
  bsp_entry64_at :: u64
  ap_entry32_at :: u64
  ap_entry64_at :: u64
  ap_start_at :: u64
  ap_start32_at :: u64
  ap_gdt_desc_at :: u64
  x86_boot_stack :: u64

definition multiboot_header :: "(u64, 'm) plat_config_scheme \<Rightarrow> x86_image \<Rightarrow> u32 list" where
  "multiboot_header cfg img =
     [ucast MULTIBOOT_HEADER_MAGIC, ucast MULTIBOOT_HEADER_FLAGS,
      ucast (- (MULTIBOOT_HEADER_MAGIC + MULTIBOOT_HEADER_FLAGS))] @
     map (\<lambda>a. ucast (a - PHYS_VIRT_OFFSET cfg))
       [multiboot_header_at img, skernel img, edata img, ebss img, start_at img]"

text \<open>
  The temporary page tables: one upper level of 512 entries, and two tables of gibibytes behind
  it.
\<close>

definition tmp_pml4 :: "u64 \<Rightarrow> u64 \<Rightarrow> u64 \<Rightarrow> u64 list" where
  "tmp_pml4 offset pdpt_low pdpt_high =
     [pdpt_low - offset + 0x3] @ replicate 255 0 @ [pdpt_high - offset + 0x3] @ replicate 255 0"

definition tmp_pdpt :: "u64 list" where
  "tmp_pdpt = map (\<lambda>i. 0x40000000 * of_nat i OR 0x83) [0..<512]"

text \<open>The tables follow each other in the image; what the memory holds at a physical page.\<close>

definition x86_tables :: "u64 \<Rightarrow> u64 \<Rightarrow> u64 \<Rightarrow> u64 list" where
  "x86_tables offset pml4 pa =
    (if pa = pml4 - offset then tmp_pml4 offset (pml4 + 0x1000) (pml4 + 0x2000)
     else if pa = pml4 + 0x1000 - offset \<or> pa = pml4 + 0x2000 - offset then tmp_pdpt
     else [])"

text \<open>The walk of the hardware, down to pages of a gibibyte.\<close>

definition x86_walk :: "(u64 \<Rightarrow> u64 list) \<Rightarrow> u64 \<Rightarrow> u64 \<Rightarrow> u64 option" where
  "x86_walk tables cr3 v =
    (let e4 = tables cr3 ! unat (take_bit 9 (drop_bit 39 v));
         e3 = tables (push_bit 12 (take_bit 40 (drop_bit 12 e4))) ! unat (take_bit 9 (drop_bit 30 v))
     in if drop_bit 47 v \<noteq> 0 \<and> drop_bit 47 v \<noteq> 0x1FFFF then None
        else if bit e4 0 \<and> bit e3 0 \<and> bit e3 7
        then Some (push_bit 30 (take_bit 22 (drop_bit 30 e3)) + take_bit 30 v)
        else None)"

section \<open>The instructions\<close>

datatype x86_boot_cmd =
    Cli | Wbinvd | Lgdt u32 | SetDataSegments u32 | SetCr4 u32 | SetCr3 u32 | Wrmsr u32 u32 u32 | SetCr0 u32
  | FarJump nat u32 | ProtectedMode | JumpTo u32 | EnterRust "u64 boot_cmd" | HltLoop

definition entry32_common ::
  "bool \<Rightarrow> x86_flags \<Rightarrow> (u64, 'm) plat_config_scheme \<Rightarrow> x86_image \<Rightarrow> (x86_boot_cmd, unit) io" where
  "entry32_common fp_simd f cfg img =
     seq_io (emit (SetDataSegments 0x18))
     (seq_io (emit (SetCr4 (ucast (CR4 fp_simd f))))
     (seq_io (emit (SetCr3 (ucast (tmp_pml4_at img - PHYS_VIRT_OFFSET cfg))))
     (seq_io (emit (Wrmsr (IA32_EFER f) 0 (ucast (EFER f))))
     (emit (SetCr0 (ucast (CR0 f)))))))"

text \<open>The call of a Rust function, and the endless loop after it if it returns.\<close>

definition call_rust :: "(u64 boot_cmd, unit) io \<Rightarrow> (x86_boot_cmd, unit) io" where
  "call_rust m = (map EnterRust (fst m) @ (if fst m = [] then [HltLoop] else []), snd m)"

text \<open>The first CPU, with the boot loader's \<open>eax\<close> and \<open>ebx\<close>.\<close>

definition bsp_start ::
  "bool \<Rightarrow> x86_flags \<Rightarrow> (u64, 'm) plat_config_scheme \<Rightarrow> x86_image \<Rightarrow> u8 option \<Rightarrow> u32 \<Rightarrow> u32 \<Rightarrow> (x86_boot_cmd, unit) io" where
  "bsp_start fp_simd f cfg img finfo eax ebx =
    (let edi = eax; esi = ebx;
         rsp = x86_boot_stack img + BOOT_STACK_SIZE cfg
     in seq_io (emit (Lgdt (ucast (tmp_gdt_desc img - PHYS_VIRT_OFFSET cfg))))
        (seq_io (entry32_common fp_simd f cfg img)
        (seq_io (emit (FarJump 0x10 (ucast (bsp_entry64_at img - PHYS_VIRT_OFFSET cfg))))
        (seq_io (emit (SetDataSegments 0))
        (call_rust (rust_entry finfo rsp (ucast edi) (ucast esi)))))))"

text \<open>
  The other CPUs: the code of the start page takes the stack and the entry from the page, in 32
  bits, and jumps there.
\<close>

definition ap_entry32 ::
  "bool \<Rightarrow> bool \<Rightarrow> x86_flags \<Rightarrow> (u64, 'm) plat_config_scheme \<Rightarrow> x86_image \<Rightarrow> u8 option \<Rightarrow> u32 \<Rightarrow> (x86_boot_cmd, unit) io" where
  "ap_entry32 fp_simd smp f cfg img finfo esp =
    (let rsp = ucast esp + PHYS_VIRT_OFFSET cfg
     in seq_io (entry32_common fp_simd f cfg img)
        (seq_io (emit (FarJump 0x10 (ucast (ap_entry64_at img - PHYS_VIRT_OFFSET cfg))))
        (seq_io (emit (SetDataSegments 0))
        (call_rust (rust_entry_secondary smp finfo rsp MULTIBOOT_BOOTLOADER_MAGIC)))))"

definition ap_start ::
  "bool \<Rightarrow> bool \<Rightarrow> x86_flags \<Rightarrow> (u64, 'm) plat_config_scheme \<Rightarrow> x86_image \<Rightarrow> u8 option \<Rightarrow> u64 list \<Rightarrow> (x86_boot_cmd, unit) io" where
  "ap_start fp_simd smp f cfg img finfo page =
    (let stack_ptr = page ! (0xFF0 div 8);
         entry_ptr = page ! (0xFF8 div 8);
         esp = ucast stack_ptr :: u32;
         eax = ucast entry_ptr :: u32
     in seq_io (emit Cli)
        (seq_io (emit Wbinvd)
        (seq_io (emit (SetDataSegments 0))
        (seq_io (emit (Lgdt (ucast (ap_gdt_desc_at img - ap_start_at img + START_PAGE_PADDR))))
        (seq_io (emit ProtectedMode)
        (seq_io (emit (FarJump 0x8 (ucast (ap_start32_at img - ap_start_at img + START_PAGE_PADDR))))
        (seq_io (emit (JumpTo eax))
        (if eax = ucast (ap_entry32_at img - PHYS_VIRT_OFFSET cfg)
         then ap_entry32 fp_simd smp f cfg img finfo esp else ret_io ()))))))))"

section \<open>What the start does\<close>

lemma ucast_minus_offset: "ucast (a - 0xFFFF800000000000) = (ucast a :: u32)" for a :: u64
proof -
  have dvd: "(2 :: nat) ^ 32 dvd 2 ^ LENGTH(64)" by (rule le_imp_power_dvd) simp
  have eq: "a - 0xFFFF800000000000 = a + 0x800000000000" by simp
  have c: "unat (0x800000000000 :: u64) = 32768 * 2 ^ 32" by simp
  have "unat (a - 0xFFFF800000000000) mod 2 ^ 32 = (unat a + 32768 * 2 ^ 32) mod 2 ^ LENGTH(64) mod 2 ^ 32"
    by (simp only: eq unat_word_ariths(1) c)
  also have "\<dots> = unat a mod 2 ^ 32" by (simp only: mod_mod_cancel[OF dvd] mod_mult_self1)
  finally show ?thesis by (simp add: word_unat_eq_iff unsigned_ucast_eq take_bit_eq_mod[where 'a = nat])
qed

lemma ucast_small: "unat a < 2 ^ 32 \<Longrightarrow> ucast (ucast a :: u32) = (a :: u64)"
  by (simp add: word_unat_eq_iff unsigned_ucast_eq unsigned_take_bit_eq take_bit_nat_eq_self)

lemma unat_ucast_up: "unat (ucast x :: u64) = unat x" for x :: u32
  using unsigned_less[of x, where 'a = nat] by (simp add: unsigned_ucast_eq take_bit_nat_eq_self)

lemma multiboot_checksum:
  "sum_list (take 3 (multiboot_header x86_pc_config img)) = 0"
  by (simp add: multiboot_header_def MULTIBOOT_HEADER_MAGIC_def MULTIBOOT_HEADER_FLAGS_def)

lemma long_mode_flags:
  assumes "x86_flags_doc f"
  shows "bit (CR0 f) 0" "bit (CR0 f) 31" "bit (CR4 fp f) 5" "bit (EFER f) 8" "unat (CR0 f) < 2 ^ 32"
  using assms by (simp_all add: x86_flags_doc_def CR0_def CR4_def EFER_def bit_simps)

subsection \<open>The temporary tables\<close>

lemma tmp_pml4_nth:
  assumes "i < 512"
  shows "tmp_pml4 offset l h ! i = (if i = 0 then l - offset + 3 else if i = 256 then h - offset + 3 else 0)"
  using assms by (auto simp: tmp_pml4_def nth_append nth_Cons split: nat.splits)

lemma table_entry:
  fixes p :: u64
  assumes "take_bit 12 p = 0" and "unat p < 2 ^ 32"
  shows "bit (p + 3) 0" and "push_bit 12 (take_bit 40 (drop_bit 12 (p + 3))) = p"
proof -
  have low: "\<not> bit p n" if "n < 12" for n
    using assms(1) that by (metis bit_take_bit_iff bit_0_eq bot_apply bot_bool_def)
  have three: "bit (3 :: u64) n \<longleftrightarrow> n = 0 \<or> n = 1" for n
    by (cases n; cases "n - 1") (auto simp: bit_simps numeral_eq_Suc)
  have high: "\<not> bit p n" if "32 \<le> n" for n
  proof -
    have "take_bit 32 p = p" using assms(2) by (simp add: word_unat_eq_iff unsigned_take_bit_eq take_bit_nat_eq_self)
    then show ?thesis using that by (metis bit_take_bit_iff not_le)
  qed
  have e: "p + 3 = p OR 3"
  proof (rule disjunctive_add)
    fix n
    show "\<not> bit p n \<or> \<not> bit (3 :: u64) n" using low[of 0] low[of 1] three[of n] by (cases "n = 0 \<or> n = 1") auto
  qed
  show "bit (p + 3) 0" unfolding e by (simp add: bit_simps)
  show "push_bit 12 (take_bit 40 (drop_bit 12 (p + 3))) = p"
    unfolding e
  proof (rule bit_word_eqI)
    fix n assume "n < LENGTH(64)"
    then show "bit (push_bit 12 (take_bit 40 (drop_bit 12 (p OR 3)))) n \<longleftrightarrow> bit p n"
      using low[of n] high[of n] three[of n] by (cases "n < 12"; cases "n < 52") (auto simp: bit_simps)
  qed
qed

lemma pdpt_entry:
  assumes "k < 512"
  shows "bit (tmp_pdpt ! k) 0" "bit (tmp_pdpt ! k) 7"
    and "take_bit 22 (drop_bit 30 (tmp_pdpt ! k)) = of_nat k"
proof -
  have e: "tmp_pdpt ! k = push_bit 30 (of_nat k) OR 0x83"
    using assms by (simp add: tmp_pdpt_def push_bit_eq_mult mult.commute)
  have small: "\<not> bit (of_nat k :: u64) n" if "9 \<le> n" for n
  proof -
    have "take_bit 9 (of_nat k :: u64) = of_nat k"
      using assms by (simp add: word_unat_eq_iff unsigned_take_bit_eq unat_of_nat take_bit_nat_eq_self)
    then show ?thesis using that by (metis bit_take_bit_iff not_le)
  qed
  have c: "drop_bit 30 (0x83 :: u64) = 0" by simp
  show "bit (tmp_pdpt ! k) 0" "bit (tmp_pdpt ! k) 7" unfolding e by (simp_all add: bit_simps)
  have "take_bit 22 (drop_bit 30 (tmp_pdpt ! k)) = take_bit 22 (drop_bit 30 (push_bit 30 (of_nat k)))"
    unfolding e by (simp add: c)
  also have "\<dots> = of_nat k"
  proof (rule bit_word_eqI)
    fix n assume "n < LENGTH(64)"
    then show "bit (take_bit 22 (drop_bit 30 (push_bit 30 (of_nat k :: u64)))) n \<longleftrightarrow> bit (of_nat k :: u64) n"
      using small[of n] by (cases "n < 9") (auto simp: bit_simps)
  qed
  finally show "take_bit 22 (drop_bit 30 (tmp_pdpt ! k)) = of_nat k" .
qed

lemma bits_of_high:
  fixes w :: u64
  assumes "unat w < 2 ^ 25"
  shows "(drop_bit 8 w = 0 \<or> drop_bit 8 w = 0x1FFFF) \<and> (unat (take_bit 9 w) = 0 \<or> unat (take_bit 9 w) = 256) \<longleftrightarrow>
    w = 0 \<or> w = 0x1FFFF00"
proof -
  have arith: "(x div 256 = 0 \<or> x div 256 = 0x1FFFF) \<and> (x mod 512 = 0 \<or> x mod 512 = 256) \<longleftrightarrow> x = 0 \<or> x = 0x1FFFF00"
    (is "?L \<longleftrightarrow> ?R") for x :: nat
  proof
    assume L: ?L
    have x: "x = x div 256 * 256 + x mod 256" by simp
    have r: "x mod 256 < 256" by simp
    show ?R
    proof (cases "x div 256 = 0")
      case True
      then have "x mod 512 = x" using x r by simp
      then show ?thesis using L x r True by auto
    next
      case False
      then have x': "x = (256 + x mod 256) + 512 * 0xFFFF" using L x by simp
      have "x mod 512 = (256 + x mod 256) mod 512" by (subst x') (simp only: mod_mult_self2)
      then have "x mod 512 = 256 + x mod 256" using r by simp
      then show ?thesis using L x' by simp
    qed
  qed auto
  show ?thesis using arith[of "unat w"]
    by (simp add: word_unat_eq_iff unat_drop_bit_eq unsigned_take_bit_eq drop_bit_eq_div[where 'a = nat]
        take_bit_eq_mod[where 'a = nat])
qed

lemma x86_walk_eq:
  assumes "take_bit 12 (pml4 - off) = 0" and "unat (pml4 - off) + 0x2000 < 2 ^ 32"
  shows "x86_walk (x86_tables off pml4) (pml4 - off) v =
    (if drop_bit 39 v = 0 \<or> drop_bit 39 v = 0x1FFFF00 then Some (take_bit 39 v) else None)"
proof -
  define p where "p = pml4 - off"
  have low: "pml4 + 0x1000 - off = p + 0x1000" "pml4 + 0x2000 - off = p + 0x2000" by (simp_all add: p_def)
  have un: "unat (p + 0x1000) = unat p + 0x1000" "unat (p + 0x2000) = unat p + 0x2000"
    using assms(2) by (simp_all add: p_def unat_word_ariths)
  have al: "take_bit 12 (p + 0x1000) = 0" "take_bit 12 (p + 0x2000) = 0"
    using assms(1) un by (auto simp: p_def[symmetric] word_unat_eq_iff unsigned_take_bit_eq take_bit_eq_mod[where 'a = nat])
  have ne: "p + 0x1000 \<noteq> p" "p + 0x2000 \<noteq> p" using un by (metis add_cancel_right_right zero_neq_numeral)+
  define i where "i = unat (take_bit 9 (drop_bit 39 v))"
  define k where "k = unat (take_bit 9 (drop_bit 30 v))"
  have ik: "i < 512" "k < 512" unfolding i_def k_def by (rule nine_bits)+
  have e4: "x86_tables off pml4 p ! i = (if i = 0 then p + 0x1000 + 3 else if i = 256 then p + 0x2000 + 3 else 0)"
    by (simp add: x86_tables_def p_def[symmetric] tmp_pml4_nth[OF ik(1)] low)
  have t3: "x86_tables off pml4 (p + 0x1000) = tmp_pdpt" "x86_tables off pml4 (p + 0x2000) = tmp_pdpt"
    using ne by (simp_all add: x86_tables_def p_def[symmetric] low)
  have block: "push_bit 30 (of_nat k) + take_bit 30 v = take_bit 39 v"
    using gib_base[of v] by (simp add: k_def)
  have walk: "x86_walk (x86_tables off pml4) p v =
      (if (drop_bit 47 v = 0 \<or> drop_bit 47 v = 0x1FFFF) \<and> (i = 0 \<or> i = 256) then Some (take_bit 39 v) else None)"
    using table_entry[OF al(1)] table_entry[OF al(2)] assms(2) pdpt_entry[OF ik(2)]
    by (auto simp: x86_walk_def Let_def i_def[symmetric] k_def[symmetric] e4 t3 un p_def[symmetric] block)
  have lt: "unat (drop_bit 39 v) < 2 ^ 25"
    using unsigned_less[of v, where 'a = nat]
    by (simp add: unat_drop_bit_eq drop_bit_eq_div[where 'a = nat] less_mult_imp_div_less)
  have d47: "drop_bit 47 v = drop_bit 8 (drop_bit 39 v)" by simp
  show ?thesis
    unfolding p_def[symmetric] walk d47 i_def using bits_of_high[OF lt] by (simp only: drop_bit_drop_bit)
qed

lemma x86_walk_iff:
  assumes "take_bit 12 (pml4 - off) = 0" and "unat (pml4 - off) + 0x2000 < 2 ^ 32"
  shows "x86_walk (x86_tables off pml4) (pml4 - off) v = Some a \<longleftrightarrow>
    unat a < 2 ^ 39 \<and> (v = a \<or> v = a + 0xFFFF800000000000)"
proof
  assume "x86_walk (x86_tables off pml4) (pml4 - off) v = Some a"
  then have d: "drop_bit 39 v = 0 \<or> drop_bit 39 v = 0x1FFFF00" and a: "a = take_bit 39 v"
    by (auto simp: x86_walk_eq[OF assms] split: if_splits)
  have "unat a < 2 ^ 39"
    unfolding a using take_bit_nat_less_exp[of 39 "unat v"] by (simp add: unsigned_take_bit_eq)
  moreover have "v = push_bit 39 (drop_bit 39 v) + a" unfolding a by (simp only: bits_ident)
  ultimately show "unat a < 2 ^ 39 \<and> (v = a \<or> v = a + 0xFFFF800000000000)"
    using d by (auto simp: add.commute)
next
  assume r: "unat a < 2 ^ 39 \<and> (v = a \<or> v = a + 0xFFFF800000000000)"
  have ta: "take_bit 39 a = a"
    using r by (simp add: word_unat_eq_iff unsigned_take_bit_eq take_bit_nat_eq_self)
  have "drop_bit 39 v = 0 \<and> take_bit 39 v = a \<or> drop_bit 39 v = 0x1FFFF00 \<and> take_bit 39 v = a"
  proof (cases "v = a")
    case True
    then show ?thesis using r ta drop_bit_small[of a 39] by simp
  next
    case False
    then have "unat v = unat a + 0x1FFFF00 * 2 ^ 39" using r by (simp add: unat_word_ariths)
    moreover have "(unat a + 0x1FFFF00 * 2 ^ 39) div 2 ^ 39 = 0x1FFFF00"
      using r by (subst div_mult_self1) simp_all
    moreover have "(unat a + 0x1FFFF00 * 2 ^ 39) mod 2 ^ 39 = unat a"
      using r by (simp only: mod_mult_self1) simp
    ultimately show ?thesis
      by (simp only: word_unat_eq_iff unat_drop_bit_eq unsigned_take_bit_eq drop_bit_eq_div[where 'a = nat]
          take_bit_eq_mod[where 'a = nat]) simp
  qed
  then show "x86_walk (x86_tables off pml4) (pml4 - off) v = Some a"
    by (auto simp: x86_walk_eq[OF assms])
qed

text \<open>
  C10: The first x86 CPU enters the kernel when the boot loader's magic value is there, and halts
  otherwise: it loads the page tables before it turns paging and long mode on, passes the information of the boot
  loader on and runs on the boot stack.  The tables map the first 512 GiB of
  memory to themselves and, linearly, to the addresses of \<^verbatim>\<open>phys_to_virt\<close>, and nothing else.
\<close>

theorem x86_first_cpu:
  assumes "x86_flags_doc f" and "take_bit 12 (tmp_pml4_at img - PHYS_VIRT_OFFSET x86_pc_config) = 0"
    and "unat (tmp_pml4_at img - PHYS_VIRT_OFFSET x86_pc_config) + 0x2000 < 2 ^ 32"
  shows "\<exists>gdt c4 c3 e c0 jump.
    bsp_start fp_simd f x86_pc_config img finfo eax ebx =
      ([Lgdt gdt, SetDataSegments 0x18, SetCr4 c4, SetCr3 c3, Wrmsr 0xC0000080 0 e, SetCr0 c0, FarJump 0x10 jump, SetDataSegments 0] @
       (if eax = 0x2BADB002
        then [EnterRust (EnterMain (x86_boot_stack img + BOOT_STACK_SIZE x86_pc_config) (x86_current_cpu_id finfo) (ucast ebx))]
        else [HltLoop]), Inr ()) \<and>
    bit c4 5 \<and> bit e 8 \<and> bit c0 0 \<and> bit c0 31 \<and>
    (\<forall>v a. x86_walk (x86_tables (PHYS_VIRT_OFFSET x86_pc_config) (tmp_pml4_at img)) (ucast c3) v = Some a \<longleftrightarrow>
       unat a < 2 ^ 39 \<and> (v = a \<or> phys_to_virt (x86_pc_mem_if p x86_pc_config regions) a = Inr v))"
proof -
  have off: "PHYS_VIRT_OFFSET x86_pc_config = 0xFFFF800000000000" by (simp add: config_defs)
  have p2v: "phys_to_virt (x86_pc_mem_if p x86_pc_config regions) a = Inr v \<longleftrightarrow> v = a + 0xFFFF800000000000"
    if "unat a < 2 ^ 39" for v a
    using that by (auto simp: x86_pc_mem_if_def add_offset_def uadd_def off)
  have magic: "ucast eax = MULTIBOOT_BOOTLOADER_MAGIC \<longleftrightarrow> eax = 0x2BADB002"
    by (simp add: word_unat_eq_iff MULTIBOOT_BOOTLOADER_MAGIC_def unat_ucast_up del: unsigned_ucast_eq)
  define c3 :: u32 where "c3 = ucast (tmp_pml4_at img - PHYS_VIRT_OFFSET x86_pc_config)"
  have "unat (tmp_pml4_at img - PHYS_VIRT_OFFSET x86_pc_config) < 2 ^ 32" using assms(3) by simp
  then have c3: "ucast c3 = tmp_pml4_at img - PHYS_VIRT_OFFSET x86_pc_config" unfolding c3_def by (rule ucast_small)
  have walk: "x86_walk (x86_tables (PHYS_VIRT_OFFSET x86_pc_config) (tmp_pml4_at img)) (ucast c3) v = Some a \<longleftrightarrow>
       unat a < 2 ^ 39 \<and> (v = a \<or> phys_to_virt (x86_pc_mem_if p x86_pc_config regions) a = Inr v)" for v a
    unfolding c3 x86_walk_iff[OF assms(2,3)] using p2v by blast
  have "bsp_start fp_simd f x86_pc_config img finfo eax ebx =
      ([Lgdt (ucast (tmp_gdt_desc img - PHYS_VIRT_OFFSET x86_pc_config)), SetDataSegments 0x18, SetCr4 (ucast (CR4 fp_simd f)),
        SetCr3 c3, Wrmsr 0xC0000080 0 (ucast (EFER f)), SetCr0 (ucast (CR0 f)),
        FarJump 0x10 (ucast (bsp_entry64_at img - PHYS_VIRT_OFFSET x86_pc_config)), SetDataSegments 0] @
       (if eax = 0x2BADB002
        then [EnterRust (EnterMain (x86_boot_stack img + BOOT_STACK_SIZE x86_pc_config) (x86_current_cpu_id finfo) (ucast ebx))]
        else [HltLoop]), Inr ())"
    using assms(1) by (simp add: bsp_start_def entry32_common_def call_rust_def rust_entry_def io_simps magic c3_def
        x86_flags_doc_def)
  moreover have "bit (ucast (CR4 fp_simd f) :: u32) 5" "bit (ucast (EFER f) :: u32) 8" "bit (ucast (CR0 f) :: u32) 0"
    "bit (ucast (CR0 f) :: u32) 31"
    using long_mode_flags[OF assms(1)] by (simp_all add: bit_simps)
  ultimately show ?thesis using walk by blast
qed

definition intel_flags :: x86_flags where
  "intel_flags = \<lparr>PROTECTED_MODE_ENABLE = 1, MONITOR_COPROCESSOR = 2, NUMERIC_ERROR = 0x20, WRITE_PROTECT = 0x10000,
     PAGING = 0x80000000, PHYSICAL_ADDRESS_EXTENSION = 0x20, PAGE_GLOBAL = 0x80, OSFXSR = 0x200,
     OSXMMEXCPT_ENABLE = 0x400, LONG_MODE_ENABLE = 0x100, NO_EXECUTE_ENABLE = 0x800, IA32_EFER = 0xC0000080\<rparr>"

definition small_image :: x86_image where
  "small_image = \<lparr>multiboot_header_at = 0xFFFF80000020000C, skernel = 0xFFFF800000200000, edata = 0xFFFF800000220000,
     ebss = 0xFFFF800000240000, start_at = 0xFFFF800000200000, tmp_gdt_desc = 0xFFFF800000208000,
     tmp_pml4_at = 0xFFFF800000210000, bsp_entry64_at = 0xFFFF800000200070, ap_entry32_at = 0xFFFF800000200050,
     ap_entry64_at = 0xFFFF8000002000A0, ap_start_at = 0xFFFF800000201000, ap_start32_at = 0xFFFF800000201020,
     ap_gdt_desc_at = 0xFFFF800000201040, x86_boot_stack = 0xFFFF800000220000\<rparr>"

theorem x86_first_cpu_witness:
  "\<exists>before c3. bsp_start False intel_flags x86_pc_config small_image (Some 0) 0x2BADB002 0x9500 =
      (before @ [EnterRust (EnterMain 0xFFFF800000260000 0 0x9500)], Inr ()) \<and> SetCr3 c3 \<in> set before \<and>
    x86_walk (x86_tables 0xFFFF800000000000 0xFFFF800000210000) (ucast c3) 0xFFFF800000200000 = Some 0x200000"
proof -
  have off: "PHYS_VIRT_OFFSET x86_pc_config = 0xFFFF800000000000" "BOOT_STACK_SIZE x86_pc_config = 0x40000"
    by (simp_all add: config_defs)
  have "x86_flags_doc intel_flags" by (simp add: x86_flags_doc_def intel_flags_def)
  moreover have "take_bit 12 (tmp_pml4_at small_image - PHYS_VIRT_OFFSET x86_pc_config) = 0"
    "unat (tmp_pml4_at small_image - PHYS_VIRT_OFFSET x86_pc_config) + 0x2000 < 2 ^ 32"
    by (simp_all add: small_image_def off)
  ultimately obtain gdt c4 c3 e c0 jump where
    b: "bsp_start False intel_flags x86_pc_config small_image (Some 0) 0x2BADB002 0x9500 =
      ([Lgdt gdt, SetDataSegments 0x18, SetCr4 c4, SetCr3 c3, Wrmsr 0xC0000080 0 e, SetCr0 c0, FarJump 0x10 jump, SetDataSegments 0] @
       [EnterRust (EnterMain (x86_boot_stack small_image + BOOT_STACK_SIZE x86_pc_config) (x86_current_cpu_id (Some 0)) (ucast (0x9500 :: u32)))], Inr ())"
    and w: "\<forall>v a. x86_walk (x86_tables (PHYS_VIRT_OFFSET x86_pc_config) (tmp_pml4_at small_image)) (ucast c3) v = Some a \<longleftrightarrow>
       unat a < 2 ^ 39 \<and> (v = a \<or> phys_to_virt (x86_pc_mem_if Debug x86_pc_config []) a = Inr v)"
    using x86_first_cpu[where f = intel_flags and img = small_image and p = Debug and regions = "[]"
        and fp_simd = False and finfo = "Some 0" and eax = "0x2BADB002" and ebx = "0x9500"] by fastforce
  have "x86_walk (x86_tables 0xFFFF800000000000 0xFFFF800000210000) (ucast c3) 0xFFFF800000200000 = Some 0x200000"
    using w[rule_format, of "0xFFFF800000200000" "0x200000"]
    by (simp add: off small_image_def x86_pc_mem_if_def add_offset_def uadd_def)
  then show ?thesis using b by (auto simp: small_image_def off x86_current_cpu_id_def)
qed



end
