(* ===== verification/Irq_If.thy ===== *)
theory Irq_If
  imports Platform_Config
begin

text \<open>
  Interrupts: the interface \<^verbatim>\<open>IrqIf\<close> (\<^verbatim>\<open>axplat/src/irq.rs\<close>) and its four
  implementations, on the Arm GIC (\<^verbatim>\<open>axplat-arm-peripherals/src/gic.rs\<close>), the x86
  APICs, the LoongArch and the RISC-V CPU interrupts.

  What the code does to an interrupt controller is a sequence of commands; the
  call of a handler is a command of the same sequence, so the order of handling
  and acknowledging is visible.  Log output is left out.
\<close>

section \<open>Handler tables\<close>

text \<open>
  \<^verbatim>\<open>HandlerTable\<close> is a third-party crate: registering, unregistering, and the
  handler that \<^verbatim>\<open>handle\<close> runs for an index, if there is one.
\<close>

record ('t, 'h) table_ops =
  table_register :: "u64 \<Rightarrow> 'h \<Rightarrow> 't \<Rightarrow> bool \<times> 't"
  table_unregister :: "u64 \<Rightarrow> 't \<Rightarrow> 'h option \<times> 't"
  table_lookup :: "u64 \<Rightarrow> 't \<Rightarrow> 'h option"

text \<open>What the crate documents for a table of \<open>n\<close> entries.\<close>

definition table_doc :: "nat \<Rightarrow> ('t, 'h) table_ops \<Rightarrow> bool" where
  "table_doc n Tb \<longleftrightarrow>
     (\<forall>i h t. fst (table_register Tb i h t) \<longleftrightarrow> unat i < n \<and> table_lookup Tb i t = None) \<and>
     (\<forall>i j h t. table_lookup Tb j (snd (table_register Tb i h t)) =
        (if j = i \<and> unat i < n \<and> table_lookup Tb i t = None then Some h else table_lookup Tb j t)) \<and>
     (\<forall>i t. fst (table_unregister Tb i t) = table_lookup Tb i t) \<and>
     (\<forall>i j t. table_lookup Tb j (snd (table_unregister Tb i t)) =
        (if j = i then None else table_lookup Tb j t)) \<and>
     (\<forall>i t. n \<le> unat i \<longrightarrow> table_lookup Tb i t = None)"

text \<open>
  The contract of a handler store, over its operations as a client sees them:
  in a state that is \<open>ready\<close>, some numbers are \<open>known\<close> (the operation does not
  panic), and a \<open>valid\<close> one can hold one handler.
\<close>

locale handler_store =
  fixes ready :: "'s \<Rightarrow> bool"
    and known valid :: "u64 \<Rightarrow> bool"
    and reg :: "u64 \<Rightarrow> 'h \<Rightarrow> 's \<Rightarrow> bool \<times> 's"
    and unreg :: "u64 \<Rightarrow> 's \<Rightarrow> 'h option \<times> 's"
    and look :: "u64 \<Rightarrow> 's \<Rightarrow> 'h option"
  assumes reg_ready: "ready s \<Longrightarrow> known i \<Longrightarrow> ready (snd (reg i h s))"
    and unreg_ready: "ready s \<Longrightarrow> known i \<Longrightarrow> ready (snd (unreg i s))"
    and reg_result: "ready s \<Longrightarrow> known i \<Longrightarrow> fst (reg i h s) \<longleftrightarrow> valid i \<and> look i s = None"
    and reg_look: "ready s \<Longrightarrow> known i \<Longrightarrow> known j \<Longrightarrow> look j (snd (reg i h s)) =
      (if j = i \<and> valid i \<and> look i s = None then Some h else look j s)"
    and unreg_result: "ready s \<Longrightarrow> known i \<Longrightarrow> fst (unreg i s) = look i s"
    and unreg_look: "ready s \<Longrightarrow> known i \<Longrightarrow> known j \<Longrightarrow>
      look j (snd (unreg i s)) = (if j = i then None else look j s)"
begin

text \<open>A number is held by one handler until it is given back, and can then be taken again.\<close>

lemma exclusive:
  assumes "ready s" and "known i" and "reg i h s = (True, s')"
  shows "\<not> fst (reg i h' s')"
    and "fst (unreg i s') = Some h"
    and "fst (reg i h' (snd (unreg i s')))"
proof -
  have "ready s'" and "valid i" and "look i s' = Some h"
    using assms reg_ready[of s i h] reg_result[of s i h] reg_look[of s i i h] by auto
  then show "fst (unreg i s') = Some h" and "fst (reg i h' (snd (unreg i s')))"
    and "\<not> fst (reg i h' s')"
    using assms(2) by (auto simp: unreg_result reg_result unreg_ready unreg_look)
qed

end

lemma table_doc_store:
  assumes "table_doc n Tb"
  shows "handler_store (\<lambda>_. True) (\<lambda>_. True) (\<lambda>i. unat i < n) (table_register Tb) (table_unregister Tb)
    (table_lookup Tb)"
  using assms by unfold_locales (auto simp: table_doc_def)

text \<open>An instance: a map on the first \<open>n\<close> numbers.\<close>

definition map_table :: "nat \<Rightarrow> (u64 \<Rightarrow> 'h option, 'h) table_ops" where
  "map_table n =
    \<lparr>table_register = (\<lambda>i h t. if unat i < n \<and> t i = None then (True, t(i \<mapsto> h)) else (False, t)),
     table_unregister = (\<lambda>i t. (if unat i < n then t i else None, t(i := None))),
     table_lookup = (\<lambda>i t. if unat i < n then t i else None)\<rparr>"

lemma map_table_doc: "table_doc n (map_table n)"
  by (auto simp: table_doc_def map_table_def)

section \<open>Commands and targets\<close>

datatype ipi_target =
    Current (ipi_cpu: u64)
  | Other (ipi_cpu: u64)
  | AllExceptCurrent (ipi_cpu: u64) (ipi_cpu_num: u64)

datatype gic_ack = Ack_Other (ack_intid: u32) | Ack_SGI (ack_intid: u32) (ack_cpu: u64)

datatype sgi_target = SGI_Current | SGI_AllOther | SGI_TargetList "u64 list"

datatype 'h irq_cmd =
    Call 'h
  | GicInit u64 u64 | GicCpuInit | GicSetEoiModeNs bool
  | GicEnable u32 bool | GicAck | GicEoi gic_ack | GicDir gic_ack | GicSendSgi u32 sgi_target
  | PortWrite u64 u8
  | LapicBuild u8 u8 u8 "u64 option" | LapicEnable | IoApicNew u64
  | IoApicEnable u8 bool | LapicEoi | LapicIpiSelf u8 | LapicIpi u8 u32 | LapicIpiAllOthers u8
  | IocsrRead u64 | IocsrWrite u64 u32 | EcfgSetLie "13 word" | ClearTimerInterrupt
  | SieSetSsoft | SieSetStimer | SieSetSext | SbiSendIpi u64 u64 | SipClearSsoft

text \<open>\<^verbatim>\<open>HandlerTable::handle\<close>: runs the handler of an index, and says whether it did.\<close>

definition table_handle :: "('t, 'h) table_ops \<Rightarrow> u64 \<Rightarrow> 't \<Rightarrow> ('h irq_cmd, bool) io" where
  "table_handle Tb i t =
    (case table_lookup Tb i t of
       Some h \<Rightarrow> seq_io (emit (Call h)) (ret_io True)
     | None \<Rightarrow> ret_io False)"

definition handler_calls :: "'h option \<Rightarrow> 'h irq_cmd list" where
  "handler_calls r = (case r of Some h \<Rightarrow> [Call h] | None \<Rightarrow> [])"

lemma table_handle_eq [io_simps]:
  "table_handle Tb i t = (handler_calls (table_lookup Tb i t), Inr (table_lookup Tb i t \<noteq> None))"
  by (simp add: table_handle_def handler_calls_def io_simps split: option.split)

text \<open>What an operation that did not panic returned.\<close>

definition returned :: "('c, 'a) io \<Rightarrow> 'a" where
  "returned m = projr (snd m)"

lemma returned_simps [simp]: "returned (cs, Inr x) = x"
  by (simp add: returned_def)

lemma returned_ret [simp]: "returned (ret_io x) = x"
  by (simp add: ret_io_def)

section \<open>The GIC\<close>

text \<open>The statics of the module; dereferencing one before it is initialised panics.\<close>

record 't gic =
  GIC :: bool
  TRAP_OP :: bool
  gic_table :: 't

definition gic_MAX_IRQ_COUNT :: nat where "gic_MAX_IRQ_COUNT = 1024"

definition gic_set_enable :: "u64 \<Rightarrow> bool \<Rightarrow> 't gic \<Rightarrow> ('h irq_cmd, unit) io" where
  "gic_set_enable irq_num enabled st =
    (if GIC st then emit (GicEnable (ucast irq_num) enabled) else lift_io (Inl ExplicitPanic))"

definition gic_register_handler ::
  "('t, 'h) table_ops \<Rightarrow> u64 \<Rightarrow> 'h \<Rightarrow> 't gic \<Rightarrow> ('h irq_cmd, bool \<times> 't gic) io" where
  "gic_register_handler Tb irq_num h st =
    (let (ok, t) = table_register Tb irq_num h (gic_table st);
         st' = st\<lparr>gic_table := t\<rparr>
     in if ok then seq_io (gic_set_enable irq_num True st') (ret_io (True, st'))
        else ret_io (False, st'))"

definition gic_unregister_handler ::
  "('t, 'h) table_ops \<Rightarrow> u64 \<Rightarrow> 't gic \<Rightarrow> ('h irq_cmd, 'h option \<times> 't gic) io" where
  "gic_unregister_handler Tb irq_num st =
     seq_io (gic_set_enable irq_num False st)
       (let (h, t) = table_unregister Tb irq_num (gic_table st) in ret_io (h, st\<lparr>gic_table := t\<rparr>))"

text \<open>
  What the controller answers to the acknowledge read, which answers are
  special and whether priority drop and deactivation are separate are inputs.
\<close>

definition gic_handle_irq ::
  "('t, 'h) table_ops \<Rightarrow> (gic_ack \<Rightarrow> bool) \<Rightarrow> bool \<Rightarrow> gic_ack \<Rightarrow> 't gic \<Rightarrow> ('h irq_cmd, unit) io" where
  "gic_handle_irq Tb is_special eoi_mode_ns ack st =
    (if \<not> TRAP_OP st then lift_io (Inl ExplicitPanic)
     else seq_io (emit GicAck)
       (bind_io (table_handle Tb (ucast (ack_intid ack)) (gic_table st)) (\<lambda>_.
          if is_special ack then ret_io ()
          else seq_io (emit (GicEoi ack))
                 (if eoi_mode_ns then emit (GicDir ack) else ret_io ()))))"

definition gic_init_gic :: "u64 \<Rightarrow> u64 \<Rightarrow> 't gic \<Rightarrow> ('h irq_cmd, 't gic) io" where
  "gic_init_gic gicd_base gicc_base st =
     seq_io (emit (GicInit gicd_base gicc_base))
       (if GIC st \<or> TRAP_OP st then lift_io (Inl ExplicitPanic)
        else ret_io (st\<lparr>GIC := True, TRAP_OP := True\<rparr>))"

definition gic_init_gicc :: "'t gic \<Rightarrow> ('h irq_cmd, unit) io" where
  "gic_init_gicc st =
    (if GIC st then seq_io (emit GicCpuInit) (emit (GicSetEoiModeNs False))
     else lift_io (Inl ExplicitPanic))"

fun gic_sgi_target :: "ipi_target \<Rightarrow> sgi_target" where
  "gic_sgi_target (Current _) = SGI_Current"
| "gic_sgi_target (Other cpu_id) = SGI_TargetList [cpu_id]"
| "gic_sgi_target (AllExceptCurrent _ _) = SGI_AllOther"

definition gic_send_ipi :: "u64 \<Rightarrow> ipi_target \<Rightarrow> 't gic \<Rightarrow> ('h irq_cmd, unit) io" where
  "gic_send_ipi irq_num target st =
    (if GIC st then emit (GicSendSgi (ucast irq_num) (gic_sgi_target target))
     else lift_io (Inl ExplicitPanic))"

section \<open>The APICs\<close>

definition APIC_TIMER_VECTOR :: u8 where "APIC_TIMER_VECTOR = 0xF0"
definition APIC_SPURIOUS_VECTOR :: u8 where "APIC_SPURIOUS_VECTOR = 0xF1"
definition APIC_ERROR_VECTOR :: u8 where "APIC_ERROR_VECTOR = 0xF2"
definition IO_APIC_BASE :: u64 where "IO_APIC_BASE = 0xFEC00000"
definition apic_MAX_IRQ_COUNT :: nat where "apic_MAX_IRQ_COUNT = 256"

text \<open>
  \<^verbatim>\<open>LOCAL_APIC\<close> says whether the static has been written; the code assumes it has
  and does not check.
\<close>

record 't apic =
  LOCAL_APIC :: bool
  IS_X2APIC :: bool
  IO_APIC :: bool
  apic_table :: 't

definition apic_set_enable :: "u64 \<Rightarrow> bool \<Rightarrow> 't apic \<Rightarrow> ('h irq_cmd, unit) io" where
  "apic_set_enable vector enabled st =
    (if vector < ucast APIC_TIMER_VECTOR
     then if IO_APIC st then emit (IoApicEnable (ucast vector) enabled)
          else lift_io (Inl ExplicitPanic)
     else ret_io ())"

definition raw_apic_id :: "'t apic \<Rightarrow> u8 \<Rightarrow> u32" where
  "raw_apic_id st id_u8 = (if IS_X2APIC st then ucast id_u8 else push_bit 24 (ucast id_u8))"

text \<open>
  \<^verbatim>\<open>init_primary\<close>, from what CPUID says of x2APIC support, the xAPIC base register,
  the platform's address translation, and whether the builder accepts.
\<close>

definition apic_init_primary ::
  "bool \<Rightarrow> u64 \<Rightarrow> (u64 \<Rightarrow> panic + u64) \<Rightarrow> bool \<Rightarrow> 't apic \<Rightarrow> ('h irq_cmd, 't apic) io" where
  "apic_init_primary has_x2apic xapic_base p2v build_ok st =
     seq_io (emit (PortWrite 0x21 0xFF))
     (seq_io (emit (PortWrite 0xA1 0xFF))
     (bind_io (if has_x2apic then ret_io None
               else bind_io (lift_io (p2v xapic_base)) (\<lambda>v. ret_io (Some v))) (\<lambda>base.
     seq_io (emit (LapicBuild APIC_TIMER_VECTOR APIC_ERROR_VECTOR APIC_SPURIOUS_VECTOR base))
     (if \<not> build_ok then lift_io (Inl UnwrapErr)
      else seq_io (emit LapicEnable)
        (bind_io (lift_io (p2v IO_APIC_BASE)) (\<lambda>v.
         seq_io (emit (IoApicNew v))
         (if IO_APIC st then lift_io (Inl ExplicitPanic)
          else ret_io (st\<lparr>LOCAL_APIC := True, IO_APIC := True,
            IS_X2APIC := (if has_x2apic then True else IS_X2APIC st)\<rparr>))))))))"

definition apic_init_secondary :: "('h irq_cmd, unit) io" where
  "apic_init_secondary = emit LapicEnable"

definition apic_register ::
  "('t, 'h) table_ops \<Rightarrow> u64 \<Rightarrow> 'h \<Rightarrow> 't apic \<Rightarrow> ('h irq_cmd, bool \<times> 't apic) io" where
  "apic_register Tb vector h st =
    (let (ok, t) = table_register Tb vector h (apic_table st);
         st' = st\<lparr>apic_table := t\<rparr>
     in if ok then seq_io (apic_set_enable vector True st') (ret_io (True, st'))
        else ret_io (False, st'))"

definition apic_unregister ::
  "('t, 'h) table_ops \<Rightarrow> u64 \<Rightarrow> 't apic \<Rightarrow> ('h irq_cmd, 'h option \<times> 't apic) io" where
  "apic_unregister Tb vector st =
     seq_io (apic_set_enable vector False st)
       (let (h, t) = table_unregister Tb vector (apic_table st) in ret_io (h, st\<lparr>apic_table := t\<rparr>))"

definition apic_handle :: "('t, 'h) table_ops \<Rightarrow> u64 \<Rightarrow> 't apic \<Rightarrow> ('h irq_cmd, unit) io" where
  "apic_handle Tb vector st =
     bind_io (table_handle Tb vector (apic_table st)) (\<lambda>_. emit LapicEoi)"

fun apic_send_ipi :: "u64 \<Rightarrow> ipi_target \<Rightarrow> 't apic \<Rightarrow> ('h irq_cmd, unit) io" where
  "apic_send_ipi irq_num (Current _) st = emit (LapicIpiSelf (ucast irq_num))"
| "apic_send_ipi irq_num (Other cpu_id) st =
     emit (LapicIpi (ucast irq_num) (raw_apic_id st (ucast cpu_id)))"
| "apic_send_ipi irq_num (AllExceptCurrent _ _) st = emit (LapicIpiAllOthers (ucast irq_num))"

section \<open>LoongArch\<close>

definition la_MAX_IRQ_COUNT :: nat where "la_MAX_IRQ_COUNT = 13"
definition IOCSR_IPI_SEND_CPU_SHIFT :: nat where "IOCSR_IPI_SEND_CPU_SHIFT = 16"
definition IOCSR_IPI_SEND_BLOCKING :: u32 where "IOCSR_IPI_SEND_BLOCKING = push_bit 31 1"
definition IOCSR_IPI_STATUS :: u64 where "IOCSR_IPI_STATUS = 0x1000"
definition IOCSR_IPI_ENABLE :: u64 where "IOCSR_IPI_ENABLE = 0x1004"
definition IOCSR_IPI_CLEAR :: u64 where "IOCSR_IPI_CLEAR = 0x100C"
definition IOCSR_IPI_SEND :: u64 where "IOCSR_IPI_SEND = 0x1040"

definition make_ipi_send_value :: "u64 \<Rightarrow> u32 \<Rightarrow> bool \<Rightarrow> u32" where
  "make_ipi_send_value cpu_id vector blocking =
    (let value = push_bit IOCSR_IPI_SEND_CPU_SHIFT (ucast cpu_id) OR vector
     in if blocking then value OR IOCSR_IPI_SEND_BLOCKING else value)"

definition trailing_zeros :: "u32 \<Rightarrow> nat" where
  "trailing_zeros w = length (takeWhile (\<lambda>n. \<not> bit w n) [0..<32])"

definition pending :: "u32 \<Rightarrow> nat list" where
  "pending w = filter (bit w) [0..<32]"

text \<open>Clearing the lowest pending bit.\<close>

lemma filter_takeWhile:
  assumes "filter P [0..<n] \<noteq> []"
  shows "length (takeWhile (\<lambda>i. \<not> P i) [0..<n]) = hd (filter P [0..<n])"
proof -
  define tw dw where "tw = takeWhile (\<lambda>i. \<not> P i) [0..<n]" and "dw = dropWhile (\<lambda>i. \<not> P i) [0..<n]"
  have split: "[0..<n] = tw @ dw" by (simp add: tw_def dw_def)
  have "dw \<noteq> []" using assms by (auto simp: dw_def filter_empty_conv)
  then obtain y ys where y: "dw = y # ys" by (cases dw) auto
  then have "P y" using hd_dropWhile[of "\<lambda>i. \<not> P i" "[0..<n]"] by (simp add: dw_def)
  moreover have "filter P tw = []" by (auto simp: tw_def filter_empty_conv dest: set_takeWhileD)
  ultimately have "hd (filter P [0..<n]) = y" using split y by simp
  moreover have "length tw < n" using arg_cong[OF split, of length] y by simp
  then have "y = length tw" using arg_cong[OF split, of "\<lambda>xs. xs ! length tw"] y by simp
  ultimately show ?thesis by (simp add: tw_def)
qed

lemma pending_Nil: "pending w = [] \<longleftrightarrow> w = 0"
  by (auto simp: pending_def filter_empty_conv intro!: bit_word_eqI)

lemma trailing_zeros_hd: "w \<noteq> 0 \<Longrightarrow> trailing_zeros w = hd (pending w)"
  using filter_takeWhile[of "bit w" 32] pending_Nil[of w] by (simp add: trailing_zeros_def pending_def)

lemma filter_remove_hd:
  "distinct xs \<Longrightarrow> filter P xs \<noteq> [] \<Longrightarrow>
     filter (\<lambda>i. P i \<and> i \<noteq> hd (filter P xs)) xs = tl (filter P xs)"
proof (induction xs)
  case (Cons x xs)
  then show ?case by (auto simp: filter_id_conv intro!: filter_cong)
qed simp

lemma pending_clear:
  assumes "w \<noteq> 0"
  shows "pending (w AND NOT (push_bit (trailing_zeros w) 1)) = tl (pending w)"
proof -
  have "bit (w AND NOT (push_bit k 1)) n \<longleftrightarrow> bit w n \<and> n \<noteq> k" if "n < 32" for k n
    using that by (auto simp: bit_and_iff bit_not_iff bit_exp_iff)
  then have "pending (w AND NOT (push_bit (trailing_zeros w) 1)) =
      filter (\<lambda>n. bit w n \<and> n \<noteq> hd (pending w)) [0..<32]"
    unfolding pending_def[of "w AND _"] trailing_zeros_hd[OF assms] by (intro filter_cong) auto
  also have "\<dots> = tl (pending w)"
    using filter_remove_hd[of "[0..<32]" "bit w"] assms pending_Nil[of w] by (simp add: pending_def)
  finally show ?thesis .
qed

lemmas pending_clear_exp = pending_clear[unfolded push_bit_of_1]

text \<open>
  \<^verbatim>\<open>handle_ipi\<close>: every pending vector runs the handler of the IPI once.  The
  status register has been read; it is written back to clear it first.
\<close>

function ipi_loop ::
  "('t, 'h) table_ops \<Rightarrow> u64 \<Rightarrow> 't \<Rightarrow> u32 \<Rightarrow> ('h irq_cmd, unit) io" where
  "ipi_loop Tb irq t status =
    (if status \<noteq> 0
     then let vector = trailing_zeros status;
              status' = status AND NOT (push_bit vector 1)
          in bind_io (table_handle Tb irq t) (\<lambda>_. ipi_loop Tb irq t status')
     else ret_io ())"
  by pat_completeness auto

termination
proof (relation "measure (\<lambda>(Tb, irq, t, status). length (pending status))", goal_cases)
  case (2 Tb irq t status vector status' r)
  then have "pending status \<noteq> []" by (simp add: pending_Nil)
  with 2 show ?case by (simp add: pending_clear_exp)
qed simp

declare ipi_loop.simps [simp del]

definition la_handle_ipi :: "('t, 'h) table_ops \<Rightarrow> u64 \<Rightarrow> u32 \<Rightarrow> 't \<Rightarrow> ('h irq_cmd, unit) io" where
  "la_handle_ipi Tb irq status t =
     seq_io (emit (IocsrRead IOCSR_IPI_STATUS))
       (if status = 0 then ret_io ()
        else seq_io (emit (IocsrWrite IOCSR_IPI_CLEAR status)) (ipi_loop Tb irq t status))"

lemma ipi_loop_calls:
  "ipi_loop Tb irq t status =
    (concat (replicate (length (pending status)) (handler_calls (table_lookup Tb irq t))), Inr ())"
proof (induction Tb irq t status rule: ipi_loop.induct)
  case (1 Tb irq t status)
  show ?case
  proof (cases "status = 0")
    case True
    then show ?thesis
      using pending_Nil[of status] by (subst ipi_loop.simps) (simp add: io_simps)
  next
    case False
    then obtain v vs where v: "pending status = v # vs"
      using pending_Nil[of status] by (cases "pending status") auto
    show ?thesis
      using 1[OF False refl refl] False
      by (subst ipi_loop.simps) (simp add: Let_def io_simps pending_clear_exp v)
  qed
qed

text \<open>
  The CPU's line enable register has a bit for the timer and one for IPIs; their
  positions are named by the CPU crate.
\<close>

record la_lines =
  TIMER_LINE :: "13 word"
  IPI_LINE :: "13 word"

record 't la_irq =
  lie :: "13 word"
  la_table :: 't

definition la_update_lie :: "13 word \<Rightarrow> bool \<Rightarrow> 't la_irq \<Rightarrow> ('h irq_cmd, 't la_irq) io" where
  "la_update_lie interrupt_bit enabled st =
    (let new_value = (if enabled then lie st OR interrupt_bit else lie st AND NOT interrupt_bit)
     in seq_io (emit (EcfgSetLie new_value)) (ret_io (st\<lparr>lie := new_value\<rparr>)))"

definition la_set_enable ::
  "(u64, 'm) plat_config_scheme \<Rightarrow> la_lines \<Rightarrow> u64 \<Rightarrow> bool \<Rightarrow> 't la_irq \<Rightarrow> ('h irq_cmd, 't la_irq) io" where
  "la_set_enable cfg ln irq_num enabled st =
    (if irq_num = TIMER_IRQ cfg then la_update_lie (TIMER_LINE ln) enabled st
     else if irq_num = IPI_IRQ cfg
     then seq_io (emit (IocsrWrite IOCSR_IPI_ENABLE (if enabled then 0xFFFFFFFF else 0)))
            (la_update_lie (IPI_LINE ln) enabled st)
     else ret_io st)"

definition la_register ::
  "(u64, 'm) plat_config_scheme \<Rightarrow> la_lines \<Rightarrow> ('t, 'h) table_ops \<Rightarrow> u64 \<Rightarrow> 'h \<Rightarrow> 't la_irq \<Rightarrow>
    ('h irq_cmd, bool \<times> 't la_irq) io" where
  "la_register cfg ln Tb irq_num h st =
    (let (ok, t) = table_register Tb irq_num h (la_table st);
         st' = st\<lparr>la_table := t\<rparr>
     in if ok then bind_io (la_set_enable cfg ln irq_num True st') (\<lambda>st''. ret_io (True, st''))
        else ret_io (False, st'))"

definition la_unregister ::
  "(u64, 'm) plat_config_scheme \<Rightarrow> la_lines \<Rightarrow> ('t, 'h) table_ops \<Rightarrow> u64 \<Rightarrow> 't la_irq \<Rightarrow>
    ('h irq_cmd, 'h option \<times> 't la_irq) io" where
  "la_unregister cfg ln Tb irq st =
     bind_io (la_set_enable cfg ln irq False st) (\<lambda>st'.
       let (h, t) = table_unregister Tb irq (la_table st') in ret_io (h, st'\<lparr>la_table := t\<rparr>))"

definition la_handle ::
  "(u64, 'm) plat_config_scheme \<Rightarrow> ('t, 'h) table_ops \<Rightarrow> u32 \<Rightarrow> u64 \<Rightarrow> 't la_irq \<Rightarrow>
    ('h irq_cmd, unit) io" where
  "la_handle cfg Tb status irq st =
    (if irq = IPI_IRQ cfg then la_handle_ipi Tb irq status (la_table st)
     else seq_io (if irq = TIMER_IRQ cfg then emit ClearTimerInterrupt else ret_io ())
            (bind_io (table_handle Tb irq (la_table st)) (\<lambda>_. ret_io ())))"

text \<open>The loop \<^verbatim>\<open>for i in 0..cpu_num\<close> that leaves the current CPU out.\<close>

definition all_others :: "u64 \<Rightarrow> u64 \<Rightarrow> (u64 \<Rightarrow> ('c, unit) io) \<Rightarrow> ('c, unit) io" where
  "all_others cpu_id cpu_num f =
     each_io (\<lambda>i. if i \<noteq> cpu_id then f i else ret_io ()) (map of_nat [0..<unat cpu_num])"

fun la_send_ipi :: "u64 \<Rightarrow> ipi_target \<Rightarrow> ('h irq_cmd, unit) io" where
  "la_send_ipi irq_num (Current cpu_id) =
     emit (IocsrWrite IOCSR_IPI_SEND (make_ipi_send_value cpu_id 0 True))"
| "la_send_ipi irq_num (Other cpu_id) =
     emit (IocsrWrite IOCSR_IPI_SEND (make_ipi_send_value cpu_id 0 True))"
| "la_send_ipi irq_num (AllExceptCurrent cpu_id cpu_num) =
     all_others cpu_id cpu_num
       (\<lambda>i. emit (IocsrWrite IOCSR_IPI_SEND (make_ipi_send_value i 0 True)))"

section \<open>RISC-V\<close>

definition INTC_IRQ_BASE :: u64 where "INTC_IRQ_BASE = push_bit 63 1"
definition S_SOFT :: u64 where "S_SOFT = INTC_IRQ_BASE + 1"
definition S_TIMER :: u64 where "S_TIMER = INTC_IRQ_BASE + 5"
definition S_EXT :: u64 where "S_EXT = INTC_IRQ_BASE + 9"
definition riscv_MAX_IRQ_COUNT :: nat where "riscv_MAX_IRQ_COUNT = 1024"

text \<open>The two atomic pointers are null when no handler is registered.\<close>

record ('t, 'h) riscv_irq =
  TIMER_HANDLER :: "'h option"
  IPI_HANDLER :: "'h option"
  riscv_table :: 't

text \<open>The macro \<^verbatim>\<open>with_cause!\<close>.\<close>

definition with_cause ::
  "u64 \<Rightarrow> ('c, 'a) io \<Rightarrow> ('c, 'a) io \<Rightarrow> ('c, 'a) io \<Rightarrow> ('c, 'a) io \<Rightarrow> ('c, 'a) io" where
  "with_cause cause timer_op ipi_op ext_op plic_op =
    (if cause = S_TIMER then timer_op
     else if cause = S_SOFT then ipi_op
     else if cause = S_EXT then ext_op
     else if cause AND INTC_IRQ_BASE = 0 then plic_op
     else lift_io (Inl ExplicitPanic))"

definition riscv_irq_init_percpu :: "('h irq_cmd, unit) io" where
  "riscv_irq_init_percpu = seq_io (emit SieSetSsoft) (seq_io (emit SieSetStimer) (emit SieSetSext))"

definition riscv_register ::
  "('t, 'h) table_ops \<Rightarrow> u64 \<Rightarrow> 'h \<Rightarrow> ('t, 'h) riscv_irq \<Rightarrow>
    ('h irq_cmd, bool \<times> ('t, 'h) riscv_irq) io" where
  "riscv_register Tb irq h st =
     with_cause irq
       (case TIMER_HANDLER st of
          None \<Rightarrow> ret_io (True, st\<lparr>TIMER_HANDLER := Some h\<rparr>)
        | Some _ \<Rightarrow> ret_io (False, st))
       (case IPI_HANDLER st of
          None \<Rightarrow> ret_io (True, st\<lparr>IPI_HANDLER := Some h\<rparr>)
        | Some _ \<Rightarrow> ret_io (False, st))
       (ret_io (False, st))
       (let (ok, t) = table_register Tb irq h (riscv_table st) in ret_io (ok, st\<lparr>riscv_table := t\<rparr>))"

definition riscv_unregister ::
  "('t, 'h) table_ops \<Rightarrow> u64 \<Rightarrow> ('t, 'h) riscv_irq \<Rightarrow>
    ('h irq_cmd, 'h option \<times> ('t, 'h) riscv_irq) io" where
  "riscv_unregister Tb irq st =
     with_cause irq
       (ret_io (TIMER_HANDLER st, st\<lparr>TIMER_HANDLER := None\<rparr>))
       (ret_io (IPI_HANDLER st, st\<lparr>IPI_HANDLER := None\<rparr>))
       (ret_io (None, st))
       (let (h, t) = table_unregister Tb irq (riscv_table st) in ret_io (h, st\<lparr>riscv_table := t\<rparr>))"

definition riscv_handle ::
  "('t, 'h) table_ops \<Rightarrow> u64 \<Rightarrow> ('t, 'h) riscv_irq \<Rightarrow> ('h irq_cmd, unit) io" where
  "riscv_handle Tb irq st =
     with_cause irq
       (case TIMER_HANDLER st of Some h \<Rightarrow> emit (Call h) | None \<Rightarrow> ret_io ())
       (seq_io (case IPI_HANDLER st of Some h \<Rightarrow> emit (Call h) | None \<Rightarrow> ret_io ())
          (emit SipClearSsoft))
       (bind_io (table_handle Tb 0 (riscv_table st)) (\<lambda>_. ret_io ()))
       (lift_io (Inl Unreachable))"

definition riscv_send_to :: "profile \<Rightarrow> u64 \<Rightarrow> ('h irq_cmd, unit) io" where
  "riscv_send_to p cpu_id =
     bind_io (lift_io (ushl p 1 (unat cpu_id))) (\<lambda>m. emit (SbiSendIpi m 0))"

fun riscv_send_ipi :: "profile \<Rightarrow> u64 \<Rightarrow> ipi_target \<Rightarrow> ('h irq_cmd, unit) io" where
  "riscv_send_ipi p irq_num (Current cpu_id) = riscv_send_to p cpu_id"
| "riscv_send_ipi p irq_num (Other cpu_id) = riscv_send_to p cpu_id"
| "riscv_send_ipi p irq_num (AllExceptCurrent cpu_id cpu_num) =
     all_others cpu_id cpu_num (riscv_send_to p)"

text \<open>The handler of a cause, and the causes that the operations accept.\<close>

definition riscv_lookup :: "('t, 'h) table_ops \<Rightarrow> u64 \<Rightarrow> ('t, 'h) riscv_irq \<Rightarrow> 'h option" where
  "riscv_lookup Tb irq st =
    (if irq = S_TIMER then TIMER_HANDLER st
     else if irq = S_SOFT then IPI_HANDLER st
     else if irq = S_EXT then None
     else table_lookup Tb irq (riscv_table st))"

definition cpu_side :: "u64 \<Rightarrow> bool" where
  "cpu_side irq \<longleftrightarrow> irq = S_TIMER \<or> irq = S_SOFT \<or> irq = S_EXT"

definition device_side :: "u64 \<Rightarrow> bool" where
  "device_side irq \<longleftrightarrow> irq AND INTC_IRQ_BASE = 0"

lemma cause_distinct:
  "S_TIMER \<noteq> S_SOFT" "S_TIMER \<noteq> S_EXT" "S_SOFT \<noteq> S_EXT"
  "S_SOFT \<noteq> S_TIMER" "S_EXT \<noteq> S_TIMER" "S_EXT \<noteq> S_SOFT"
  "\<not> device_side S_TIMER" "\<not> device_side S_SOFT" "\<not> device_side S_EXT"
  by (simp_all add: S_TIMER_def S_SOFT_def S_EXT_def INTC_IRQ_BASE_def device_side_def)

lemma with_cause_simps [io_simps]:
  "with_cause S_TIMER a b c d = a" "with_cause S_SOFT a b c d = b" "with_cause S_EXT a b c d = c"
  "device_side i \<Longrightarrow> with_cause i a b c d = d"
  using cause_distinct by (auto simp: with_cause_def device_side_def)

text \<open>
  The CPU-side causes form a handler store of their own, whatever the table is,
  and all causes form one over a table as documented.
\<close>

interpretation riscv_cpu: handler_store "\<lambda>_. True" cpu_side "\<lambda>i. i \<noteq> S_EXT"
  "\<lambda>i h st. returned (riscv_register Tb i h st)" "\<lambda>i st. returned (riscv_unregister Tb i st)"
  "riscv_lookup Tb" for Tb
  by unfold_locales
    (auto simp: cpu_side_def riscv_register_def riscv_unregister_def riscv_lookup_def
       with_cause_simps cause_distinct split: option.splits)

lemma riscv_store:
  assumes "table_doc n Tb"
  shows "handler_store (\<lambda>_. True) (\<lambda>i. cpu_side i \<or> device_side i)
    (\<lambda>i. i = S_TIMER \<or> i = S_SOFT \<or> device_side i \<and> unat i < n)
    (\<lambda>i h st. returned (riscv_register Tb i h st)) (\<lambda>i st. returned (riscv_unregister Tb i st))
    (riscv_lookup Tb)"
  using assms
  by unfold_locales
    (auto simp: cpu_side_def riscv_register_def riscv_unregister_def riscv_lookup_def
       with_cause_simps cause_distinct table_doc_def case_prod_unfold split: option.splits)

text \<open>The other three stores.\<close>

lemma gic_store:
  assumes "table_doc n Tb"
  shows "handler_store GIC (\<lambda>_. True) (\<lambda>i. unat i < n)
    (\<lambda>i h st. returned (gic_register_handler Tb i h st))
    (\<lambda>i st. returned (gic_unregister_handler Tb i st)) (\<lambda>i st. table_lookup Tb i (gic_table st))"
  using assms
  by unfold_locales
    (auto simp: gic_register_handler_def gic_unregister_handler_def gic_set_enable_def io_simps
       table_doc_def case_prod_unfold Let_def)

lemma apic_store:
  assumes "table_doc n Tb"
  shows "handler_store IO_APIC (\<lambda>_. True) (\<lambda>i. unat i < n)
    (\<lambda>i h st. returned (apic_register Tb i h st))
    (\<lambda>i st. returned (apic_unregister Tb i st)) (\<lambda>i st. table_lookup Tb i (apic_table st))"
  using assms
  by unfold_locales
    (auto simp: apic_register_def apic_unregister_def apic_set_enable_def io_simps
       table_doc_def case_prod_unfold Let_def)

text \<open>The line enable bits after \<^verbatim>\<open>set_enable\<close>.\<close>

definition la_lie_after ::
  "(u64, 'm) plat_config_scheme \<Rightarrow> la_lines \<Rightarrow> u64 \<Rightarrow> bool \<Rightarrow> 13 word \<Rightarrow> 13 word" where
  "la_lie_after cfg ln irq enabled l =
    (let line = (if irq = TIMER_IRQ cfg then TIMER_LINE ln
                 else if irq = IPI_IRQ cfg then IPI_LINE ln else 0)
     in if enabled then l OR line else l AND NOT line)"

lemma la_set_enable_eq:
  "\<exists>cs. la_set_enable cfg ln i b st = (cs, Inr (st\<lparr>lie := la_lie_after cfg ln i b (lie st)\<rparr>))"
  by (cases st) (auto simp: la_set_enable_def la_update_lie_def la_lie_after_def io_simps Let_def)

lemma la_register_returned:
  fixes Tb :: "('t, 'h) table_ops"
  shows "returned (la_register cfg ln Tb i h st) =
    (let (ok, t) = table_register Tb i h (la_table st)
     in (ok, if ok then st\<lparr>la_table := t, lie := la_lie_after cfg ln i True (lie st)\<rparr>
             else st\<lparr>la_table := t\<rparr>))"
proof -
  obtain ok t where r: "table_register Tb i h (la_table st) = (ok, t)" by fastforce
  obtain cs :: "'h irq_cmd list" where "la_set_enable cfg ln i True (st\<lparr>la_table := t\<rparr>) =
      (cs, Inr (st\<lparr>la_table := t, lie := la_lie_after cfg ln i True (lie st)\<rparr>))"
    using la_set_enable_eq[of cfg ln i True "st\<lparr>la_table := t\<rparr>"] by auto
  then show ?thesis by (simp add: la_register_def r io_simps)
qed

lemma la_unregister_returned:
  fixes Tb :: "('t, 'h) table_ops"
  shows "returned (la_unregister cfg ln Tb i st) =
    (fst (table_unregister Tb i (la_table st)),
     st\<lparr>lie := la_lie_after cfg ln i False (lie st),
       la_table := snd (table_unregister Tb i (la_table st))\<rparr>)"
proof -
  obtain cs :: "'h irq_cmd list" where "la_set_enable cfg ln i False st =
      (cs, Inr (st\<lparr>lie := la_lie_after cfg ln i False (lie st)\<rparr>))"
    using la_set_enable_eq[of cfg ln i False st] by auto
  then show ?thesis by (simp add: la_unregister_def io_simps case_prod_unfold Let_def)
qed

lemma la_store:
  assumes "table_doc n Tb"
  shows "handler_store (\<lambda>_. True) (\<lambda>_. True) (\<lambda>i. unat i < n)
    (\<lambda>i h st. returned (la_register cfg ln Tb i h st))
    (\<lambda>i st. returned (la_unregister cfg ln Tb i st)) (\<lambda>i st. table_lookup Tb i (la_table st))"
  using assms
  by unfold_locales
    (auto simp: la_register_returned la_unregister_returned table_doc_def case_prod_unfold Let_def)

lemma ucast_ucast_small: "unat i < 2 ^ 32 \<Longrightarrow> (ucast (ucast i :: u32) :: u64) = i" for i :: u64
  by (simp add: word_unat_eq_iff unsigned_ucast_eq unsigned_take_bit_eq take_bit_nat_eq_self)

section \<open>Properties\<close>

text \<open>
  What a client of \<^verbatim>\<open>register\<close> and \<^verbatim>\<open>unregister\<close> relies on, for one number and two
  handlers: a registration that succeeds is exclusive, is returned when it is
  given back, and leaves the number free.
\<close>

definition exclusive_at ::
  "(u64 \<Rightarrow> 'h \<Rightarrow> 's \<Rightarrow> bool \<times> 's) \<Rightarrow> (u64 \<Rightarrow> 's \<Rightarrow> 'h option \<times> 's) \<Rightarrow> u64 \<Rightarrow> 'h \<Rightarrow> 'h \<Rightarrow> 's \<Rightarrow> bool" where
  "exclusive_at reg unreg i h h' s =
    (let (ok, s') = reg i h s
     in if ok then \<not> fst (reg i h' s') \<and> fst (unreg i s') = Some h \<and>
                   fst (reg i h' (snd (unreg i s')))
        else True)"

lemma exclusive_atI:
  assumes "handler_store ready known valid reg unreg look" and "ready s" and "known i"
  shows "exclusive_at reg unreg i h h' s"
  using handler_store.exclusive[OF assms, of h]
  by (auto simp: exclusive_at_def split: prod.split)

text \<open>
  C34: On every platform a handler that has been registered keeps its interrupt
  until it is unregistered: another registration fails, unregistering returns it,
  and then the interrupt can be registered again.  On RISC-V this holds for the
  CPU-side and device-side causes, the others panic.
\<close>

theorem irq_registration_exclusive:
  assumes "table_doc k G" and "table_doc l A" and "table_doc m L" and "table_doc n R"
  shows "(GIC gst \<longrightarrow>
      exclusive_at (\<lambda>i h st. returned (gic_register_handler G i h st))
        (\<lambda>i st. returned (gic_unregister_handler G i st)) irq h h' gst) \<and>
    (IO_APIC ast \<longrightarrow>
      exclusive_at (\<lambda>i h st. returned (apic_register A i h st))
        (\<lambda>i st. returned (apic_unregister A i st)) irq h h' ast) \<and>
    exclusive_at (\<lambda>i h st. returned (la_register cfg ln L i h st))
      (\<lambda>i st. returned (la_unregister cfg ln L i st)) irq h h' lst \<and>
    (if cpu_side irq \<or> device_side irq
     then exclusive_at (\<lambda>i h st. returned (riscv_register R i h st))
       (\<lambda>i st. returned (riscv_unregister R i st)) irq h h' rst
     else riscv_register R irq h rst = ([], Inl ExplicitPanic) \<and>
       riscv_unregister R irq rst = ([], Inl ExplicitPanic))"
proof (intro conjI impI)
  show "exclusive_at (\<lambda>i h st. returned (la_register cfg ln L i h st))
      (\<lambda>i st. returned (la_unregister cfg ln L i st)) irq h h' lst"
    by (rule exclusive_atI[OF la_store[OF assms(3)]]) simp_all
next
  show "if cpu_side irq \<or> device_side irq
     then exclusive_at (\<lambda>i h st. returned (riscv_register R i h st))
       (\<lambda>i st. returned (riscv_unregister R i st)) irq h h' rst
     else riscv_register R irq h rst = ([], Inl ExplicitPanic) \<and>
       riscv_unregister R irq rst = ([], Inl ExplicitPanic)"
  proof (cases "cpu_side irq \<or> device_side irq")
    case True
    then show ?thesis by (simp add: exclusive_atI[OF riscv_store[OF assms(4)]])
  next
    case False
    then show ?thesis
      by (simp add: riscv_register_def riscv_unregister_def with_cause_def cpu_side_def
          device_side_def lift_io_def)
  qed
qed (auto intro!: exclusive_atI[OF gic_store[OF assms(1)]] exclusive_atI[OF apic_store[OF assms(2)]])

theorem irq_registration_exclusive_witness:
  "exclusive_at (\<lambda>i h st. returned (gic_register_handler (map_table 1024) i h st))
     (\<lambda>i st. returned (gic_unregister_handler (map_table 1024) i st)) 30 True False
     \<lparr>GIC = True, TRAP_OP = True, gic_table = (\<lambda>_. None)\<rparr>"
  using conjunct1[OF irq_registration_exclusive[OF map_table_doc[of 1024] map_table_doc[of 256]
      map_table_doc[of 13] map_table_doc[of 1024],
      of "\<lparr>GIC = True, TRAP_OP = True, gic_table = (\<lambda>_. None)\<rparr>" 30 True False]]
  by simp



text \<open>
  C36: A LoongArch IPI acknowledges exactly the vectors that were pending and
  then runs the handler once for each of them; with none pending it does nothing.
\<close>

theorem la_ipi_handles_pending:
  "la_handle cfg Tb status (IPI_IRQ cfg) st =
    (IocsrRead IOCSR_IPI_STATUS #
     (if status = 0 then []
      else IocsrWrite IOCSR_IPI_CLEAR status #
        concat (replicate (card {n. bit status n})
          (handler_calls (table_lookup Tb (IPI_IRQ cfg) (la_table st))))), Inr ())"
proof -
  have "{n. bit status n} = set (pending status)"
    by (auto simp: pending_def dest: bit_imp_le_length)
  moreover have "distinct (pending status)" by (simp add: pending_def)
  ultimately have "card {n. bit status n} = length (pending status)"
    by (simp add: distinct_card)
  then show ?thesis by (simp add: la_handle_def la_handle_ipi_def ipi_loop_calls io_simps)
qed

text \<open>
  On RISC-V an interrupt of the device side is a panic, and whatever the
  cause, the handlers that can run are the timer's, the IPI's and the one at
  index 0 of the table: a handler registered for any other device never runs.
\<close>

theorem riscv_devices_unreachable:
  "(device_side cause \<longrightarrow> riscv_handle Tb cause st = ([], Inl Unreachable)) \<and>
   (\<not> device_side cause \<and> \<not> cpu_side cause \<longrightarrow> riscv_handle Tb cause st = ([], Inl ExplicitPanic)) \<and>
   {h. Call h \<in> set (fst (riscv_handle Tb cause st))} \<subseteq>
     set_option (TIMER_HANDLER st) \<union> set_option (IPI_HANDLER st) \<union>
     set_option (table_lookup Tb 0 (riscv_table st))"
proof -
  have "riscv_handle Tb cause st = ([], Inl ExplicitPanic)" if "\<not> device_side cause" "\<not> cpu_side cause"
    using that by (simp add: riscv_handle_def with_cause_def cpu_side_def device_side_def lift_io_def)
  moreover have "riscv_handle Tb cause st = ([], Inl Unreachable)" if "device_side cause"
    using that by (simp add: riscv_handle_def io_simps)
  moreover have "{h. Call h \<in> set (fst (riscv_handle Tb cause st))} \<subseteq>
     set_option (TIMER_HANDLER st) \<union> set_option (IPI_HANDLER st) \<union>
     set_option (table_lookup Tb 0 (riscv_table st))" if "cpu_side cause"
    using that
    by (auto simp: cpu_side_def riscv_handle_def io_simps handler_calls_def split: option.splits)
  ultimately show ?thesis
    by (cases "device_side cause"; cases "cpu_side cause") (auto simp: cpu_side_def cause_distinct)
qed

theorem riscv_devices_unreachable_witness:
  "riscv_handle (map_table 1024) 10
     \<lparr>TIMER_HANDLER = None, IPI_HANDLER = None, riscv_table = [10 \<mapsto> ''uart'']\<rparr>
   = ([], Inl Unreachable)"
  using conjunct1[OF riscv_devices_unreachable[of 10 "map_table 1024"]]
  by (simp add: device_side_def INTC_IRQ_BASE_def)

text \<open>
  Unregistering disables the interrupt at the controller on Arm, x86 and
  LoongArch even when no handler was registered, although the interface promises
  it for a success only; on RISC-V it never does, not even on a success.
\<close>

theorem unregister_disables_regardless:
  assumes "table_doc k G" and "table_doc l A" and "table_doc m L"
    and "GIC gst" and "IO_APIC ast" and "irq < 0xF0"
  shows "fst (gic_unregister_handler G irq gst) = [GicEnable (ucast irq) False] \<and>
    fst (apic_unregister A irq ast) = [IoApicEnable (ucast irq) False] \<and>
    fst (la_unregister cfg ln L (TIMER_IRQ cfg) lst) = [EcfgSetLie (lie lst AND NOT (TIMER_LINE ln))] \<and>
    fst (returned (gic_unregister_handler G irq gst)) = table_lookup G irq (gic_table gst) \<and>
    fst (riscv_unregister R cause rst) = []"
  using assms
  by (auto simp: gic_unregister_handler_def gic_set_enable_def apic_unregister_def apic_set_enable_def
      APIC_TIMER_VECTOR_def la_unregister_def la_set_enable_def la_update_lie_def io_simps
      case_prod_unfold table_doc_def riscv_unregister_def with_cause_def Let_def)

theorem unregister_disables_regardless_witness:
  "fst (gic_unregister_handler (map_table 1024) 30
     \<lparr>GIC = True, TRAP_OP = True, gic_table = (\<lambda>_. None :: nat option)\<rparr>) = [GicEnable 30 False]"
  using conjunct1[OF unregister_disables_regardless[OF map_table_doc[of 1024] map_table_doc[of 256]
        map_table_doc[of 13],
      of "\<lparr>GIC = True, TRAP_OP = True, gic_table = (\<lambda>_. None)\<rparr>"
        "\<lparr>LOCAL_APIC = True, IS_X2APIC = False, IO_APIC = True, apic_table = (\<lambda>_. None)\<rparr>" 30]]
  by simp

lemma each_io_others:
  assumes "\<And>i. i < unat cpu_num \<Longrightarrow> f (of_nat i) = ([g i], Inr ())"
  shows "all_others cpu_id cpu_num f =
    (map g (filter (\<lambda>i. i \<noteq> unat cpu_id) [0..<unat cpu_num]), Inr ())"
proof -
  have num: "unat cpu_num < 2 ^ LENGTH(64)" by (rule unsigned_less)
  have eq: "(of_nat i :: u64) = cpu_id \<longleftrightarrow> i = unat cpu_id" if "i < unat cpu_num" for i
    using that num by (auto simp: word_unat_eq_iff unat_of_nat)
  have "each_io (\<lambda>i. if i \<noteq> cpu_id then f i else ret_io ()) (map of_nat xs) =
      (map g (filter (\<lambda>i. i \<noteq> unat cpu_id) xs), Inr ())" if "\<forall>i \<in> set xs. i < unat cpu_num" for xs
    using that by (induction xs) (auto simp: assms eq io_simps)
  then show ?thesis by (simp add: all_others_def)
qed



end
