(* ===== verification/Platform_Init.thy ===== *)
theory Platform_Init
  imports Mem_If Console_If Irq_If Power_If
begin

text \<open>
  \<^verbatim>\<open>InitIf\<close>, the interface through which a kernel initialises a platform
  (\<^verbatim>\<open>axplat/src/init.rs\<close>), and its implementation in the \<^verbatim>\<open>init.rs\<close> of every
  platform.  These functions compose the components of the library: the state
  is the statics of the drivers, and the commands are those of the drivers.

  The optional parts of the code (features \<^verbatim>\<open>irq\<close>, \<^verbatim>\<open>rtc\<close>, \<^verbatim>\<open>smp\<close>) are boolean
  arguments; what the hardware answers is a record of inputs.
\<close>

section \<open>Commands and their composition\<close>

datatype 'h init_cmd =
    InitTrap | Timer timer_cmd | Irq "'h irq_cmd" | UartSetIer bool | Println "u8 list"

definition via :: "('c \<Rightarrow> 'd) \<Rightarrow> ('c, 'a) io \<Rightarrow> ('d, 'a) io" where
  "via f m = (map f (fst m), snd m)"

lemma via_simps [io_simps]: "via f (cs, r) = (map f cs, r)"
  by (simp add: via_def)

text \<open>
  Timer code calls \<^verbatim>\<open>axplat::irq::set_enable\<close>, which the linked platform
  implements: those commands are replaced by that implementation, on its state.
\<close>

fun run_timer ::
  "(u64 \<Rightarrow> bool \<Rightarrow> 's \<Rightarrow> ('h irq_cmd, 's) io) \<Rightarrow> timer_cmd list \<Rightarrow> 's \<Rightarrow> ('h init_cmd, 's) io" where
  "run_timer set_enable [] st = ret_io st"
| "run_timer set_enable (IrqSetEnable n b # cs) st =
     bind_io (via Irq (set_enable n b st)) (run_timer set_enable cs)"
| "run_timer set_enable (c # cs) st = seq_io (emit (Timer c)) (run_timer set_enable cs st)"

definition timer_with_irq ::
  "(u64 \<Rightarrow> bool \<Rightarrow> 's \<Rightarrow> ('h irq_cmd, 's) io) \<Rightarrow> (timer_cmd, unit) io \<Rightarrow> 's \<Rightarrow> ('h init_cmd, 's) io" where
  "timer_with_irq set_enable m st =
     bind_io (run_timer set_enable (fst m) st) (\<lambda>st'. seq_io (lift_io (snd m)) (ret_io st'))"

section \<open>The Arm platforms\<close>

text \<open>The statics of the drivers that the Arm platforms share.\<close>

record ('d, 'r, 't) arm_platform =
  arm_UART :: "'d option"
  PSCI_METHOD_HVC :: bool
  arm_timer :: "'r generic_timer"
  arm_EPOCHOFFSET :: u64
  arm_gic :: "'t gic"

record arm_inputs =
  counter_freq :: u32
  rtc_seconds :: u32
  counter :: u64

definition gic_set_enable_st :: "u64 \<Rightarrow> bool \<Rightarrow> 't gic \<Rightarrow> ('h irq_cmd, 't gic) io" where
  "gic_set_enable_st n b g = seq_io (gic_set_enable n b g) (ret_io g)"

text \<open>The three calls with which every Arm platform sets up its interrupts.\<close>

definition gic_bring_up :: "u64 \<Rightarrow> u64 \<Rightarrow> u64 \<Rightarrow> 't gic \<Rightarrow> ('h init_cmd, 't gic) io" where
  "gic_bring_up gicd gicc timer_irq g =
     bind_io (via Irq (gic_init_gic gicd gicc g)) (\<lambda>g1.
     seq_io (via Irq (gic_init_gicc g1))
       (timer_with_irq gic_set_enable_st (generic_timer_enable_irqs timer_irq) g1))"

definition arm_init_early_secondary :: "('h init_cmd, unit) io" where
  "arm_init_early_secondary = emit InitTrap"

definition arm_init_later_secondary ::
  "bool \<Rightarrow> u64 \<Rightarrow> ('d, 'r, 't) arm_platform \<Rightarrow> ('h init_cmd, ('d, 'r, 't) arm_platform) io" where
  "arm_init_later_secondary irq timer_irq st =
    (if irq
     then seq_io (via Irq (gic_init_gicc (arm_gic st)))
            (bind_io (timer_with_irq gic_set_enable_st (generic_timer_enable_irqs timer_irq) (arm_gic st))
               (\<lambda>g. ret_io (st\<lparr>arm_gic := g\<rparr>)))
     else ret_io st)"

text \<open>QEMU, 64-bit.\<close>

definition qemu_init_early ::
  "profile \<Rightarrow> bool \<Rightarrow> ('d, 'k) uart_ops_scheme \<Rightarrow> (u64 \<Rightarrow> 'd) \<Rightarrow> 'r ratio_ops \<Rightarrow> u64 virt_config \<Rightarrow>
    arm_inputs \<Rightarrow> ('d, 'r, 't) arm_platform \<Rightarrow> ('h init_cmd, ('d, 'r, 't) arm_platform) io" where
  "qemu_init_early p rtc U new R cfg inp st =
    (let p2v = phys_to_virt (aarch64_qemu_mem_if p cfg)
     in seq_io (emit InitTrap)
        (bind_io (lift_io (rbind (p2v (UART_PADDR cfg)) (\<lambda>v. pl011_init_early U new v (arm_UART st)))) (\<lambda>u.
         bind_io (lift_io (psci_init (PSCI_METHOD cfg))) (\<lambda>hvc.
         let st1 = st\<lparr>arm_UART := u, PSCI_METHOD_HVC := hvc,
               arm_timer := generic_timer_init_early R (counter_freq inp)\<rparr>
         in if rtc
            then bind_io (lift_io (rbind (p2v (RTC_PADDR cfg)) (\<lambda>v.
                   pl031_init_early p R (arm_timer st1) v (rtc_seconds inp) (counter inp)
                     (arm_EPOCHOFFSET st1)))) (\<lambda>offset.
                 ret_io (st1\<lparr>arm_EPOCHOFFSET := offset\<rparr>))
            else ret_io st1))))"

definition qemu_init_later ::
  "profile \<Rightarrow> bool \<Rightarrow> ('t, 'h) table_ops \<Rightarrow> 'h \<Rightarrow> u64 virt_config \<Rightarrow>
    ('d, 'r, 't) arm_platform \<Rightarrow> ('h init_cmd, ('d, 'r, 't) arm_platform) io" where
  "qemu_init_later p irq Tb uart_handler cfg st =
    (if irq
     then bind_io (lift_io (phys_to_virt (aarch64_qemu_mem_if p cfg) (GICD_PADDR cfg))) (\<lambda>gicd.
          bind_io (lift_io (phys_to_virt (aarch64_qemu_mem_if p cfg) (GICC_PADDR cfg))) (\<lambda>gicc.
          bind_io (gic_bring_up gicd gicc (TIMER_IRQ cfg) (arm_gic st)) (\<lambda>g.
          bind_io (via Irq (gic_register_handler Tb (UART_IRQ cfg) uart_handler g)) (\<lambda>(_, g').
          ret_io (st\<lparr>arm_gic := g'\<rparr>)))))
     else ret_io st)"

text \<open>The Phytium Pi: the same without an RTC.\<close>

definition phytium_init_early ::
  "profile \<Rightarrow> ('d, 'k) uart_ops_scheme \<Rightarrow> (u64 \<Rightarrow> 'd) \<Rightarrow> 'r ratio_ops \<Rightarrow> u64 listed_config \<Rightarrow>
    arm_inputs \<Rightarrow> ('d, 'r, 't) arm_platform \<Rightarrow> ('h init_cmd, ('d, 'r, 't) arm_platform) io" where
  "phytium_init_early p U new R cfg inp st =
     seq_io (emit InitTrap)
     (bind_io (lift_io (rbind (phys_to_virt (phytium_pi_mem_if p cfg) (UART_PADDR cfg))
        (\<lambda>v. pl011_init_early U new v (arm_UART st)))) (\<lambda>u.
      bind_io (lift_io (psci_init (PSCI_METHOD cfg))) (\<lambda>hvc.
      ret_io (st\<lparr>arm_UART := u, PSCI_METHOD_HVC := hvc,
        arm_timer := generic_timer_init_early R (counter_freq inp)\<rparr>))))"

definition phytium_init_later ::
  "profile \<Rightarrow> bool \<Rightarrow> ('t, 'h) table_ops \<Rightarrow> 'h \<Rightarrow> u64 listed_config \<Rightarrow>
    ('d, 'r, 't) arm_platform \<Rightarrow> ('h init_cmd, ('d, 'r, 't) arm_platform) io" where
  "phytium_init_later p irq Tb uart_handler cfg st =
    (if irq
     then bind_io (lift_io (phys_to_virt (phytium_pi_mem_if p cfg) (GICD_PADDR cfg))) (\<lambda>gicd.
          bind_io (lift_io (phys_to_virt (phytium_pi_mem_if p cfg) (GICC_PADDR cfg))) (\<lambda>gicc.
          bind_io (gic_bring_up gicd gicc (TIMER_IRQ cfg) (arm_gic st)) (\<lambda>g.
          bind_io (via Irq (gic_register_handler Tb (UART_IRQ cfg) uart_handler g)) (\<lambda>(_, g').
          ret_io (st\<lparr>arm_gic := g'\<rparr>)))))
     else ret_io st)"

text \<open>The Raspberry Pi has no PSCI.\<close>

definition raspi_init_early ::
  "profile \<Rightarrow> ('d, 'k) uart_ops_scheme \<Rightarrow> (u64 \<Rightarrow> 'd) \<Rightarrow> 'r ratio_ops \<Rightarrow> u64 arm_config \<Rightarrow>
    arm_inputs \<Rightarrow> ('d, 'r, 't) arm_platform \<Rightarrow> ('h init_cmd, ('d, 'r, 't) arm_platform) io" where
  "raspi_init_early p U new R cfg inp st =
     seq_io (emit InitTrap)
     (bind_io (lift_io (rbind (phys_to_virt (raspi_mem_if p cfg) (UART_PADDR cfg))
        (\<lambda>v. pl011_init_early U new v (arm_UART st)))) (\<lambda>u.
      ret_io (st\<lparr>arm_UART := u, arm_timer := generic_timer_init_early R (counter_freq inp)\<rparr>)))"

definition raspi_init_later ::
  "profile \<Rightarrow> bool \<Rightarrow> ('t, 'h) table_ops \<Rightarrow> 'h \<Rightarrow> u64 arm_config \<Rightarrow>
    ('d, 'r, 't) arm_platform \<Rightarrow> ('h init_cmd, ('d, 'r, 't) arm_platform) io" where
  "raspi_init_later p irq Tb uart_handler cfg st =
    (if irq
     then bind_io (lift_io (phys_to_virt (raspi_mem_if p cfg) (GICD_PADDR cfg))) (\<lambda>gicd.
          bind_io (lift_io (phys_to_virt (raspi_mem_if p cfg) (GICC_PADDR cfg))) (\<lambda>gicc.
          bind_io (gic_bring_up gicd gicc (TIMER_IRQ cfg) (arm_gic st)) (\<lambda>g.
          bind_io (via Irq (gic_register_handler Tb (UART_IRQ cfg) uart_handler g)) (\<lambda>(_, g').
          ret_io (st\<lparr>arm_gic := g'\<rparr>)))))
     else ret_io st)"

text \<open>
  The BST A1000b, whose UART driver is a constant of the image and is
  initialised in place; its interrupt is enabled in the device too.
\<close>

definition bsta_init_early ::
  "('d, 'k) uart_ops_scheme \<Rightarrow> 'r ratio_ops \<Rightarrow> u64 listed_config \<Rightarrow>
    arm_inputs \<Rightarrow> ('d, 'r, 't) arm_platform \<Rightarrow> ('h init_cmd, ('d, 'r, 't) arm_platform) io" where
  "bsta_init_early U R cfg inp st =
     seq_io (emit InitTrap)
     (bind_io (lift_io (psci_init (PSCI_METHOD cfg))) (\<lambda>hvc.
      ret_io (st\<lparr>PSCI_METHOD_HVC := hvc, arm_UART := map_option (uart_init U) (arm_UART st),
        arm_timer := generic_timer_init_early R (counter_freq inp)\<rparr>)))"

definition bsta_uart_init_irq ::
  "('t, 'h) table_ops \<Rightarrow> 'h \<Rightarrow> u64 listed_config \<Rightarrow> 't gic \<Rightarrow> ('h init_cmd, 't gic) io" where
  "bsta_uart_init_irq Tb handle cfg g =
     seq_io (emit (UartSetIer True))
       (bind_io (via Irq (gic_register_handler Tb (UART_IRQ cfg) handle g)) (\<lambda>(_, g'). ret_io g'))"

definition bsta_init_later ::
  "profile \<Rightarrow> bool \<Rightarrow> ('t, 'h) table_ops \<Rightarrow> 'h \<Rightarrow> u64 listed_config \<Rightarrow>
    ('d, 'r, 't) arm_platform \<Rightarrow> ('h init_cmd, ('d, 'r, 't) arm_platform) io" where
  "bsta_init_later p irq Tb handle cfg st =
    (if irq
     then bind_io (lift_io (phys_to_virt (bsta1000b_mem_if p cfg) (GICD_PADDR cfg))) (\<lambda>gicd.
          bind_io (lift_io (phys_to_virt (bsta1000b_mem_if p cfg) (GICC_PADDR cfg))) (\<lambda>gicc.
          bind_io (gic_bring_up gicd gicc (TIMER_IRQ cfg) (arm_gic st)) (\<lambda>g.
          bind_io (bsta_uart_init_irq Tb handle cfg g) (\<lambda>g'.
          ret_io (st\<lparr>arm_gic := g'\<rparr>)))))
     else ret_io st)"

text \<open>QEMU, 32-bit: a line on the console, and no handler for the UART.\<close>

definition arm_hello :: "u8 list" where
  "arm_hello = map of_char ''init_early on QEMU VIRT platform''"

definition arm_qemu_init_early ::
  "profile \<Rightarrow> bool \<Rightarrow> ('d, 'k) uart_ops_scheme \<Rightarrow> (u32 \<Rightarrow> 'd) \<Rightarrow> 'r ratio_ops \<Rightarrow> u32 virt_config \<Rightarrow>
    arm_inputs \<Rightarrow> ('d, 'r, 't) arm_platform \<Rightarrow> ('h init_cmd, ('d, 'r, 't) arm_platform) io" where
  "arm_qemu_init_early p rtc U new R cfg inp st =
    (let p2v = phys_to_virt (arm_qemu_mem_if p cfg)
     in seq_io (emit InitTrap)
        (bind_io (lift_io (rbind (p2v (UART_PADDR cfg)) (\<lambda>v. pl011_init_early U new v (arm_UART st)))) (\<lambda>u.
         bind_io (lift_io (psci_init (PSCI_METHOD cfg))) (\<lambda>hvc.
         let st1 = st\<lparr>arm_UART := map_option (console_println (pl011_console_if U) [arm_hello]) u,
               PSCI_METHOD_HVC := hvc,
               arm_timer := generic_timer_init_early R (counter_freq inp)\<rparr>
         in if rtc
            then bind_io (lift_io (rbind (p2v (RTC_PADDR cfg)) (\<lambda>v.
                   pl031_init_early p R (arm_timer st1) (ucast v) (rtc_seconds inp) (counter inp)
                     (arm_EPOCHOFFSET st1)))) (\<lambda>offset.
                 ret_io (st1\<lparr>arm_EPOCHOFFSET := offset\<rparr>))
            else ret_io st1))))"

definition arm_qemu_init_later ::
  "profile \<Rightarrow> bool \<Rightarrow> u32 virt_config \<Rightarrow>
    ('d, 'r, 't) arm_platform \<Rightarrow> ('h init_cmd, ('d, 'r, 't) arm_platform) io" where
  "arm_qemu_init_later p irq cfg st =
    (if irq
     then bind_io (lift_io (phys_to_virt (arm_qemu_mem_if p cfg) (GICD_PADDR cfg))) (\<lambda>gicd.
          bind_io (lift_io (phys_to_virt (arm_qemu_mem_if p cfg) (GICC_PADDR cfg))) (\<lambda>gicc.
          bind_io (gic_bring_up (ucast gicd) (ucast gicc) (ucast (TIMER_IRQ cfg)) (arm_gic st)) (\<lambda>g.
          ret_io (st\<lparr>arm_gic := g\<rparr>))))
     else ret_io st)"

section \<open>LoongArch and RISC-V\<close>

text \<open>The statics: the nanoseconds per tick, the epoch offset and the interrupt state.\<close>

record 't la_platform =
  la_NANOS_PER_TICK :: u64
  la_EPOCHOFFSET :: u64
  la_irqs :: "'t la_irq"

record la_inputs =
  const_freq :: u64
  toy_high :: u32
  toy_low :: u32
  la_counter :: u64

definition la_init_early ::
  "profile \<Rightarrow> bool \<Rightarrow> 'x chrono_ops \<Rightarrow> la_inputs \<Rightarrow> 't la_platform \<Rightarrow>
    ('h init_cmd, 't la_platform) io" where
  "la_init_early p rtc C inp st =
     seq_io (emit InitTrap)
       (bind_io (via Timer (loongarch_time_init_early p rtc C (const_freq inp) (toy_high inp) (toy_low inp)
           (la_counter inp))) (\<lambda>(npt, offset).
        ret_io (st\<lparr>la_NANOS_PER_TICK := npt, la_EPOCHOFFSET := offset\<rparr>)))"

definition la_init_early_secondary :: "('h init_cmd, unit) io" where
  "la_init_early_secondary = emit InitTrap"

definition la_init_later ::
  "bool \<Rightarrow> bool \<Rightarrow> (u64, 'm) plat_config_scheme \<Rightarrow> la_lines \<Rightarrow> 't la_platform \<Rightarrow>
    ('h init_cmd, 't la_platform) io" where
  "la_init_later smp irq cfg ln st =
     bind_io (timer_with_irq (la_set_enable cfg ln) (loongarch_time_init_percpu irq cfg) (la_irqs st))
       (\<lambda>i. if smp \<and> irq
            then bind_io (via Irq (la_set_enable cfg ln (IPI_IRQ cfg) True i)) (\<lambda>i'.
                 ret_io (st\<lparr>la_irqs := i'\<rparr>))
            else ret_io (st\<lparr>la_irqs := i\<rparr>))"

definition la_init_later_secondary ::
  "bool \<Rightarrow> (u64, 'm) plat_config_scheme \<Rightarrow> la_lines \<Rightarrow> 't la_platform \<Rightarrow>
    ('h init_cmd, 't la_platform) io" where
  "la_init_later_secondary irq cfg ln st =
     bind_io (timer_with_irq (la_set_enable cfg ln) (loongarch_time_init_percpu irq cfg) (la_irqs st))
       (\<lambda>i. if irq
            then bind_io (via Irq (la_set_enable cfg ln (IPI_IRQ cfg) True i)) (\<lambda>i'.
                 ret_io (st\<lparr>la_irqs := i'\<rparr>))
            else ret_io (st\<lparr>la_irqs := i\<rparr>))"

definition riscv_init_early ::
  "profile \<Rightarrow> bool \<Rightarrow> (u64, 'm) riscv_config_scheme \<Rightarrow> u64 \<Rightarrow> u64 \<Rightarrow> u64 \<Rightarrow> ('h init_cmd, u64) io" where
  "riscv_init_early p rtc cfg timestamp c offset =
     seq_io (emit InitTrap) (lift_io (riscv_time_init_early p rtc cfg timestamp c offset))"

definition riscv_init_early_secondary :: "('h init_cmd, unit) io" where
  "riscv_init_early_secondary = emit InitTrap"

definition riscv_init_later :: "bool \<Rightarrow> ('h init_cmd, unit) io" where
  "riscv_init_later irq =
     seq_io (if irq then via Irq riscv_irq_init_percpu else ret_io ())
       (via Timer (riscv_time_init_percpu irq))"

definition riscv_init_later_secondary :: "bool \<Rightarrow> ('h init_cmd, unit) io" where
  "riscv_init_later_secondary irq =
     seq_io (if irq then via Irq riscv_irq_init_percpu else ret_io ())
       (via Timer (riscv_time_init_percpu irq))"

section \<open>x86\<close>

record ('d, 'r, 't) x86_platform =
  COM1 :: 'd
  x86_timer :: "'r x86_time"
  RAM_REGIONS :: "64 raw_range list option"
  x86_apic :: "'t apic"

record x86_inputs =
  cpuid_mhz :: "16 word option"
  tsc :: u64
  x86_rtc_seconds :: u64
  boot_regions :: "mb_region list option option"
  cpu_has_x2apic :: bool
  xapic_base :: u64
  lapic_builds :: bool

text \<open>The regions are stored in a cell that panics when it is initialised twice.\<close>

definition x86_store_regions ::
  "64 raw_range list \<Rightarrow> 64 raw_range list option \<Rightarrow> panic + 64 raw_range list option" where
  "x86_store_regions rs cell = (case cell of Some _ \<Rightarrow> Inl ExplicitPanic | None \<Rightarrow> Inr (Some rs))"

definition x86_init_early ::
  "profile \<Rightarrow> bool \<Rightarrow> ('d, 'k) uart_ops_scheme \<Rightarrow>
    (64 raw_range \<Rightarrow> 64 raw_range list \<Rightarrow> 64 raw_range list option) \<Rightarrow> x86_inputs \<Rightarrow>
    ('d, 'r, 't) x86_platform \<Rightarrow> ('h init_cmd, ('d, 'r, 't) x86_platform) io" where
  "x86_init_early p rtc U push inp st =
    (let st1 = st\<lparr>COM1 := uart_init U (COM1 st)\<rparr>
     in seq_io (emit InitTrap)
        (bind_io (via Timer (x86_time_init_early p rtc (cpuid_mhz inp) (tsc inp) (x86_rtc_seconds inp)
            (x86_timer st1))) (\<lambda>tm.
         bind_io (lift_io (rbind (x86_mem_init push (boot_regions inp))
            (\<lambda>rs. x86_store_regions rs (RAM_REGIONS st1)))) (\<lambda>cell.
         ret_io (st1\<lparr>x86_timer := tm, RAM_REGIONS := cell\<rparr>)))))"

definition x86_init_early_secondary :: "('h init_cmd, unit) io" where
  "x86_init_early_secondary = emit InitTrap"

definition x86_init_later ::
  "profile \<Rightarrow> bool \<Rightarrow> 'r ratio_ops \<Rightarrow> (u64, 'm) plat_config_scheme \<Rightarrow> x86_inputs \<Rightarrow>
    ('d, 'r, 't) x86_platform \<Rightarrow> ('h init_cmd, ('d, 'r, 't) x86_platform) io" where
  "x86_init_later p irq R cfg inp st =
     bind_io (via Irq (apic_init_primary (cpu_has_x2apic inp) (xapic_base inp)
         (add_offset p (PHYS_VIRT_OFFSET cfg)) (lapic_builds inp) (x86_apic st))) (\<lambda>a.
     bind_io (via Timer (x86_time_init_primary irq R (x86_timer st))) (\<lambda>tm.
     ret_io (st\<lparr>x86_apic := a, x86_timer := tm\<rparr>)))"

definition x86_init_later_secondary :: "bool \<Rightarrow> ('h init_cmd, unit) io" where
  "x86_init_later_secondary irq =
     seq_io (via Irq apic_init_secondary) (via Timer (x86_time_init_secondary irq))"

section \<open>The interface, and the kernel's use of it\<close>

text \<open>\<^verbatim>\<open>InitIf\<close>; no platform uses the CPU id, and the argument only on x86, where it is an input.\<close>

record ('w, 's, 'h) init_if =
  init_early :: "'w \<Rightarrow> 'w \<Rightarrow> 's \<Rightarrow> ('h init_cmd, 's) io"
  init_early_secondary :: "'w \<Rightarrow> 's \<Rightarrow> ('h init_cmd, 's) io"
  init_later :: "'w \<Rightarrow> 'w \<Rightarrow> 's \<Rightarrow> ('h init_cmd, 's) io"
  init_later_secondary :: "'w \<Rightarrow> 's \<Rightarrow> ('h init_cmd, 's) io"

definition qemu_init_if ::
  "profile \<Rightarrow> bool \<Rightarrow> bool \<Rightarrow> ('d, 'k) uart_ops_scheme \<Rightarrow> (u64 \<Rightarrow> 'd) \<Rightarrow> 'r ratio_ops \<Rightarrow> ('t, 'h) table_ops \<Rightarrow>
    'h \<Rightarrow> u64 virt_config \<Rightarrow> arm_inputs \<Rightarrow> (u64, ('d, 'r, 't) arm_platform, 'h) init_if" where
  "qemu_init_if p rtc irq U new R Tb h cfg inp =
    \<lparr>init_early = \<lambda>_ _. qemu_init_early p rtc U new R cfg inp,
     init_early_secondary = \<lambda>_ st. seq_io arm_init_early_secondary (ret_io st),
     init_later = \<lambda>_ _. qemu_init_later p irq Tb h cfg,
     init_later_secondary = \<lambda>_. arm_init_later_secondary irq (TIMER_IRQ cfg)\<rparr>"

definition phytium_init_if ::
  "profile \<Rightarrow> bool \<Rightarrow> ('d, 'k) uart_ops_scheme \<Rightarrow> (u64 \<Rightarrow> 'd) \<Rightarrow> 'r ratio_ops \<Rightarrow> ('t, 'h) table_ops \<Rightarrow>
    'h \<Rightarrow> u64 listed_config \<Rightarrow> arm_inputs \<Rightarrow> (u64, ('d, 'r, 't) arm_platform, 'h) init_if" where
  "phytium_init_if p irq U new R Tb h cfg inp =
    \<lparr>init_early = \<lambda>_ _. phytium_init_early p U new R cfg inp,
     init_early_secondary = \<lambda>_ st. seq_io arm_init_early_secondary (ret_io st),
     init_later = \<lambda>_ _. phytium_init_later p irq Tb h cfg,
     init_later_secondary = \<lambda>_. arm_init_later_secondary irq (TIMER_IRQ cfg)\<rparr>"

definition raspi_init_if ::
  "profile \<Rightarrow> bool \<Rightarrow> ('d, 'k) uart_ops_scheme \<Rightarrow> (u64 \<Rightarrow> 'd) \<Rightarrow> 'r ratio_ops \<Rightarrow> ('t, 'h) table_ops \<Rightarrow>
    'h \<Rightarrow> u64 arm_config \<Rightarrow> arm_inputs \<Rightarrow> (u64, ('d, 'r, 't) arm_platform, 'h) init_if" where
  "raspi_init_if p irq U new R Tb h cfg inp =
    \<lparr>init_early = \<lambda>_ _. raspi_init_early p U new R cfg inp,
     init_early_secondary = \<lambda>_ st. seq_io arm_init_early_secondary (ret_io st),
     init_later = \<lambda>_ _. raspi_init_later p irq Tb h cfg,
     init_later_secondary = \<lambda>_. arm_init_later_secondary irq (TIMER_IRQ cfg)\<rparr>"

definition bsta_init_if ::
  "profile \<Rightarrow> bool \<Rightarrow> ('d, 'k) uart_ops_scheme \<Rightarrow> 'r ratio_ops \<Rightarrow> ('t, 'h) table_ops \<Rightarrow>
    'h \<Rightarrow> u64 listed_config \<Rightarrow> arm_inputs \<Rightarrow> (u64, ('d, 'r, 't) arm_platform, 'h) init_if" where
  "bsta_init_if p irq U R Tb h cfg inp =
    \<lparr>init_early = \<lambda>_ _. bsta_init_early U R cfg inp,
     init_early_secondary = \<lambda>_ st. seq_io arm_init_early_secondary (ret_io st),
     init_later = \<lambda>_ _. bsta_init_later p irq Tb h cfg,
     init_later_secondary = \<lambda>_. arm_init_later_secondary irq (TIMER_IRQ cfg)\<rparr>"

definition arm_qemu_init_if ::
  "profile \<Rightarrow> bool \<Rightarrow> bool \<Rightarrow> ('d, 'k) uart_ops_scheme \<Rightarrow> (u32 \<Rightarrow> 'd) \<Rightarrow> 'r ratio_ops \<Rightarrow>
    u32 virt_config \<Rightarrow> arm_inputs \<Rightarrow> (u32, ('d, 'r, 't) arm_platform, 'h) init_if" where
  "arm_qemu_init_if p rtc irq U new R cfg inp =
    \<lparr>init_early = \<lambda>_ _. arm_qemu_init_early p rtc U new R cfg inp,
     init_early_secondary = \<lambda>_ st. seq_io arm_init_early_secondary (ret_io st),
     init_later = \<lambda>_ _. arm_qemu_init_later p irq cfg,
     init_later_secondary = \<lambda>_. arm_init_later_secondary irq (ucast (TIMER_IRQ cfg))\<rparr>"

definition la_init_if ::
  "profile \<Rightarrow> bool \<Rightarrow> bool \<Rightarrow> bool \<Rightarrow> 'x chrono_ops \<Rightarrow> (u64, 'm) plat_config_scheme \<Rightarrow> la_lines \<Rightarrow>
    la_inputs \<Rightarrow> (u64, 't la_platform, 'h) init_if" where
  "la_init_if p rtc smp irq C cfg ln inp =
    \<lparr>init_early = \<lambda>_ _. la_init_early p rtc C inp,
     init_early_secondary = \<lambda>_ st. seq_io la_init_early_secondary (ret_io st),
     init_later = \<lambda>_ _. la_init_later smp irq cfg ln,
     init_later_secondary = \<lambda>_. la_init_later_secondary irq cfg ln\<rparr>"

text \<open>The state of RISC-V's time is its epoch offset; the inputs are the RTC and the time register.\<close>

definition riscv_init_if ::
  "profile \<Rightarrow> bool \<Rightarrow> bool \<Rightarrow> (u64, 'm) riscv_config_scheme \<Rightarrow> u64 \<Rightarrow> u64 \<Rightarrow> (u64, u64, 'h) init_if" where
  "riscv_init_if p rtc irq cfg timestamp c =
    \<lparr>init_early = \<lambda>_ _. riscv_init_early p rtc cfg timestamp c,
     init_early_secondary = \<lambda>_ st. seq_io riscv_init_early_secondary (ret_io st),
     init_later = \<lambda>_ _ st. seq_io (riscv_init_later irq) (ret_io st),
     init_later_secondary = \<lambda>_ st. seq_io (riscv_init_later_secondary irq) (ret_io st)\<rparr>"

definition x86_init_if ::
  "profile \<Rightarrow> bool \<Rightarrow> bool \<Rightarrow> ('d, 'k) uart_ops_scheme \<Rightarrow> 'r ratio_ops \<Rightarrow>
    (64 raw_range \<Rightarrow> 64 raw_range list \<Rightarrow> 64 raw_range list option) \<Rightarrow>
    (u64, 'm) plat_config_scheme \<Rightarrow> x86_inputs \<Rightarrow> (u64, ('d, 'r, 't) x86_platform, 'h) init_if" where
  "x86_init_if p rtc irq U R push cfg inp =
    \<lparr>init_early = \<lambda>_ _. x86_init_early p rtc U push inp,
     init_early_secondary = \<lambda>_ st. seq_io x86_init_early_secondary (ret_io st),
     init_later = \<lambda>_ _. x86_init_later p irq R cfg inp,
     init_later_secondary = \<lambda>_ st. seq_io (x86_init_later_secondary irq) (ret_io st)\<rparr>"

text \<open>
  The calls of the example kernels: on the primary CPU, and on every other.  The
  set-up of the per-CPU data before them is that of the crate \<^verbatim>\<open>percpu\<close>.
\<close>

definition init_kernel :: "('w, 's, 'h) init_if \<Rightarrow> 'w \<Rightarrow> 'w \<Rightarrow> 's \<Rightarrow> ('h init_cmd, 's) io" where
  "init_kernel I cpu_id arg st = bind_io (init_early I cpu_id arg st) (init_later I cpu_id arg)"

definition init_kernel_secondary :: "('w, 's, 'h) init_if \<Rightarrow> 'w \<Rightarrow> 's \<Rightarrow> ('h init_cmd, 's) io" where
  "init_kernel_secondary I cpu_id st =
     bind_io (init_early_secondary I cpu_id st) (init_later_secondary I cpu_id)"

text \<open>
  All CPUs of a kernel, in the order in which they come up; \<open>fresh\<close> puts the registers
  that each CPU has for itself into their reset state.
\<close>

fun init_secondaries ::
  "('w, 's, 'h) init_if \<Rightarrow> ('s \<Rightarrow> 's) \<Rightarrow> 'w list \<Rightarrow> 's \<Rightarrow> ('h init_cmd, 's) io" where
  "init_secondaries I fresh [] st = ret_io st"
| "init_secondaries I fresh (cpu_id # ids) st =
     bind_io (init_kernel_secondary I cpu_id (fresh st)) (init_secondaries I fresh ids)"

definition boot_kernel ::
  "('w, 's, 'h) init_if \<Rightarrow> ('s \<Rightarrow> 's) \<Rightarrow> 'w \<Rightarrow> 'w \<Rightarrow> 'w list \<Rightarrow> 's \<Rightarrow> ('h init_cmd, 's) io" where
  "boot_kernel I fresh cpu_id arg ids st =
     bind_io (init_kernel I cpu_id arg st) (init_secondaries I fresh ids)"

lemmas init_if_defs = qemu_init_if_def phytium_init_if_def raspi_init_if_def bsta_init_if_def
  arm_qemu_init_if_def la_init_if_def riscv_init_if_def x86_init_if_def

end
