(* ===== verification/Init_Contract.thy ===== *)
theory Init_Contract
  imports Platform_Init
begin

text \<open>
  What the interface \<^verbatim>\<open>InitIf\<close> promises, as a locale, and its proof for every platform:
  from the statics of an image, the kernel's initialisation on the primary CPU and on any number
  of further CPUs does not panic, issues exactly the expected commands, and leaves the
  drivers as the interface documents.
\<close>

section \<open>The contract\<close>

text \<open>
  Whatever the ids of the CPUs, the kernel's initialisation from \<open>st\<close> issues \<open>cmds\<close> on
  the primary CPU and \<open>cpu_cmds\<close> on each further one, and ends in a good state.
\<close>

definition boots_to ::
  "('w, 's, 'h) init_if \<Rightarrow> ('s \<Rightarrow> 's) \<Rightarrow> 's \<Rightarrow> 'h init_cmd list \<Rightarrow> 'h init_cmd list \<Rightarrow> ('s \<Rightarrow> bool) \<Rightarrow> bool" where
  "boots_to I fresh st cmds cpu_cmds good \<longleftrightarrow>
    (\<forall>cpu arg ids. \<exists>st'. boot_kernel I fresh cpu arg ids st =
       (cmds @ concat (replicate (length ids) cpu_cmds), Inr st') \<and> good st')"

lemma boots_to_mono:
  "boots_to I fresh st cmds cpu_cmds P \<Longrightarrow> (\<And>st. P st \<Longrightarrow> Q st) \<Longrightarrow> boots_to I fresh st cmds cpu_cmds Q"
  unfolding boots_to_def by blast

locale platform_init =
  fixes I :: "('w, 's, 'h) init_if" and fresh :: "'s \<Rightarrow> 's"
    and early_cmds :: "'h init_cmd list" and later_cmds :: "'h init_cmd list"
    and cpu_cmds :: "'h init_cmd list"
    and static :: "'s \<Rightarrow> bool" and early_done :: "'s \<Rightarrow> bool" and ready :: "'s \<Rightarrow> bool"
  assumes early_ok: "static st \<Longrightarrow> \<exists>st'. init_early I cpu arg st = (early_cmds, Inr st') \<and> early_done st'"
    and later_ok: "early_done st \<Longrightarrow> \<exists>st'. init_later I cpu arg st = (later_cmds, Inr st') \<and> ready st'"
    and secondary_ok: "ready st \<Longrightarrow>
      \<exists>st'. init_kernel_secondary I cpu (fresh st) = (cpu_cmds, Inr st') \<and> ready st'"
begin

lemma primary_ok:
  "static st \<Longrightarrow> \<exists>st'. init_kernel I cpu arg st = (early_cmds @ later_cmds, Inr st') \<and> ready st'"
proof -
  assume "static st"
  then obtain st1 where 1: "init_early I cpu arg st = (early_cmds, Inr st1)" "early_done st1"
    using early_ok by blast
  then obtain st2 where "init_later I cpu arg st1 = (later_cmds, Inr st2)" "ready st2" using later_ok by blast
  then show ?thesis using 1 by (simp add: init_kernel_def)
qed

lemma secondaries_ok:
  "ready st \<Longrightarrow> \<exists>st'. init_secondaries I fresh ids st
     = (concat (replicate (length ids) cpu_cmds), Inr st') \<and> ready st'"
proof (induction ids arbitrary: st)
  case Nil
  then show ?case by (simp add: io_simps)
next
  case (Cons cpu ids)
  then obtain st' where "init_kernel_secondary I cpu (fresh st) = (cpu_cmds, Inr st')" "ready st'"
    using secondary_ok by blast
  with Cons.IH[OF this(2)] show ?case by auto
qed

lemma boots: "static st \<Longrightarrow> boots_to I fresh st (early_cmds @ later_cmds) cpu_cmds ready"
  unfolding boots_to_def
proof (intro allI)
  fix cpu arg ids
  assume "static st"
  then obtain st1 where 1: "init_kernel I cpu arg st = (early_cmds @ later_cmds, Inr st1)" "ready st1"
    using primary_ok by blast
  then obtain st2 where "init_secondaries I fresh ids st1
      = (concat (replicate (length ids) cpu_cmds), Inr st2)" "ready st2" using secondaries_ok by blast
  then show "\<exists>st'. boot_kernel I fresh cpu arg ids st =
      ((early_cmds @ later_cmds) @ concat (replicate (length ids) cpu_cmds), Inr st') \<and> ready st'"
    using 1 by (auto simp: boot_kernel_def)
qed

end

section \<open>The Arm boards\<close>

definition arm_irqs_off :: "('t, 'h) table_ops \<Rightarrow> ('d, 'r, 't) arm_platform \<Rightarrow> bool" where
  "arm_irqs_off Tb st \<longleftrightarrow> \<not> GIC (arm_gic st) \<and> \<not> TRAP_OP (arm_gic st) \<and>
     (\<forall>i. table_lookup Tb i (gic_table (arm_gic st)) = None)"

text \<open>
  After \<^verbatim>\<open>init_early\<close>: the console's driver at its virtual address, initialised, and
  the conversion ratios of the timer.
\<close>

definition arm_early_done ::
  "bool \<Rightarrow> 'd \<Rightarrow> 'r ratio_ops \<Rightarrow> arm_inputs \<Rightarrow> ('t, 'h) table_ops \<Rightarrow> ('d, 'r, 't) arm_platform \<Rightarrow> bool" where
  "arm_early_done hvc uart R inp Tb st \<longleftrightarrow>
     PSCI_METHOD_HVC st = hvc \<and> arm_UART st = Some uart \<and> arm_timer st = generic_timer_init_early R (counter_freq inp) \<and>
     arm_irqs_off Tb st"

text \<open>After \<^verbatim>\<open>init_later\<close>: in addition the interrupt controller and the one handler.\<close>

definition arm_ready ::
  "bool \<Rightarrow> 'd \<Rightarrow> 'r ratio_ops \<Rightarrow> arm_inputs \<Rightarrow> ('t, 'h) table_ops \<Rightarrow> u64 \<Rightarrow> 'h option \<Rightarrow>
    ('d, 'r, 't) arm_platform \<Rightarrow> bool" where
  "arm_ready hvc uart R inp Tb uart_irq h st \<longleftrightarrow>
     PSCI_METHOD_HVC st = hvc \<and> arm_UART st = Some uart \<and> arm_timer st = generic_timer_init_early R (counter_freq inp) \<and>
     GIC (arm_gic st) \<and> TRAP_OP (arm_gic st) \<and> table_lookup Tb uart_irq (gic_table (arm_gic st)) = h \<and>
     (\<forall>i. i \<noteq> uart_irq \<longrightarrow> table_lookup Tb i (gic_table (arm_gic st)) = None)"

definition bring_up_cmds :: "u64 \<Rightarrow> u64 \<Rightarrow> u64 \<Rightarrow> 'h init_cmd list" where
  "bring_up_cmds gicd gicc timer_irq =
    [Irq (GicInit gicd gicc), Irq GicCpuInit, Irq (GicSetEoiModeNs False),
     Timer (CounterEnable True), Timer (SetCountdown 0), Irq (GicEnable (ucast timer_irq) True)]"

lemma gic_bring_up_eq:
  "\<not> GIC g \<Longrightarrow> \<not> TRAP_OP g \<Longrightarrow>
    gic_bring_up gicd gicc t g = (bring_up_cmds gicd gicc t, Inr (g\<lparr>GIC := True, TRAP_OP := True\<rparr>))"
  by (simp add: gic_bring_up_def gic_init_gic_def gic_init_gicc_def timer_with_irq_def
      generic_timer_enable_irqs_def gic_set_enable_st_def gic_set_enable_def bring_up_cmds_def io_simps)

definition secondary_cmds :: "u64 \<Rightarrow> 'h init_cmd list" where
  "secondary_cmds timer_irq =
    [Irq GicCpuInit, Irq (GicSetEoiModeNs False), Timer (CounterEnable True), Timer (SetCountdown 0),
     Irq (GicEnable (ucast timer_irq) True)]"

lemma secondary_irqs_eq:
  "GIC (arm_gic st) \<Longrightarrow> arm_init_later_secondary True t st = (secondary_cmds t, Inr st)"
  by (simp add: arm_init_later_secondary_def gic_init_gicc_def timer_with_irq_def
      generic_timer_enable_irqs_def gic_set_enable_st_def gic_set_enable_def secondary_cmds_def io_simps)

lemma gic_register_first:
  assumes "table_doc 1024 Tb" and "GIC g" and "unat irq < 1024" and "table_lookup Tb irq (gic_table g) = None"
  shows "\<exists>t. gic_register_handler Tb irq h g = ([GicEnable (ucast irq) True], Inr (True, g\<lparr>gic_table := t\<rparr>)) \<and>
    table_lookup Tb irq t = Some h \<and> (\<forall>i. i \<noteq> irq \<longrightarrow> table_lookup Tb i t = table_lookup Tb i (gic_table g))"
proof -
  let ?t = "snd (table_register Tb irq h (gic_table g))"
  have "fst (table_register Tb irq h (gic_table g))" "table_lookup Tb irq ?t = Some h"
    "\<forall>i. i \<noteq> irq \<longrightarrow> table_lookup Tb i ?t = table_lookup Tb i (gic_table g)"
    using assms by (simp_all add: table_doc_def)
  then obtain t where "table_register Tb irq h (gic_table g) = (True, t)" "table_lookup Tb irq t = Some h"
    "\<forall>i. i \<noteq> irq \<longrightarrow> table_lookup Tb i t = table_lookup Tb i (gic_table g)"
    by (cases "table_register Tb irq h (gic_table g)") auto
  then show ?thesis
    using assms(2) by (intro exI[of _ t]) (simp add: gic_register_handler_def gic_set_enable_def io_simps)
qed

text \<open>
  A later initialisation of the common form: bring up the GIC at the two virtual
  addresses, then do what the board does with its UART interrupt.
\<close>

lemma later_with_handler:
  assumes "table_doc 1024 Tb" and "arm_early_done hvc uart R inp Tb st" and "unat irq < 1024"
  shows "\<exists>st'. bind_io (gic_bring_up gicd gicc t (arm_gic st)) (\<lambda>g.
      bind_io (via Irq (gic_register_handler Tb irq h g)) (\<lambda>(_, g'). ret_io (st\<lparr>arm_gic := g'\<rparr>)))
    = (bring_up_cmds gicd gicc t @ [Irq (GicEnable (ucast irq) True)], Inr st') \<and>
    arm_ready hvc uart R inp Tb irq (Some h) st'"
proof -
  let ?g = "(arm_gic st)\<lparr>GIC := True, TRAP_OP := True\<rparr>"
  have off: "\<not> GIC (arm_gic st)" "\<not> TRAP_OP (arm_gic st)" "table_lookup Tb irq (gic_table (arm_gic st)) = None"
    using assms(2) by (simp_all add: arm_early_done_def arm_irqs_off_def)
  then obtain t' where reg: "gic_register_handler Tb irq h ?g
      = ([GicEnable (ucast irq) True], Inr (True, ?g\<lparr>gic_table := t'\<rparr>))" "table_lookup Tb irq t' = Some h"
    "\<forall>i. i \<noteq> irq \<longrightarrow> table_lookup Tb i t' = table_lookup Tb i (gic_table (arm_gic st))"
    using gic_register_first[OF assms(1) _ assms(3), of ?g h] by auto
  then show ?thesis
    using assms(2) by (simp add: gic_bring_up_eq off io_simps arm_early_done_def arm_irqs_off_def arm_ready_def)
qed

lemma qemu_later:
  assumes "table_doc 1024 Tb" and "arm_early_done hvc uart R inp Tb st"
  shows "\<exists>st'. qemu_init_later p True Tb h aarch64_qemu_config st =
      (bring_up_cmds 0xFFFF000008000000 0xFFFF000008010000 30 @ [Irq (GicEnable 33 True)], Inr st') \<and>
    arm_ready hvc uart R inp Tb 33 (Some h) st'"
proof -
  have "qemu_init_later p True Tb h aarch64_qemu_config st =
     bind_io (gic_bring_up 0xFFFF000008000000 0xFFFF000008010000 30 (arm_gic st)) (\<lambda>g.
      bind_io (via Irq (gic_register_handler Tb 33 h g)) (\<lambda>(_, g'). ret_io (st\<lparr>arm_gic := g'\<rparr>)))"
    by (simp add: qemu_init_later_def static_mem_if_defs config_defs add_offset_def uadd_def io_simps)
  then show ?thesis
    using later_with_handler[OF assms, of 33 "0xFFFF000008000000" "0xFFFF000008010000" 30 h] by simp
qed

lemma phytium_later:
  assumes "table_doc 1024 Tb" and "arm_early_done hvc uart R inp Tb st"
  shows "\<exists>st'. phytium_init_later p True Tb h phytium_pi_config st =
      (bring_up_cmds 0xFFFF000030880000 0xFFFF000030800000 30 @ [Irq (GicEnable 116 True)], Inr st') \<and>
    arm_ready hvc uart R inp Tb 116 (Some h) st'"
proof -
  have "phytium_init_later p True Tb h phytium_pi_config st =
     bind_io (gic_bring_up 0xFFFF000030880000 0xFFFF000030800000 30 (arm_gic st)) (\<lambda>g.
      bind_io (via Irq (gic_register_handler Tb 116 h g)) (\<lambda>(_, g'). ret_io (st\<lparr>arm_gic := g'\<rparr>)))"
    by (simp add: phytium_init_later_def static_mem_if_defs config_defs add_offset_def uadd_def io_simps)
  then show ?thesis
    using later_with_handler[OF assms, of 116 "0xFFFF000030880000" "0xFFFF000030800000" 30 h] by simp
qed

lemma raspi_later:
  assumes "table_doc 1024 Tb" and "arm_early_done hvc uart R inp Tb st"
  shows "\<exists>st'. raspi_init_later p True Tb h raspi_config st =
      (bring_up_cmds 0xFFFF0000FF841000 0xFFFF0000FF842000 30 @ [Irq (GicEnable 153 True)], Inr st') \<and>
    arm_ready hvc uart R inp Tb 153 (Some h) st'"
proof -
  have "raspi_init_later p True Tb h raspi_config st =
     bind_io (gic_bring_up 0xFFFF0000FF841000 0xFFFF0000FF842000 30 (arm_gic st)) (\<lambda>g.
      bind_io (via Irq (gic_register_handler Tb 153 h g)) (\<lambda>(_, g'). ret_io (st\<lparr>arm_gic := g'\<rparr>)))"
    by (simp add: raspi_init_later_def static_mem_if_defs config_defs add_offset_def uadd_def io_simps)
  then show ?thesis
    using later_with_handler[OF assms, of 153 "0xFFFF0000FF841000" "0xFFFF0000FF842000" 30 h] by simp
qed

lemma bsta_later:
  assumes "table_doc 1024 Tb" and "arm_early_done hvc uart R inp Tb st"
  shows "\<exists>st'. bsta_init_later p True Tb h bsta1000b_config st =
      (bring_up_cmds 0xFFFF000032001000 0xFFFF000032002000 30 @ [UartSetIer True, Irq (GicEnable 245 True)],
       Inr st') \<and>
    arm_ready hvc uart R inp Tb 245 (Some h) st'"
proof -
  let ?g = "(arm_gic st)\<lparr>GIC := True, TRAP_OP := True\<rparr>"
  have off: "\<not> GIC (arm_gic st)" "\<not> TRAP_OP (arm_gic st)" "table_lookup Tb 245 (gic_table (arm_gic st)) = None"
    using assms(2) by (simp_all add: arm_early_done_def arm_irqs_off_def)
  then obtain t' where reg: "gic_register_handler Tb 245 h ?g
      = ([GicEnable 245 True], Inr (True, ?g\<lparr>gic_table := t'\<rparr>))" "table_lookup Tb 245 t' = Some h"
    "\<forall>i. i \<noteq> 245 \<longrightarrow> table_lookup Tb i t' = table_lookup Tb i (gic_table (arm_gic st))"
    using gic_register_first[OF assms(1), of ?g 245 h] by auto
  then show ?thesis
    using assms(2)
    by (simp add: bsta_init_later_def bsta_uart_init_irq_def static_mem_if_defs config_defs add_offset_def
        uadd_def gic_bring_up_eq off io_simps arm_early_done_def arm_irqs_off_def arm_ready_def)
qed

lemma arm_secondary:
  assumes "A \<and> arm_ready hvc uart R inp Tb irq h st"
  shows "\<exists>st'. bind_io (seq_io arm_init_early_secondary (ret_io st)) (arm_init_later_secondary True t) =
    (InitTrap # secondary_cmds t, Inr st') \<and> arm_ready hvc uart R inp Tb irq h st'"
  using assms by (simp add: arm_ready_def secondary_irqs_eq arm_init_early_secondary_def io_simps)

text \<open>The first stage.\<close>

definition pl011_static :: "('t, 'h) table_ops \<Rightarrow> ('d, 'r, 't) arm_platform \<Rightarrow> bool" where
  "pl011_static Tb st \<longleftrightarrow> \<not> PSCI_METHOD_HVC st \<and> arm_UART st = None \<and> arm_irqs_off Tb st"

definition dw_apb_static :: "'d \<Rightarrow> ('t, 'h) table_ops \<Rightarrow> ('d, 'r, 't) arm_platform \<Rightarrow> bool" where
  "dw_apb_static d Tb st \<longleftrightarrow> \<not> PSCI_METHOD_HVC st \<and> arm_UART st = Some d \<and> arm_irqs_off Tb st"

lemmas arm_early_defs = pl011_static_def dw_apb_static_def arm_early_done_def arm_irqs_off_def
  pl011_init_early_def psci_init_def static_mem_if_defs config_defs add_offset_def uadd_def io_simps Let_def

text \<open>With the feature \<^verbatim>\<open>rtc\<close>, the clock of QEMU must be later than the time since power-on.\<close>

definition rtc_readable :: "profile \<Rightarrow> 'r ratio_ops \<Rightarrow> arm_inputs \<Rightarrow> u64 \<Rightarrow> bool" where
  "rtc_readable p R inp base \<longleftrightarrow>
    (\<exists>off. pl031_init_early p R (generic_timer_init_early R (counter_freq inp)) base (rtc_seconds inp)
      (counter inp) 0 = Inr off)"

lemma pl031_offset:
  assumes "rtc_readable p R inp base" and "base \<noteq> 0"
  shows "\<exists>off. pl031_init_early p R (generic_timer_init_early R (counter_freq inp)) base (rtc_seconds inp)
      (counter inp) e = Inr off"
  using assms by (auto simp: rtc_readable_def pl031_init_early_def)

lemma qemu_early:
  assumes "pl011_static Tb st" and "rtc \<longrightarrow> rtc_readable p R inp 0xFFFF000009010000"
  shows "\<exists>st'. qemu_init_early p rtc U new R aarch64_qemu_config inp st = ([InitTrap], Inr st') \<and>
    arm_early_done True (uart_init U (new 0xFFFF000009000000)) R inp Tb st'"
proof (cases rtc)
  case True
  then obtain off where "pl031_init_early p R (generic_timer_init_early R (counter_freq inp))
      0xFFFF000009010000 (rtc_seconds inp) (counter inp) (arm_EPOCHOFFSET st) = Inr off"
    using assms(2) pl031_offset[where base = "0xFFFF000009010000"] by fastforce
  with True assms(1) show ?thesis by (simp add: qemu_init_early_def arm_early_defs)
qed (use assms(1) in \<open>simp add: qemu_init_early_def arm_early_defs\<close>)

lemma phytium_early:
  "pl011_static Tb st \<Longrightarrow> \<exists>st'. phytium_init_early p U new R phytium_pi_config inp st = ([InitTrap], Inr st') \<and>
    arm_early_done False (uart_init U (new 0xFFFF00002800D000)) R inp Tb st'"
  by (simp add: phytium_init_early_def arm_early_defs)

lemma raspi_early:
  "pl011_static Tb st \<Longrightarrow> \<exists>st'. raspi_init_early p U new R raspi_config inp st = ([InitTrap], Inr st') \<and>
    arm_early_done False (uart_init U (new 0xFFFF0000FE201000)) R inp Tb st'"
  by (simp add: raspi_init_early_def arm_early_defs)

lemma bsta_early:
  "dw_apb_static d Tb st \<Longrightarrow> \<exists>st'. bsta_init_early U R bsta1000b_config inp st = ([InitTrap], Inr st') \<and>
    arm_early_done False (uart_init U d) R inp Tb st'"
  by (simp add: bsta_init_early_def arm_early_defs)


text \<open>
  The contract of the interface, on the code of every Arm board.  The tables of
  handlers are those of the external crate, which do what it documents.
\<close>

lemmas board_contract = qemu_early phytium_early raspi_early bsta_early
  qemu_later phytium_later raspi_later bsta_later

lemma arm_timer_irqs:
  "TIMER_IRQ aarch64_qemu_config = 30" "TIMER_IRQ phytium_pi_config = 30" "TIMER_IRQ raspi_config = 30"
  "TIMER_IRQ bsta1000b_config = 30"
  by (simp_all add: config_defs)

interpretation qemu_init: platform_init
  "qemu_init_if p rtc True U new R Tb h aarch64_qemu_config inp" "\<lambda>st. st" "[InitTrap]"
  "bring_up_cmds 0xFFFF000008000000 0xFFFF000008010000 30 @ [Irq (GicEnable 33 True)]" "InitTrap # secondary_cmds 30"
  "\<lambda>st. table_doc 1024 Tb \<and> (rtc \<longrightarrow> rtc_readable p R inp 0xFFFF000009010000) \<and> pl011_static Tb st"
  "\<lambda>st. table_doc 1024 Tb \<and> arm_early_done True (uart_init U (new 0xFFFF000009000000)) R inp Tb st"
  "\<lambda>st. table_doc 1024 Tb \<and> arm_ready True (uart_init U (new 0xFFFF000009000000)) R inp Tb 33 (Some h) st"
  by (unfold_locales; (simp add: qemu_init_if_def init_kernel_secondary_def arm_timer_irqs board_contract)?; (erule arm_secondary)?)

interpretation phytium_init: platform_init
  "phytium_init_if p True U new R Tb h phytium_pi_config inp" "\<lambda>st. st" "[InitTrap]"
  "bring_up_cmds 0xFFFF000030880000 0xFFFF000030800000 30 @ [Irq (GicEnable 116 True)]" "InitTrap # secondary_cmds 30"
  "\<lambda>st. table_doc 1024 Tb \<and> pl011_static Tb st"
  "\<lambda>st. table_doc 1024 Tb \<and> arm_early_done False (uart_init U (new 0xFFFF00002800D000)) R inp Tb st"
  "\<lambda>st. table_doc 1024 Tb \<and> arm_ready False (uart_init U (new 0xFFFF00002800D000)) R inp Tb 116 (Some h) st"
  by (unfold_locales; (simp add: phytium_init_if_def init_kernel_secondary_def arm_timer_irqs board_contract)?; (erule arm_secondary)?)

interpretation raspi_init: platform_init
  "raspi_init_if p True U new R Tb h raspi_config inp" "\<lambda>st. st" "[InitTrap]"
  "bring_up_cmds 0xFFFF0000FF841000 0xFFFF0000FF842000 30 @ [Irq (GicEnable 153 True)]" "InitTrap # secondary_cmds 30"
  "\<lambda>st. table_doc 1024 Tb \<and> pl011_static Tb st"
  "\<lambda>st. table_doc 1024 Tb \<and> arm_early_done False (uart_init U (new 0xFFFF0000FE201000)) R inp Tb st"
  "\<lambda>st. table_doc 1024 Tb \<and> arm_ready False (uart_init U (new 0xFFFF0000FE201000)) R inp Tb 153 (Some h) st"
  by (unfold_locales; (simp add: raspi_init_if_def init_kernel_secondary_def arm_timer_irqs board_contract)?; (erule arm_secondary)?)

interpretation bsta_init: platform_init
  "bsta_init_if p True U R Tb h bsta1000b_config inp" "\<lambda>st. st" "[InitTrap]"
  "bring_up_cmds 0xFFFF000032001000 0xFFFF000032002000 30 @ [UartSetIer True, Irq (GicEnable 245 True)]"
  "InitTrap # secondary_cmds 30"
  "\<lambda>st. table_doc 1024 Tb \<and> dw_apb_static d Tb st"
  "\<lambda>st. table_doc 1024 Tb \<and> arm_early_done False (uart_init U d) R inp Tb st"
  "\<lambda>st. table_doc 1024 Tb \<and> arm_ready False (uart_init U d) R inp Tb 245 (Some h) st"
  by (unfold_locales; (simp add: bsta_init_if_def init_kernel_secondary_def arm_timer_irqs board_contract)?; (erule arm_secondary)?)

section \<open>The other platforms\<close>

text \<open>32-bit Arm prints a line once its console is there, and registers no handler.\<close>

lemma arm_qemu_early:
  assumes "pl011_static Tb st" and "rtc \<longrightarrow> rtc_readable p R inp 0x89010000"
  shows "\<exists>st'. arm_qemu_init_early p rtc U new R arm_qemu_config inp st = ([InitTrap], Inr st') \<and>
    arm_early_done True (console_println (pl011_console_if U) [arm_hello] (uart_init U (new 0x89000000))) R inp Tb st'"
proof (cases rtc)
  case True
  then obtain off where "pl031_init_early p R (generic_timer_init_early R (counter_freq inp))
      0x89010000 (rtc_seconds inp) (counter inp) (arm_EPOCHOFFSET st) = Inr off"
    using assms(2) pl031_offset[where base = "0x89010000"] by fastforce
  with True assms(1) show ?thesis by (simp add: arm_qemu_init_early_def arm_early_defs)
qed (use assms(1) in \<open>simp add: arm_qemu_init_early_def arm_early_defs\<close>)

lemma arm_qemu_later:
  assumes "arm_early_done True uart R inp Tb st"
  shows "\<exists>st'. arm_qemu_init_later p True arm_qemu_config st = (bring_up_cmds 0x88000000 0x88010000 30, Inr st') \<and>
    arm_ready True uart R inp Tb 33 None st'"
  using assms
  by (simp add: arm_qemu_init_later_def static_mem_if_defs config_defs add_offset_def uadd_def io_simps
      gic_bring_up_eq arm_early_done_def arm_irqs_off_def arm_ready_def)

interpretation arm_qemu_init: platform_init
  "arm_qemu_init_if p rtc True U new R arm_qemu_config inp" "\<lambda>st. st" "[InitTrap]"
  "bring_up_cmds 0x88000000 0x88010000 30" "InitTrap # secondary_cmds 30"
  "\<lambda>st. (rtc \<longrightarrow> rtc_readable p R inp 0x89010000) \<and> pl011_static Tb st"
  "arm_early_done True (console_println (pl011_console_if U) [arm_hello] (uart_init U (new 0x89000000))) R inp Tb"
  "arm_ready True (console_println (pl011_console_if U) [arm_hello] (uart_init U (new 0x89000000))) R inp Tb 33 None"
proof unfold_locales
  show "\<exists>st'. init_kernel_secondary (arm_qemu_init_if p rtc True U new R arm_qemu_config inp) cpu st
      = (InitTrap # secondary_cmds 30, Inr st') \<and>
    arm_ready True (console_println (pl011_console_if U) [arm_hello] (uart_init U (new 0x89000000))) R inp Tb 33 None st'"
    if "arm_ready True (console_println (pl011_console_if U) [arm_hello] (uart_init U (new 0x89000000))) R inp Tb 33 None st"
    for cpu st
  proof -
    have "ucast (TIMER_IRQ arm_qemu_config) = (30 :: u64)" by (simp add: config_defs)
    then show ?thesis using arm_secondary[OF conjI[OF TrueI that]]
      by (simp add: arm_qemu_init_if_def init_kernel_secondary_def)
  qed
qed (simp_all add: arm_qemu_init_if_def arm_qemu_early arm_qemu_later)

text \<open>
  LoongArch: the line enables are a register of each CPU.  The first stage issues
  the commands of the time driver.
\<close>

definition la_line_cmds :: "la_lines \<Rightarrow> 'h init_cmd list" where
  "la_line_cmds ln =
    [Timer (TcfgInitVal 0), Timer (TcfgPeriodic False), Timer (TcfgEnable True), Irq (EcfgSetLie (TIMER_LINE ln)),
     Irq (IocsrWrite IOCSR_IPI_ENABLE 0xFFFFFFFF), Irq (EcfgSetLie (TIMER_LINE ln OR IPI_LINE ln))]"

definition la_ready :: "u64 \<Rightarrow> u64 \<Rightarrow> la_lines \<Rightarrow> 't la_platform \<Rightarrow> bool" where
  "la_ready npt off ln st \<longleftrightarrow> la_NANOS_PER_TICK st = npt \<and> la_EPOCHOFFSET st = off \<and>
     lie (la_irqs st) = TIMER_LINE ln OR IPI_LINE ln"

definition la_fresh :: "'t la_platform \<Rightarrow> 't la_platform" where
  "la_fresh st = st\<lparr>la_irqs := (la_irqs st)\<lparr>lie := 0\<rparr>\<rparr>"

lemma la_irq_numbers: "IPI_IRQ loongarch64_qemu_config \<noteq> TIMER_IRQ loongarch64_qemu_config"
  by (simp add: config_defs)

lemmas la_init_defs = la_init_if_def la_init_early_def la_init_early_secondary_def la_init_later_def
  la_init_later_secondary_def timer_with_irq_def loongarch_time_init_percpu_def la_set_enable_def
  la_update_lie_def la_line_cmds_def la_ready_def la_fresh_def init_kernel_secondary_def io_simps Let_def

interpretation la_init: platform_init
  "la_init_if p rtc True True C loongarch64_qemu_config ln inp" la_fresh "InitTrap # map Timer tcs"
  "la_line_cmds ln" "InitTrap # la_line_cmds ln"
  "\<lambda>st. loongarch_time_init_early p rtc C (const_freq inp) (toy_high inp) (toy_low inp) (la_counter inp)
     = (tcs, Inr (npt, off)) \<and> lie (la_irqs st) = 0"
  "\<lambda>st. la_NANOS_PER_TICK st = npt \<and> la_EPOCHOFFSET st = off \<and> lie (la_irqs st) = 0"
  "la_ready npt off ln"
  by unfold_locales (auto simp: la_init_defs la_irq_numbers)

text \<open>RISC-V: every CPU enables its interrupts and arms its timer.\<close>

definition riscv_cpu_cmds :: "'h init_cmd list" where
  "riscv_cpu_cmds = [Irq SieSetSsoft, Irq SieSetStimer, Irq SieSetSext, Timer (SbiSetTimer 0)]"

lemmas riscv_init_defs = riscv_init_if_def riscv_init_early_def riscv_init_early_secondary_def
  riscv_init_later_def riscv_init_later_secondary_def riscv_irq_init_percpu_def riscv_time_init_percpu_def
  riscv_cpu_cmds_def init_kernel_secondary_def io_simps

interpretation riscv_init: platform_init
  "riscv_init_if p rtc True cfg secs c" "\<lambda>st. st" "[InitTrap]" riscv_cpu_cmds "InitTrap # riscv_cpu_cmds"
  "\<lambda>st. riscv_time_init_early p rtc cfg secs c st = Inr off" "\<lambda>st. st = off" "\<lambda>st. st = off"
  by unfold_locales (auto simp: riscv_init_defs)

text \<open>
  x86: the memory regions are stored once, and the two APICs are brought up; \<open>base\<close> is where the
  registers of the local APIC are mapped, if it is not an x2APIC.
\<close>

definition x86_static ::
  "profile \<Rightarrow> bool \<Rightarrow> (64 raw_range \<Rightarrow> 64 raw_range list \<Rightarrow> 64 raw_range list option) \<Rightarrow> x86_inputs \<Rightarrow>
    timer_cmd list \<Rightarrow> 'r x86_time \<Rightarrow> 64 raw_range list \<Rightarrow> u64 option \<Rightarrow> 'd \<Rightarrow> ('d, 'r, 't) x86_platform \<Rightarrow> bool" where
  "x86_static p rtc push inp tcs tm rs base d st \<longleftrightarrow>
     x86_time_init_early p rtc (cpuid_mhz inp) (tsc inp) (x86_rtc_seconds inp) (x86_timer st) = (tcs, Inr tm) \<and>
     x86_mem_init push (boot_regions inp) = Inr rs \<and> RAM_REGIONS st = None \<and> COM1 st = d \<and>
     \<not> IO_APIC (x86_apic st) \<and> lapic_builds inp \<and>
     (if cpu_has_x2apic inp then base = None
      else \<exists>v. base = Some v \<and> add_offset p (PHYS_VIRT_OFFSET x86_pc_config) (xapic_base inp) = Inr v)"

definition x86_early_done ::
  "profile \<Rightarrow> x86_inputs \<Rightarrow> 'r x86_time \<Rightarrow> 64 raw_range list \<Rightarrow> u64 option \<Rightarrow> 'd \<Rightarrow> ('d, 'r, 't) x86_platform \<Rightarrow> bool" where
  "x86_early_done p inp tm rs base d st \<longleftrightarrow>
     COM1 st = d \<and> x86_timer st = tm \<and> RAM_REGIONS st = Some rs \<and> \<not> IO_APIC (x86_apic st) \<and> lapic_builds inp \<and>
     (if cpu_has_x2apic inp then base = None
      else \<exists>v. base = Some v \<and> add_offset p (PHYS_VIRT_OFFSET x86_pc_config) (xapic_base inp) = Inr v)"

definition x86_ready ::
  "'r ratio_ops \<Rightarrow> 'r x86_time \<Rightarrow> 64 raw_range list \<Rightarrow> 'd \<Rightarrow> ('d, 'r, 't) x86_platform \<Rightarrow> bool" where
  "x86_ready R tm rs d st \<longleftrightarrow>
     COM1 st = d \<and> RAM_REGIONS st = Some rs \<and> LOCAL_APIC (x86_apic st) \<and> IO_APIC (x86_apic st) \<and>
     x86_timer st = tm\<lparr>NANOS_TO_LAPIC_TICKS_RATIO := ratio_new R 1000000000 1000000000\<rparr>"

definition x86_later_cmds :: "u64 option \<Rightarrow> 'h init_cmd list" where
  "x86_later_cmds base =
    [Irq (PortWrite 0x21 0xFF), Irq (PortWrite 0xA1 0xFF), Irq (LapicBuild 0xF0 0xF2 0xF1 base), Irq LapicEnable,
     Irq (IoApicNew 0xFFFF8000FEC00000), Timer LapicOneShot, Timer LapicDivideBy1, Timer LapicTimerEnable]"

lemmas x86_init_defs = x86_init_if_def x86_init_early_def x86_init_early_secondary_def x86_init_later_def
  x86_init_later_secondary_def x86_store_regions_def apic_init_primary_def apic_init_secondary_def
  x86_time_init_primary_def x86_time_init_secondary_def x86_static_def x86_early_done_def x86_ready_def
  x86_later_cmds_def init_kernel_secondary_def io_simps Let_def

lemma io_apic_mapped: "add_offset p (PHYS_VIRT_OFFSET x86_pc_config) IO_APIC_BASE = Inr 0xFFFF8000FEC00000"
  by (simp add: add_offset_def uadd_def IO_APIC_BASE_def config_defs)

lemma x86_ratio: "ucast LAPIC_TICKS_PER_SEC = (1000000000 :: u32)" "ucast NANOS_PER_SEC = (1000000000 :: u32)"
  by (simp_all add: LAPIC_TICKS_PER_SEC_def NANOS_PER_SEC_def)

interpretation x86_init: platform_init
  "x86_init_if p rtc True U R push x86_pc_config inp" "\<lambda>st. st" "InitTrap # map Timer tcs"
  "x86_later_cmds base" "[InitTrap, Irq LapicEnable, Timer LapicTimerEnable]"
  "x86_static p rtc push inp tcs tm rs base d"
  "x86_early_done p inp tm rs base (uart_init U d)"
  "x86_ready R tm rs (uart_init U d)"
proof unfold_locales
  show "\<exists>st'. init_later (x86_init_if p rtc True U R push x86_pc_config inp) cpu arg st = (x86_later_cmds base, Inr st') \<and>
      x86_ready R tm rs (uart_init U d) st'"
    if "x86_early_done p inp tm rs base (uart_init U d) st" for cpu arg st
    using that io_apic_mapped[of p]
    by (auto simp: x86_init_defs x86_ratio APIC_TIMER_VECTOR_def APIC_ERROR_VECTOR_def APIC_SPURIOUS_VECTOR_def
        split: if_splits)
qed (auto simp: x86_init_defs)

section \<open>What the platforms promise\<close>



text \<open>
  C13: LoongArch, RISC-V and x86 initialise without a panic as well, provided that the
  clock can be set up and, on x86, that the boot loader passes a memory map and the local APIC can be
  built: the clock gets its parameters, the memory regions are kept, every CPU has its
  timer interrupt on (on LoongArch the interprocessor interrupts too), and the I/O APIC
  is brought up on the primary CPU alone.
\<close>

theorem other_platforms_initialise:
  assumes la: "loongarch_time_init_early p rtc C (const_freq li) (toy_high li) (toy_low li) (la_counter li)
      = (la_tcs, Inr (npt, off))" "lie (la_irqs la_st) = 0"
    and riscv: "riscv_time_init_early p rtc riscv64_qemu_config secs c rv_st = Inr rv_off"
    and x86: "x86_static p rtc push xi x86_tcs tm rs base d x86_st"
  shows "boots_to (la_init_if p rtc True True C loongarch64_qemu_config ln li) la_fresh la_st
      ((InitTrap # map Timer la_tcs) @ la_line_cmds ln) (InitTrap # la_line_cmds ln) (la_ready npt off ln) \<and>
    boots_to (riscv_init_if p rtc True riscv64_qemu_config secs c) (\<lambda>st. st) rv_st
      ([InitTrap] @ riscv_cpu_cmds) (InitTrap # riscv_cpu_cmds) (\<lambda>st. st = rv_off) \<and>
    boots_to (x86_init_if p rtc True U R push x86_pc_config xi) (\<lambda>st. st) x86_st
      ((InitTrap # map Timer x86_tcs) @ x86_later_cmds base) [InitTrap, Irq LapicEnable, Timer LapicTimerEnable]
      (x86_ready R tm rs (uart_init U d))"
  using la_init.boots[OF conjI[OF la]] riscv_init.boots[OF riscv] x86_init.boots[OF x86] by blast

theorem other_platforms_initialise_witness:
  "\<exists>st'. boot_kernel (x86_init_if Debug False True wire_uart exact_ratio (\<lambda>x xs. if length xs < 16 then Some (xs @ [x]) else None)
        x86_pc_config \<lparr>cpuid_mhz = Some 3000, tsc = 1000, x86_rtc_seconds = 0,
          boot_regions = Some (Some [\<lparr>base_address = 0x100000, region_length = 0x7EE0000, is_available = True\<rparr>]),
          cpu_has_x2apic = True, xapic_base = 0, lapic_builds = True\<rparr>)
      (\<lambda>st. st) 0 0 [1]
      \<lparr>COM1 = ([], []), x86_timer = x86_time_static x86_pc_config (0, 0), RAM_REGIONS = None,
       x86_apic = \<lparr>LOCAL_APIC = False, IS_X2APIC = False, IO_APIC = False, apic_table = ()\<rparr>\<rparr> =
    ((InitTrap # map Timer [PrintTscFrequency 3000]) @ (x86_later_cmds None :: string init_cmd list)
      @ concat (replicate (length [1 :: u64]) [InitTrap, Irq LapicEnable, Timer LapicTimerEnable]), Inr st') \<and>
    RAM_REGIONS st' = Some [(0x100000, 0x7EE0000)]"
proof -
  let ?push = "\<lambda>x xs. if length xs < 16 then Some (xs @ [x]) else None :: 64 raw_range list option"
  let ?xi = "\<lparr>cpuid_mhz = Some 3000, tsc = 1000, x86_rtc_seconds = 0,
          boot_regions = Some (Some [\<lparr>base_address = 0x100000, region_length = 0x7EE0000, is_available = True\<rparr>]),
          cpu_has_x2apic = True, xapic_base = 0, lapic_builds = True\<rparr>"
  let ?st = "\<lparr>COM1 = ([], []), x86_timer = x86_time_static x86_pc_config (0, 0), RAM_REGIONS = None,
       x86_apic = \<lparr>LOCAL_APIC = False, IS_X2APIC = False, IO_APIC = False, apic_table = ()\<rparr>\<rparr>"
  let ?tm = "(x86_time_static x86_pc_config (0, 0))\<lparr>CPU_FREQ_MHZ := 3000, INIT_TICK := 1000\<rparr>"
  let ?li = "\<lparr>const_freq = 100000000, toy_high = 0, toy_low = 0, la_counter = 0\<rparr>"
  let ?la = "\<lparr>la_NANOS_PER_TICK = 0, la_EPOCHOFFSET = 0, la_irqs = \<lparr>lie = 0, la_table = ()\<rparr>\<rparr>"
  have la: "loongarch_time_init_early Debug False (undefined :: unit chrono_ops) (const_freq ?li) (toy_high ?li)
      (toy_low ?li) (la_counter ?li) = ([], Inr (10, 0))" "lie (la_irqs ?la) = 0"
    by (simp_all add: loongarch_time_init_early_def loongarch_nanos_per_tick_def NANOS_PER_SEC_def udiv_def io_simps)
  have rv: "riscv_time_init_early Debug False riscv64_qemu_config 0 0 0 = Inr 0"
    by (simp add: riscv_time_init_early_def)
  have x86: "x86_static Debug False ?push ?xi [PrintTscFrequency 3000] ?tm [(0x100000, 0x7EE0000)] None ([], []) ?st"
    by (simp add: x86_static_def x86_time_init_early_def x86_mem_init_def io_simps Let_def)
  have boots: "boots_to (x86_init_if Debug False True wire_uart exact_ratio ?push x86_pc_config ?xi) (\<lambda>st. st) ?st
      ((InitTrap # map Timer [PrintTscFrequency 3000]) @ (x86_later_cmds None :: string init_cmd list))
      [InitTrap, Irq LapicEnable, Timer LapicTimerEnable]
      (x86_ready exact_ratio ?tm [(0x100000, 0x7EE0000)] (uart_init wire_uart ([], [])))"
    by (rule conjunct2[OF conjunct2[OF other_platforms_initialise[OF la rv x86]]])
  then obtain st' where "boot_kernel (x86_init_if Debug False True wire_uart exact_ratio ?push x86_pc_config ?xi)
      (\<lambda>st. st) 0 0 [1] ?st = (((InitTrap # map Timer [PrintTscFrequency 3000]) @ (x86_later_cmds None :: string init_cmd list))
        @ concat (replicate (length [1 :: u64]) [InitTrap, Irq LapicEnable, Timer LapicTimerEnable]), Inr st')"
    and "x86_ready exact_ratio ?tm [(0x100000, 0x7EE0000)] (uart_init wire_uart ([], [])) st'"
    unfolding boots_to_def by blast
  then show ?thesis by (intro exI[of _ st']) (simp add: x86_ready_def)
qed

end
