(* ===== verification/Power_Boards.thy ===== *)
theory Power_Boards
  imports Power_If Mem_If
begin

text \<open>
  \<^verbatim>\<open>PowerIf\<close> (\<^verbatim>\<open>axplat/src/power.rs\<close>) as a record, and its implementation in the
  \<^verbatim>\<open>power.rs\<close> of every platform, with the platform's own address translation.
  \<open>entry\<close> is the link address of the function a secondary CPU starts at, \<open>hvc\<close> the
  static of the PSCI client and \<open>ret\<close> the firmware's answer.
\<close>

section \<open>The interface and its implementations\<close>

text \<open>A shutdown that waits forever before it does anything is \<open>None\<close>.\<close>

record 'w power_if =
  pw_cpu_boot :: "'w \<Rightarrow> 'w \<Rightarrow> ('w power_cmd, unit) io"
  pw_system_off :: "('w power_cmd, unit) io option"
  pw_cpu_num :: 'w

definition qemu_power_if :: "profile \<Rightarrow> u64 virt_config \<Rightarrow> u64 \<Rightarrow> bool \<Rightarrow> u64 \<Rightarrow> u64 power_if" where
  "qemu_power_if p cfg entry hvc ret =
    \<lparr>pw_cpu_boot = qemu_cpu_boot (virt_to_phys (aarch64_qemu_mem_if p cfg)) entry hvc ret,
     pw_system_off = Some (psci_system_off hvc ret),
     pw_cpu_num = plat_cpu_num cfg\<rparr>"

definition arm_qemu_power_if :: "profile \<Rightarrow> u32 virt_config \<Rightarrow> u32 \<Rightarrow> bool \<Rightarrow> u32 \<Rightarrow> u32 power_if" where
  "arm_qemu_power_if p cfg entry hvc ret =
    \<lparr>pw_cpu_boot = qemu_cpu_boot (virt_to_phys (arm_qemu_mem_if p cfg)) entry hvc ret,
     pw_system_off = Some (psci_system_off hvc ret),
     pw_cpu_num = plat_cpu_num cfg\<rparr>"

definition phytium_power_if :: "profile \<Rightarrow> u64 listed_config \<Rightarrow> u64 \<Rightarrow> bool \<Rightarrow> u64 \<Rightarrow> u64 power_if" where
  "phytium_power_if p cfg entry hvc ret =
    \<lparr>pw_cpu_boot = phytium_cpu_boot cfg (virt_to_phys (phytium_pi_mem_if p cfg)) entry hvc ret,
     pw_system_off = Some (psci_system_off hvc ret),
     pw_cpu_num = plat_cpu_num cfg\<rparr>"

definition bsta_power_if :: "profile \<Rightarrow> u64 listed_config \<Rightarrow> u64 \<Rightarrow> bool \<Rightarrow> u64 \<Rightarrow> u64 power_if" where
  "bsta_power_if p cfg entry hvc ret =
    \<lparr>pw_cpu_boot = bsta_start_secondary_cpu cfg (virt_to_phys (bsta1000b_mem_if p cfg)) entry hvc ret,
     pw_system_off = Some (psci_system_off hvc ret),
     pw_cpu_num = plat_cpu_num cfg\<rparr>"

definition raspi_power_if :: "profile \<Rightarrow> u64 arm_config \<Rightarrow> u64 \<Rightarrow> u64 \<Rightarrow> u64 power_if" where
  "raspi_power_if p cfg entry stack_top_ptr =
    \<lparr>pw_cpu_boot = raspi_start_secondary_cpu (phys_to_virt (raspi_mem_if p cfg))
       (virt_to_phys (raspi_mem_if p cfg)) entry stack_top_ptr,
     pw_system_off = Some raspi_system_off,
     pw_cpu_num = plat_cpu_num cfg\<rparr>"

definition la_power_if :: "profile \<Rightarrow> u64 loongarch_config \<Rightarrow> u64 \<Rightarrow> u64 power_if" where
  "la_power_if p cfg entry =
    (let p2v = phys_to_virt (loongarch64_qemu_mem_if p cfg)
     in \<lparr>pw_cpu_boot = la_start_secondary_cpu p2v entry,
         pw_system_off = Some (bind_io (lift_io (p2v (GED_PADDR cfg))) la_system_off),
         pw_cpu_num = plat_cpu_num cfg\<rparr>)"

definition riscv_power_if :: "profile \<Rightarrow> u64 riscv_config \<Rightarrow> u64 \<Rightarrow> bool \<Rightarrow> u64 power_if" where
  "riscv_power_if p cfg entry hsm_available =
    \<lparr>pw_cpu_boot = riscv_cpu_boot (virt_to_phys (riscv64_qemu_mem_if p cfg)) entry hsm_available,
     pw_system_off = Some riscv_system_off,
     pw_cpu_num = plat_cpu_num cfg\<rparr>"

text \<open>
  On x86 the start page holds what it held before; what it holds afterwards is
  the business of the component that models it.
\<close>

definition x86_power_if ::
  "(u64, 'm) plat_config_scheme \<Rightarrow> (u8 \<Rightarrow> u32) \<Rightarrow> u64 list \<Rightarrow> u64 \<Rightarrow> u64 list \<Rightarrow> bool \<Rightarrow> nat option \<Rightarrow> u64 power_if" where
  "x86_power_if cfg raw_id code ap_entry32 start_page reboot keys =
    \<lparr>pw_cpu_boot = (\<lambda>cpu_id stack_top.
       seq_io (x86_start_secondary_cpu raw_id code ap_entry32 cpu_id stack_top start_page) (ret_io ())),
     pw_system_off = x86_system_off reboot keys,
     pw_cpu_num = plat_cpu_num cfg\<rparr>"

lemmas power_if_defs = qemu_power_if_def arm_qemu_power_if_def phytium_power_if_def bsta_power_if_def
  raspi_power_if_def la_power_if_def riscv_power_if_def x86_power_if_def plat_cpu_num_def

section \<open>Which CPUs a platform starts\<close>

lemma translates_entry [simp]:
  "virt_to_phys (phytium_pi_mem_if p cfg) = sub_offset p (PHYS_VIRT_OFFSET cfg)"
  "virt_to_phys (bsta1000b_mem_if p cfg) = sub_offset p (PHYS_VIRT_OFFSET cfg)"
  "virt_to_phys (raspi_mem_if p cfg') = sub_offset p (PHYS_VIRT_OFFSET cfg')"
  "virt_to_phys (aarch64_qemu_mem_if p cfg'') = sub_offset p (PHYS_VIRT_OFFSET cfg'')"
  by (simp_all add: static_mem_if_defs)

text \<open>The start of a CPU through PSCI.\<close>

definition psci_start :: "bool \<Rightarrow> u64 \<Rightarrow> u64 \<Rightarrow> u64 \<Rightarrow> u64 power_cmd" where
  "psci_start hvc target entry arg =
    (if hvc then Hvc PSCI_0_2_FN64_CPU_ON target entry arg else Smc PSCI_0_2_FN64_CPU_ON target entry arg)"

lemma psci_cpu_on_ok:
  "psci_cpu_on hvc 0 target entry (arg :: u64) = ([psci_start hvc target entry arg], Inr ())"
  by (simp add: psci_cpu_on_def psci_call_def psci_start_def io_simps)

lemma listed_boots:
  assumes "v2p entry = Inr e"
  shows "phytium_cpu_boot cfg v2p entry hvc 0 i sp =
      (if unat i < length (CPU_ID_LIST cfg) then ([psci_start hvc (CPU_ID_LIST cfg ! unat i) e sp], Inr ())
       else ([], Inl IndexOutOfBounds))"
    and "bsta_start_secondary_cpu cfg v2p entry hvc 0 i sp =
      (if unat i < length (CPU_ID_LIST cfg) then ([psci_start hvc (CPU_ID_LIST cfg ! unat i) e sp], Inr ())
       else ([], Inr ()))"
  using assms by (simp_all add: phytium_cpu_boot_def bsta_start_secondary_cpu_def index_def io_simps psci_cpu_on_ok)

text \<open>The Raspberry Pi: the slot of the stack, then the release address in the table.\<close>

lemma spin_table_address:
  "unat i < 4 \<Longrightarrow> rbind (index CPU_SPIN_TABLE i) (phys_to_virt (raspi_mem_if p raspi_config))
    = Inr (0xFFFF0000000000D8 + 8 * i)"
proof -
  assume i: "unat i < 4"
  then have "unat i = 0 \<or> unat i = 1 \<or> unat i = 2 \<or> unat i = 3" by arith
  then have "i = 0 \<or> i = 1 \<or> i = 2 \<or> i = 3"
    by (auto dest!: arg_cong[of _ _ "of_nat :: nat \<Rightarrow> u64"] simp: unat_eq_zero)
  then show ?thesis
    by (auto simp: index_def CPU_SPIN_TABLE_def static_mem_if_defs config_defs add_offset_def uadd_def)
qed

lemma raspi_boots:
  assumes "v2p entry = Inr e"
  shows "raspi_start_secondary_cpu (phys_to_virt (raspi_mem_if p raspi_config)) v2p entry slot i sp =
    (if unat i < 4
     then ([WriteSlot sp, FlushDcache slot, WriteRelease (0xFFFF0000000000D8 + 8 * i) e,
            FlushDcache (0xFFFF0000000000D8 + 8 * i), Sev], Inr ())
     else ([WriteSlot sp, FlushDcache slot], Inl IndexOutOfBounds))"
proof (cases "unat i < 4")
  case True
  then show ?thesis
    using assms spin_table_address[OF True] by (simp add: raspi_start_secondary_cpu_def io_simps)
next
  case False
  then have "index CPU_SPIN_TABLE i = Inl IndexOutOfBounds" by (simp add: index_def CPU_SPIN_TABLE_def)
  then show ?thesis using assms False by (simp add: raspi_start_secondary_cpu_def io_simps)
qed

text \<open>A shutdown that never returns.\<close>

definition stays_off :: "('w power_cmd, unit) io \<Rightarrow> bool" where
  "stays_off m \<longleftrightarrow> (\<exists>cs. m = (cs @ [HaltForever], Inr ()))"

lemma polls: "each_io (\<lambda>_. ([GetKey], Inr ())) xs = (map (\<lambda>_. GetKey) xs, Inr ())"
  by (induction xs) (simp_all add: io_simps)

lemma stays_off_simps:
  "stays_off (psci_system_off hvc 0)" "stays_off raspi_system_off" "stays_off riscv_system_off"
  "stays_off (la_system_off addr)" "x86_system_off reboot keys = Some m \<Longrightarrow> stays_off m"
  by (auto simp: stays_off_def psci_system_off_def psci_call_def raspi_system_off_def riscv_system_off_def
      la_system_off_def x86_system_off_def io_simps polls split: if_splits option.splits)

lemma bsta_hardware_id: "unat i < 8 \<Longrightarrow> CPU_ID_LIST bsta1000b_config ! unat i = 0x100 * i" for i :: u64
proof -
  assume "unat i < 8"
  then have "unat i = 0 \<or> unat i = 1 \<or> unat i = 2 \<or> unat i = 3 \<or> unat i = 4 \<or> unat i = 5 \<or> unat i = 6 \<or> unat i = 7"
    by arith
  then have "i = 0 \<or> i = 1 \<or> i = 2 \<or> i = 3 \<or> i = 4 \<or> i = 5 \<or> i = 6 \<or> i = 7"
    by (auto dest!: arg_cong[of _ _ "of_nat :: nat \<Rightarrow> u64"] simp: unat_eq_zero)
  then show ?thesis by (auto simp: config_defs)
qed

lemma board_numbers:
  "MAX_CPU_NUM phytium_pi_config = 4" "MAX_CPU_NUM bsta1000b_config = 8" "MAX_CPU_NUM raspi_config = 4"
  "length (CPU_ID_LIST phytium_pi_config) = 4" "length (CPU_ID_LIST bsta1000b_config) = 8"
  "CPU_ID_LIST phytium_pi_config = [0x200, 0x201, 0, 0x100]"
  "PHYS_VIRT_OFFSET phytium_pi_config = 0xFFFF000000000000" "PHYS_VIRT_OFFSET bsta1000b_config = 0xFFFF000000000000"
  "PHYS_VIRT_OFFSET raspi_config = 0xFFFF000000000000" "PHYS_VIRT_OFFSET aarch64_qemu_config = 0xFFFF000000000000"
  by (simp_all add: config_defs)

lemma la_off:
  "stays_off (bind_io (lift_io (phys_to_virt (loongarch64_qemu_mem_if p loongarch64_qemu_config)
     (GED_PADDR loongarch64_qemu_config))) la_system_off)"
proof -
  have "phys_to_virt (loongarch64_qemu_mem_if p loongarch64_qemu_config) (GED_PADDR loongarch64_qemu_config)
      = Inr 0xFFFF0000100E001C"
    by (simp add: static_mem_if_defs config_defs add_offset_def uadd_def)
  then show ?thesis by (simp add: lift_io_def stays_off_simps)
qed

lemma boards_stay_off:
  assumes "P \<in> {qemu_power_if p aarch64_qemu_config entry hvc 0, phytium_power_if p phytium_pi_config entry hvc 0,
      bsta_power_if p bsta1000b_config entry hvc 0, raspi_power_if p raspi_config entry slot,
      la_power_if p loongarch64_qemu_config entry, riscv_power_if p riscv64_qemu_config entry hsm,
      x86_power_if x86_pc_config raw_id code ap page reboot keys}"
  shows "\<forall>m. pw_system_off P = Some m \<longrightarrow> stays_off m"
  using assms
  by (elim insertE emptyE) (simp_all add: power_if_defs Let_def stays_off_simps la_off)



end
