(* ===== verification/Irq_Boards.thy ===== *)
theory Irq_Boards
  imports Irq_If
begin

text \<open>
  \<^verbatim>\<open>IrqIf\<close> (\<^verbatim>\<open>axplat/src/irq.rs\<close>) as a record, its implementation on the four interrupt
  controllers, and the contract of the interface as a locale: registering, enabling,
  handling and sending over one store of handlers.
\<close>

section \<open>The interface\<close>

record ('s, 'h) irq_if =
  if_set_enable :: "u64 \<Rightarrow> bool \<Rightarrow> 's \<Rightarrow> ('h irq_cmd, 's) io"
  if_register :: "u64 \<Rightarrow> 'h \<Rightarrow> 's \<Rightarrow> ('h irq_cmd, bool \<times> 's) io"
  if_unregister :: "u64 \<Rightarrow> 's \<Rightarrow> ('h irq_cmd, 'h option \<times> 's) io"
  if_handle :: "u64 \<Rightarrow> 's \<Rightarrow> ('h irq_cmd, unit) io"
  if_send_ipi :: "u64 \<Rightarrow> ipi_target \<Rightarrow> 's \<Rightarrow> ('h irq_cmd, unit) io"

definition keeping :: "('c, unit) io \<Rightarrow> 's \<Rightarrow> ('c, 's) io" where
  [io_simps]: "keeping m st = seq_io m (ret_io st)"

section \<open>The implementations\<close>

text \<open>
  On the GIC the argument of \<^verbatim>\<open>handle\<close> is unused: the interrupt is the one that the
  controller acknowledges, here an input.
\<close>

definition gic_irq_if ::
  "('t, 'h) table_ops \<Rightarrow> (gic_ack \<Rightarrow> bool) \<Rightarrow> bool \<Rightarrow> gic_ack \<Rightarrow> ('t gic, 'h) irq_if" where
  "gic_irq_if Tb is_special eoi_mode_ns ack =
    \<lparr>if_set_enable = \<lambda>irq enabled st. keeping (gic_set_enable irq enabled st) st,
     if_register = gic_register_handler Tb,
     if_unregister = gic_unregister_handler Tb,
     if_handle = \<lambda>_. gic_handle_irq Tb is_special eoi_mode_ns ack,
     if_send_ipi = gic_send_ipi\<rparr>"

definition apic_irq_if :: "('t, 'h) table_ops \<Rightarrow> ('t apic, 'h) irq_if" where
  "apic_irq_if Tb =
    \<lparr>if_set_enable = \<lambda>vector enabled st. keeping (apic_set_enable vector enabled st) st,
     if_register = apic_register Tb,
     if_unregister = apic_unregister Tb,
     if_handle = apic_handle Tb,
     if_send_ipi = apic_send_ipi\<rparr>"

text \<open>\<open>status\<close> is what the IPI status register reads.\<close>

definition la_irq_if ::
  "(u64, 'm) plat_config_scheme \<Rightarrow> la_lines \<Rightarrow> ('t, 'h) table_ops \<Rightarrow> u32 \<Rightarrow> ('t la_irq, 'h) irq_if" where
  "la_irq_if cfg ln Tb status =
    \<lparr>if_set_enable = la_set_enable cfg ln,
     if_register = la_register cfg ln Tb,
     if_unregister = la_unregister cfg ln Tb,
     if_handle = la_handle cfg Tb status,
     if_send_ipi = \<lambda>irq_num target _. la_send_ipi irq_num target\<rparr>"

text \<open>RISC-V does not enable single interrupts yet.\<close>

definition riscv_set_enable :: "u64 \<Rightarrow> bool \<Rightarrow> ('h irq_cmd, unit) io" where
  "riscv_set_enable irq enabled = ret_io ()"

definition riscv_irq_if :: "profile \<Rightarrow> ('t, 'h) table_ops \<Rightarrow> (('t, 'h) riscv_irq, 'h) irq_if" where
  "riscv_irq_if p Tb =
    \<lparr>if_set_enable = \<lambda>irq enabled st. keeping (riscv_set_enable irq enabled) st,
     if_register = riscv_register Tb,
     if_unregister = riscv_unregister Tb,
     if_handle = riscv_handle Tb,
     if_send_ipi = \<lambda>irq_num target _. riscv_send_ipi p irq_num target\<rparr>"

lemmas irq_if_defs = gic_irq_if_def apic_irq_if_def la_irq_if_def riscv_irq_if_def

text \<open>The interface on a state of which the controller's statics are a part.\<close>

definition on_part :: "('s \<Rightarrow> 'p) \<Rightarrow> ('p \<Rightarrow> 's \<Rightarrow> 's) \<Rightarrow> ('p, 'h) irq_if \<Rightarrow> ('s, 'h) irq_if" where
  "on_part part put I =
    \<lparr>if_set_enable = \<lambda>irq enabled st. bind_io (if_set_enable I irq enabled (part st)) (\<lambda>x. ret_io (put x st)),
     if_register = \<lambda>irq h st. bind_io (if_register I irq h (part st)) (\<lambda>(ok, x). ret_io (ok, put x st)),
     if_unregister = \<lambda>irq st. bind_io (if_unregister I irq (part st)) (\<lambda>(h, x). ret_io (h, put x st)),
     if_handle = \<lambda>irq st. if_handle I irq (part st),
     if_send_ipi = \<lambda>irq_num target st. if_send_ipi I irq_num target (part st)\<rparr>"

section \<open>The contract\<close>

text \<open>
  The operations do not panic for a \<open>known\<close> number once the controller is \<open>ready\<close>, and keep
  the store; an interrupt with vector \<open>v\<close> runs the handler of the number \<open>i\<close> with \<open>runs v i\<close> once.
\<close>

definition no_call :: "'h irq_cmd list \<Rightarrow> bool" where
  "no_call cs \<longleftrightarrow> (\<forall>h. Call h \<notin> set cs)"

lemma no_call_simps [simp]:
  "no_call []" "no_call (c # cs) \<longleftrightarrow> (\<forall>h. c \<noteq> Call h) \<and> no_call cs"
  "no_call (as @ bs) \<longleftrightarrow> no_call as \<and> no_call bs"
  by (auto simp: no_call_def)

locale irq_controller =
  fixes I :: "('s, 'h) irq_if" and ready :: "'s \<Rightarrow> bool" and known valid :: "u64 \<Rightarrow> bool"
    and runs :: "u64 \<Rightarrow> u64 \<Rightarrow> bool" and look :: "u64 \<Rightarrow> 's \<Rightarrow> 'h option"
  assumes register_ok: "ready s \<Longrightarrow> known i \<Longrightarrow>
      \<exists>cs s'. if_register I i h s = (cs, Inr (valid i \<and> look i s = None, s')) \<and> no_call cs \<and> ready s' \<and>
        (\<forall>j. known j \<longrightarrow> look j s' = (if j = i \<and> valid i \<and> look i s = None then Some h else look j s))"
    and unregister_ok: "ready s \<Longrightarrow> known i \<Longrightarrow>
      \<exists>cs s'. if_unregister I i s = (cs, Inr (look i s, s')) \<and> no_call cs \<and> ready s' \<and>
        (\<forall>j. known j \<longrightarrow> look j s' = (if j = i then None else look j s))"
    and enable_ok: "ready s \<Longrightarrow> known i \<Longrightarrow>
      \<exists>cs s'. if_set_enable I i b s = (cs, Inr s') \<and> no_call cs \<and> ready s' \<and>
        (\<forall>j. known j \<longrightarrow> look j s' = look j s)"
    and handle_ok: "ready s \<Longrightarrow> runs v i \<Longrightarrow>
      \<exists>pre post. if_handle I v s = (pre @ handler_calls (look i s) @ post, Inr ()) \<and> no_call pre \<and> no_call post"
    and runs_known: "runs v i \<Longrightarrow> known i"
begin

text \<open>A handler that has been registered runs once per interrupt, until it is given back.\<close>

lemma registered_runs:
  assumes "ready s" and "known i" and "runs v i" and "if_register I i h s = (cs, Inr (True, s'))"
  shows "ready s' \<and> (\<exists>pre post. if_handle I v s' = (pre @ Call h # post, Inr ()) \<and> no_call pre \<and> no_call post)"
proof -
  obtain s1 where s1: "ready s1" "s1 = s'" "look i s1 = Some h"
    using register_ok[OF assms(1,2), of h] assms(2,4) by auto
  then show ?thesis using handle_ok[OF s1(1) assms(3)] by (simp add: handler_calls_def)
qed

end

sublocale irq_controller \<subseteq> handler_store ready known valid
  "\<lambda>i h s. returned (if_register I i h s)" "\<lambda>i s. returned (if_unregister I i s)" look
proof unfold_locales
  fix s i j h
  assume ready: "ready s" and known: "known i"
  obtain cs1 s1 where 1: "if_register I i h s = (cs1, Inr (valid i \<and> look i s = None, s1))" "ready s1"
    "\<forall>j. known j \<longrightarrow> look j s1 = (if j = i \<and> valid i \<and> look i s = None then Some h else look j s)"
    using register_ok[OF ready known] by metis
  obtain cs2 s2 where 2: "if_unregister I i s = (cs2, Inr (look i s, s2))" "ready s2"
    "\<forall>j. known j \<longrightarrow> look j s2 = (if j = i then None else look j s)"
    using unregister_ok[OF ready known] by metis
  show "ready (snd (returned (if_register I i h s)))" "ready (snd (returned (if_unregister I i s)))"
    "fst (returned (if_register I i h s)) \<longleftrightarrow> valid i \<and> look i s = None"
    "fst (returned (if_unregister I i s)) = look i s"
    using 1 2 by simp_all
  show "look j (snd (returned (if_register I i h s))) =
      (if j = i \<and> valid i \<and> look i s = None then Some h else look j s)"
    "look j (snd (returned (if_unregister I i s))) = (if j = i then None else look j s)" if "known j"
    using 1 2 that by simp_all
qed


section \<open>The controllers meet it\<close>

text \<open>
  The tables are those of the external crate, which do what it documents.  A GIC runs the handler
  of the number it has acknowledged, RISC-V those of its timer and its software interrupt, and
  on LoongArch the vectors of the IPI run its handler as often as they are pending.
\<close>

lemma calls_of_handler [simp]: "handler_calls None = []" "handler_calls (Some h) = [Call h]"
  by (simp_all add: handler_calls_def)

interpretation gic_irqs: irq_controller "gic_irq_if (Tb :: ('t, 'h) table_ops) special mode ack"
  "\<lambda>st. table_doc 1024 Tb \<and> GIC st \<and> TRAP_OP st" "\<lambda>_. True" "\<lambda>i. unat i < 1024"
  "\<lambda>_ i. ack_intid ack = ucast i \<and> unat i < 1024" "\<lambda>i st. table_lookup Tb i (gic_table st)"
proof unfold_locales
  fix st :: "'t gic" and i v :: u64
  assume st: "table_doc 1024 Tb \<and> GIC st \<and> TRAP_OP st" and i: "ack_intid ack = ucast i \<and> unat i < 1024"
  then have "ucast (ack_intid ack) = i" by (simp add: ucast_ucast_small)
  then have "if_handle (gic_irq_if Tb special mode ack) v st =
      ([GicAck] @ handler_calls (table_lookup Tb i (gic_table st)) @
        (if special ack then [] else GicEoi ack # (if mode then [GicDir ack] else [])), Inr ())"
    using st by (simp add: gic_irq_if_def gic_handle_irq_def io_simps)
  then show "\<exists>pre post. if_handle (gic_irq_if Tb special mode ack) v st =
      (pre @ handler_calls (table_lookup Tb i (gic_table st)) @ post, Inr ()) \<and> no_call pre \<and> no_call post"
    by (intro exI[of _ "[GicAck]"] exI[of _ "if special ack then [] else GicEoi ack # (if mode then [GicDir ack] else [])"])
      simp
qed (auto simp: gic_irq_if_def gic_register_handler_def gic_unregister_handler_def gic_set_enable_def io_simps
    table_doc_def case_prod_unfold Let_def)

interpretation apic_irqs: irq_controller "apic_irq_if (Tb :: ('t, 'h) table_ops)"
  "\<lambda>st. table_doc 256 Tb \<and> IO_APIC st" "\<lambda>_. True" "\<lambda>i. unat i < 256" "\<lambda>v i. v = i"
  "\<lambda>i st. table_lookup Tb i (apic_table st)"
proof unfold_locales
  fix st :: "'t apic" and i v :: u64
  assume "v = i"
  then have "if_handle (apic_irq_if Tb) v st =
      ([] @ handler_calls (table_lookup Tb i (apic_table st)) @ [LapicEoi], Inr ())"
    by (simp add: apic_irq_if_def apic_handle_def io_simps)
  then show "\<exists>pre post. if_handle (apic_irq_if Tb) v st =
      (pre @ handler_calls (table_lookup Tb i (apic_table st)) @ post, Inr ()) \<and> no_call pre \<and> no_call post"
    by (intro exI[of _ "[]"] exI[of _ "[LapicEoi]"]) simp
qed (auto simp: apic_irq_if_def apic_register_def apic_unregister_def apic_set_enable_def io_simps
    table_doc_def case_prod_unfold Let_def)

lemma la_set_enable_calls:
  "\<exists>cs. la_set_enable cfg ln i b st = (cs, Inr (st\<lparr>lie := la_lie_after cfg ln i b (lie st)\<rparr>)) \<and> no_call cs"
  by (cases st) (auto simp: la_set_enable_def la_update_lie_def la_lie_after_def io_simps Let_def)

interpretation la_irqs: irq_controller "la_irq_if cfg ln (Tb :: ('t, 'h) table_ops) status"
  "\<lambda>_. table_doc 13 Tb" "\<lambda>_. True" "\<lambda>i. unat i < 13" "\<lambda>v i. v = i \<and> i \<noteq> IPI_IRQ cfg"
  "\<lambda>i st. table_lookup Tb i (la_table st)"
proof unfold_locales
  fix st :: "'t la_irq" and i :: u64 and h :: 'h and b
  assume doc: "table_doc 13 Tb"
  obtain cs :: "'h irq_cmd list" where cs: "la_set_enable cfg ln i b st = (cs, Inr (st\<lparr>lie := la_lie_after cfg ln i b (lie st)\<rparr>))" "no_call cs"
    using la_set_enable_calls by blast
  then show "\<exists>cs s'. if_set_enable (la_irq_if cfg ln Tb status) i b st = (cs, Inr s') \<and> no_call cs \<and>
      table_doc 13 Tb \<and> (\<forall>j. True \<longrightarrow> table_lookup Tb j (la_table s') = table_lookup Tb j (la_table st))"
    using doc by (simp add: la_irq_if_def)
  obtain cs' :: "'h irq_cmd list" where cs': "la_set_enable cfg ln i False st = (cs', Inr (st\<lparr>lie := la_lie_after cfg ln i False (lie st)\<rparr>))"
    "no_call cs'"
    using la_set_enable_calls by blast
  then show "\<exists>cs s'. if_unregister (la_irq_if cfg ln Tb status) i st = (cs, Inr (table_lookup Tb i (la_table st), s')) \<and>
      no_call cs \<and> table_doc 13 Tb \<and>
      (\<forall>j. True \<longrightarrow> table_lookup Tb j (la_table s') = (if j = i then None else table_lookup Tb j (la_table st)))"
    using doc by (simp add: la_irq_if_def la_unregister_def io_simps case_prod_unfold Let_def table_doc_def)
  obtain ok t where r: "table_register Tb i h (la_table st) = (ok, t)" by fastforce
  then have ok: "ok \<longleftrightarrow> unat i < 13 \<and> table_lookup Tb i (la_table st) = None"
    and t: "\<forall>j. table_lookup Tb j t = (if j = i \<and> ok then Some h else table_lookup Tb j (la_table st))"
    using doc unfolding table_doc_def by (metis fst_conv, metis fst_conv snd_conv)
  obtain cs2 :: "'h irq_cmd list" where cs2: "la_set_enable cfg ln i True (st\<lparr>la_table := t\<rparr>) =
      (cs2, Inr (st\<lparr>la_table := t, lie := la_lie_after cfg ln i True (lie st)\<rparr>))" "no_call cs2"
    using la_set_enable_calls[of cfg ln i True "st\<lparr>la_table := t\<rparr>"] by auto
  then show "\<exists>cs s'. if_register (la_irq_if cfg ln Tb status) i h st =
      (cs, Inr (unat i < 13 \<and> table_lookup Tb i (la_table st) = None, s')) \<and> no_call cs \<and> table_doc 13 Tb \<and>
      (\<forall>j. True \<longrightarrow> table_lookup Tb j (la_table s') =
        (if j = i \<and> unat i < 13 \<and> table_lookup Tb i (la_table st) = None then Some h
         else table_lookup Tb j (la_table st)))"
    using doc t unfolding ok[symmetric] by (cases ok) (simp_all add: la_irq_if_def la_register_def r io_simps)
next
  fix st :: "'t la_irq" and i v :: u64
  assume "v = i \<and> i \<noteq> IPI_IRQ cfg"
  then have "if_handle (la_irq_if cfg ln Tb status) v st =
      ((if i = TIMER_IRQ cfg then [ClearTimerInterrupt] else []) @
        handler_calls (table_lookup Tb i (la_table st)) @ [], Inr ())"
    by (simp add: la_irq_if_def la_handle_def io_simps)
  then show "\<exists>pre post. if_handle (la_irq_if cfg ln Tb status) v st =
      (pre @ handler_calls (table_lookup Tb i (la_table st)) @ post, Inr ()) \<and> no_call pre \<and> no_call post"
    by (intro exI[of _ "if i = TIMER_IRQ cfg then [ClearTimerInterrupt] else []"] exI[of _ "[]"]) simp
qed simp_all

interpretation riscv_irqs: irq_controller "riscv_irq_if p (Tb :: ('t, 'h) table_ops)"
  "\<lambda>_. table_doc 1024 Tb" "\<lambda>i. cpu_side i \<or> device_side i"
  "\<lambda>i. i = S_TIMER \<or> i = S_SOFT \<or> device_side i \<and> unat i < 1024" "\<lambda>v i. v = i \<and> (i = S_TIMER \<or> i = S_SOFT)"
  "riscv_lookup Tb"
proof unfold_locales
  fix st :: "('t, 'h) riscv_irq" and i v :: u64
  assume "v = i \<and> (i = S_TIMER \<or> i = S_SOFT)"
  then have "if_handle (riscv_irq_if p Tb) v st =
      ([] @ handler_calls (riscv_lookup Tb i st) @ (if i = S_SOFT then [SipClearSsoft] else []), Inr ())"
    by (auto simp: riscv_irq_if_def riscv_handle_def riscv_lookup_def cause_distinct io_simps split: option.split)
  then show "\<exists>pre post. if_handle (riscv_irq_if p Tb) v st =
      (pre @ handler_calls (riscv_lookup Tb i st) @ post, Inr ()) \<and> no_call pre \<and> no_call post"
    by (intro exI[of _ "[]"] exI[of _ "if i = S_SOFT then [SipClearSsoft] else []"]) simp
qed (auto simp: riscv_irq_if_def riscv_set_enable_def cpu_side_def riscv_register_def riscv_unregister_def
    riscv_lookup_def io_simps cause_distinct table_doc_def case_prod_unfold Let_def split: option.splits)

text \<open>The contract on a state of which the controller's statics are a part.\<close>

lemma on_part_controller:
  assumes I: "irq_controller I ready known valid runs look" and part: "\<And>x st. part (put x st) = x"
  shows "irq_controller (on_part part put I) (\<lambda>st. ready (part st)) known valid runs (\<lambda>i st. look i (part st))"
proof
  fix st i h b
  assume r: "ready (part st)" and k: "known i"
  show "\<exists>cs s'. if_register (on_part part put I) i h st = (cs, Inr (valid i \<and> look i (part st) = None, s')) \<and>
      no_call cs \<and> ready (part s') \<and> (\<forall>j. known j \<longrightarrow> look j (part s') =
        (if j = i \<and> valid i \<and> look i (part st) = None then Some h else look j (part st)))"
    using irq_controller.register_ok[OF I r k, of h] by (auto simp: on_part_def io_simps part)
  show "\<exists>cs s'. if_unregister (on_part part put I) i st = (cs, Inr (look i (part st), s')) \<and>
      no_call cs \<and> ready (part s') \<and> (\<forall>j. known j \<longrightarrow> look j (part s') = (if j = i then None else look j (part st)))"
    using irq_controller.unregister_ok[OF I r k] by (auto simp: on_part_def io_simps part)
  show "\<exists>cs s'. if_set_enable (on_part part put I) i b st = (cs, Inr s') \<and>
      no_call cs \<and> ready (part s') \<and> (\<forall>j. known j \<longrightarrow> look j (part s') = look j (part st))"
    using irq_controller.enable_ok[OF I r k, of b] by (auto simp: on_part_def io_simps part)
qed (use irq_controller.handle_ok[OF I] irq_controller.runs_known[OF I] in \<open>auto simp: on_part_def\<close>)

end
