(* ===== verification/Linked_Platform.thy ===== *)
theory Linked_Platform
  imports Init_Contract Power_Boards Irq_Boards
begin

text \<open>
  The platform that a kernel links (\<^verbatim>\<open>extern crate ... as axplat_crate\<close>): the five
  traits that the example kernels call, as the records of their components over one state, the
  statics of all drivers.  The memory interface appears inside the others.
\<close>

section \<open>A platform as a kernel sees it\<close>

text \<open>
  The clock and the power functions read statics that the initialisation sets, so they are
  functions of the state; \<open>lk_x86_64\<close> is \<^verbatim>\<open>cfg(target_arch = "x86_64")\<close>.
\<close>

record ('w, 's, 'h) linked_platform =
  lk_init :: "('w, 's, 'h) init_if"
  lk_time :: "'s \<Rightarrow> time_if"
  lk_irq :: "('s, 'h) irq_if"
  lk_power :: "'s \<Rightarrow> 'w power_if"
  lk_timer_irq :: u64
  lk_x86_64 :: bool

definition arm_irq_part :: "('t gic, 'h) irq_if \<Rightarrow> (('d, 'r, 't) arm_platform, 'h) irq_if" where
  "arm_irq_part = on_part arm_gic (\<lambda>g st. st\<lparr>arm_gic := g\<rparr>)"

text \<open>What the GIC answers to an acknowledge, besides the inputs of the other interfaces.\<close>

record gic_inputs =
  ack_special :: "gic_ack \<Rightarrow> bool"
  ack_mode_ns :: bool
  acked :: gic_ack

definition aarch64_qemu_linked ::
  "profile \<Rightarrow> bool \<Rightarrow> bool \<Rightarrow> ('d, 'k) uart_ops_scheme \<Rightarrow> (u64 \<Rightarrow> 'd) \<Rightarrow> 'r ratio_ops \<Rightarrow> ('t, 'h) table_ops \<Rightarrow>
    'h \<Rightarrow> u64 virt_config \<Rightarrow> arm_inputs \<Rightarrow> gic_inputs \<Rightarrow> u64 \<Rightarrow> u64 \<Rightarrow>
    (u64, ('d, 'r, 't) arm_platform, 'h) linked_platform" where
  "aarch64_qemu_linked p rtc irq U new R Tb h cfg inp g entry ret =
    \<lparr>lk_init = qemu_init_if p rtc irq U new R Tb h cfg inp,
     lk_time = \<lambda>st. arm_time_if p R (arm_timer st) (arm_EPOCHOFFSET st),
     lk_irq = arm_irq_part (gic_irq_if Tb (ack_special g) (ack_mode_ns g) (acked g)),
     lk_power = \<lambda>st. qemu_power_if p cfg entry (PSCI_METHOD_HVC st) ret,
     lk_timer_irq = TIMER_IRQ cfg, lk_x86_64 = False\<rparr>"

definition arm_qemu_linked ::
  "profile \<Rightarrow> bool \<Rightarrow> bool \<Rightarrow> ('d, 'k) uart_ops_scheme \<Rightarrow> (u32 \<Rightarrow> 'd) \<Rightarrow> 'r ratio_ops \<Rightarrow> ('t, 'h) table_ops \<Rightarrow>
    u32 virt_config \<Rightarrow> arm_inputs \<Rightarrow> gic_inputs \<Rightarrow> u32 \<Rightarrow> u32 \<Rightarrow>
    (u32, ('d, 'r, 't) arm_platform, 'h) linked_platform" where
  "arm_qemu_linked p rtc irq U new R Tb cfg inp g entry ret =
    \<lparr>lk_init = arm_qemu_init_if p rtc irq U new R cfg inp,
     lk_time = \<lambda>st. arm_time_if p R (arm_timer st) (arm_EPOCHOFFSET st),
     lk_irq = arm_irq_part (gic_irq_if Tb (ack_special g) (ack_mode_ns g) (acked g)),
     lk_power = \<lambda>st. arm_qemu_power_if p cfg entry (PSCI_METHOD_HVC st) ret,
     lk_timer_irq = ucast (TIMER_IRQ cfg), lk_x86_64 = False\<rparr>"

definition la_linked ::
  "profile \<Rightarrow> bool \<Rightarrow> bool \<Rightarrow> bool \<Rightarrow> 'x chrono_ops \<Rightarrow> ('t, 'h) table_ops \<Rightarrow> u64 loongarch_config \<Rightarrow> la_lines \<Rightarrow>
    la_inputs \<Rightarrow> u32 \<Rightarrow> u64 \<Rightarrow> (u64, 't la_platform, 'h) linked_platform" where
  "la_linked p rtc smp irq C Tb cfg ln inp status entry =
    \<lparr>lk_init = la_init_if p rtc smp irq C cfg ln inp,
     lk_time = \<lambda>st. loongarch_time_if p (la_NANOS_PER_TICK st) (la_EPOCHOFFSET st),
     lk_irq = on_part la_irqs (\<lambda>x st. st\<lparr>la_irqs := x\<rparr>) (la_irq_if cfg ln Tb status),
     lk_power = \<lambda>_. la_power_if p cfg entry,
     lk_timer_irq = TIMER_IRQ cfg, lk_x86_64 = False\<rparr>"

text \<open>On RISC-V the initialisation touches the epoch offset alone, not the handlers.\<close>

record ('t, 'h) riscv_platform =
  rv_EPOCHOFFSET :: u64
  rv_irqs :: "('t, 'h) riscv_irq"

definition init_on_part :: "('s \<Rightarrow> 'p) \<Rightarrow> ('p \<Rightarrow> 's \<Rightarrow> 's) \<Rightarrow> ('w, 'p, 'h) init_if \<Rightarrow> ('w, 's, 'h) init_if" where
  "init_on_part part upd I =
    (let run = \<lambda>f st. bind_io (f (part st)) (\<lambda>x. ret_io (upd x st))
     in \<lparr>init_early = \<lambda>cpu arg. run (init_early I cpu arg),
         init_early_secondary = \<lambda>cpu. run (init_early_secondary I cpu),
         init_later = \<lambda>cpu arg. run (init_later I cpu arg),
         init_later_secondary = \<lambda>cpu. run (init_later_secondary I cpu)\<rparr>)"

definition riscv_linked ::
  "profile \<Rightarrow> bool \<Rightarrow> bool \<Rightarrow> ('t, 'h) table_ops \<Rightarrow> u64 riscv_config \<Rightarrow> u64 \<Rightarrow> u64 \<Rightarrow> u64 \<Rightarrow> bool \<Rightarrow>
    (u64, ('t, 'h) riscv_platform, 'h) linked_platform" where
  "riscv_linked p rtc irq Tb cfg timestamp c entry hsm =
    \<lparr>lk_init = init_on_part rv_EPOCHOFFSET (\<lambda>x st. st\<lparr>rv_EPOCHOFFSET := x\<rparr>) (riscv_init_if p rtc irq cfg timestamp c),
     lk_time = \<lambda>st. riscv_time_if p cfg (rv_EPOCHOFFSET st),
     lk_irq = on_part rv_irqs (\<lambda>x st. st\<lparr>rv_irqs := x\<rparr>) (riscv_irq_if p Tb),
     lk_power = \<lambda>_. riscv_power_if p cfg entry hsm,
     lk_timer_irq = TIMER_IRQ cfg, lk_x86_64 = False\<rparr>"

record x86_start =
  ap_code :: "u64 list"
  ap_entry :: u64
  start_page :: "u64 list"

text \<open>\<open>reboot\<close> is the feature \<^verbatim>\<open>reboot-on-system-off\<close>.\<close>

definition x86_linked ::
  "profile \<Rightarrow> bool \<Rightarrow> bool \<Rightarrow> bool \<Rightarrow> ('d, 'k) uart_ops_scheme \<Rightarrow> 'r ratio_ops \<Rightarrow> ('t, 'h) table_ops \<Rightarrow>
    (64 raw_range \<Rightarrow> 64 raw_range list \<Rightarrow> 64 raw_range list option) \<Rightarrow> (u64, 'm) plat_config_scheme \<Rightarrow>
    x86_inputs \<Rightarrow> x86_start \<Rightarrow> nat option \<Rightarrow> (u64, ('d, 'r, 't) x86_platform, 'h) linked_platform" where
  "x86_linked p rtc irq reboot U R Tb push cfg inp s keys =
    \<lparr>lk_init = x86_init_if p rtc irq U R push cfg inp,
     lk_time = \<lambda>st. x86_time_if p R (x86_timer st),
     lk_irq = on_part x86_apic (\<lambda>x st. st\<lparr>x86_apic := x\<rparr>) (apic_irq_if Tb),
     lk_power = \<lambda>st. x86_power_if cfg (raw_apic_id (x86_apic st)) (ap_code s) (ap_entry s) (start_page s) reboot keys,
     lk_timer_irq = TIMER_IRQ cfg, lk_x86_64 = True\<rparr>"

lemmas linked_defs = aarch64_qemu_linked_def arm_qemu_linked_def la_linked_def riscv_linked_def x86_linked_def

end
