(* ===== verification/Kernel_Timer.thy ===== *)
theory Kernel_Timer
  imports Time_If
begin

text \<open>
  The periodic timer of the example kernels, a client of the time interface: the
  interrupt handler that \<^verbatim>\<open>init_irq\<close> registers, which computes from the current
  time and the static \<^verbatim>\<open>NEXT_DEADLINE\<close> the next one-shot deadline, and the test
  of the single-core kernel that counts the interrupts.
\<close>

section \<open>The handler\<close>

definition TICKS_PER_SEC :: u64 where "TICKS_PER_SEC = 100"

text \<open>The static \<^verbatim>\<open>PERIODIC_INTERVAL_NANOS\<close> of each kernel.\<close>

definition irq_kernel_interval :: u64 where "irq_kernel_interval = NANOS_PER_SEC div TICKS_PER_SEC"
definition smp_kernel_interval :: u64 where "smp_kernel_interval = NANOS_PER_SEC"

text \<open>
  The deadline that is programmed and the new \<^verbatim>\<open>NEXT_DEADLINE\<close>.
\<close>

definition update_timer :: "profile \<Rightarrow> u64 \<Rightarrow> u64 \<Rightarrow> u64 \<Rightarrow> panic + u64 \<times> u64" where
  "update_timer p interval now_ns next_deadline =
     rbind (if now_ns \<ge> next_deadline then uadd p now_ns interval else Inr next_deadline) (\<lambda>deadline.
     rbind (uadd p deadline interval) (\<lambda>nd.
     Inr (deadline, nd)))"

text \<open>
  The single-core kernel also counts its interrupts, in an atomic counter that
  wraps; its test waits five seconds, one by one, and compares.
\<close>

record irq_kernel =
  IRQ_COUNTER :: u64
  NEXT_DEADLINE :: u64

definition irq_kernel_update_timer :: "profile \<Rightarrow> u64 \<Rightarrow> irq_kernel \<Rightarrow> panic + u64 \<times> irq_kernel" where
  "irq_kernel_update_timer p now_ns st =
    (let st1 = st\<lparr>IRQ_COUNTER := IRQ_COUNTER st + 1\<rparr>
     in rbind (update_timer p irq_kernel_interval now_ns (NEXT_DEADLINE st1)) (\<lambda>(deadline, nd).
        Inr (deadline, st1\<lparr>NEXT_DEADLINE := nd\<rparr>)))"

definition smp_kernel_update_timer :: "profile \<Rightarrow> u64 \<Rightarrow> u64 \<Rightarrow> panic + u64 \<times> u64" where
  "smp_kernel_update_timer p now_ns next_deadline =
     update_timer p smp_kernel_interval now_ns next_deadline"

definition test_irq_verdict :: "profile \<Rightarrow> u64 \<Rightarrow> panic + unit" where
  "test_irq_verdict p irq_count =
     rbind (umul p TICKS_PER_SEC 5) (\<lambda>irq_min_count.
       if irq_count < irq_min_count then Inl ExplicitPanic else Inr ())"

section \<open>Runs\<close>

text \<open>
  The interrupts at the given times, from \<^verbatim>\<open>NEXT_DEADLINE\<close>: the deadlines that
  they program.
\<close>

fun timer_run :: "profile \<Rightarrow> u64 \<Rightarrow> u64 list \<Rightarrow> u64 \<Rightarrow> panic + u64 list" where
  "timer_run p interval [] nd = Inr []"
| "timer_run p interval (t # ts) nd =
     rbind (update_timer p interval t nd) (\<lambda>(deadline, nd').
     rbind (timer_run p interval ts nd') (\<lambda>ds. Inr (deadline # ds)))"

text \<open>Each interrupt comes before the deadline after the one it was programmed for.\<close>

fun prompt :: "nat \<Rightarrow> nat \<Rightarrow> nat list \<Rightarrow> bool" where
  "prompt interval d [] \<longleftrightarrow> True"
| "prompt interval d (t # ts) \<longleftrightarrow> t < d + interval \<and> prompt interval (d + interval) ts"

lemma update_timer_restart:
  assumes "unat nd \<le> unat now" and "unat now + 2 * unat interval < 2 ^ 64"
  obtains d n where "update_timer p interval now nd = Inr (d, n)"
    and "unat d = unat now + unat interval" and "unat n = unat now + 2 * unat interval"
proof -
  have a: "unat now + unat interval < 2 ^ LENGTH(64)" using assms(2) by simp
  have s: "unat (now + interval) = unat now + unat interval" by (rule unat_plus_exact[OF a])
  have b: "unat (now + interval) + unat interval < 2 ^ LENGTH(64)" using s assms(2) by simp
  show thesis
    using that[of "now + interval" "now + interval + interval"] assms(1) unat_plus_exact[OF b] s
    by (simp add: update_timer_def word_le_nat_alt uadd_exact[OF a] uadd_exact[OF b])
qed

lemma update_timer_keep:
  assumes "unat now < unat nd" and "unat nd + unat interval < 2 ^ 64"
  obtains n where "update_timer p interval now nd = Inr (nd, n)"
    and "unat n = unat nd + unat interval"
proof -
  have a: "unat nd + unat interval < 2 ^ LENGTH(64)" using assms(2) by simp
  show thesis
    using that[of "nd + interval"] assms(1) unat_plus_exact[OF a]
    by (simp add: update_timer_def word_le_nat_alt not_le uadd_exact[OF a])
qed

lemma timer_run_steady:
  assumes "unat nd = d + unat interval" and "prompt (unat interval) d (map unat ts)"
    and "d + (length ts + 1) * unat interval < 2 ^ 64"
  shows "\<exists>ds. timer_run p interval ts nd = Inr ds \<and>
    map unat ds = map (\<lambda>i. d + (i + 1) * unat interval) [0..<length ts]"
  using assms
proof (induction ts arbitrary: nd d)
  case (Cons t ts)
  have "unat t < unat nd" using Cons.prems(1,2) by simp
  moreover have "unat nd + unat interval < 2 ^ 64" using Cons.prems(1,3) by (simp add: algebra_simps)
  ultimately obtain n where n: "update_timer p interval t nd = Inr (nd, n)"
    "unat n = unat nd + unat interval"
    by (rule update_timer_keep)
  then obtain ds where ds: "timer_run p interval ts n = Inr ds"
    "map unat ds = map (\<lambda>i. unat nd + (i + 1) * unat interval) [0..<length ts]"
    using Cons.IH[of n "unat nd"] Cons.prems by (auto simp: algebra_simps)
  have "map unat (nd # ds) = map (\<lambda>i. d + (i + 1) * unat interval) [0..<length (t # ts)]"
    using ds(2) Cons.prems(1) by (simp add: upt_conv_Cons map_Suc_upt[symmetric] algebra_simps del: upt_Suc)
  then show ?case using n(1) ds(1) by auto
qed simp

lemma timer_run_periodic:
  assumes "unat t0 + (length ts + 2) * unat interval < 2 ^ 64"
    and "prompt (unat interval) (unat t0 + unat interval) (map unat ts)"
  shows "\<exists>ds. timer_run p interval (t0 # ts) 0 = Inr ds \<and>
    map unat ds = map (\<lambda>i. unat t0 + (i + 1) * unat interval) [0..<length ts + 1]"
proof -
  have room: "unat t0 + 2 * unat interval < 2 ^ 64" using assms(1) by (simp add: algebra_simps)
  have "unat (0 :: u64) \<le> unat t0" by simp
  then obtain d n where d: "update_timer p interval t0 0 = Inr (d, n)"
    "unat d = unat t0 + unat interval" "unat n = unat t0 + 2 * unat interval"
    using room by (rule update_timer_restart)
  have "prompt (unat interval) (unat d) (map unat ts)" using assms(2) d(2) by simp
  moreover have "unat n = unat d + unat interval" using d(2,3) by simp
  moreover have "unat d + (length ts + 1) * unat interval < 2 ^ 64"
    using assms(1) d(2) by (simp add: algebra_simps)
  ultimately obtain ds where ds: "timer_run p interval ts n = Inr ds"
    "map unat ds = map (\<lambda>i. unat d + (i + 1) * unat interval) [0..<length ts]"
    using timer_run_steady by blast
  have "map unat (d # ds) = map (\<lambda>i. unat t0 + (i + 1) * unat interval) [0..<length ts + 1]"
    using ds(2) d(2) by (simp add: upt_conv_Cons map_Suc_upt[symmetric] algebra_simps del: upt_Suc)
  then show ?thesis using d(1) ds(1) by auto
qed

text \<open>
  From the first interrupt on, as long as every interrupt is handled before
  the deadline after its own, the deadlines are exactly periodic: they are
  the time of the first interrupt plus multiples of the interval, whatever the
  latencies of the interrupts (and their early arrival by rounding); an interrupt
  that comes too late starts a new period at its own time.
\<close>

theorem periodic_deadlines:
  assumes "unat t0 + (length ts + 2) * unat interval < 2 ^ 64"
  shows "(prompt (unat interval) (unat t0 + unat interval) (map unat ts) \<longrightarrow>
      (\<exists>ds. timer_run p interval (t0 # ts) 0 = Inr ds \<and>
        map unat ds = map (\<lambda>i. unat t0 + (i + 1) * unat interval) [0..<length ts + 1])) \<and>
    (nd \<le> t0 \<longrightarrow>
      (\<exists>d n. update_timer p interval t0 nd = Inr (d, n) \<and> unat d = unat t0 + unat interval))"
proof -
  have room: "unat t0 + 2 * unat interval < 2 ^ 64" using assms by (simp add: algebra_simps)
  have "\<exists>d n. update_timer p interval t0 nd = Inr (d, n) \<and> unat d = unat t0 + unat interval"
    if "nd \<le> t0"
  proof -
    have "unat nd \<le> unat t0" using that by (simp add: word_le_nat_alt)
    from update_timer_restart[OF this room] show ?thesis by metis
  qed
  then show ?thesis using timer_run_periodic[OF assms] by blast
qed

theorem periodic_deadlines_witness:
  "\<exists>ds. timer_run Debug irq_kernel_interval [1000, 10002000, 20999999] 0 = Inr ds \<and>
    map unat ds = [10001000, 20001000, 30001000]"
proof -
  have i: "irq_kernel_interval = 10000000"
    by (simp add: irq_kernel_interval_def NANOS_PER_SEC_def TICKS_PER_SEC_def)
  show ?thesis
    using conjunct1[OF periodic_deadlines[of 1000 "[10002000, 20999999]" irq_kernel_interval Debug 0]]
    by (simp add: i upt_rec)
qed

section \<open>The interrupt test\<close>

text \<open>The handler of the single-core kernel, at the given times.\<close>

fun irq_kernel_run :: "profile \<Rightarrow> u64 list \<Rightarrow> irq_kernel \<Rightarrow> panic + u64 list \<times> irq_kernel" where
  "irq_kernel_run p [] st = Inr ([], st)"
| "irq_kernel_run p (t # ts) st =
     rbind (irq_kernel_update_timer p t st) (\<lambda>(d, st1).
     rbind (irq_kernel_run p ts st1) (\<lambda>(ds, st2). Inr (d # ds, st2)))"

lemma irq_kernel_run_counts:
  "timer_run p irq_kernel_interval ts (NEXT_DEADLINE st) = Inr ds \<Longrightarrow>
    \<exists>st'. irq_kernel_run p ts st = Inr (ds, st') \<and> IRQ_COUNTER st' = IRQ_COUNTER st + of_nat (length ts)"
proof (induction ts arbitrary: st ds)
  case (Cons t ts)
  then obtain d nd ds' where d: "update_timer p irq_kernel_interval t (NEXT_DEADLINE st) = Inr (d, nd)"
    "timer_run p irq_kernel_interval ts nd = Inr ds'" "ds = d # ds'"
    by (auto simp: rbind_Inr_iff)
  show ?case
    using Cons.IH[of "st\<lparr>IRQ_COUNTER := IRQ_COUNTER st + 1, NEXT_DEADLINE := nd\<rparr>" ds'] d
    by (auto simp: irq_kernel_update_timer_def algebra_simps)
qed simp

lemma irq_kernel_run_periodic:
  assumes "unat t0 + (length ts + 2) * 10000000 < 2 ^ 64"
    and "prompt 10000000 (unat t0 + 10000000) (map unat ts)"
  shows "\<exists>ds st'. irq_kernel_run p (t0 # ts) \<lparr>IRQ_COUNTER = 0, NEXT_DEADLINE = 0\<rparr> = Inr (ds, st') \<and>
    IRQ_COUNTER st' = of_nat (length ts + 1) \<and> unat (last ds) = unat t0 + (length ts + 1) * 10000000"
proof -
  have i: "unat irq_kernel_interval = 10000000"
    by (simp add: irq_kernel_interval_def NANOS_PER_SEC_def TICKS_PER_SEC_def)
  obtain ds where ds: "timer_run p irq_kernel_interval (t0 # ts) 0 = Inr ds"
    "map unat ds = map (\<lambda>i. unat t0 + (i + 1) * 10000000) [0..<length ts + 1]"
    using timer_run_periodic[of t0 ts irq_kernel_interval p] assms unfolding i by blast
  have "ds \<noteq> []" using ds(2) by auto
  then have "unat (last ds) = last (map unat ds)" by (simp add: last_map)
  also have "\<dots> = unat t0 + (length ts + 1) * 10000000" unfolding ds(2) by simp
  finally show ?thesis
    using irq_kernel_run_counts[of p "t0 # ts" "\<lparr>IRQ_COUNTER = 0, NEXT_DEADLINE = 0\<rparr>" ds] ds(1) by auto
qed

text \<open>
  C21: The test of the single-core kernel passes: when it reads the counter, at least
  five seconds after the first timer interrupt, and every
  interrupt has been handled before the deadline after its own, also the outstanding one
  would be late by less than a period, then at least the 500 interrupts that the test
  asks for have been counted.
\<close>

theorem irq_test_passes:
  assumes "unat t0 + (length ts + 2) * 10000000 < 2 ^ 64"
    and "prompt 10000000 (unat t0 + 10000000) (map unat ts)"
    and "unat t0 + 5 * 10 ^ 9 \<le> reading" and "latency \<le> 10000000"
    and "\<And>ds st'. irq_kernel_run p (t0 # ts) \<lparr>IRQ_COUNTER = 0, NEXT_DEADLINE = 0\<rparr> = Inr (ds, st') \<Longrightarrow>
      reading < unat (last ds) + latency"
  shows "\<exists>ds st'. irq_kernel_run p (t0 # ts) \<lparr>IRQ_COUNTER = 0, NEXT_DEADLINE = 0\<rparr> = Inr (ds, st') \<and>
    500 \<le> unat (IRQ_COUNTER st') \<and> test_irq_verdict p (IRQ_COUNTER st') = Inr ()"
proof -
  obtain ds st' where st': "irq_kernel_run p (t0 # ts) \<lparr>IRQ_COUNTER = 0, NEXT_DEADLINE = 0\<rparr> = Inr (ds, st')"
    "IRQ_COUNTER st' = of_nat (length ts + 1)" "unat (last ds) = unat t0 + (length ts + 1) * 10000000"
    using irq_kernel_run_periodic[OF assms(1,2)] by blast
  have "500 \<le> length ts + 1"
    using assms(3,4) assms(5)[OF st'(1)] st'(3) by (simp add: algebra_simps)
  moreover have "length ts + 1 < 2 ^ LENGTH(64)" using assms(1) by simp
  ultimately have "500 \<le> unat (IRQ_COUNTER st')"
    unfolding st'(2) by (simp only: unat_of_nat mod_less)
  moreover from this have "test_irq_verdict p (IRQ_COUNTER st') = Inr ()"
    by (simp add: test_irq_verdict_def TICKS_PER_SEC_def umul_def word_less_nat_alt)
  ultimately show ?thesis using st'(1) by blast
qed

lemma prompt_exact: "0 < interval \<Longrightarrow> prompt interval d (map (\<lambda>k. d + k * interval) [0..<n])"
proof (induction n arbitrary: d)
  case (Suc n)
  have "map (\<lambda>k. d + k * interval) [0..<Suc n] = d # map (\<lambda>k. d + interval + k * interval) [0..<n]"
    by (simp add: upt_conv_Cons map_Suc_upt[symmetric] algebra_simps del: upt_Suc)
  then show ?case using Suc by simp
qed simp

theorem irq_test_passes_witness:
  "\<exists>ds st'. irq_kernel_run Debug (0 # map (\<lambda>k. of_nat (10000000 + k * 10000000)) [0..<500])
      \<lparr>IRQ_COUNTER = 0, NEXT_DEADLINE = 0\<rparr> = Inr (ds, st') \<and>
    500 \<le> unat (IRQ_COUNTER st') \<and> test_irq_verdict Debug (IRQ_COUNTER st') = Inr ()"
proof -
  let ?ts = "map (\<lambda>k. of_nat (10000000 + k * 10000000)) [0..<500] :: u64 list"
  have m: "map unat ?ts = map (\<lambda>k. 10000000 + k * 10000000) [0..<500]"
    by (simp del: upt_rec_numeral of_nat_add of_nat_mult add: unsigned_of_nat take_bit_nat_eq_self)
  have p: "prompt 10000000 (unat (0 :: u64) + 10000000) (map unat ?ts)"
    unfolding m using prompt_exact[of 10000000 10000000 500] by simp
  have l: "unat (0 :: u64) + (length ?ts + 2) * 10000000 < 2 ^ 64" by simp
  show ?thesis
  proof (rule irq_test_passes[OF l p, where reading = "5 * 10 ^ 9" and latency = 0])
    fix ds st'
    assume "irq_kernel_run Debug (0 # ?ts) \<lparr>IRQ_COUNTER = 0, NEXT_DEADLINE = 0\<rparr> = Inr (ds, st')"
    then show "5 * 10 ^ 9 < unat (last ds) + 0"
      using irq_kernel_run_periodic[OF l p, of Debug] by auto
  qed simp_all
qed

end
