(* ===== verification/Kernel_Main.thy ===== *)
theory Kernel_Main
  imports Linked_Platform Kernel_Timer
begin

text \<open>
  The \<^verbatim>\<open>main\<close> functions of the single-core example kernels (\<^verbatim>\<open>examples/hello-kernel\<close>,
  \<^verbatim>\<open>examples/irq-kernel\<close>) and their panic handlers, on a linked platform: the composition of
  all interfaces.  A kernel shuts the machine down at its end and after a panic; interrupts come between the
  accesses of \<^verbatim>\<open>main\<close> to the counter and to the statics that it shares with the handler.
\<close>

section \<open>Runs\<close>

text \<open>What a kernel prints: the pieces of a format string, formatted by \<^verbatim>\<open>core\<close>.\<close>

datatype piece = Lit string | Dec nat | LowerHex nat | DebugTime duration | PanicInfo panic

datatype ('w, 'h) kernel_cmd =
    SetPercpu 'w | PercpuInPlace | PercpuReg 'w | WriteCpuId 'w | InitCmd "'h init_cmd" | PrintLine "piece list" | IrqCmd "'h irq_cmd"
  | TimerCmd timer_cmd | EnableIrqs | PowerCmd "'w power_cmd"

text \<open>The bytes of a line on the console, for a formatting of the values.\<close>

definition print_line :: "(piece \<Rightarrow> u8 list) \<Rightarrow> 'd console_if \<Rightarrow> piece list \<Rightarrow> 'd \<Rightarrow> 'd" where
  "print_line fmt C pieces = console_println C (map fmt pieces)"

text \<open>
  A run that waits forever has no result; what it did before the wait is kept.
\<close>

type_synonym ('c, 'a) run = "'c list \<times> (panic + 'a) option"

definition run_io :: "('c, 'a) io \<Rightarrow> ('c, 'a) run" where
  "run_io m = (fst m, Some (snd m))"

definition run_opt :: "('c, 'a) io option \<Rightarrow> ('c, 'a) run" where
  "run_opt m = (case m of None \<Rightarrow> ([], None) | Some n \<Rightarrow> run_io n)"

fun bind_run :: "('c, 'a) run \<Rightarrow> ('a \<Rightarrow> ('c, 'b) run) \<Rightarrow> ('c, 'b) run" where
  "bind_run (cs, None) f = (cs, None)"
| "bind_run (cs, Some (Inl e)) f = (cs, Some (Inl e))"
| "bind_run (cs, Some (Inr x)) f = (cs @ fst (f x), snd (f x))"

definition say :: "piece list \<Rightarrow> (('w, 'h) kernel_cmd, unit) run" where
  "say pieces = ([PrintLine pieces], Some (Inr ()))"

section \<open>Initialisation, shutdown and panics\<close>

text \<open>\<^verbatim>\<open>init_kernel\<close> of the two kernels; only x86 sets up the per-CPU data itself.\<close>

definition kernel_init ::
  "('w, 's, 'h) linked_platform \<Rightarrow> 'w \<Rightarrow> 'w \<Rightarrow> 's \<Rightarrow> (('w, 'h) kernel_cmd, 's) io" where
  "kernel_init A cpu_id arg st =
     seq_io (if lk_x86_64 A then emit (SetPercpu cpu_id) else ret_io ())
       (via InitCmd (init_kernel (lk_init A) cpu_id arg st))"

definition system_off :: "('w, 's, 'h) linked_platform \<Rightarrow> 's \<Rightarrow> (('w, 'h) kernel_cmd, unit) run" where
  "system_off A st = run_opt (map_option (via PowerCmd) (pw_system_off (lk_power A st)))"

definition panic_handler ::
  "('w, 's, 'h) linked_platform \<Rightarrow> 's \<Rightarrow> panic \<Rightarrow> (('w, 'h) kernel_cmd, unit) run" where
  "panic_handler A st info = bind_run (say [PanicInfo info]) (\<lambda>_. system_off A st)"

text \<open>
  A part of \<^verbatim>\<open>main\<close> and what follows it; a panic in the part ends in the panic handler, on the
  statics \<open>st\<close>.
\<close>

definition unless_panic ::
  "('w, 's, 'h) linked_platform \<Rightarrow> 's \<Rightarrow> (('w, 'h) kernel_cmd, 'a) run \<Rightarrow>
    ('a \<Rightarrow> (('w, 'h) kernel_cmd, unit) run) \<Rightarrow> (('w, 'h) kernel_cmd, unit) run" where
  "unless_panic A st m f =
    (case snd m of
       Some (Inl e) \<Rightarrow> (fst m @ fst (panic_handler A st e), snd (panic_handler A st e))
     | _ \<Rightarrow> bind_run m f)"

definition greeting :: "'w::len word \<Rightarrow> 'w word \<Rightarrow> (('w word, 'h) kernel_cmd, unit) run" where
  "greeting cpu_id arg =
     bind_run (say [Lit ''Hello, ArceOS!'']) (\<lambda>_.
     say [Lit ''cpu_id = '', Dec (unat cpu_id), Lit '', arg = '', LowerHex (unat arg)])"

section \<open>The hello kernel\<close>

definition from_secs :: "u64 \<Rightarrow> duration" where
  "from_secs n = Duration n 0"

text \<open>
  The loop, with \<open>n\<close> rounds left and the next reading of the counter at \<open>i\<close>: a wait takes
  the readings up to the one at which it stops.
\<close>

fun hello_rounds ::
  "profile \<Rightarrow> time_if \<Rightarrow> (nat \<Rightarrow> u64) \<Rightarrow> nat \<Rightarrow> nat \<Rightarrow> (('w, 'h) kernel_cmd, unit) run" where
  "hello_rounds p T reads 0 i = ([], Some (Inr ()))"
| "hello_rounds p T reads (Suc n) i =
     bind_run (run_opt (map_option (\<lambda>(k, r). ([], rbind r (\<lambda>_. Inr k)))
       (busy_wait p T (\<lambda>j. reads (i + j)) (from_secs 1)))) (\<lambda>k.
     bind_run (run_io (lift_io (monotonic_time T (reads (i + k + 1))))) (\<lambda>t.
     bind_run (say [DebugTime t, Lit '' elapsed.'']) (\<lambda>_.
     hello_rounds p T reads n (i + k + 2))))"

text \<open>\<open>left\<close> are the statics as a panic during the initialisation leaves them.\<close>

definition hello_main ::
  "profile \<Rightarrow> ('w::len word, 's, 'h) linked_platform \<Rightarrow> (nat \<Rightarrow> u64) \<Rightarrow> 's \<Rightarrow> 'w word \<Rightarrow> 'w word \<Rightarrow> 's \<Rightarrow>
    (('w word, 'h) kernel_cmd, unit) run" where
  "hello_main p A reads left cpu_id arg st =
     unless_panic A left (run_io (kernel_init A cpu_id arg st)) (\<lambda>st1.
     unless_panic A st1
       (bind_run (greeting cpu_id arg) (\<lambda>_.
        bind_run (hello_rounds p (lk_time A st1) reads 5 0) (\<lambda>_.
        bind_run (say [Lit ''All done, shutting down!'']) (\<lambda>_.
        system_off A st1))))
       (\<lambda>_. ([], Some (Inr ()))))"

section \<open>The interrupt kernel\<close>

text \<open>
  \<^verbatim>\<open>irq_handler\<close>: the platform handles the interrupt, and the handlers that it calls run in
  their place.  The handler of the kernel reads the counter, and again to program the timer; \<open>c\<close> and
  \<open>c'\<close> are the two readings.
\<close>

fun run_calls ::
  "('h \<Rightarrow> 'k \<Rightarrow> (('w, 'h) kernel_cmd, 'k) io) \<Rightarrow> 'h irq_cmd list \<Rightarrow> 'k \<Rightarrow> (('w, 'h) kernel_cmd, 'k) io" where
  "run_calls f [] k = ret_io k"
| "run_calls f (Call h # cs) k = bind_io (f h k) (run_calls f cs)"
| "run_calls f (c # cs) k = seq_io (emit (IrqCmd c)) (run_calls f cs k)"

definition update_timer_io ::
  "profile \<Rightarrow> time_if \<Rightarrow> u64 \<times> u64 \<Rightarrow> irq_kernel \<Rightarrow> (('w, 'h) kernel_cmd, irq_kernel) io" where
  "update_timer_io p T cs k =
     bind_io (lift_io (monotonic_time_nanos T (fst cs))) (\<lambda>now_ns.
     bind_io (lift_io (irq_kernel_update_timer p now_ns k)) (\<lambda>(deadline, k').
     seq_io (via TimerCmd (set_oneshot_timer T (snd cs) deadline)) (ret_io k')))"

definition irq_handler ::
  "profile \<Rightarrow> ('w, 's, 'h) linked_platform \<Rightarrow> 'h \<Rightarrow> 's \<Rightarrow> u64 \<Rightarrow> u64 \<times> u64 \<Rightarrow> irq_kernel \<Rightarrow>
    (('w, 'h) kernel_cmd, irq_kernel) io" where
  "irq_handler p A update st vector cs k =
    (let (calls, r) = if_handle (lk_irq A) vector st;
         f = (\<lambda>h k. if h = update then update_timer_io p (lk_time A st) cs k
                    else seq_io (emit (IrqCmd (Call h))) (ret_io k))
     in bind_io (run_calls f calls k) (\<lambda>k'. seq_io (lift_io r) (ret_io k')))"

text \<open>\<^verbatim>\<open>init_irq\<close>, which does not look at whether the registration succeeded.\<close>

definition init_irq ::
  "('w, 's, 'h) linked_platform \<Rightarrow> 'h \<Rightarrow> 's \<Rightarrow> (('w, 'h) kernel_cmd, 's) run" where
  "init_irq A update st =
     bind_run (run_io (via IrqCmd (if_register (lk_irq A) (lk_timer_irq A) update st))) (\<lambda>(_, st').
     bind_run (say [Lit ''Timer IRQ handler registered.'']) (\<lambda>_.
     ([EnableIrqs], Some (Inr st'))))"


text \<open>
  The accesses of the test to the counter and to \<^verbatim>\<open>IRQ_COUNTER\<close> are numbered; \<open>H i\<close> is what
  the interrupts between the accesses \<open>i - 1\<close> and \<open>i\<close> do.
\<close>

fun taking ::
  "((u64 \<times> u64) \<Rightarrow> 'k \<Rightarrow> ('c, 'k) io) \<Rightarrow> (u64 \<times> u64) list \<Rightarrow> 'k \<Rightarrow> ('c, 'k) io" where
  "taking h [] k = ret_io k"
| "taking h (t # ts) k = bind_io (h t k) (taking h ts)"

text \<open>\<^verbatim>\<open>busy_wait\<close>, interrupted.\<close>

partial_function (option) wait_until_irqs ::
  "(nat \<Rightarrow> 'k \<Rightarrow> ('c, 'k) io) \<Rightarrow> profile \<Rightarrow> time_if \<Rightarrow> (nat \<Rightarrow> u64) \<Rightarrow> nat \<Rightarrow> duration \<Rightarrow> 'k \<Rightarrow> 'c list \<Rightarrow>
    ('c, nat \<times> 'k) io option" where
  [code]: "wait_until_irqs H p T reads i deadline k cs =
     (case H i k of (ds, r) \<Rightarrow>
        (case r of
           Inl e \<Rightarrow> Some (cs @ ds, Inl e)
         | Inr k' \<Rightarrow>
             (case wall_time p T (reads i) of
                Inl e \<Rightarrow> Some (cs @ ds, Inl e)
              | Inr t \<Rightarrow>
                  if t < deadline then wait_until_irqs H p T reads (Suc i) deadline k' (cs @ ds)
                  else Some (cs @ ds, Inr (Suc i, k')))))"

definition wait_irqs ::
  "(nat \<Rightarrow> 'k \<Rightarrow> ('c, 'k) io) \<Rightarrow> profile \<Rightarrow> time_if \<Rightarrow> (nat \<Rightarrow> u64) \<Rightarrow> nat \<Rightarrow> duration \<Rightarrow> 'k \<Rightarrow>
    ('c, nat \<times> 'k) io option" where
  "wait_irqs H p T reads i dur k =
     (case bind_io (H i k) (\<lambda>k'. lift_io (rbind (rbind (wall_time p T (reads i)) (\<lambda>t. add_duration t dur))
             (\<lambda>deadline. Inr (deadline, k')))) of
        (cs, Inl e) \<Rightarrow> Some (cs, Inl e)
      | (cs, Inr (deadline, k')) \<Rightarrow> wait_until_irqs H p T reads (Suc i) deadline k' cs)"

fun irq_rounds ::
  "(nat \<Rightarrow> irq_kernel \<Rightarrow> (('w, 'h) kernel_cmd, irq_kernel) io) \<Rightarrow> profile \<Rightarrow> time_if \<Rightarrow> (nat \<Rightarrow> u64) \<Rightarrow>
    nat \<Rightarrow> nat \<Rightarrow> irq_kernel \<Rightarrow> (('w, 'h) kernel_cmd, nat \<times> irq_kernel) run" where
  "irq_rounds H p T reads 0 i k = ([], Some (Inr (i, k)))"
| "irq_rounds H p T reads (Suc n) i k =
     bind_run (run_opt (wait_irqs H p T reads i (from_secs 1) k)) (\<lambda>(i1, k1).
     bind_run (run_io (H i1 k1)) (\<lambda>k2.
     bind_run (run_io (lift_io (monotonic_time T (reads i1)))) (\<lambda>t.
     bind_run (run_io (H (i1 + 1) k2)) (\<lambda>k3.
     bind_run (say [DebugTime t, Lit '' elapsed. '', Dec (unat (IRQ_COUNTER k3)), Lit '' Timer IRQ processed.'']) (\<lambda>_.
     irq_rounds H p T reads n (i1 + 2) k3)))))"

definition test_irq ::
  "(nat \<Rightarrow> irq_kernel \<Rightarrow> (('w, 'h) kernel_cmd, irq_kernel) io) \<Rightarrow> profile \<Rightarrow> time_if \<Rightarrow> (nat \<Rightarrow> u64) \<Rightarrow>
    irq_kernel \<Rightarrow> (('w, 'h) kernel_cmd, unit) run" where
  "test_irq H p T reads k =
     bind_run (say [Lit ''Waiting for timer IRQs for '', Dec 5, Lit '' seconds...'']) (\<lambda>_.
     bind_run (irq_rounds H p T reads 5 0 k) (\<lambda>(i, k1).
     bind_run (run_io (H i k1)) (\<lambda>k2.
     bind_run (say [Lit ''Timer IRQ count: '', Dec (unat (IRQ_COUNTER k2))]) (\<lambda>_.
     bind_run (run_io (lift_io (test_irq_verdict p (IRQ_COUNTER k2)))) (\<lambda>_.
     say [Lit ''Timer IRQ test passed.''])))))"

text \<open>\<open>handled i\<close> are the readings of the interrupts between the accesses \<open>i - 1\<close> and \<open>i\<close>.\<close>

definition irq_main ::
  "profile \<Rightarrow> ('w::len word, 's, 'h) linked_platform \<Rightarrow> 'h \<Rightarrow> (nat \<Rightarrow> u64) \<Rightarrow> (nat \<Rightarrow> (u64 \<times> u64) list) \<Rightarrow> 's \<Rightarrow>
    'w word \<Rightarrow> 'w word \<Rightarrow> 's \<Rightarrow> (('w word, 'h) kernel_cmd, unit) run" where
  "irq_main p A update reads handled left cpu_id arg st =
     unless_panic A left (run_io (kernel_init A cpu_id arg st)) (\<lambda>st1.
     unless_panic A st1 (bind_run (greeting cpu_id arg) (\<lambda>_. init_irq A update st1)) (\<lambda>st2.
     unless_panic A st2
       (bind_run (test_irq
          (\<lambda>i. taking (irq_handler p A update st2 (lk_timer_irq A)) (handled i))
          p (lk_time A st2) reads \<lparr>IRQ_COUNTER = 0, NEXT_DEADLINE = 0\<rparr>) (\<lambda>_.
        system_off A st2))
       (\<lambda>_. ([], Some (Inr ())))))"


section \<open>Shutting down\<close>

lemma run_io_Pair [simp]: "run_io (cs, r) = (cs, Some r)"
  by (simp add: run_io_def)

lemma bind_run_split: "bind_run m f =
    (case snd m of Some (Inr x) \<Rightarrow> (fst m @ fst (f x), snd (f x))
     | Some (Inl e) \<Rightarrow> (fst m, Some (Inl e)) | None \<Rightarrow> (fst m, None))"
  by (cases "(m, f)" rule: bind_run.cases) simp_all

text \<open>A run that is over has turned the machine off, as its last command.\<close>

definition ends_off :: "(('w, 'h) kernel_cmd, unit) run \<Rightarrow> bool" where
  "ends_off m \<longleftrightarrow> (case snd m of None \<Rightarrow> True | Some r \<Rightarrow> r = Inr () \<and> (\<exists>cs. fst m = cs @ [PowerCmd HaltForever]))"

lemma ends_off_append: "ends_off m \<Longrightarrow> ends_off (ds @ fst m, snd m)"
  by (auto simp: ends_off_def split: option.splits)

lemma system_off_ends:
  assumes "\<And>m. pw_system_off (lk_power A st) = Some m \<Longrightarrow> stays_off m"
  shows "ends_off (system_off A st)"
  using assms
  by (cases "pw_system_off (lk_power A st)")
    (auto simp: system_off_def run_opt_def run_io_def ends_off_def stays_off_def via_def)

lemma panic_handler_ends: "ends_off (system_off A st) \<Longrightarrow> ends_off (panic_handler A st e)"
  using ends_off_append[of "system_off A st" "[PrintLine [PanicInfo e]]"] by (simp add: panic_handler_def say_def)

lemma unless_panic_ends:
  assumes "ends_off (system_off A st)" and "\<And>x. snd m = Some (Inr x) \<Longrightarrow> ends_off (f x)"
  shows "ends_off (unless_panic A st m f)"
proof (cases "snd m")
  case (Some r)
  then show ?thesis
    using ends_off_append[OF panic_handler_ends[OF assms(1)]] ends_off_append[OF assms(2)]
    by (cases r) (auto simp: unless_panic_def bind_run_split)
qed (auto simp: unless_panic_def bind_run_split ends_off_def)

text \<open>The last part of a \<^verbatim>\<open>main\<close>: what comes before the shutdown may panic, the shutdown does not.\<close>

lemma last_part_ends:
  assumes "ends_off (system_off A st)"
  shows "ends_off (unless_panic A st (bind_run m (\<lambda>_. system_off A st)) (\<lambda>_. ([], Some (Inr ()))))"
proof (cases "snd m")
  case (Some r)
  have "snd (system_off A st) = None \<or> snd (system_off A st) = Some (Inr ())"
    using assms by (auto simp: ends_off_def split: option.splits)
  then show ?thesis
    using Some assms ends_off_append[OF panic_handler_ends[OF assms]] ends_off_append[OF assms]
    by (cases r) (auto simp: unless_panic_def bind_run_split)
qed (auto simp: unless_panic_def bind_run_split ends_off_def)

lemma bind_run_assoc: "bind_run (bind_run m f) g = bind_run m (\<lambda>x. bind_run (f x) g)"
  by (auto simp: bind_run_split split: option.splits sum.splits)

lemma hello_main_ends:
  assumes "\<And>st m. pw_system_off (lk_power A st) = Some m \<Longrightarrow> stays_off m"
  shows "ends_off (hello_main p A reads left cpu_id arg st)"
  unfolding hello_main_def
  by (simp only: bind_run_assoc[symmetric]) (intro unless_panic_ends last_part_ends system_off_ends assms)

lemma irq_main_ends:
  assumes "\<And>st m. pw_system_off (lk_power A st) = Some m \<Longrightarrow> stays_off m"
  shows "ends_off (irq_main p A update reads handled left cpu_id arg st)"
  unfolding irq_main_def
  by (intro unless_panic_ends last_part_ends system_off_ends assms)


section \<open>Interrupted waiting\<close>

text \<open>What the interrupts before the accesses \<open>i\<close> to \<open>i + n - 1\<close> do together.\<close>

fun interrupted :: "(nat \<Rightarrow> 'k \<Rightarrow> ('c, 'k) io) \<Rightarrow> nat \<Rightarrow> nat \<Rightarrow> 'k \<Rightarrow> ('c, 'k) io" where
  "interrupted H i 0 k = ret_io k"
| "interrupted H i (Suc n) k = bind_io (H i k) (interrupted H (Suc i) n)"

lemma interrupted_split: "interrupted H i (m + n) k = bind_io (interrupted H i m k) (interrupted H (i + m) n)"
proof (induction m arbitrary: i k)
  case (Suc m)
  have "interrupted H (Suc i) (m + n) = (\<lambda>x. bind_io (interrupted H (Suc i) m x) (interrupted H (Suc i + m) n))"
    by (rule ext) (rule Suc.IH)
  then show ?case by (simp add: bind_io_assoc)
qed simp

lemma bind_io_cases:
  "bind_io m f = (case snd m of Inl e \<Rightarrow> (fst m, Inl e) | Inr x \<Rightarrow> (fst m @ fst (f x), snd (f x)))"
  by (cases "(m, f)" rule: bind_io.cases) simp_all

lemma interrupted_prefix:
  assumes "snd (interrupted H i n k) = Inr k'" and "m \<le> n"
  shows "\<exists>k1. snd (interrupted H i m k) = Inr k1 \<and> snd (interrupted H (i + m) (n - m) k1) = Inr k'"
  using assms(1) interrupted_split[of H i m "n - m" k] assms(2)
  by (auto simp: bind_io_cases split: sum.splits)

text \<open>
  Interrupts that do not panic do not change when a wait ends; one that does ends
  the wait.
\<close>

lemma wait_until_irqs_eq:
  assumes "busy_wait_until p T reads i d = Some (j, Inr ())"
  shows "wait_until_irqs H p T reads i d k cs =
    Some (cs @ fst (interrupted H i (Suc j - i) k), rbind (snd (interrupted H i (Suc j - i) k)) (\<lambda>k'. Inr (Suc j, k')))"
  using assms
proof (induction "j - i" arbitrary: i k cs)
  case 0
  then have ij: "i = j" and w: "\<exists>t. wall_time p T (reads i) = Inr t \<and> \<not> t < d"
    by (auto simp: busy_wait_until_Some_iff running_def stops_with_def split: sum.splits)
  obtain ds r where h: "H j k = (ds, r)" by fastforce
  show ?case
    using w by (subst wait_until_irqs.simps) (cases r, auto simp: ij h ret_io_def)
next
  case (Suc n)
  then have lt: "i < j" by simp
  then have r: "running p T reads d i" and rest: "busy_wait_until p T reads (Suc i) d = Some (j, Inr ())"
    using Suc.prems by (auto simp: busy_wait_until_Some_iff)
  then obtain t where t: "wall_time p T (reads i) = Inr t" "t < d"
    by (auto simp: running_def split: sum.splits)
  have len: "Suc j - i = Suc (Suc j - Suc i)" using lt by simp
  obtain ds x where h: "H i k = (ds, x)" by fastforce
  show ?case
    using Suc.hyps(1)[OF _ rest] Suc.hyps(2) lt t
    by (subst wait_until_irqs.simps) (cases x, auto simp: h len simp del: diff_Suc_Suc)
qed

lemma running_shift: "running p T (\<lambda>j. reads (i + j)) d j \<longleftrightarrow> running p T reads d (i + j)"
  by (simp add: running_def)

lemma busy_wait_until_shift:
  assumes "busy_wait_until p T (\<lambda>j. reads (i + j)) 1 d = Some (n, r)"
  shows "busy_wait_until p T reads (Suc i) d = Some (i + n, r)"
proof -
  have n: "1 \<le> n" and run: "\<And>j. 1 \<le> j \<Longrightarrow> j < n \<Longrightarrow> running p T reads d (i + j)"
    and stop: "\<not> running p T reads d (i + n)" "r = stops_with p T reads (i + n)"
    using assms by (auto simp: busy_wait_until_Some_iff running_shift stops_with_def)
  have "running p T reads d j" if "Suc i \<le> j" "j < i + n" for j
    using run[of "j - i"] that by simp
  then show ?thesis using n stop by (simp add: busy_wait_until_Some_iff)
qed

lemma wait_irqs_eq:
  assumes "busy_wait p T (\<lambda>j. reads (i + j)) dur = Some (n, Inr ())"
  shows "wait_irqs H p T reads i dur k =
    Some (fst (interrupted H i (n + 1) k), rbind (snd (interrupted H i (n + 1) k)) (\<lambda>k'. Inr (i + n + 1, k')))"
proof -
  obtain t d where t: "wall_time p T (reads i) = Inr t" "add_duration t dur = Inr d"
    and w: "busy_wait_until p T (\<lambda>j. reads (i + j)) 1 d = Some (n, Inr ())"
    using assms by (cases "wall_time p T (reads i)") (auto simp: busy_wait_def split: sum.splits)
  have n: "Suc (i + n) - Suc i = n" by simp
  obtain ds x where h: "H i k = (ds, x)" by fastforce
  show ?thesis
    using wait_until_irqs_eq[OF busy_wait_until_shift[where reads = reads, OF w], of H] t
    by (cases x) (auto simp: wait_irqs_def h io_simps n)
qed


section \<open>A clock that goes on\<close>

text \<open>
  The first \<open>K\<close> readings show the times \<open>w\<close> since boot, in order and without overflow,
  and within \<open>m\<close> readings a second passes.
\<close>

definition ticking :: "time_if \<Rightarrow> (nat \<Rightarrow> u64) \<Rightarrow> (nat \<Rightarrow> u64) \<Rightarrow> nat \<Rightarrow> nat \<Rightarrow> bool" where
  "ticking T reads w m K \<longleftrightarrow> 1 \<le> m \<and>
     (\<forall>j<K. monotonic_time_nanos T (reads j) = Inr (w j) \<and> unat (w j) + unat (epochoffset_nanos T) < 2 ^ 64) \<and>
     (\<forall>i j. i \<le> j \<and> j < K \<longrightarrow> w i \<le> w j) \<and>
     (\<forall>i. i + m < K \<longrightarrow> unat (w i) + 10 ^ 9 \<le> unat (w (i + m)))"

lemma ticking_time: "ticking T reads w m K \<Longrightarrow> j < K \<Longrightarrow> monotonic_time T (reads j) = Inr (from_nanos (w j))"
  by (simp add: ticking_def monotonic_time_def)

lemma ticking_mono: "ticking T reads w m K \<Longrightarrow> i \<le> j \<Longrightarrow> j < K \<Longrightarrow> unat (w i) \<le> unat (w j)"
  by (simp add: ticking_def word_le_nat_alt)

lemma one_second: "proper (from_secs 1)" "dur_nanos (from_secs 1) = 10 ^ 9"
  by (simp_all add: from_secs_def proper_def dur_nanos_def)

lemma ticking_wait:
  assumes t: "ticking T reads w m K" and i: "i + m < K"
  shows "\<exists>n. 1 \<le> n \<and> n \<le> m \<and> busy_wait p T (\<lambda>j. reads (i + j)) (from_secs 1) = Some (n, Inr ()) \<and>
    unat (w i) + 10 ^ 9 \<le> unat (w (i + n))"
proof -
  let ?off = "epochoffset_nanos T"
  have sum: "unat (w j + ?off) = unat (w j) + unat ?off" if "j < K" for j
    using t that by (intro unat_plus_exact) (simp add: ticking_def)
  have wall: "wall_time_nanos p T (reads (i + j)) = Inr (w (i + j) + ?off)" if "j \<le> m" for j
  proof -
    have "i + j < K" using that i by simp
    then show ?thesis using t by (simp add: ticking_def wall_time_nanos_def uadd_exact)
  qed
  have m: "1 \<le> m" and "unat (w i) + 10 ^ 9 \<le> unat (w (i + m))" using t i by (simp_all add: ticking_def)
  then have later: "unat (w (i + 0) + ?off) + dur_nanos (from_secs 1) \<le> unat (w (i + m) + ?off)"
    using sum i by (simp add: one_second)
  obtain n where n: "1 \<le> n" "n \<le> m" "busy_wait p T (\<lambda>j. reads (i + j)) (from_secs 1) = Some (n, Inr ())"
    "unat (w (i + 0) + ?off) + dur_nanos (from_secs 1) \<le> unat (w (i + n) + ?off)"
    using busy_wait_reached[where w = "\<lambda>j. w (i + j) + ?off", OF one_second(1) m wall later] by blast
  then have "unat (w i) + 10 ^ 9 \<le> unat (w (i + n))" using sum i by (simp add: one_second)
  with n show ?thesis by blast
qed

text \<open>The hello kernel prints the time of each round, a second or more after that of the one before.\<close>

fun second_apart :: "nat \<Rightarrow> nat list \<Rightarrow> bool" where
  "second_apart t [] \<longleftrightarrow> True"
| "second_apart t (u # us) \<longleftrightarrow> t + 10 ^ 9 \<le> u \<and> second_apart u us"

lemma second_apart_weaken: "second_apart t us \<Longrightarrow> s \<le> t \<Longrightarrow> second_apart s us"
  by (cases us) auto

definition elapsed_line :: "u64 \<Rightarrow> ('w, 'h) kernel_cmd" where
  "elapsed_line now = PrintLine [DebugTime (from_nanos now), Lit '' elapsed.'']"

lemma hello_rounds_print:
  assumes "ticking T reads w m K" and "i + r * (m + 2) < K"
  shows "\<exists>ts. (hello_rounds p T reads r i :: (('w, 'h) kernel_cmd, unit) run) = (map elapsed_line ts, Some (Inr ())) \<and> length ts = r \<and>
    second_apart (unat (w i)) (map unat ts)"
  using assms(2)
proof (induction r arbitrary: i)
  case (Suc r)
  then have "i + m < K" by simp
  then obtain n where n: "1 \<le> n" "n \<le> m" "busy_wait p T (\<lambda>j. reads (i + j)) (from_secs 1) = Some (n, Inr ())"
    "unat (w i) + 10 ^ 9 \<le> unat (w (i + n))"
    using ticking_wait[OF assms(1)] by blast
  have k: "i + n + 1 < K" "i + n + 2 + r * (m + 2) < K" using Suc.prems n(2) by simp_all
  obtain ts where ts: "(hello_rounds p T reads r (i + n + 2) :: (('w, 'h) kernel_cmd, unit) run) = (map elapsed_line ts, Some (Inr ()))" "length ts = r"
    "second_apart (unat (w (i + n + 2))) (map unat ts)"
    using Suc.IH[OF k(2)] by blast
  have "unat (w (i + n + 1)) \<le> unat (w (i + n + 2))" using ticking_mono[OF assms(1)] k(2) by simp
  then have apart: "second_apart (unat (w (i + n + 1))) (map unat ts)" by (rule second_apart_weaken[OF ts(3)])
  have "unat (w (i + n)) \<le> unat (w (i + n + 1))" using ticking_mono[OF assms(1)] k(1) by simp
  with n(4) apart have "second_apart (unat (w i)) (map unat (w (i + n + 1) # ts))" by simp
  moreover have "(hello_rounds p T reads (Suc r) i :: (('w, 'h) kernel_cmd, unit) run) = (map elapsed_line (w (i + n + 1) # ts), Some (Inr ()))"
    using n(3) ts(1) ticking_time[OF assms(1) k(1)]
    by (simp add: run_opt_def lift_io_def say_def elapsed_line_def)
  ultimately show ?case using ts(2) by (metis length_Cons)
qed simp

lemma interrupted_extend:
  "snd (interrupted H i m k) = Inr k1 \<Longrightarrow> snd (interrupted H (i + m) n k1) = Inr k' \<Longrightarrow> snd (interrupted H i (m + n) k) = Inr k'"
  by (simp add: interrupted_split bind_io_cases)

text \<open>The rounds of the interrupt kernel, as long as no handler panics.\<close>

lemma irq_rounds_end:
  assumes "ticking T reads w m K" and "i + r * (m + 3) < K" and "snd (interrupted H i (r * (m + 3)) k) = Inr kx"
  shows "\<exists>cs i' k'. irq_rounds H p T reads r i k = (cs, Some (Inr (i', k'))) \<and>
    i \<le> i' \<and> i' \<le> i + r * (m + 3) \<and> snd (interrupted H i (i' - i) k) = Inr k' \<and> unat (w i) + r * 10 ^ 9 \<le> unat (w i')"
  using assms(2,3)
proof (induction r arbitrary: i k kx)
  case (Suc r)
  then have "i + m < K" by simp
  then obtain n where n: "1 \<le> n" "n \<le> m" "busy_wait p T (\<lambda>j. reads (i + j)) (from_secs 1) = Some (n, Inr ())"
    "unat (w i) + 10 ^ 9 \<le> unat (w (i + n))"
    using ticking_wait[OF assms(1)] by blast
  let ?i = "i + n + 3"
  have k: "i + n + 1 < K" "?i + r * (m + 3) < K" using Suc.prems(1) n(2) by simp_all
  have "n + 3 \<le> Suc r * (m + 3)" using n(2) by simp
  from interrupted_prefix[OF Suc.prems(2) this] obtain k3 where k3: "snd (interrupted H i (n + 3) k) = Inr k3"
    "snd (interrupted H ?i (Suc r * (m + 3) - (n + 3)) k3) = Inr kx"
    by (auto simp: add.assoc)
  have "r * (m + 3) \<le> Suc r * (m + 3) - (n + 3)" using n(2) by simp
  from interrupted_prefix[OF k3(2) this] obtain ky where ky: "snd (interrupted H ?i (r * (m + 3)) k3) = Inr ky" by blast
  obtain cs i' k' where IH: "irq_rounds H p T reads r ?i k3 = (cs, Some (Inr (i', k')))" "?i \<le> i'"
    "i' \<le> ?i + r * (m + 3)" "snd (interrupted H ?i (i' - ?i) k3) = Inr k'" "unat (w ?i) + r * 10 ^ 9 \<le> unat (w i')"
    using Suc.IH[OF k(2) ky] by blast
  have "interrupted H i (n + 3) k = bind_io (interrupted H i (n + 1) k) (interrupted H (i + (n + 1)) 2)"
    using interrupted_split[of H i "n + 1" 2 k] by (simp add: numeral_3_eq_3)
  then obtain k1 where k1: "snd (interrupted H i (n + 1) k) = Inr k1" "snd (interrupted H (i + (n + 1)) 2 k1) = Inr k3"
    using k3(1) by (auto simp: bind_io_cases split: sum.splits)
  then obtain k2 where k2: "snd (H (i + n + 1) k1) = Inr k2" "snd (H (i + n + 2) k2) = Inr k3"
    by (auto simp: bind_io_cases numeral_2_eq_2 ret_io_def split: sum.splits)
  obtain ds1 ds2 where H: "H (i + n + 1) k1 = (ds1, Inr k2)" "H (i + n + 2) k2 = (ds2, Inr k3)"
    using k2 by (metis prod.collapse)
  have "\<exists>ds. wait_irqs H p T reads i (from_secs 1) k = Some (ds, Inr (i + n + 1, k1))"
    using wait_irqs_eq[where reads = reads and H = H and k = k, OF n(3)] unfolding k1(1) by simp
  then obtain ds where wait: "wait_irqs H p T reads i (from_secs 1) k = Some (ds, Inr (i + n + 1, k1))" ..
  have time: "monotonic_time T (reads (i + n + 1)) = Inr (from_nanos (w (i + n + 1)))"
    by (rule ticking_time[OF assms(1) k(1)])
  have i: "i + n + 1 + 1 = i + n + 2" "i + n + 1 + 2 = ?i" by simp_all
  have "\<exists>cs'. irq_rounds H p T reads (Suc r) i k = (cs', Some (Inr (i', k')))"
    unfolding irq_rounds.simps(2) wait run_opt_def option.case run_io_Pair bind_run.simps prod.case lift_io_def
      time H i fst_conv snd_conv say_def IH(1) by blast
  moreover have len: "i' - i = (n + 3) + (i' - ?i)" "i + (n + 3) = ?i" using IH(2) by simp_all
  have "snd (interrupted H i (i' - i) k) = Inr k'"
    unfolding len(1) by (rule interrupted_extend[OF k3(1)]) (simp only: len(2) IH(4))
  moreover have "unat (w (i + n)) \<le> unat (w ?i)" using ticking_mono[OF assms(1)] k(2) by simp
  then have "unat (w i) + Suc r * 10 ^ 9 \<le> unat (w i')" using n(4) IH(5) by simp
  moreover have "i \<le> i'" "i' \<le> i + Suc r * (m + 3)" using IH(2,3) n(2) by simp_all
  ultimately show ?case by blast
qed (simp add: ret_io_def)

end
