(* ===== verification/Kernel_Contract.thy ===== *)
theory Kernel_Contract
  imports Kernel_Main
begin

text \<open>
  What the single-core kernels rely on, as two locales over a linked platform, and what they do
  on a platform that keeps them.
\<close>


section \<open>Interrupts that are counted\<close>

lemma run_calls_none: "no_call cs \<Longrightarrow> run_calls f (cs @ ds) k = (map IrqCmd cs @ fst (run_calls f ds k), snd (run_calls f ds k))"
proof (induction cs)
  case (Cons c cs)
  then have "run_calls f ((c # cs) @ ds) k = seq_io (emit (IrqCmd c)) (run_calls f (cs @ ds) k)" by (cases c) simp_all
  with Cons show ?case by (simp add: io_simps)
qed simp

lemma irq_handler_calls:
  fixes A :: "('w, 's, 'h) linked_platform"
  assumes "if_handle (lk_irq A) vector st = (pre @ Call update # post, Inr ())" and "no_call pre" and "no_call post"
  shows "snd (irq_handler p A update st vector cs k) = snd (update_timer_io p (lk_time A st) cs k :: (('w, 'h) kernel_cmd, irq_kernel) io)"
proof -
  define f :: "'h \<Rightarrow> irq_kernel \<Rightarrow> (('w, 'h) kernel_cmd, irq_kernel) io" where "f = (\<lambda>h k. if h = update then update_timer_io p (lk_time A st) cs k
                      else seq_io (emit (IrqCmd (Call h))) (ret_io k))"
  have post: "run_calls f post k' = (map IrqCmd post, Inr k')" for k'
    using run_calls_none[OF assms(3), of f "[]"] by (simp add: ret_io_def)
  have upd: "f update k = update_timer_io p (lk_time A st) cs k" by (simp add: f_def)
  show ?thesis
    unfolding irq_handler_def assms(1) Let_def prod.case f_def[symmetric] run_calls_none[OF assms(2)] run_calls.simps(2) upd
    by (simp add: bind_io_cases post seq_io_def lift_io_def ret_io_def split: sum.splits)
qed

lemma update_timer_counts:
  assumes "snd (update_timer_io p T cs k) = Inr k'"
  shows "IRQ_COUNTER k' = IRQ_COUNTER k + 1"
  using assms
  by (auto simp: update_timer_io_def irq_kernel_update_timer_def bind_io_cases io_simps Let_def rbind_Inr_iff
      seq_io_def via_def split: sum.splits)

lemma taking_counts:
  assumes "\<And>t k k'. snd (h t k) = Inr k' \<Longrightarrow> IRQ_COUNTER k' = IRQ_COUNTER k + 1"
  shows "snd (taking h ts k) = Inr k' \<Longrightarrow> IRQ_COUNTER k' = IRQ_COUNTER k + of_nat (length ts)"
proof (induction ts arbitrary: k)
  case (Cons t ts)
  then obtain k1 where "snd (h t k) = Inr k1" "snd (taking h ts k1) = Inr k'"
    by (auto simp: bind_io_cases split: sum.splits)
  then show ?case using Cons.IH assms by (simp add: add.assoc)
qed (simp add: ret_io_def)

lemma taking_append: "taking h (ts @ us) k = bind_io (taking h ts k) (taking h us)"
proof (induction ts arbitrary: k)
  case (Cons t ts)
  then have "taking h (ts @ us) = (\<lambda>x. bind_io (taking h ts x) (taking h us))" by blast
  then show ?case by (simp add: bind_io_assoc)
qed simp

lemma interrupted_taking: "interrupted (\<lambda>i. taking h (handled i)) i n k = taking h (concat (map handled [i..<i + n])) k"
proof (induction n arbitrary: i k)
  case (Suc n)
  have "concat (map handled [i..<i + Suc n]) = handled i @ concat (map handled [Suc i..<Suc i + n])"
    by (simp add: upt_conv_Cons del: upt_Suc)
  moreover have "interrupted (\<lambda>i. taking h (handled i)) (Suc i) n = taking h (concat (map handled [Suc i..<Suc i + n]))"
    using Suc.IH by blast
  ultimately show ?case by (simp add: taking_append del: upt_Suc)
qed simp

lemma taking_snd_cong:
  assumes "\<And>t k. snd (h t k) = snd (h' t k)"
  shows "snd (taking h ts k) = snd (taking h' ts k)"
proof (induction ts arbitrary: k)
  case (Cons t ts)
  then show ?case using assms[of t k] by (auto simp: bind_io_cases split: sum.splits)
qed (simp add: ret_io_def)

lemma test_irq_verdict_eq: "test_irq_verdict p n = (if n < 500 then Inl ExplicitPanic else Inr ())"
  by (simp add: test_irq_verdict_def TICKS_PER_SEC_def umul_def)

section \<open>The contracts that the kernels rely on\<close>

text \<open>
  A platform from the statics of its image: the initialisation does not panic, the clock
  is then \<open>T\<close>, and shutting down issues the commands \<open>off_cmds\<close> and does not return.
\<close>

locale kernel_platform =
  fixes A :: "('w::len word, 's, 'h) linked_platform" and T :: time_if and off_cmds :: "'w word power_cmd list"
    and static booted :: "'s \<Rightarrow> bool"
  assumes boots: "static st \<Longrightarrow> \<exists>cs st'. init_kernel (lk_init A) cpu arg st = (cs, Inr st') \<and> booted st'"
    and booted_clock: "booted st \<Longrightarrow> lk_time A st = T"
    and booted_off: "booted st \<Longrightarrow> pw_system_off (lk_power A st) = Some (off_cmds @ [HaltForever], Inr ())"
begin

lemma kernel_boots:
  assumes "static st"
  obtains cs st' where "(kernel_init A cpu arg st :: (('w word, 'h) kernel_cmd, 's) io) = (cs, Inr st')" and "booted st'"
proof -
  obtain cs st' where st': "init_kernel (lk_init A) cpu arg st = (cs, Inr st')" "booted st'" using boots[OF assms] by blast
  then have "kernel_init A cpu arg st = ((if lk_x86_64 A then [SetPercpu cpu] else []) @ map InitCmd cs, Inr st')"
    by (simp add: kernel_init_def io_simps)
  then show thesis using that st'(2) by blast
qed

lemma switched_off: "booted st \<Longrightarrow> system_off A st = (map PowerCmd (off_cmds @ [HaltForever]), Some (Inr ()))"
  by (simp add: system_off_def booted_off run_opt_def via_def)

lemma hello_runs:
  fixes cpu_id arg :: "'w word"
  assumes "static st" and "ticking T reads w m K" and "5 * (m + 2) < K"
  shows "\<exists>ts. hello_main p A reads left cpu_id arg st =
      (fst (kernel_init A cpu_id arg st) @ fst (greeting cpu_id arg) @ map elapsed_line ts @
        PrintLine [Lit ''All done, shutting down!''] # map PowerCmd (off_cmds @ [HaltForever]), Some (Inr ())) \<and>
    length ts = 5 \<and> second_apart (unat (w 0)) (map unat ts)"
proof -
  obtain cs st' where st': "kernel_init A cpu_id arg st = (cs, Inr st')" "booted st'"
    using kernel_boots[OF assms(1)] .
  obtain ts where ts: "(hello_rounds p T reads 5 0 :: (('w word, 'h) kernel_cmd, unit) run) = (map elapsed_line ts, Some (Inr ()))"
    "length ts = 5" "second_apart (unat (w 0)) (map unat ts)"
    using hello_rounds_print[OF assms(2), of 0 5 p] assms(3) by auto
  then show ?thesis
    using st' by (intro exI[of _ ts])
      (simp add: hello_main_def unless_panic_def greeting_def say_def booted_clock switched_off)
qed

end

text \<open>
  With interrupts: the handler of the kernel can be registered for the timer, and then runs once for each
  interrupt of the timer.
\<close>

locale irq_platform = kernel_platform A T off_cmds static booted
  for A :: "('w::len word, 's, 'h) linked_platform" and T and off_cmds and static booted +
  fixes update :: 'h and armed :: "'s \<Rightarrow> bool"
  assumes arms: "booted st \<Longrightarrow>
      \<exists>cs st'. if_register (lk_irq A) (lk_timer_irq A) update st = (cs, Inr (True, st')) \<and> armed st'"
    and runs_once: "armed st \<Longrightarrow> \<exists>pre post. if_handle (lk_irq A) (lk_timer_irq A) st = (pre @ Call update # post, Inr ()) \<and>
      no_call pre \<and> no_call post"
    and armed_clock: "armed st \<Longrightarrow> lk_time A st = T"
    and armed_off: "armed st \<Longrightarrow> pw_system_off (lk_power A st) = Some (off_cmds @ [HaltForever], Inr ())"
begin

lemma interrupts:
  assumes "armed st"
  shows "snd (taking (irq_handler p A update st (lk_timer_irq A)) ts k) =
    snd (taking (update_timer_io p T :: _ \<Rightarrow> _ \<Rightarrow> (('w word, 'h) kernel_cmd, irq_kernel) io) ts k)"
proof (rule taking_snd_cong)
  fix cs k
  show "snd (irq_handler p A update st (lk_timer_irq A) cs k) =
      snd (update_timer_io p T cs k :: (('w word, 'h) kernel_cmd, irq_kernel) io)"
    using runs_once[OF assms] irq_handler_calls[of A "lk_timer_irq A" st _ update _ p cs k]
      armed_clock[OF assms] by auto
qed

end


section \<open>The interrupt test\<close>

lemma concat_upto_le: "m \<le> n \<Longrightarrow> length (concat (map f [0..<m])) \<le> length (concat (map f [0..<n :: nat]))"
  using upt_add_eq_append[of 0 m "n - m"] by simp

text \<open>The last lines of the test, for \<open>n\<close> interrupts.\<close>

definition test_report :: "nat \<Rightarrow> ('w, 'h) kernel_cmd list" where
  "test_report n =
    [PrintLine [Lit ''Timer IRQ count: '', Dec n],
     PrintLine (if 500 \<le> n then [Lit ''Timer IRQ test passed.''] else [PanicInfo ExplicitPanic])]"

lemma test_irq_ends:
  assumes t: "ticking T reads w m K" and K: "5 * (m + 3) < K"
    and ok: "snd (interrupted H 0 (5 * (m + 3) + 1) k) = Inr kx"
  shows "\<exists>cs N k'. N \<le> 5 * (m + 3) \<and> unat (w 0) + 5 * 10 ^ 9 \<le> unat (w N) \<and> snd (interrupted H 0 (N + 1) k) = Inr k' \<and>
    test_irq H p T reads k =
      (if IRQ_COUNTER k' < 500
       then (cs @ [PrintLine [Lit ''Timer IRQ count: '', Dec (unat (IRQ_COUNTER k'))]], Some (Inl ExplicitPanic))
       else (cs @ [PrintLine [Lit ''Timer IRQ count: '', Dec (unat (IRQ_COUNTER k'))],
          PrintLine [Lit ''Timer IRQ test passed.'']], Some (Inr ())))"
proof -
  have "5 * (m + 3) \<le> 5 * (m + 3) + 1" by simp
  from interrupted_prefix[OF ok this] obtain ky where ky: "snd (interrupted H 0 (5 * (m + 3)) k) = Inr ky" by blast
  have K': "0 + 5 * (m + 3) < K" using K by simp
  from irq_rounds_end[OF t K' ky, where p = p]
  obtain cs N k1 where N: "irq_rounds H p T reads 5 0 k = (cs, Some (Inr (N, k1)))" "N \<le> 5 * (m + 3)"
    "snd (interrupted H 0 N k) = Inr k1" "unat (w 0) + 5 * 10 ^ 9 \<le> unat (w N)"
    by auto
  have "N + 1 \<le> 5 * (m + 3) + 1" using N(2) by simp
  from interrupted_prefix[OF ok this] obtain k' where k': "snd (interrupted H 0 (N + 1) k) = Inr k'" by blast
  then have "snd (H N k1) = Inr k'"
    using N(3) by (simp only: interrupted_split bind_io_cases sum.case snd_conv)
      (auto simp: bind_io_cases ret_io_def split: sum.splits)
  then obtain ds where ds: "H N k1 = (ds, Inr k')" by (metis prod.collapse)
  show ?thesis
    using N(2,4) k' by (intro exI[of _ "PrintLine [Lit ''Waiting for timer IRQs for '', Dec 5, Lit '' seconds...''] # cs @ ds"]
      exI[of _ N] exI[of _ k'] conjI)
      (auto simp: test_irq_def N(1) ds say_def lift_io_def test_irq_verdict_eq)
qed

context irq_platform
begin

lemma irq_kernel_reports:
  fixes cpu_id arg :: "'w word"
  assumes "static st" and "ticking T reads w m K" and "5 * (m + 3) < K"
    and "length (concat (map handled [0..<5 * (m + 3) + 1])) < 2 ^ 64"
    and ok: "snd (taking (update_timer_io p T :: _ \<Rightarrow> _ \<Rightarrow> (('w word, 'h) kernel_cmd, irq_kernel) io)
      (concat (map handled [0..<5 * (m + 3) + 1])) \<lparr>IRQ_COUNTER = 0, NEXT_DEADLINE = 0\<rparr>) = Inr kx"
  shows "\<exists>cs N. N \<le> 5 * (m + 3) \<and> unat (w 0) + 5 * 10 ^ 9 \<le> unat (w N) \<and>
    irq_main p A update reads handled left cpu_id arg st =
      (cs @ test_report (length (concat (map handled [0..<N + 1]))) @ map PowerCmd (off_cmds @ [HaltForever]),
       Some (Inr ()))"
proof -
  obtain cs1 st1 where 1: "(kernel_init A cpu_id arg st :: (('w word, 'h) kernel_cmd, 's) io) = (cs1, Inr st1)" "booted st1"
    using kernel_boots[OF assms(1)] .
  obtain cs2 st2 where 2: "if_register (lk_irq A) (lk_timer_irq A) update st1 = (cs2, Inr (True, st2))" "armed st2"
    using arms[OF 1(2)] by blast
  define h where "h = irq_handler p A update st2 (lk_timer_irq A)"
  let ?H = "\<lambda>i. taking h (handled i)" and ?k = "\<lparr>IRQ_COUNTER = 0, NEXT_DEADLINE = 0\<rparr>"
  have spans: "snd (interrupted ?H 0 n ?k) =
      snd (taking (update_timer_io p T :: _ \<Rightarrow> _ \<Rightarrow> (('w word, 'h) kernel_cmd, irq_kernel) io)
        (concat (map handled [0..<n])) ?k)" for n
    using interrupts[OF 2(2), of p "concat (map handled [0..<n])" ?k] by (simp add: interrupted_taking h_def)
  then have "snd (interrupted ?H 0 (5 * (m + 3) + 1) ?k) = Inr kx" using ok by simp
  from test_irq_ends[OF assms(2,3) this, where p = p]
  obtain cs3 N k' where N: "N \<le> 5 * (m + 3)" "unat (w 0) + 5 * 10 ^ 9 \<le> unat (w N)"
    "snd (interrupted ?H 0 (N + 1) ?k) = Inr k'"
    "test_irq ?H p T reads ?k =
      (if IRQ_COUNTER k' < 500
       then (cs3 @ [PrintLine [Lit ''Timer IRQ count: '', Dec (unat (IRQ_COUNTER k'))]], Some (Inl ExplicitPanic))
       else (cs3 @ [PrintLine [Lit ''Timer IRQ count: '', Dec (unat (IRQ_COUNTER k'))],
          PrintLine [Lit ''Timer IRQ test passed.'']], Some (Inr ())))" by blast
  define n where "n = length (concat (map handled [0..<N + 1]))"
  have "IRQ_COUNTER k' = of_nat n"
    using taking_counts[OF update_timer_counts N(3)[unfolded spans]] by (simp add: n_def)
  moreover have "n < 2 ^ LENGTH(64)"
    using concat_upto_le[of "N + 1" "5 * (m + 3) + 1" handled] N(1) assms(4) by (simp add: n_def)
  ultimately have count: "unat (IRQ_COUNTER k') = n" "IRQ_COUNTER k' < 500 \<longleftrightarrow> \<not> 500 \<le> n"
    by (simp_all add: word_less_nat_alt unat_of_nat not_le)
  have off: "system_off A st2 = (map PowerCmd (off_cmds @ [HaltForever]), Some (Inr ()))"
    by (simp add: system_off_def armed_off[OF 2(2)] run_opt_def via_def)
  have clock: "lk_time A st2 = T" by (rule armed_clock[OF 2(2)])
  have "irq_main p A update reads handled left cpu_id arg st =
      (cs1 @ fst (greeting cpu_id arg) @ map IrqCmd cs2 @ PrintLine [Lit ''Timer IRQ handler registered.''] #
        EnableIrqs # cs3 @ test_report n @ map PowerCmd (off_cmds @ [HaltForever]), Some (Inr ()))"
    using N(4) count
    by (simp add: irq_main_def 1 unless_panic_def greeting_def say_def init_irq_def via_def 2 clock off h_def[symmetric]
        panic_handler_def test_report_def)
  then show ?thesis
    using N(1,2) unfolding n_def[symmetric]
    by (intro exI[of _ "cs1 @ fst (greeting cpu_id arg) @ map IrqCmd cs2 @
        PrintLine [Lit ''Timer IRQ handler registered.''] # EnableIrqs # cs3"] exI[of _ N]) (simp add: n_def)
qed

end

end
