(* ===== verification/Smp_Kernel.thy ===== *)
theory Smp_Kernel
  imports Time_If
begin

text \<open>
  The multi-core example kernel, the client of \<^verbatim>\<open>cpu_boot\<close> and of the timer: how
  the primary CPU starts the others one by one, and its periodic timer handler.

  The CPUs run concurrently: the protocol is a step relation on the state they
  share, in which each step is an access to that state.  CPU \<open>i\<close> of \<open>n\<close> is the
  one with logical id \<open>i\<close>; \<open>p\<close> is the id of the primary CPU.
\<close>

section \<open>State\<close>

text \<open>
  A secondary CPU is off, has been released into its entry code (with its stack
  as the argument, or with none when the platform has one slot that all CPUs
  read), runs on a stack of \<^verbatim>\<open>SECONDARY_BOOT_STACK\<close>, has counted itself in
  \<^verbatim>\<open>INITED_CPUS\<close>, or has seen that all CPUs are up.
\<close>

datatype secondary =
    Off | Released "nat option" | OnStack nat | Counted nat | Serving nat

text \<open>
  The primary CPU is at iteration \<open>i\<close> of its loop with \<open>k\<close> CPUs started, waits in
  that loop, waits for all CPUs after it, or shuts down.
\<close>

datatype primary = AtLoop nat nat | Waiting nat nat | AllStarted | Finished

record smp =
  primary :: primary
  stack_slot :: "nat option"
  secondaries :: "nat \<Rightarrow> secondary"
  INITED_CPUS :: nat

definition smp_start :: smp where
  "smp_start = \<lparr>primary = AtLoop 0 0, stack_slot = None, secondaries = (\<lambda>_. Off), INITED_CPUS = 0\<rparr>"

definition init_smp_ok :: "nat \<Rightarrow> smp \<Rightarrow> bool" where
  "init_smp_ok n st \<longleftrightarrow> INITED_CPUS st = n"

text \<open>
  \<^verbatim>\<open>axplat::power::cpu_boot\<close>, as the protocol sees it: \<open>shared\<close> platforms put the
  stack in their one slot, the others pass it on; \<open>boots\<close> says for which CPUs
  the platform starts one at all.
\<close>

definition cpu_boot :: "bool \<Rightarrow> (nat \<Rightarrow> bool) \<Rightarrow> nat \<Rightarrow> nat \<Rightarrow> smp \<Rightarrow> smp" where
  "cpu_boot shared boots i stack st =
     st\<lparr>stack_slot := (if shared then Some stack else stack_slot st),
        secondaries := (secondaries st)(i :=
          if boots i then Released (if shared then None else Some stack) else secondaries st i)\<rparr>"

section \<open>Steps\<close>

inductive smp_step :: "nat \<Rightarrow> nat \<Rightarrow> bool \<Rightarrow> (nat \<Rightarrow> bool) \<Rightarrow> smp \<Rightarrow> smp \<Rightarrow> bool"
  for n p shared boots where
  boot: "primary st = AtLoop i k \<Longrightarrow> i < n \<Longrightarrow> i \<noteq> p \<and> k < n - 1 \<Longrightarrow>
    smp_step n p shared boots st ((cpu_boot shared boots i k st)\<lparr>primary := Waiting (i + 1) (k + 1)\<rparr>)"
| skip: "primary st = AtLoop i k \<Longrightarrow> i < n \<Longrightarrow> \<not> (i \<noteq> p \<and> k < n - 1) \<Longrightarrow>
    smp_step n p shared boots st (st\<lparr>primary := AtLoop (i + 1) k\<rparr>)"
| poll: "primary st = Waiting i k \<Longrightarrow> \<not> INITED_CPUS st < k \<Longrightarrow>
    smp_step n p shared boots st (st\<lparr>primary := AtLoop i k\<rparr>)"
| loop_done: "primary st = AtLoop i k \<Longrightarrow> \<not> i < n \<Longrightarrow>
    smp_step n p shared boots st (st\<lparr>primary := AllStarted, INITED_CPUS := INITED_CPUS st + 1\<rparr>)"
| finish: "primary st = AllStarted \<Longrightarrow> init_smp_ok n st \<Longrightarrow>
    smp_step n p shared boots st (st\<lparr>primary := Finished\<rparr>)"
| enter_arg: "secondaries st i = Released (Some s) \<Longrightarrow>
    smp_step n p shared boots st (st\<lparr>secondaries := (secondaries st)(i := OnStack s)\<rparr>)"
| enter_slot: "secondaries st i = Released None \<Longrightarrow> stack_slot st = Some s \<Longrightarrow>
    smp_step n p shared boots st (st\<lparr>secondaries := (secondaries st)(i := OnStack s)\<rparr>)"
| count: "secondaries st i = OnStack s \<Longrightarrow>
    smp_step n p shared boots st (st\<lparr>secondaries := (secondaries st)(i := Counted s),
      INITED_CPUS := INITED_CPUS st + 1\<rparr>)"
| serve: "secondaries st i = Counted s \<Longrightarrow> init_smp_ok n st \<Longrightarrow>
    smp_step n p shared boots st (st\<lparr>secondaries := (secondaries st)(i := Serving s)\<rparr>)"

inductive smp_reachable :: "nat \<Rightarrow> nat \<Rightarrow> bool \<Rightarrow> (nat \<Rightarrow> bool) \<Rightarrow> smp \<Rightarrow> bool"
  for n p shared boots where
  reach_start: "smp_reachable n p shared boots smp_start"
| reach_step: "smp_reachable n p shared boots st \<Longrightarrow> smp_step n p shared boots st st' \<Longrightarrow>
    smp_reachable n p shared boots st'"

section \<open>The invariant\<close>

text \<open>The stack of CPU \<open>i\<close>: the number of CPUs started before it.\<close>

definition stack_of :: "nat \<Rightarrow> nat \<Rightarrow> nat" where
  "stack_of p i = (if p < i then i - 1 else i)"

fun runs_on :: "secondary \<Rightarrow> nat option" where
  "runs_on (OnStack s) = Some s"
| "runs_on (Counted s) = Some s"
| "runs_on (Serving s) = Some s"
| "runs_on _ = None"

fun has_counted :: "secondary \<Rightarrow> bool" where
  "has_counted (Counted s) \<longleftrightarrow> True"
| "has_counted (Serving s) \<longleftrightarrow> True"
| "has_counted _ \<longleftrightarrow> False"

text \<open>
  The CPUs before \<open>m\<close> are up, each on its stack, all of them started by the
  platform; those from \<open>m\<close> on are off.
\<close>

definition up_to :: "nat \<Rightarrow> (nat \<Rightarrow> bool) \<Rightarrow> nat \<Rightarrow> smp \<Rightarrow> bool" where
  "up_to p boots m st \<longleftrightarrow>
     (\<forall>i<m. i \<noteq> p \<longrightarrow> boots i \<and> has_counted (secondaries st i) \<and>
        runs_on (secondaries st i) = Some (stack_of p i)) \<and>
     secondaries st p = Off"

definition off_from :: "nat \<Rightarrow> smp \<Rightarrow> bool" where
  "off_from m st \<longleftrightarrow> (\<forall>i\<ge>m. secondaries st i = Off)"

text \<open>The CPU that is being started: where it may be and what the slot holds.\<close>

definition starting :: "nat \<Rightarrow> bool \<Rightarrow> (nat \<Rightarrow> bool) \<Rightarrow> nat \<Rightarrow> smp \<Rightarrow> bool" where
  "starting p shared boots i st \<longleftrightarrow>
     (shared \<longrightarrow> stack_slot st = Some (stack_of p i)) \<and>
     (if boots i
      then secondaries st i = Released (if shared then None else Some (stack_of p i)) \<or>
           secondaries st i = OnStack (stack_of p i) \<or>
           has_counted (secondaries st i) \<and> runs_on (secondaries st i) = Some (stack_of p i)
      else secondaries st i = Off)"

definition smp_inv :: "nat \<Rightarrow> nat \<Rightarrow> bool \<Rightarrow> (nat \<Rightarrow> bool) \<Rightarrow> smp \<Rightarrow> bool" where
  "smp_inv n p shared boots st \<longleftrightarrow>
    (case primary st of
       AtLoop i k \<Rightarrow> i \<le> n \<and> k = stack_of p i \<and> INITED_CPUS st = k \<and>
         up_to p boots i st \<and> off_from i st
     | Waiting i k \<Rightarrow> 0 < i \<and> i \<le> n \<and> i - 1 \<noteq> p \<and> k = stack_of p (i - 1) + 1 \<and>
         up_to p boots (i - 1) st \<and> off_from i st \<and> starting p shared boots (i - 1) st \<and>
         INITED_CPUS st = (if has_counted (secondaries st (i - 1)) then k else k - 1)
     | _ \<Rightarrow> INITED_CPUS st = n \<and> up_to p boots n st \<and> off_from n st)"

section \<open>The invariant holds\<close>

lemma smp_inv_start: "p < n \<Longrightarrow> smp_inv n p shared boots smp_start"
  by (simp add: smp_inv_def smp_start_def up_to_def off_from_def stack_of_def)

text \<open>Only the CPU that is being started can be between release and count.\<close>

lemma up_to_on_stack: "up_to p boots m st \<Longrightarrow> i < m \<Longrightarrow>
    secondaries st i \<noteq> OnStack s \<and> secondaries st i \<noteq> Released a"
  by (cases "i = p") (auto simp: up_to_def)

lemma no_cpu_between:
  assumes "up_to p boots m st" and "off_from m st"
  shows "secondaries st i \<noteq> OnStack s \<and> secondaries st i \<noteq> Released a"
proof (cases "i < m")
  case True
  with assms(1) show ?thesis by (rule up_to_on_stack)
next
  case False
  with assms(2) show ?thesis by (simp add: off_from_def)
qed

lemma the_starting_cpu:
  assumes "smp_inv n p shared boots st" and "secondaries st i = OnStack s \<or> secondaries st i = Released a"
  obtains k where "primary st = Waiting (i + 1) k"
proof (cases "primary st")
  case (Waiting j k)
  then have inv: "0 < j" "up_to p boots (j - 1) st" "off_from j st"
    using assms(1) by (auto simp: smp_inv_def)
  have "\<not> i < j - 1" using up_to_on_stack[OF inv(2)] assms(2) by blast
  moreover have "\<not> j \<le> i" using inv(3) assms(2) by (auto simp: off_from_def)
  ultimately have "j = i + 1" using inv(1) by linarith
  then show thesis using Waiting that by simp
next
  case (AtLoop j k)
  then have "up_to p boots j st" "off_from j st" using assms(1) by (auto simp: smp_inv_def)
  then show thesis using no_cpu_between assms(2) by blast
next
  case AllStarted
  then have "up_to p boots n st" "off_from n st" using assms(1) by (auto simp: smp_inv_def)
  then show thesis using no_cpu_between assms(2) by blast
next
  case Finished
  then have "up_to p boots n st" "off_from n st" using assms(1) by (auto simp: smp_inv_def)
  then show thesis using no_cpu_between assms(2) by blast
qed

lemma inv_boot:
  assumes "p < n" and "smp_inv n p shared boots st" and "primary st = AtLoop i k" and "i < n" and "i \<noteq> p"
  shows "smp_inv n p shared boots ((cpu_boot shared boots i k st)\<lparr>primary := Waiting (i + 1) (k + 1)\<rparr>)"
proof -
  have inv: "k = stack_of p i" "INITED_CPUS st = k" "up_to p boots i st" "off_from i st"
    using assms(2,3) by (simp_all add: smp_inv_def)
  let ?st = "(cpu_boot shared boots i k st)\<lparr>primary := Waiting (i + 1) (k + 1)\<rparr>"
  have "up_to p boots i ?st" using inv(3) assms(5) by (simp add: up_to_def cpu_boot_def)
  moreover have "off_from (i + 1) ?st" using inv(4) by (simp add: off_from_def cpu_boot_def)
  moreover have "starting p shared boots i ?st" using inv(1,4) by (simp add: starting_def cpu_boot_def off_from_def)
  moreover have "\<not> has_counted (secondaries ?st i)" using inv(4) by (simp add: cpu_boot_def off_from_def)
  moreover have "INITED_CPUS ?st = k" using inv(2) by (simp add: cpu_boot_def)
  ultimately show ?thesis using inv(1) assms(4,5) by (simp add: smp_inv_def)
qed

text \<open>A change of the CPU that is being started to another of its phases.\<close>

lemma inv_starting:
  assumes "smp_inv n p shared boots st" and "primary st = Waiting (i + 1) k"
    and "primary st' = primary st" and "stack_slot st' = stack_slot st"
    and "secondaries st' = (secondaries st)(i := c)"
    and "boots i" and "c = OnStack (stack_of p i) \<or> c = Counted (stack_of p i)"
    and "INITED_CPUS st' = (if has_counted c then k else k - 1)"
  shows "smp_inv n p shared boots st'"
proof -
  have inv: "i + 1 \<le> n" "i \<noteq> p" "k = stack_of p i + 1" "up_to p boots i st" "off_from (i + 1) st"
    "starting p shared boots i st"
    using assms(1,2) by (simp_all add: smp_inv_def)
  have "up_to p boots i st'" using inv(2,4) assms(5) by (simp add: up_to_def)
  moreover have "off_from (i + 1) st'" using inv(5) assms(5) by (simp add: off_from_def)
  moreover have "starting p shared boots i st'"
    using inv(6) assms(4-7) by (auto simp: starting_def)
  ultimately show ?thesis using inv(1-3) assms(2,3,5,8) by (simp add: smp_inv_def)
qed

lemma inv_serve:
  assumes "smp_inv n p shared boots st" and "secondaries st i = Counted s"
  shows "smp_inv n p shared boots (st\<lparr>secondaries := (secondaries st)(i := Serving s)\<rparr>)"
proof -
  let ?st = "st\<lparr>secondaries := (secondaries st)(i := Serving s)\<rparr>"
  have "up_to p boots m st \<Longrightarrow> up_to p boots m ?st" for m using assms(2) by (auto simp: up_to_def)
  moreover have "off_from m st \<Longrightarrow> off_from m ?st" for m using assms(2) by (auto simp: off_from_def)
  moreover have "starting p shared boots j st \<Longrightarrow> starting p shared boots j ?st" for j
    using assms(2) by (auto simp: starting_def split: if_splits)
  moreover have "has_counted (secondaries ?st j) = has_counted (secondaries st j)" for j
    using assms(2) by simp
  ultimately show ?thesis using assms(1) by (auto simp: smp_inv_def split: primary.splits)
qed

lemma inv_skip:
  assumes "p < n" and "smp_inv n p shared boots st" and "primary st = AtLoop i k" and "i < n"
    and "\<not> (i \<noteq> p \<and> k < n - 1)"
  shows "smp_inv n p shared boots (st\<lparr>primary := AtLoop (i + 1) k\<rparr>)"
proof -
  have inv: "k = stack_of p i" "INITED_CPUS st = k" "up_to p boots i st" "off_from i st"
    using assms(2,3) by (simp_all add: smp_inv_def)
  have i: "i = p" using assms(1,4,5) inv(1) by (auto simp: stack_of_def split: if_splits)
  then have "up_to p boots (i + 1) st" using inv(3) by (auto simp: up_to_def less_Suc_eq)
  moreover have "off_from (i + 1) st" using inv(4) by (simp add: off_from_def)
  ultimately show ?thesis using inv(1,2) i assms(4) by (simp add: smp_inv_def up_to_def off_from_def stack_of_def)
qed

lemma inv_poll:
  assumes "smp_inv n p shared boots st" and "primary st = Waiting i k" and "\<not> INITED_CPUS st < k"
  shows "smp_inv n p shared boots (st\<lparr>primary := AtLoop i k\<rparr>)"
proof -
  have inv: "0 < i" "i \<le> n" "i - 1 \<noteq> p" "k = stack_of p (i - 1) + 1" "up_to p boots (i - 1) st"
    "off_from i st" "starting p shared boots (i - 1) st"
    "INITED_CPUS st = (if has_counted (secondaries st (i - 1)) then k else k - 1)"
    using assms(1,2) by (simp_all add: smp_inv_def)
  have counted: "has_counted (secondaries st (i - 1))" "INITED_CPUS st = k"
    using inv(4,8) assms(3) by (auto split: if_splits)
  have "boots (i - 1) \<and> runs_on (secondaries st (i - 1)) = Some (stack_of p (i - 1))"
    using inv(7) counted(1) by (auto simp: starting_def split: if_splits)
  moreover have "j < i - 1 \<or> j = i - 1" if "j < i" for j using that by linarith
  ultimately have "up_to p boots i st"
    using inv(5) counted(1) unfolding up_to_def by metis
  moreover have "k = stack_of p i" using inv(1,3,4) by (auto simp: stack_of_def)
  ultimately show ?thesis using inv(2,6) counted(2) by (simp add: smp_inv_def up_to_def off_from_def)
qed

lemma inv_loop_done:
  assumes "p < n" and "smp_inv n p shared boots st" and "primary st = AtLoop i k" and "\<not> i < n"
  shows "smp_inv n p shared boots (st\<lparr>primary := AllStarted, INITED_CPUS := INITED_CPUS st + 1\<rparr>)"
  using assms by (auto simp: smp_inv_def up_to_def off_from_def stack_of_def)

lemma smp_inv_step:
  assumes "smp_step n p shared boots st st'" and "p < n" and "smp_inv n p shared boots st"
  shows "smp_inv n p shared boots st'"
  using assms(1)
proof cases
  case (boot i k)
  then show ?thesis using inv_boot[OF assms(2,3)] by simp
next
  case (skip i k)
  then show ?thesis using inv_skip[OF assms(2,3)] by simp
next
  case (poll i k)
  then show ?thesis using inv_poll[OF assms(3)] by simp
next
  case (loop_done i k)
  then show ?thesis using inv_loop_done[OF assms(2,3)] by simp
next
  case finish
  then show ?thesis using assms(3) by (simp add: smp_inv_def up_to_def off_from_def)
next
  case (enter_arg i s)
  then obtain k where w: "primary st = Waiting (i + 1) k" using the_starting_cpu[OF assms(3)] by blast
  then have "starting p shared boots i st" using assms(3) by (simp add: smp_inv_def)
  then have "s = stack_of p i \<and> boots i" using enter_arg by (auto simp: starting_def split: if_splits)
  then show ?thesis using assms(3) w enter_arg
    by (intro inv_starting[OF assms(3) w]) (auto simp: smp_inv_def)
next
  case (enter_slot i s)
  then obtain k where w: "primary st = Waiting (i + 1) k" using the_starting_cpu[OF assms(3)] by blast
  then have "starting p shared boots i st" using assms(3) by (simp add: smp_inv_def)
  then have "s = stack_of p i \<and> boots i" using enter_slot by (auto simp: starting_def split: if_splits)
  then show ?thesis using assms(3) w enter_slot
    by (intro inv_starting[OF assms(3) w]) (auto simp: smp_inv_def)
next
  case (count i s)
  then obtain k where w: "primary st = Waiting (i + 1) k" using the_starting_cpu[OF assms(3)] by blast
  then have "starting p shared boots i st" using assms(3) by (simp add: smp_inv_def)
  then have "s = stack_of p i \<and> boots i" using count by (auto simp: starting_def split: if_splits)
  then show ?thesis using assms(3) w count
    by (intro inv_starting[OF assms(3) w]) (auto simp: smp_inv_def)
next
  case (serve i s)
  then show ?thesis using inv_serve[OF assms(3)] by simp
qed

lemma smp_reachable_inv: "smp_reachable n p shared boots st \<Longrightarrow> p < n \<Longrightarrow> smp_inv n p shared boots st"
  by (induction rule: smp_reachable.induct) (auto intro: smp_inv_start smp_inv_step)

section \<open>What the protocol guarantees\<close>

lemma stack_of_less: "p < n \<Longrightarrow> i < n \<Longrightarrow> i \<noteq> p \<Longrightarrow> stack_of p i < n - 1"
  by (auto simp: stack_of_def)

lemma stack_of_inj: "i \<noteq> p \<Longrightarrow> j \<noteq> p \<Longrightarrow> stack_of p i = stack_of p j \<Longrightarrow> i = j"
  by (auto simp: stack_of_def split: if_splits)

lemma up_to_runs_on:
  assumes "up_to p boots m st" and "runs_on (secondaries st i) = Some s" and "i < m"
  shows "s = stack_of p i \<and> i \<noteq> p"
proof -
  have "i \<noteq> p" using assms(1,2) by (auto simp: up_to_def)
  moreover from this have "runs_on (secondaries st i) = Some (stack_of p i)"
    using assms(1,3) by (simp add: up_to_def)
  ultimately show ?thesis using assms(2) by simp
qed

lemma off_from_runs_on: "off_from m st \<Longrightarrow> runs_on (secondaries st i) = Some s \<Longrightarrow> i < m"
  by (rule ccontr) (simp add: off_from_def)

lemma runs_on_its_stack:
  assumes "smp_inv n p shared boots st" and "runs_on (secondaries st i) = Some s"
  shows "s = stack_of p i \<and> i < n \<and> i \<noteq> p"
proof (cases "primary st")
  case (AtLoop m k)
  then have "m \<le> n" "up_to p boots m st" "off_from m st" using assms(1) by (simp_all add: smp_inv_def)
  then show ?thesis using up_to_runs_on off_from_runs_on assms(2) by fastforce
next
  case (Waiting m k)
  then have inv: "0 < m" "m \<le> n" "m - 1 \<noteq> p" "up_to p boots (m - 1) st" "off_from m st"
    "starting p shared boots (m - 1) st"
    using assms(1) by (simp_all add: smp_inv_def)
  have "i < m" using off_from_runs_on inv(5) assms(2) by blast
  then consider "i < m - 1" | "i = m - 1" by linarith
  then show ?thesis
  proof cases
    case 1
    then show ?thesis using up_to_runs_on[OF inv(4) assms(2)] inv(2) by simp
  next
    case 2
    then show ?thesis using assms(2) inv(1-3,6) by (auto simp: starting_def split: if_splits)
  qed
next
  case AllStarted
  then have "up_to p boots n st" "off_from n st" using assms(1) by (simp_all add: smp_inv_def)
  then show ?thesis using up_to_runs_on off_from_runs_on assms(2) by blast
next
  case Finished
  then have "up_to p boots n st" "off_from n st" using assms(1) by (simp_all add: smp_inv_def)
  then show ?thesis using up_to_runs_on off_from_runs_on assms(2) by blast
qed

text \<open>
  C4: Whatever the order in which the CPUs take their steps, and also on the
  platforms where all secondary CPUs fetch their stack from the same slot, no
  two of them ever run on the same boot stack, and each uses one of the
  \<^verbatim>\<open>CPU_NUM - 1\<close> stacks that the kernel has set aside.
\<close>

theorem smp_own_stacks:
  assumes "smp_reachable n p shared boots st" and "p < n" and "i \<noteq> j"
    and "runs_on (secondaries st i) = Some s" and "runs_on (secondaries st j) = Some t"
  shows "s \<noteq> t \<and> s < n - 1 \<and> t < n - 1"
proof -
  have inv: "smp_inv n p shared boots st" using assms(1,2) by (rule smp_reachable_inv)
  have i: "s = stack_of p i" "i < n" "i \<noteq> p" using runs_on_its_stack[OF inv assms(4)] by simp_all
  have j: "t = stack_of p j" "j < n" "j \<noteq> p" using runs_on_its_stack[OF inv assms(5)] by simp_all
  show ?thesis
    using i j assms(2,3) stack_of_inj[of i p j] stack_of_less[of p n i] stack_of_less[of p n j] by blast
qed

text \<open>What is left to do, as a measure that every step decreases.\<close>

fun secondary_weight :: "secondary \<Rightarrow> nat" where
  "secondary_weight Off = 4"
| "secondary_weight (Released a) = 3"
| "secondary_weight (OnStack s) = 2"
| "secondary_weight (Counted s) = 1"
| "secondary_weight (Serving s) = 0"

fun primary_weight :: "nat \<Rightarrow> primary \<Rightarrow> nat" where
  "primary_weight n (AtLoop i k) = 3 * (n - i) + 2"
| "primary_weight n (Waiting i k) = 3 * (n - i) + 3"
| "primary_weight n AllStarted = 1"
| "primary_weight n Finished = 0"

definition smp_weight :: "nat \<Rightarrow> smp \<Rightarrow> nat" where
  "smp_weight n st = primary_weight n (primary st) + (\<Sum>i<n. secondary_weight (secondaries st i))"

lemma secondary_sum_less:
  "(i :: nat) < n \<Longrightarrow> secondary_weight c < secondary_weight (g i) \<Longrightarrow>
    (\<Sum>j<n. secondary_weight ((g(i := c)) j)) < (\<Sum>j<n. secondary_weight (g j))"
  by (rule sum_strict_mono_ex1) auto

lemma secondary_sum_le:
  "secondary_weight c \<le> secondary_weight (g (i :: nat)) \<Longrightarrow>
    (\<Sum>j<n. secondary_weight ((g(i := c)) j)) \<le> (\<Sum>j<n. secondary_weight (g j))"
  by (rule sum_mono) auto

lemma smp_step_weight:
  assumes "smp_step n p shared boots st st'" and "smp_inv n p shared boots st"
  shows "smp_weight n st' < smp_weight n st"
  using assms(1)
proof cases
  case (boot i k)
  then have "secondaries st i = Off" using assms(2) by (simp add: smp_inv_def off_from_def)
  then have "(\<Sum>j<n. secondary_weight (secondaries st' j)) \<le> (\<Sum>j<n. secondary_weight (secondaries st j))"
    unfolding boot(1) by (auto simp: cpu_boot_def intro!: secondary_sum_le simp del: fun_upd_apply)
  then show ?thesis using boot by (simp add: smp_weight_def)
next
  case (enter_arg i s)
  obtain k where "primary st = Waiting (i + 1) k"
    using the_starting_cpu[OF assms(2)] enter_arg by blast
  then have "i < n" using assms(2) by (simp add: smp_inv_def)
  then show ?thesis using enter_arg secondary_sum_less[of i n "OnStack s" "secondaries st"]
    by (simp add: smp_weight_def del: fun_upd_apply)
next
  case (enter_slot i s)
  obtain k where "primary st = Waiting (i + 1) k"
    using the_starting_cpu[OF assms(2)] enter_slot by blast
  then have "i < n" using assms(2) by (simp add: smp_inv_def)
  then show ?thesis using enter_slot secondary_sum_less[of i n "OnStack s" "secondaries st"]
    by (simp add: smp_weight_def del: fun_upd_apply)
next
  case (count i s)
  then have "i < n" using runs_on_its_stack[OF assms(2), of i s] by simp
  then show ?thesis using count secondary_sum_less[of i n "Counted s" "secondaries st"]
    by (simp add: smp_weight_def del: fun_upd_apply)
next
  case (serve i s)
  then have "i < n" using runs_on_its_stack[OF assms(2), of i s] by simp
  then show ?thesis using serve secondary_sum_less[of i n "Serving s" "secondaries st"]
    by (simp add: smp_weight_def del: fun_upd_apply)
qed (auto simp: smp_weight_def)

text \<open>The protocol is never stuck before every CPU serves.\<close>

lemma counted_cases: "has_counted c \<Longrightarrow> (\<exists>s. c = Counted s) \<or> (\<exists>s. c = Serving s)"
  by (cases c) auto

lemma smp_progress:
  assumes "smp_inv n p shared boots st" and "\<forall>i<n. i \<noteq> p \<longrightarrow> boots i"
    and "\<nexists>st'. smp_step n p shared boots st st'"
  shows "primary st = Finished \<and> (\<forall>i<n. i \<noteq> p \<longrightarrow> secondaries st i = Serving (stack_of p i))"
proof (cases "primary st")
  case (AtLoop i k)
  have "\<exists>st'. smp_step n p shared boots st st'"
  proof (cases "i < n")
    case True
    then show ?thesis
      using smp_step.boot[OF AtLoop True] smp_step.skip[OF AtLoop True] by (cases "i \<noteq> p \<and> k < n - 1") blast+
  next
    case False
    then show ?thesis using smp_step.loop_done[OF AtLoop] by blast
  qed
  then show ?thesis using assms(3) by blast
next
  case (Waiting i k)
  let ?c = "secondaries st (i - 1)"
  from Waiting assms(1) have inv: "0 < i" "i \<le> n" "i - 1 \<noteq> p" "starting p shared boots (i - 1) st"
    "INITED_CPUS st = (if has_counted ?c then k else k - 1)"
    by (simp_all add: smp_inv_def)
  have "INITED_CPUS st < k" using assms(3) smp_step.poll[OF Waiting] by blast
  then have "\<not> has_counted ?c" using inv(5) by auto
  moreover have "boots (i - 1)" using assms(2) inv(1-3) by simp
  ultimately have "?c = Released (if shared then None else Some (stack_of p (i - 1))) \<or>
      ?c = OnStack (stack_of p (i - 1))" and "shared \<longrightarrow> stack_slot st = Some (stack_of p (i - 1))"
    using inv(4) by (auto simp: starting_def)
  then show ?thesis
    using assms(3) by (metis smp_step.enter_arg smp_step.enter_slot smp_step.count)
next
  case AllStarted
  then have "init_smp_ok n st" using assms(1) by (simp add: smp_inv_def init_smp_ok_def)
  then show ?thesis using AllStarted assms(3) smp_step.finish by blast
next
  case Finished
  then have inv: "init_smp_ok n st" "up_to p boots n st"
    using assms(1) by (simp_all add: smp_inv_def init_smp_ok_def)
  have "secondaries st i = Serving (stack_of p i)" if "i < n" "i \<noteq> p" for i
  proof -
    have "has_counted (secondaries st i)" and on: "runs_on (secondaries st i) = Some (stack_of p i)"
      using inv(2) that by (simp_all add: up_to_def)
    then have "\<exists>s. secondaries st i = Serving s"
      using counted_cases assms(3) smp_step.serve[OF _ inv(1)] by metis
    then show ?thesis using on by auto
  qed
  then show ?thesis using Finished by blast
qed

text \<open>A secondary CPU serves only when the count is complete, after the loop.\<close>

lemma inited_before_end:
  assumes "smp_inv n p shared boots st" and "p < n" and "init_smp_ok n st"
  shows "primary st = AllStarted \<or> primary st = Finished"
proof (cases "primary st")
  case (AtLoop i k)
  then show ?thesis using assms by (auto simp: smp_inv_def init_smp_ok_def stack_of_def split: if_splits)
next
  case (Waiting i k)
  then have "0 < i" "i \<le> n" "i - 1 \<noteq> p" "k = stack_of p (i - 1) + 1" "INITED_CPUS st \<le> k"
    using assms(1) by (auto simp: smp_inv_def)
  moreover from this have "stack_of p (i - 1) < n - 1" by (intro stack_of_less assms) simp_all
  ultimately have "INITED_CPUS st < n" by linarith
  then show ?thesis using assms(3) by (simp add: init_smp_ok_def)
qed simp_all

lemma serving_after_loop:
  assumes "smp_reachable n p shared boots st" and "p < n" and "secondaries st i = Serving s"
  shows "primary st = AllStarted \<or> primary st = Finished"
  using assms(1,3)
proof (induction arbitrary: i s rule: smp_reachable.induct)
  case reach_start
  then show ?case by (simp add: smp_start_def)
next
  case (reach_step st st')
  have inv: "smp_inv n p shared boots st" using smp_reachable_inv[OF reach_step.hyps(1) assms(2)] .
  from reach_step.hyps(2) show ?case
  proof cases
    case (serve j t)
    then show ?thesis using inited_before_end[OF inv assms(2)] by simp
  qed (use reach_step.IH reach_step.prems in
    \<open>fastforce simp: cpu_boot_def fun_upd_apply split: if_splits\<close>)+
qed

text \<open>
  C5: If the platform starts every CPU it is asked to, every run of the
  protocol ends, and it ends with every secondary CPU serving on its own
  stack and the primary past its loop; no step order blocks it.  If \<^verbatim>\<open>cpu_boot\<close>
  does nothing for one of the CPUs, the primary never gets past its loop and
  no CPU ever serves.
\<close>

theorem smp_boot_completes:
  assumes "smp_reachable n p shared boots st" and "p < n"
  shows "(\<forall>st'. smp_step n p shared boots st st' \<longrightarrow> smp_weight n st' < smp_weight n st) \<and>
    ((\<forall>i<n. i \<noteq> p \<longrightarrow> boots i) \<and> (\<nexists>st'. smp_step n p shared boots st st') \<longrightarrow>
      primary st = Finished \<and> (\<forall>i<n. i \<noteq> p \<longrightarrow> secondaries st i = Serving (stack_of p i))) \<and>
    (dead < n \<and> dead \<noteq> p \<and> \<not> boots dead \<longrightarrow>
      primary st \<noteq> AllStarted \<and> primary st \<noteq> Finished \<and> (\<forall>i s. secondaries st i \<noteq> Serving s))"
proof -
  have inv: "smp_inv n p shared boots st" using assms by (rule smp_reachable_inv)
  have "primary st \<noteq> AllStarted \<and> primary st \<noteq> Finished" if "dead < n" "dead \<noteq> p" "\<not> boots dead"
    using inv that by (auto simp: smp_inv_def up_to_def)
  then show ?thesis
    using smp_step_weight[OF _ inv] smp_progress[OF inv] serving_after_loop[OF assms] by blast
qed

section \<open>A run\<close>

text \<open>
  Three CPUs with one stack slot: the primary has started both others, the
  second of which has just fetched its stack.
\<close>

lemma example_run:
  "\<exists>st. smp_reachable 3 0 True (\<lambda>_. True) st \<and>
    secondaries st 1 = Counted 0 \<and> secondaries st 2 = OnStack 1"
proof -
  let ?R = "smp_reachable 3 0 True (\<lambda>_. True)"
  let ?b = "\<lambda>i k st. (cpu_boot True (\<lambda>_. True) i k st)\<lparr>primary := Waiting (i + 1) (k + 1)\<rparr>"
  let ?e = "\<lambda>i s st. st\<lparr>secondaries := (secondaries st)(i := OnStack s)\<rparr>"
  define s1 where "s1 = smp_start\<lparr>primary := AtLoop (0 + 1) 0\<rparr>"
  define s2 where "s2 = ?b 1 0 s1"
  define s3 where "s3 = ?e 1 0 s2"
  define s4 where "s4 = s3\<lparr>secondaries := (secondaries s3)(1 := Counted 0), INITED_CPUS := INITED_CPUS s3 + 1\<rparr>"
  define s5 where "s5 = s4\<lparr>primary := AtLoop 2 1\<rparr>"
  define s6 where "s6 = ?b 2 1 s5"
  define s7 where "s7 = ?e 2 1 s6"
  note defs = s1_def s2_def s3_def s4_def s5_def s6_def s7_def cpu_boot_def smp_start_def
  have "?R s1" unfolding s1_def
    by (rule reach_step[OF reach_start], rule smp_step.skip) (simp_all add: smp_start_def)
  then have "?R s2" unfolding s2_def by (rule reach_step, intro smp_step.boot) (simp_all add: defs)
  then have "?R s3" unfolding s3_def by (rule reach_step, intro smp_step.enter_slot) (simp_all add: defs)
  then have "?R s4" unfolding s4_def by (rule reach_step, intro smp_step.count) (simp_all add: defs)
  then have "?R s5" unfolding s5_def by (rule reach_step, intro smp_step.poll) (simp_all add: defs)
  then have "?R s6" unfolding s6_def by (rule reach_step, intro smp_step.boot) (simp_all add: defs)
  then have "?R s7" unfolding s7_def by (rule reach_step, intro smp_step.enter_slot) (simp_all add: defs)
  moreover have "secondaries s7 1 = Counted 0 \<and> secondaries s7 2 = OnStack 1" by (simp add: defs)
  ultimately show ?thesis by blast
qed

theorem smp_own_stacks_witness:
  "\<exists>st s t. smp_reachable 3 0 True (\<lambda>_. True) st \<and> runs_on (secondaries st 1) = Some s \<and>
    runs_on (secondaries st 2) = Some t \<and> s \<noteq> t"
proof -
  obtain st where r: "smp_reachable 3 0 True (\<lambda>_. True) st"
    and c: "secondaries st 1 = Counted 0" "secondaries st 2 = OnStack 1"
    using example_run by blast
  have s: "runs_on (secondaries st 1) = Some 0" "runs_on (secondaries st 2) = Some 1" using c by simp_all
  then show ?thesis using smp_own_stacks[OF r, of 1 2 0 1] r by auto
qed

theorem smp_boot_completes_witness:
  "smp_reachable 2 0 True (\<lambda>i. i \<noteq> 1) smp_start \<and> primary smp_start \<noteq> Finished \<and>
    smp_weight 2 (smp_start\<lparr>primary := AtLoop 1 0\<rparr>) < smp_weight 2 smp_start"
proof -
  have r: "smp_reachable 2 0 True (\<lambda>i. i \<noteq> 1) smp_start" by (rule reach_start)
  have "smp_step 2 0 True (\<lambda>i. i \<noteq> 1) smp_start (smp_start\<lparr>primary := AtLoop (0 + 1) 0\<rparr>)"
    by (rule smp_step.skip) (simp_all add: smp_start_def)
  then show ?thesis using r smp_boot_completes[OF r, of 1] by simp
qed

section \<open>The shared slot as a refinement\<close>

text \<open>
  The abstract protocol hands each CPU its stack.  A state with the shared slot
  stands for the one in which a released CPU already has the slot's stack as its
  argument.
\<close>

definition hand_over :: "nat option \<Rightarrow> secondary \<Rightarrow> secondary" where
  "hand_over slot c = (if c = Released None then Released slot else c)"

definition pass_stack :: "smp \<Rightarrow> smp" where
  "pass_stack st = st\<lparr>stack_slot := None, secondaries := hand_over (stack_slot st) \<circ> secondaries st\<rparr>"

lemma pass_stack_sel [simp]:
  "primary (pass_stack st) = primary st" "INITED_CPUS (pass_stack st) = INITED_CPUS st"
  "secondaries (pass_stack st) i = hand_over (stack_slot st) (secondaries st i)"
  by (simp_all add: pass_stack_def)

lemma pass_stack_upd [simp]:
  "pass_stack (st\<lparr>primary := x\<rparr>) = (pass_stack st)\<lparr>primary := x\<rparr>"
  "pass_stack (st\<lparr>INITED_CPUS := m\<rparr>) = (pass_stack st)\<lparr>INITED_CPUS := m\<rparr>"
  "pass_stack (st\<lparr>secondaries := (secondaries st)(i := c)\<rparr>) =
    (pass_stack st)\<lparr>secondaries := (secondaries (pass_stack st))(i := hand_over (stack_slot st) c)\<rparr>"
  by (simp_all add: pass_stack_def fun_upd_comp)

lemma pass_stack_boot:
  assumes "\<And>j. secondaries st j \<noteq> Released None"
  shows "pass_stack (cpu_boot True boots i k st) = cpu_boot False boots i k (pass_stack st)"
proof -
  have "hand_over slot \<circ> secondaries st = secondaries st" for slot
    using assms by (auto simp: fun_eq_iff hand_over_def)
  then show ?thesis using assms[of i] by (simp add: pass_stack_def cpu_boot_def fun_upd_comp hand_over_def)
qed

lemma pass_stack_step:
  assumes "smp_step n p True boots st st'" and "smp_inv n p True boots st"
  shows "smp_step n p False boots (pass_stack st) (pass_stack st')"
  using assms(1)
proof cases
  case (boot i k)
  have "secondaries st j \<noteq> Released None" for j
    using the_starting_cpu[OF assms(2), of j] boot(2) by fastforce
  then have "pass_stack st' = (cpu_boot False boots i k (pass_stack st))\<lparr>primary := Waiting (i + 1) (k + 1)\<rparr>"
    using boot(1) by (simp add: pass_stack_boot)
  then show ?thesis using smp_step.boot[of "pass_stack st" i k n p False boots] boot by simp
next
  case (skip i k)
  then show ?thesis using smp_step.skip[of "pass_stack st" i k n p False boots] by simp
next
  case (poll i k)
  then show ?thesis using smp_step.poll[of "pass_stack st" i k n p False boots] by simp
next
  case (loop_done i k)
  then show ?thesis using smp_step.loop_done[of "pass_stack st" i k n p False boots] by simp
next
  case finish
  then show ?thesis using smp_step.finish[of "pass_stack st" n p False boots] by (simp add: init_smp_ok_def)
next
  case (enter_arg i s)
  then show ?thesis using smp_step.enter_arg[of "pass_stack st" i s n p False boots]
    by (simp add: hand_over_def)
next
  case (enter_slot i s)
  then show ?thesis using smp_step.enter_arg[of "pass_stack st" i s n p False boots]
    by (simp add: hand_over_def)
next
  case (count i s)
  then show ?thesis using smp_step.count[of "pass_stack st" i s n p False boots]
    by (simp add: hand_over_def)
next
  case (serve i s)
  then show ?thesis using smp_step.serve[of "pass_stack st" i s n p False boots]
    by (simp add: hand_over_def init_smp_ok_def)
qed

text \<open>
  C6: The protocol with one shared stack slot refines the protocol that hands
  each CPU its stack as an argument: it starts in the same state, every step of
  it is a step of the abstract protocol, and so every state it reaches stands
  for a reachable abstract state in which the same CPUs run on the same stacks.
\<close>

theorem shared_slot_refines:
  assumes "smp_reachable n p True boots st" and "p < n"
  shows "pass_stack smp_start = smp_start \<and>
    (\<forall>st'. smp_step n p True boots st st' \<longrightarrow>
      smp_step n p False boots (pass_stack st) (pass_stack st')) \<and>
    smp_reachable n p False boots (pass_stack st) \<and>
    (\<forall>i. runs_on (secondaries (pass_stack st) i) = runs_on (secondaries st i))"
proof -
  have start: "pass_stack smp_start = smp_start"
    by (simp add: pass_stack_def smp_start_def hand_over_def comp_def)
  have "smp_reachable n p False boots (pass_stack st)"
    using assms(1)
  proof (induction rule: smp_reachable.induct)
    case reach_start
    then show ?case using start smp_reachable.reach_start[of n p False boots] by simp
  next
    case (reach_step st st')
    show ?case
      using reach_step.IH pass_stack_step[OF reach_step.hyps(2) smp_reachable_inv[OF reach_step.hyps(1) assms(2)]]
      by (rule smp_reachable.reach_step)
  qed
  moreover have "runs_on (hand_over slot c) = runs_on c" for slot c by (simp add: hand_over_def)
  ultimately show ?thesis
    using start pass_stack_step smp_reachable_inv[OF assms] by simp
qed

theorem shared_slot_refines_witness:
  "\<exists>st. smp_reachable 3 0 False (\<lambda>_. True) (pass_stack st) \<and>
    runs_on (secondaries (pass_stack st) 2) = Some 1"
proof -
  obtain st where r: "smp_reachable 3 0 True (\<lambda>_. True) st" and "secondaries st 2 = OnStack 1"
    using example_run by blast
  then show ?thesis using shared_slot_refines[OF r] by (intro exI[of _ st]) (simp add: hand_over_def)
qed

end
