(* ===== verification/Smp_Main.thy ===== *)
theory Smp_Main
  imports Kernel_Main Smp_Kernel
begin

text \<open>
  The two entry functions of the multi-core example kernel (\<^verbatim>\<open>examples/smp-kernel\<close>) as they run on
  a linked platform.  Each CPU reads the shared counter \<^verbatim>\<open>INITED_CPUS\<close> while the others count
  themselves in: what the loads see is an input here, and the protocol between the CPUs is that of
  \<open>Smp_Kernel\<close>.
\<close>

section \<open>Initialisation\<close>

text \<open>\<open>in_place\<close> says whether \<^verbatim>\<open>percpu::init_in_place\<close> succeeds.\<close>

definition smp_init_kernel ::
  "bool \<Rightarrow> ('w, 's, 'h) linked_platform \<Rightarrow> 'w \<Rightarrow> 'w \<Rightarrow> 's \<Rightarrow> (('w, 'h) kernel_cmd, 's) io" where
  "smp_init_kernel in_place A cpu_id arg st =
     seq_io (emit PercpuInPlace)
     (if \<not> in_place then lift_io (Inl UnwrapErr)
      else seq_io (emit (PercpuReg cpu_id))
        (seq_io (emit (WriteCpuId cpu_id)) (via InitCmd (init_kernel (lk_init A) cpu_id arg st))))"

definition smp_init_kernel_secondary ::
  "('w, 's, 'h) linked_platform \<Rightarrow> 'w \<Rightarrow> 's \<Rightarrow> (('w, 'h) kernel_cmd, 's) io" where
  "smp_init_kernel_secondary A cpu_id st =
     seq_io (emit (PercpuReg cpu_id))
       (seq_io (emit (WriteCpuId cpu_id)) (via InitCmd (init_kernel_secondary (lk_init A) cpu_id st)))"

text \<open>The per-CPU variable \<^verbatim>\<open>CPU_ID\<close>: each CPU has its own, written by \<^verbatim>\<open>init_cpu_id\<close>.\<close>

definition init_cpu_id :: "'c \<Rightarrow> 'w \<Rightarrow> ('c \<Rightarrow> 'w) \<Rightarrow> 'c \<Rightarrow> 'w" where
  "init_cpu_id cpu cpu_id ids = ids(cpu := cpu_id)"

definition this_cpu_id :: "'c \<Rightarrow> ('c \<Rightarrow> 'w) \<Rightarrow> 'w" where
  "this_cpu_id cpu ids = ids cpu"

text \<open>
  The timer handler of this kernel prints before it programs the next interrupt; the counter is read for
  the line, for the time and to program the timer.
\<close>

definition smp_update_timer_io ::
  "profile \<Rightarrow> time_if \<Rightarrow> 'w::len word \<Rightarrow> u64 \<times> u64 \<times> u64 \<Rightarrow> u64 \<Rightarrow> (('w word, 'h) kernel_cmd, u64) io" where
  "smp_update_timer_io p T this_cpu cs next_deadline =
     bind_io (lift_io (monotonic_time T (fst cs))) (\<lambda>t.
     seq_io (emit (PrintLine [DebugTime t, Lit '' elapsed. Timer IRQ processed on CPU '', Dec (unat this_cpu), Lit ''.'']))
     (bind_io (lift_io (monotonic_time_nanos T (fst (snd cs)))) (\<lambda>now_ns.
      bind_io (lift_io (smp_kernel_update_timer p now_ns next_deadline)) (\<lambda>(deadline, nd).
      seq_io (via TimerCmd (set_oneshot_timer T (snd (snd cs)) deadline)) (ret_io nd)))))"

section \<open>Starting the secondary CPUs\<close>

text \<open>
  A spinning loop whose \<open>j\<close>-th test is \<open>c j\<close>; the result is the number of the next
  load.
\<close>

partial_function (option) spin_while :: "(nat \<Rightarrow> bool) \<Rightarrow> nat \<Rightarrow> nat option" where
  [code]: "spin_while c j = (if c j then spin_while c (Suc j) else Some (Suc j))"

definition spin :: "(nat \<Rightarrow> bool) \<Rightarrow> nat \<Rightarrow> ('c, nat) run" where
  "spin c j = run_opt (map_option ret_io (spin_while c j))"

text \<open>
  The loop of \<^verbatim>\<open>start_secondary_cpus\<close> over the remaining ids, with \<open>k\<close> CPUs started:
  \<open>stack_top k\<close> is the end of the boot stack \<open>k\<close>, \<open>inited j\<close> the value of the \<open>j\<close>-th load of
  \<^verbatim>\<open>INITED_CPUS\<close>.
\<close>

fun start_loop ::
  "('w::len word power_if) \<Rightarrow> ('w word \<Rightarrow> panic + 'w word) \<Rightarrow> (nat \<Rightarrow> 'w word) \<Rightarrow> nat \<Rightarrow> nat \<Rightarrow> (nat \<Rightarrow> nat) \<Rightarrow>
    nat list \<Rightarrow> nat \<Rightarrow> nat \<Rightarrow> (('w word, 'h) kernel_cmd, nat) run" where
  "start_loop P v2p stack_top n primary_id inited [] k j = ([], Some (Inr j))"
| "start_loop P v2p stack_top n primary_id inited (i # is) k j =
    (if i \<noteq> primary_id \<and> k < n - 1
     then bind_run (run_io (lift_io (v2p (stack_top k)))) (\<lambda>stack.
          bind_run (run_io (via PowerCmd (pw_cpu_boot P (of_nat i) stack))) (\<lambda>_.
          bind_run (spin (\<lambda>j. inited j < k + 1) j) (\<lambda>j'.
          start_loop P v2p stack_top n primary_id inited is (k + 1) j')))
     else start_loop P v2p stack_top n primary_id inited is k j)"

definition start_secondary_cpus ::
  "('w::len word power_if) \<Rightarrow> ('w word \<Rightarrow> panic + 'w word) \<Rightarrow> (nat \<Rightarrow> 'w word) \<Rightarrow> nat \<Rightarrow> nat \<Rightarrow> (nat \<Rightarrow> nat) \<Rightarrow>
    (('w word, 'h) kernel_cmd, nat) run" where
  "start_secondary_cpus P v2p stack_top n primary_id inited =
     start_loop P v2p stack_top n primary_id inited [0..<n] 0 0"

section \<open>The entry functions\<close>

text \<open>
  What the primary CPU finds: whether its per-CPU area can be set up, the boot
  stacks and their translation, the loads of \<^verbatim>\<open>INITED_CPUS\<close>, and the counter.
\<close>

record 'w smp_inputs =
  in_place_ok :: bool
  stack_v2p :: "'w \<Rightarrow> panic + 'w"
  boot_stack_end :: "nat \<Rightarrow> 'w"
  inited_loads :: "nat \<Rightarrow> nat"
  wait_reads :: "nat \<Rightarrow> u64"

definition smp_main ::
  "profile \<Rightarrow> ('w::len word, 's, 'h) linked_platform \<Rightarrow> 'h \<Rightarrow> nat \<Rightarrow> 'w word smp_inputs \<Rightarrow> 's \<Rightarrow> 'w word \<Rightarrow> 'w word \<Rightarrow> 's \<Rightarrow>
    (('w word, 'h) kernel_cmd, unit) run" where
  "smp_main p A update n inp left cpu_id arg st =
     unless_panic A left (run_io (smp_init_kernel (in_place_ok inp) A cpu_id arg st)) (\<lambda>st1.
     unless_panic A st1
       (bind_run (say [Lit ''Hello, ArceOS!'']) (\<lambda>_.
        bind_run (say [Lit ''Primary CPU '', Dec (unat cpu_id), Lit '' started.'']) (\<lambda>_.
        bind_run (start_secondary_cpus (lk_power A st1) (stack_v2p inp) (boot_stack_end inp) n (unat cpu_id)
          (inited_loads inp)) (\<lambda>j.
        bind_run (init_irq A update st1) (\<lambda>st2. ([], Some (Inr (j, st2))))))))
       (\<lambda>(j, st2).
     unless_panic A st2
       (bind_run
         (bind_run (say [Lit ''Primary CPU '', Dec (unat cpu_id), Lit '' init OK.'']) (\<lambda>_.
          bind_run (spin (\<lambda>j. inited_loads inp j \<noteq> n) j) (\<lambda>_.
          bind_run (run_opt (map_option (\<lambda>(k, r). ([], r)) (busy_wait p (lk_time A st2) (wait_reads inp) (from_secs 5)))) (\<lambda>_.
          say [Lit ''Primary CPU '', Dec (unat cpu_id), Lit '' finished. Shutting down...'']))))
         (\<lambda>_. system_off A st2))
       (\<lambda>_. ([], Some (Inr ())))))"

text \<open>A secondary CPU never leaves its last loop; the statics are those that the other CPUs have set up.\<close>

definition smp_secondary_main ::
  "('w::len word, 's, 'h) linked_platform \<Rightarrow> nat \<Rightarrow> (nat \<Rightarrow> nat) \<Rightarrow> 's \<Rightarrow> 'w word \<Rightarrow> 's \<Rightarrow>
    (('w word, 'h) kernel_cmd, unit) run" where
  "smp_secondary_main A n inited left cpu_id st =
     unless_panic A left (run_io (smp_init_kernel_secondary A cpu_id st)) (\<lambda>_.
     bind_run (say [Lit ''Secondary CPU '', Dec (unat cpu_id), Lit '' init OK.'']) (\<lambda>_.
     bind_run (spin (\<lambda>j. inited j \<noteq> n) 0) (\<lambda>_.
     ([EnableIrqs], None))))"

section \<open>What the loop starts\<close>

lemma spin_while_stops:
  "\<not> c k \<Longrightarrow> j \<le> k \<Longrightarrow> \<exists>j'. spin_while c j = Some (Suc j') \<and> j \<le> j' \<and> j' \<le> k \<and> \<not> c j'"
proof (induction "k - j" arbitrary: j)
  case 0
  then show ?case by (subst spin_while.simps) auto
next
  case (Suc d)
  show ?case
  proof (cases "c j")
    case True
    have "d = k - Suc j" "Suc j \<le> k" using Suc.hyps(2) by simp_all
    then obtain j' where "spin_while c (Suc j) = Some (Suc j')" "Suc j \<le> j'" "j' \<le> k" "\<not> c j'"
      using Suc.hyps(1)[of "Suc j"] Suc.prems(1) by blast
    then show ?thesis using True by (subst spin_while.simps) (auto intro!: exI[of _ j'])
  next
    case False
    then show ?thesis using Suc.prems(2) by (subst spin_while.simps) auto
  qed
qed


text \<open>The started CPUs: the ids other than the primary's, as many as there are stacks.\<close>

definition started_cpus :: "nat \<Rightarrow> nat \<Rightarrow> nat list" where
  "started_cpus n primary_id = take (n - 1) (filter (\<lambda>i. i \<noteq> primary_id) [0..<n])"

lemma start_loop_cmds:
  fixes P :: "'w::len word power_if"
  assumes stacks: "\<And>k. k < n - 1 \<Longrightarrow> v2p (stack_top k) = Inr (pa k)"
    and boots: "\<And>i k. i \<in> set js \<Longrightarrow> k < n - 1 \<Longrightarrow> pw_cpu_boot P (of_nat i) (pa k) = (boot i k, Inr ())"
    and loads: "\<And>j. J \<le> j \<Longrightarrow> n - 1 \<le> inited j"
  shows "\<exists>j'. (start_loop P v2p stack_top n primary_id inited js k j :: (('w word, 'h) kernel_cmd, nat) run) =
    (concat (map (\<lambda>(k, i). map PowerCmd (boot i k)) (enumerate k (take (n - 1 - k) (filter (\<lambda>i. i \<noteq> primary_id) js)))),
     Some (Inr j'))"
  using boots
proof (induction js arbitrary: k j)
  case (Cons i js)
  then have IH: "\<exists>j'. (start_loop P v2p stack_top n primary_id inited js k j :: (('w word, 'h) kernel_cmd, nat) run) =
    (concat (map (\<lambda>(k, i). map PowerCmd (boot i k)) (enumerate k (take (n - 1 - k) (filter (\<lambda>i. i \<noteq> primary_id) js)))),
     Some (Inr j'))" for k j by simp
  show ?case
  proof (cases "i \<noteq> primary_id \<and> k < n - 1")
    case True
    have "\<not> inited (max j J) < k + 1" using loads[of "max j J"] True by simp
    from spin_while_stops[of "\<lambda>j. inited j < k + 1", OF this, of j] obtain j1 where
      j1: "spin_while (\<lambda>j. inited j < k + 1) j = Some (Suc j1)" by auto
    have len: "n - 1 - k = Suc (n - 1 - (k + 1))" using True by arith
    have boot: "pw_cpu_boot P (of_nat i) (pa k) = (boot i k, Inr ())" using Cons.prems[of i k] True by simp
    have "filter (\<lambda>i. i \<noteq> primary_id) (i # js) = i # filter (\<lambda>i. i \<noteq> primary_id) js" using True by simp
    then have tail: "enumerate k (take (n - 1 - k) (filter (\<lambda>i. i \<noteq> primary_id) (i # js))) =
        (k, i) # enumerate (k + 1) (take (n - 1 - (k + 1)) (filter (\<lambda>i. i \<noteq> primary_id) js))"
      unfolding len by simp
    obtain j' where "(start_loop P v2p stack_top n primary_id inited js (k + 1) (Suc j1) :: (('w word, 'h) kernel_cmd, nat) run) =
      (concat (map (\<lambda>(k, i). map PowerCmd (boot i k))
        (enumerate (k + 1) (take (n - 1 - (k + 1)) (filter (\<lambda>i. i \<noteq> primary_id) js)))), Some (Inr j'))"
      using IH by blast
    then show ?thesis
      using True stacks[of k] boot j1 unfolding tail
      by (simp add: lift_io_def via_def spin_def run_opt_def ret_io_def)
  next
    case False
    then have "take (n - 1 - k) (filter (\<lambda>i. i \<noteq> primary_id) (i # js)) = take (n - 1 - k) (filter (\<lambda>i. i \<noteq> primary_id) js)"
      by (cases "i = primary_id") simp_all
    then show ?thesis using False IH[of k j] by auto
  qed
qed simp

text \<open>With a primary CPU among the \<open>n\<close>, CPU \<open>i\<close> gets the stack that the protocol gives it.\<close>

lemma started_stack_of:
  assumes "primary_id < n"
  shows "enumerate 0 (started_cpus n primary_id) = map (\<lambda>i. (stack_of primary_id i, i)) (filter (\<lambda>i. i \<noteq> primary_id) [0..<n])"
proof -
  have "[0..<n] = [0..<primary_id] @ primary_id # [Suc primary_id..<n]"
    using assms upt_add_eq_append[of 0 primary_id "n - primary_id"] by (simp add: upt_conv_Cons)
  then have f: "filter (\<lambda>i. i \<noteq> primary_id) [0..<n] = [0..<primary_id] @ [Suc primary_id..<n]"
    by (simp add: filter_id_conv)
  then have "started_cpus n primary_id = [0..<primary_id] @ [Suc primary_id..<n]"
    using assms by (simp add: started_cpus_def)
  moreover have "enumerate 0 [0..<primary_id] = map (\<lambda>i. (i, i)) [0..<primary_id]"
    by (simp add: enumerate_eq_zip zip_same_conv_map)
  moreover have "enumerate primary_id [Suc primary_id..<n] = map (\<lambda>i. (i - 1, i)) [Suc primary_id..<n]"
    by (rule nth_equalityI) (simp_all add: nth_enumerate_eq)
  ultimately show ?thesis unfolding f by (auto simp: enumerate_append_eq stack_of_def)
qed

lemma start_secondary_cpus_cmds:
  fixes P :: "'w::len word power_if"
  assumes "\<And>k. k < n - 1 \<Longrightarrow> v2p (stack_top k) = Inr (pa k)"
    and "\<And>i k. i < n \<Longrightarrow> k < n - 1 \<Longrightarrow> pw_cpu_boot P (of_nat i) (pa k) = (boot i k, Inr ())"
    and "\<And>j. J \<le> j \<Longrightarrow> n - 1 \<le> inited j" and "primary_id < n"
  shows "\<exists>j'. (start_secondary_cpus P v2p stack_top n primary_id inited :: (('w word, 'h) kernel_cmd, nat) run) =
    (concat (map (\<lambda>i. map PowerCmd (boot i (stack_of primary_id i))) (filter (\<lambda>i. i \<noteq> primary_id) [0..<n])),
     Some (Inr j'))"
proof -
  have "\<exists>j'. (start_secondary_cpus P v2p stack_top n primary_id inited :: (('w word, 'h) kernel_cmd, nat) run) =
    (concat (map (\<lambda>(k, i). map PowerCmd (boot i k)) (enumerate 0 (started_cpus n primary_id))), Some (Inr j'))"
    using start_loop_cmds[where v2p = v2p and stack_top = stack_top and P = P and boot = boot and inited = inited
        and J = J and js = "[0..<n]" and k = 0 and j = 0 and primary_id = primary_id, OF assms(1) _ assms(3)] assms(2)
    by (simp add: start_secondary_cpus_def started_cpus_def)
  then show ?thesis unfolding started_stack_of[OF assms(4)] by (simp add: comp_def)
qed

section \<open>The ends of the entry functions\<close>

lemma smp_main_ends:
  assumes "\<And>st m. pw_system_off (lk_power A st) = Some m \<Longrightarrow> stays_off m"
  shows "ends_off (smp_main p A update n inp left cpu_id arg st)"
  unfolding smp_main_def
  by (intro unless_panic_ends last_part_ends system_off_ends assms)
    (auto simp: case_prod_unfold intro!: unless_panic_ends last_part_ends system_off_ends assms)

lemma ends_off_waiting: "snd m = None \<Longrightarrow> ends_off m"
  by (simp add: ends_off_def)

lemma smp_secondary_main_ends:
  fixes A :: "('w::len word, 's, 'h) linked_platform"
  assumes "\<And>st m. pw_system_off (lk_power A st) = Some m \<Longrightarrow> stays_off m"
  shows "ends_off (smp_secondary_main A n inited left cpu_id st)"
proof -
  have "snd (bind_run (say pieces) (\<lambda>_. bind_run (spin c 0) (\<lambda>_. ([EnableIrqs], None)))) = None" for pieces c
    by (cases "spin_while c 0") (auto simp: spin_def run_opt_def ret_io_def say_def)
  note none = this
  show ?thesis
    unfolding smp_secondary_main_def
    by (intro unless_panic_ends system_off_ends assms; assumption?) (rule ends_off_waiting[OF none])
qed


section \<open>Properties\<close>

text \<open>
  C17: Run as the program it is, the loop of the primary CPU issues, in the order of the ids, one
  \<^verbatim>\<open>cpu_boot\<close> for every other CPU, with the physical end of the boot stack that the
  protocol of the kernel gives that CPU, and then ends: as soon as the loads of
  \<^verbatim>\<open>INITED_CPUS\<close> see the others counted in, no boot panics and no stack outside the
  \<^verbatim>\<open>CPU_NUM - 1\<close> that exist is used.
\<close>

theorem primary_starts_others:
  fixes P :: "'w::len word power_if"
  assumes "\<And>k. k < n - 1 \<Longrightarrow> v2p (stack_top k) = Inr (pa k)"
    and "\<And>i k. i < n \<Longrightarrow> k < n - 1 \<Longrightarrow> pw_cpu_boot P (of_nat i) (pa k) = (boot i k, Inr ())"
    and "\<And>j. J \<le> j \<Longrightarrow> n - 1 \<le> inited j" and "primary_id < n"
  shows "\<exists>j'. (start_secondary_cpus P v2p stack_top n primary_id inited :: (('w word, 'h) kernel_cmd, nat) run) =
    (concat (map (\<lambda>i. map PowerCmd (boot i (stack_of primary_id i))) (filter (\<lambda>i. i \<noteq> primary_id) [0..<n])),
     Some (Inr j'))"
  using assms by (rule start_secondary_cpus_cmds)

theorem primary_starts_others_witness:
  "\<exists>j'. (start_secondary_cpus (qemu_power_if Debug aarch64_qemu_config 0xFFFF000040200000 True 0)
      (sub_offset Debug 0xFFFF000000000000) (\<lambda>k. 0xFFFF000040400000 + of_nat k * 0x40000) 3 1 (\<lambda>j. j)
      :: ((u64, string) kernel_cmd, nat) run) =
    ([PowerCmd (Hvc PSCI_0_2_FN64_CPU_ON 0 0x40200000 0x40400000),
      PowerCmd (Hvc PSCI_0_2_FN64_CPU_ON 2 0x40200000 0x40440000)], Some (Inr j'))"
proof -
  let ?P = "qemu_power_if Debug aarch64_qemu_config 0xFFFF000040200000 True 0"
  let ?pa = "\<lambda>k. 0x40400000 + of_nat k * 0x40000 :: u64"
  let ?boot = "\<lambda>i k. [Hvc PSCI_0_2_FN64_CPU_ON (of_nat i) 0x40200000 (?pa k)]"
  have "sub_offset Debug 0xFFFF000000000000 (0xFFFF000040400000 + of_nat k * 0x40000 :: u64) = Inr (?pa k)"
    if "k < 3 - 1" for k
  proof -
    have "k = 0 \<or> k = 1" using that by auto
    then show ?thesis by (auto simp: sub_offset_def usub_def)
  qed
  moreover have "pw_cpu_boot ?P (of_nat i) (?pa k) = (?boot i k, Inr ())" for i k
    by (simp add: power_if_defs board_numbers qemu_cpu_boot_def sub_offset_def usub_def psci_cpu_on_ok psci_start_def lift_io_def)
  ultimately have "\<exists>j'. (start_secondary_cpus ?P (sub_offset Debug 0xFFFF000000000000)
      (\<lambda>k. 0xFFFF000040400000 + of_nat k * 0x40000) 3 1 (\<lambda>j. j) :: ((u64, string) kernel_cmd, nat) run) =
    (concat (map (\<lambda>i. map PowerCmd (?boot i (stack_of 1 i))) (filter (\<lambda>i. i \<noteq> 1) [0..<3])), Some (Inr j'))"
    by (intro primary_starts_others[where J = 2 and pa = ?pa]) simp_all
  then show ?thesis by (simp add: upt_rec stack_of_def)
qed

end
