(* ===== verification/Kernel_Boards.thy ===== *)
theory Kernel_Boards
  imports Kernel_Contract Smp_Main
begin

text \<open>
  The five platforms that the example kernels link keep the contracts of \<open>Kernel_Contract\<close>,
  from the statics of their images, with or without the feature \<^verbatim>\<open>irq\<close>; the properties of the
  two single-core kernels on them.
\<close>

section \<open>The Arm platforms\<close>

text \<open>
  The offset of the wall clock: read at boot with the feature \<^verbatim>\<open>rtc\<close>, unchanged without.
\<close>

definition arm_offset :: "profile \<Rightarrow> bool \<Rightarrow> 'r ratio_ops \<Rightarrow> arm_inputs \<Rightarrow> u64 \<Rightarrow> u64 \<Rightarrow> u64 \<Rightarrow> bool" where
  "arm_offset p rtc R inp base e off \<longleftrightarrow>
    (if rtc then pl031_init_early p R (generic_timer_init_early R (counter_freq inp)) base (rtc_seconds inp)
        (counter inp) e = Inr off
     else e = off)"

definition arm_kernel_static ::
  "profile \<Rightarrow> bool \<Rightarrow> 'r ratio_ops \<Rightarrow> arm_inputs \<Rightarrow> ('t, 'h) table_ops \<Rightarrow> u64 \<Rightarrow> u64 \<Rightarrow> ('d, 'r, 't) arm_platform \<Rightarrow> bool" where
  "arm_kernel_static p rtc R inp Tb base off st \<longleftrightarrow>
     table_doc 1024 Tb \<and> pl011_static Tb st \<and> arm_offset p rtc R inp base (arm_EPOCHOFFSET st) off"

text \<open>The clock and the conduit are set up; with interrupts, the GIC is up and no handler is registered for the timer.\<close>

definition arm_kernel_booted ::
  "bool \<Rightarrow> 'r ratio_ops \<Rightarrow> arm_inputs \<Rightarrow> ('t, 'h) table_ops \<Rightarrow> u64 \<Rightarrow> 'h option \<Rightarrow> ('d, 'r, 't) arm_platform \<Rightarrow> bool" where
  "arm_kernel_booted irq R inp Tb off handler st \<longleftrightarrow>
     PSCI_METHOD_HVC st \<and> arm_timer st = generic_timer_init_early R (counter_freq inp) \<and> arm_EPOCHOFFSET st = off \<and>
     (if irq then table_doc 1024 Tb \<and> GIC (arm_gic st) \<and> TRAP_OP (arm_gic st) \<and>
        table_lookup Tb 30 (gic_table (arm_gic st)) = handler else True)"

lemma qemu_later_frame:
  "qemu_init_later p irq Tb h cfg st = (cs, Inr st') \<Longrightarrow> arm_EPOCHOFFSET st' = arm_EPOCHOFFSET st"
  by (auto simp: qemu_init_later_def bind_io_Inr_iff ret_io_def case_prod_unfold split: if_splits)

lemma qemu_early_offset:
  assumes "qemu_init_early p rtc U new R aarch64_qemu_config inp st = (cs, Inr st')" and "pl011_static Tb st"
    and "arm_offset p rtc R inp 0xFFFF000009010000 (arm_EPOCHOFFSET st) off"
  shows "arm_EPOCHOFFSET st' = off"
  using assms by (cases rtc) (auto simp: qemu_init_early_def arm_offset_def arm_early_defs)

lemma qemu_kernel_boots:
  fixes Tb :: "('t, 'h) table_ops"
  assumes "arm_kernel_static p rtc R inp Tb 0xFFFF000009010000 off st"
  shows "\<exists>cs st'. init_kernel (qemu_init_if p rtc irq U new R Tb h aarch64_qemu_config inp) cpu arg st = (cs, Inr st') \<and>
    arm_kernel_booted irq R inp Tb off None st'"
proof -
  have st: "table_doc 1024 Tb" "pl011_static Tb st" "arm_offset p rtc R inp 0xFFFF000009010000 (arm_EPOCHOFFSET st) off"
    using assms by (simp_all add: arm_kernel_static_def)
  have "rtc \<longrightarrow> rtc_readable p R inp 0xFFFF000009010000"
    using st(3) by (auto simp: arm_offset_def rtc_readable_def pl031_init_early_def split: if_splits)
  from qemu_early[OF st(2) this, of U new] obtain st1 where
    1: "qemu_init_early p rtc U new R aarch64_qemu_config inp st = ([InitTrap] :: 'h init_cmd list, Inr st1)"
      "arm_early_done True (uart_init U (new 0xFFFF000009000000)) R inp Tb st1" by blast
  have off: "arm_EPOCHOFFSET st1 = off" by (rule qemu_early_offset[OF 1(1) st(2,3)])
  show ?thesis
  proof (cases irq)
    case True
    from qemu_later[OF st(1) 1(2), of p h] obtain cs st2 where
      2: "qemu_init_later p True Tb h aarch64_qemu_config st1 = (cs, Inr st2)"
        "arm_ready True (uart_init U (new 0xFFFF000009000000)) R inp Tb 33 (Some h) st2" by blast
    then have "arm_kernel_booted irq R inp Tb off None st2"
      using qemu_later_frame[OF 2(1)] off st(1) by (simp add: arm_kernel_booted_def arm_ready_def)
    then show ?thesis using 1(1) 2(1) True by (simp add: init_kernel_def qemu_init_if_def)
  next
    case False
    then have "arm_kernel_booted irq R inp Tb off None st1"
      using 1(2) off by (simp add: arm_kernel_booted_def arm_early_done_def)
    then show ?thesis using 1(1) False by (auto simp: init_kernel_def qemu_init_if_def qemu_init_later_def ret_io_def)
  qed
qed

text \<open>Registering and handling, by the contract of the GIC.\<close>

lemma gic_arms:
  assumes "arm_kernel_booted True R inp Tb off None st"
  shows "\<exists>cs st'. if_register (arm_irq_part (gic_irq_if Tb special mode ack)) 30 update st = (cs, Inr (True, st')) \<and>
    arm_kernel_booted True R inp Tb off (Some update) st'"
proof -
  have "table_doc 1024 Tb \<and> GIC (arm_gic st) \<and> TRAP_OP (arm_gic st)" "table_lookup Tb 30 (gic_table (arm_gic st)) = None"
    using assms by (simp_all add: arm_kernel_booted_def)
  with gic_irqs.register_ok[where s = "arm_gic st" and i = 30 and h = update and Tb = Tb and special = special and mode = mode and ack = ack]
  obtain cs g where "if_register (gic_irq_if Tb special mode ack) 30 update (arm_gic st) = (cs, Inr (True, g))"
    "table_doc 1024 Tb \<and> GIC g \<and> TRAP_OP g" "table_lookup Tb 30 (gic_table g) = Some update"
    by auto
  then show ?thesis
    using assms by (simp add: arm_irq_part_def on_part_def ret_io_def arm_kernel_booted_def)
qed

lemma gic_runs_once:
  assumes "arm_kernel_booted True R inp Tb off (Some update) st" and "ack_intid ack = 30"
  shows "\<exists>pre post. if_handle (arm_irq_part (gic_irq_if Tb special mode ack)) v st = (pre @ Call update # post, Inr ()) \<and>
    no_call pre \<and> no_call post"
  using gic_irqs.handle_ok[where s = "arm_gic st" and i = 30 and v = v and Tb = Tb and special = special and mode = mode and ack = ack] assms
  by (simp add: arm_kernel_booted_def arm_irq_part_def on_part_def)

lemma psci_off: "psci_system_off True 0 = ([Hvc PSCI_0_2_FN_SYSTEM_OFF 0 0 0] @ [HaltForever], Inr ())"
  by (simp add: psci_system_off_def psci_call_def io_simps)

interpretation qemu_kernel: kernel_platform
  "aarch64_qemu_linked p rtc irq U new R Tb h aarch64_qemu_config inp g entry 0"
  "arm_time_if p R (generic_timer_init_early R (counter_freq inp)) off" "[Hvc PSCI_0_2_FN_SYSTEM_OFF 0 0 0]"
  "arm_kernel_static p rtc R inp Tb 0xFFFF000009010000 off" "arm_kernel_booted irq R inp Tb off None"
  by unfold_locales
    (simp_all add: aarch64_qemu_linked_def qemu_kernel_boots, simp_all add: arm_kernel_booted_def qemu_power_if_def psci_off)

lemmas booted_simps = arm_kernel_booted_def qemu_power_if_def arm_qemu_power_if_def psci_off

interpretation qemu_irq_kernel: irq_platform
  "aarch64_qemu_linked p rtc True U new R Tb h aarch64_qemu_config inp (g\<lparr>acked := ack\<rparr>) entry 0"
  "arm_time_if p R (generic_timer_init_early R (counter_freq inp)) off" "[Hvc PSCI_0_2_FN_SYSTEM_OFF 0 0 0]"
  "\<lambda>st. ack_intid ack = 30 \<and> arm_kernel_static p rtc R inp Tb 0xFFFF000009010000 off st"
  "\<lambda>st. ack_intid ack = 30 \<and> arm_kernel_booted True R inp Tb off None st"
  update "\<lambda>st. ack_intid ack = 30 \<and> arm_kernel_booted True R inp Tb off (Some update) st"
proof unfold_locales
  let ?A = "aarch64_qemu_linked p rtc True U new R Tb h aarch64_qemu_config inp (g\<lparr>acked := ack\<rparr>) entry 0"
  have A: "lk_irq ?A = arm_irq_part (gic_irq_if Tb (ack_special g) (ack_mode_ns g) ack)" "lk_timer_irq ?A = 30"
    by (simp_all add: aarch64_qemu_linked_def arm_timer_irqs)
  show "\<exists>cs st'. if_register (lk_irq ?A) (lk_timer_irq ?A) update st = (cs, Inr (True, st')) \<and>
      ack_intid ack = 30 \<and> arm_kernel_booted True R inp Tb off (Some update) st'"
    if "ack_intid ack = 30 \<and> arm_kernel_booted True R inp Tb off None st" for st
    using that gic_arms[of R inp Tb off st] by (simp add: A)
  show "\<exists>pre post. if_handle (lk_irq ?A) (lk_timer_irq ?A) st = (pre @ Call update # post, Inr ()) \<and>
      no_call pre \<and> no_call post"
    if "ack_intid ack = 30 \<and> arm_kernel_booted True R inp Tb off (Some update) st" for st
    using that gic_runs_once[of R inp Tb off update st ack] by (simp add: A)
qed (simp_all add: aarch64_qemu_linked_def qemu_kernel_boots, simp_all add: booted_simps)


text \<open>The 32-bit platform registers no handler itself.\<close>

lemma arm_qemu_offset:
  assumes "arm_qemu_init_early p rtc U new R arm_qemu_config inp st = (cs, Inr st')" and "pl011_static Tb st"
    and "arm_offset p rtc R inp 0x89010000 (arm_EPOCHOFFSET st) off"
  shows "arm_EPOCHOFFSET st' = off"
  using assms by (cases rtc) (auto simp: arm_qemu_init_early_def arm_offset_def arm_early_defs)

lemma arm_qemu_later_frame:
  "arm_qemu_init_later p irq cfg st = (cs, Inr st') \<Longrightarrow> arm_EPOCHOFFSET st' = arm_EPOCHOFFSET st"
  by (auto simp: arm_qemu_init_later_def bind_io_Inr_iff ret_io_def case_prod_unfold split: if_splits)

lemma arm_qemu_kernel_boots:
  fixes Tb :: "('t, 'h) table_ops"
  assumes "arm_kernel_static p rtc R inp Tb 0x89010000 off st"
  shows "\<exists>cs st'. init_kernel (arm_qemu_init_if p rtc irq U new R arm_qemu_config inp) cpu arg st
      = (cs :: 'h init_cmd list, Inr st') \<and> arm_kernel_booted irq R inp Tb off None st'"
proof -
  have st: "table_doc 1024 Tb" "pl011_static Tb st" "arm_offset p rtc R inp 0x89010000 (arm_EPOCHOFFSET st) off"
    using assms by (simp_all add: arm_kernel_static_def)
  have "rtc \<longrightarrow> rtc_readable p R inp 0x89010000"
    using st(3) by (auto simp: arm_offset_def rtc_readable_def pl031_init_early_def split: if_splits)
  from arm_qemu_early[OF st(2) this, of U new] obtain st1 uart where
    1: "arm_qemu_init_early p rtc U new R arm_qemu_config inp st = ([InitTrap] :: 'h init_cmd list, Inr st1)"
      "arm_early_done True uart R inp Tb st1" by blast
  have off: "arm_EPOCHOFFSET st1 = off" by (rule arm_qemu_offset[OF 1(1) st(2,3)])
  show ?thesis
  proof (cases irq)
    case True
    from arm_qemu_later[OF 1(2), of p] obtain cs :: "'h init_cmd list" and st2 where
      2: "arm_qemu_init_later p True arm_qemu_config st1 = (cs, Inr st2)" "arm_ready True uart R inp Tb 33 None st2" by blast
    then have "arm_kernel_booted irq R inp Tb off None st2"
      using arm_qemu_later_frame[OF 2(1)] off st(1) by (simp add: arm_kernel_booted_def arm_ready_def)
    then show ?thesis using 1(1) 2(1) True by (simp add: init_kernel_def arm_qemu_init_if_def)
  next
    case False
    then have "arm_kernel_booted irq R inp Tb off None st1"
      using 1(2) off by (simp add: arm_kernel_booted_def arm_early_done_def)
    then show ?thesis using 1(1) False by (auto simp: init_kernel_def arm_qemu_init_if_def arm_qemu_init_later_def ret_io_def)
  qed
qed

interpretation arm_qemu_kernel: kernel_platform
  "arm_qemu_linked p rtc irq U new R Tb arm_qemu_config inp g entry 0"
  "arm_time_if p R (generic_timer_init_early R (counter_freq inp)) off" "[Hvc PSCI_0_2_FN_SYSTEM_OFF 0 0 0]"
  "arm_kernel_static p rtc R inp Tb 0x89010000 off" "arm_kernel_booted irq R inp Tb off None"
  by unfold_locales
    (simp_all add: arm_qemu_linked_def arm_qemu_kernel_boots, simp_all add: booted_simps)

interpretation arm_qemu_irq_kernel: irq_platform
  "arm_qemu_linked p rtc True U new R Tb arm_qemu_config inp (g\<lparr>acked := ack\<rparr>) entry 0"
  "arm_time_if p R (generic_timer_init_early R (counter_freq inp)) off" "[Hvc PSCI_0_2_FN_SYSTEM_OFF 0 0 0]"
  "\<lambda>st. ack_intid ack = 30 \<and> arm_kernel_static p rtc R inp Tb 0x89010000 off st"
  "\<lambda>st. ack_intid ack = 30 \<and> arm_kernel_booted True R inp Tb off None st"
  update "\<lambda>st. ack_intid ack = 30 \<and> arm_kernel_booted True R inp Tb off (Some update) st"
proof unfold_locales
  let ?A = "arm_qemu_linked p rtc True U new R Tb arm_qemu_config inp (g\<lparr>acked := ack\<rparr>) entry 0"
  have "ucast (TIMER_IRQ arm_qemu_config) = (30 :: u64)" by (simp add: config_defs)
  then have A: "lk_irq ?A = arm_irq_part (gic_irq_if Tb (ack_special g) (ack_mode_ns g) ack)" "lk_timer_irq ?A = 30"
    by (simp_all add: arm_qemu_linked_def)
  show "\<exists>cs st'. if_register (lk_irq ?A) (lk_timer_irq ?A) update st = (cs, Inr (True, st')) \<and>
      ack_intid ack = 30 \<and> arm_kernel_booted True R inp Tb off (Some update) st'"
    if "ack_intid ack = 30 \<and> arm_kernel_booted True R inp Tb off None st" for st
    using that gic_arms[of R inp Tb off st] by (simp add: A)
  show "\<exists>pre post. if_handle (lk_irq ?A) (lk_timer_irq ?A) st = (pre @ Call update # post, Inr ()) \<and>
      no_call pre \<and> no_call post"
    if "ack_intid ack = 30 \<and> arm_kernel_booted True R inp Tb off (Some update) st" for st
    using that gic_runs_once[of R inp Tb off update st ack] by (simp add: A)
qed (simp_all add: arm_qemu_linked_def arm_qemu_kernel_boots, simp_all add: booted_simps)

section \<open>RISC-V\<close>

definition riscv_kernel_static ::
  "profile \<Rightarrow> bool \<Rightarrow> u64 \<Rightarrow> u64 \<Rightarrow> ('t, 'h) table_ops \<Rightarrow> u64 \<Rightarrow> ('t, 'h) riscv_platform \<Rightarrow> bool" where
  "riscv_kernel_static p rtc secs c Tb off st \<longleftrightarrow> table_doc 1024 Tb \<and> TIMER_HANDLER (rv_irqs st) = None \<and>
     riscv_time_init_early p rtc riscv64_qemu_config secs c (rv_EPOCHOFFSET st) = Inr off"

definition riscv_kernel_booted :: "('t, 'h) table_ops \<Rightarrow> u64 \<Rightarrow> 'h option \<Rightarrow> ('t, 'h) riscv_platform \<Rightarrow> bool" where
  "riscv_kernel_booted Tb off handler st \<longleftrightarrow>
     table_doc 1024 Tb \<and> TIMER_HANDLER (rv_irqs st) = handler \<and> rv_EPOCHOFFSET st = off"

lemma riscv_kernel_boots:
  "riscv_kernel_static p rtc secs c Tb off st \<Longrightarrow>
    \<exists>cs st'. init_kernel (lk_init (riscv_linked p rtc irq Tb riscv64_qemu_config secs c entry hsm)) cpu arg st = (cs, Inr st') \<and>
      riscv_kernel_booted Tb off None st'"
  by (simp add: riscv_kernel_static_def riscv_kernel_booted_def riscv_linked_def init_kernel_def init_on_part_def
      riscv_init_defs)

interpretation riscv_kernel: kernel_platform
  "riscv_linked p rtc irq Tb riscv64_qemu_config secs c entry hsm" "riscv_time_if p riscv64_qemu_config off" "[SbiShutdown]"
  "riscv_kernel_static p rtc secs c Tb off" "riscv_kernel_booted Tb off None"
  by unfold_locales (simp_all add: riscv_kernel_boots, simp_all add: riscv_linked_def riscv_kernel_booted_def
      riscv_power_if_def riscv_system_off_def io_simps)

lemma riscv_timer: "TIMER_IRQ riscv64_qemu_config = S_TIMER"
  by (simp add: config_defs S_TIMER_def INTC_IRQ_BASE_def)

interpretation riscv_irq_kernel: irq_platform
  "riscv_linked p rtc True Tb riscv64_qemu_config secs c entry hsm" "riscv_time_if p riscv64_qemu_config off" "[SbiShutdown]"
  "riscv_kernel_static p rtc secs c Tb off" "riscv_kernel_booted Tb off None"
  update "riscv_kernel_booted Tb off (Some update)"
proof unfold_locales
  let ?A = "riscv_linked p rtc True Tb riscv64_qemu_config secs c entry hsm"
  show "\<exists>cs st'. if_register (lk_irq ?A) (lk_timer_irq ?A) update st = (cs, Inr (True, st')) \<and>
      riscv_kernel_booted Tb off (Some update) st'" if "riscv_kernel_booted Tb off None st" for st
    using that riscv_irqs.register_ok[where s = "rv_irqs st" and i = S_TIMER and h = update and Tb = Tb and p = p]
    by (auto simp: riscv_linked_def riscv_timer riscv_kernel_booted_def on_part_def ret_io_def cpu_side_def
        riscv_lookup_def)
  show "\<exists>pre post. if_handle (lk_irq ?A) (lk_timer_irq ?A) st = (pre @ Call update # post, Inr ()) \<and>
      no_call pre \<and> no_call post" if "riscv_kernel_booted Tb off (Some update) st" for st
    using that riscv_irqs.handle_ok[where s = "rv_irqs st" and i = S_TIMER and v = S_TIMER and Tb = Tb and p = p]
    by (simp add: riscv_linked_def riscv_timer riscv_kernel_booted_def on_part_def riscv_lookup_def)
qed (simp_all add: riscv_linked_def riscv_kernel_booted_def riscv_power_if_def riscv_system_off_def io_simps)


section \<open>LoongArch\<close>

definition la_kernel_static ::
  "profile \<Rightarrow> bool \<Rightarrow> 'x chrono_ops \<Rightarrow> la_inputs \<Rightarrow> ('t, 'h) table_ops \<Rightarrow> u64 \<Rightarrow> u64 \<Rightarrow> 't la_platform \<Rightarrow> bool" where
  "la_kernel_static p rtc C inp Tb npt off st \<longleftrightarrow> table_doc 13 Tb \<and> table_lookup Tb 11 (la_table (la_irqs st)) = None \<and>
     snd (loongarch_time_init_early p rtc C (const_freq inp) (toy_high inp) (toy_low inp) (la_counter inp)) = Inr (npt, off)"

definition la_kernel_booted :: "('t, 'h) table_ops \<Rightarrow> u64 \<Rightarrow> u64 \<Rightarrow> 'h option \<Rightarrow> 't la_platform \<Rightarrow> bool" where
  "la_kernel_booted Tb npt off handler st \<longleftrightarrow> table_doc 13 Tb \<and> table_lookup Tb 11 (la_table (la_irqs st)) = handler \<and>
     la_NANOS_PER_TICK st = npt \<and> la_EPOCHOFFSET st = off"

lemma la_numbers: "TIMER_IRQ loongarch64_qemu_config = 11" "IPI_IRQ loongarch64_qemu_config = 12"
  by (simp_all add: config_defs)

lemma la_kernel_boots:
  fixes Tb :: "('t, 'h) table_ops"
  assumes "la_kernel_static p rtc C inp Tb npt off st"
  shows "\<exists>cs st'. init_kernel (la_init_if p rtc smp irq C loongarch64_qemu_config ln inp) cpu arg st
      = (cs :: 'h init_cmd list, Inr st') \<and> la_kernel_booted Tb npt off None st'"
proof -
  obtain tcs where "loongarch_time_init_early p rtc C (const_freq inp) (toy_high inp) (toy_low inp) (la_counter inp)
      = (tcs, Inr (npt, off))"
    using assms unfolding la_kernel_static_def by (metis prod.collapse)
  then have early: "init_early (la_init_if p rtc smp irq C loongarch64_qemu_config ln inp) cpu arg st =
      (InitTrap # map Timer tcs :: 'h init_cmd list, Inr (st\<lparr>la_NANOS_PER_TICK := npt, la_EPOCHOFFSET := off\<rparr>))"
    by (simp add: la_init_defs)
  then show ?thesis
    using assms by (cases irq; cases smp)
      (simp_all add: init_kernel_def early la_kernel_static_def la_kernel_booted_def, simp_all add: la_init_defs la_numbers)
qed

lemma la_kernel_off:
  "pw_system_off (la_power_if p loongarch64_qemu_config entry) =
    Some ([WriteReg8 0xFFFF0000100E001C 0x34, Halt] @ [HaltForever], Inr ())"
  by (simp add: la_power_if_def la_system_off_def static_mem_if_defs config_defs add_offset_def uadd_def io_simps)

interpretation la_kernel: kernel_platform
  "la_linked p rtc smp irq C Tb loongarch64_qemu_config ln inp status entry" "loongarch_time_if p npt off"
  "[WriteReg8 0xFFFF0000100E001C 0x34, Halt]" "la_kernel_static p rtc C inp Tb npt off" "la_kernel_booted Tb npt off None"
  by unfold_locales (simp_all add: la_linked_def la_kernel_boots la_kernel_off[simplified], simp_all add: la_kernel_booted_def)

interpretation la_irq_kernel: irq_platform
  "la_linked p rtc smp True C Tb loongarch64_qemu_config ln inp status entry" "loongarch_time_if p npt off"
  "[WriteReg8 0xFFFF0000100E001C 0x34, Halt]" "la_kernel_static p rtc C inp Tb npt off" "la_kernel_booted Tb npt off None"
  update "la_kernel_booted Tb npt off (Some update)"
proof unfold_locales
  let ?A = "la_linked p rtc smp True C Tb loongarch64_qemu_config ln inp status entry"
  show "\<exists>cs st'. if_register (lk_irq ?A) (lk_timer_irq ?A) update st = (cs, Inr (True, st')) \<and>
      la_kernel_booted Tb npt off (Some update) st'" if "la_kernel_booted Tb npt off None st" for st
    using that la_irqs.register_ok[where s = "la_irqs st" and i = 11 and h = update and Tb = Tb and ln = ln and
        status = status and cfg = loongarch64_qemu_config]
    by (auto simp: la_linked_def la_numbers la_kernel_booted_def on_part_def ret_io_def)
  show "\<exists>pre post. if_handle (lk_irq ?A) (lk_timer_irq ?A) st = (pre @ Call update # post, Inr ()) \<and>
      no_call pre \<and> no_call post" if "la_kernel_booted Tb npt off (Some update) st" for st
    using that la_irqs.handle_ok[where s = "la_irqs st" and i = 11 and v = 11 and Tb = Tb and ln = ln and
        status = status and cfg = loongarch64_qemu_config]
    by (simp add: la_linked_def la_numbers la_kernel_booted_def on_part_def)
qed (simp_all add: la_linked_def la_kernel_booted_def la_kernel_off[simplified])

section \<open>x86\<close>

definition x86_kernel_static ::
  "profile \<Rightarrow> bool \<Rightarrow> (64 raw_range \<Rightarrow> 64 raw_range list \<Rightarrow> 64 raw_range list option) \<Rightarrow> x86_inputs \<Rightarrow>
    ('t, 'h) table_ops \<Rightarrow> 'r x86_time \<Rightarrow> ('d, 'r, 't) x86_platform \<Rightarrow> bool" where
  "x86_kernel_static p rtc push inp Tb tm st \<longleftrightarrow>
     table_doc 256 Tb \<and> table_lookup Tb 0xF0 (apic_table (x86_apic st)) = None \<and>
     (\<exists>tcs rs base. x86_static p rtc push inp tcs tm rs base (COM1 st) st)"

text \<open>With interrupts, the conversion of the one-shot timer is set up.\<close>

definition x86_clock :: "bool \<Rightarrow> 'r ratio_ops \<Rightarrow> 'r x86_time \<Rightarrow> 'r x86_time" where
  "x86_clock irq R tm = (if irq then tm\<lparr>NANOS_TO_LAPIC_TICKS_RATIO := ratio_new R 1000000000 1000000000\<rparr> else tm)"

definition x86_kernel_booted ::
  "('t, 'h) table_ops \<Rightarrow> 'r x86_time \<Rightarrow> 'h option \<Rightarrow> ('d, 'r, 't) x86_platform \<Rightarrow> bool" where
  "x86_kernel_booted Tb tm handler st \<longleftrightarrow>
     table_doc 256 Tb \<and> IO_APIC (x86_apic st) \<and> table_lookup Tb 0xF0 (apic_table (x86_apic st)) = handler \<and> x86_timer st = tm"

lemma x86_timer_irq: "TIMER_IRQ x86_pc_config = 0xF0"
  by (simp add: config_defs)

lemma x86_kernel_boots:
  assumes "x86_kernel_static p rtc push inp Tb tm st"
  shows "\<exists>cs st'. init_kernel (x86_init_if p rtc irq U R push x86_pc_config inp) cpu arg st = (cs, Inr st') \<and>
    x86_kernel_booted Tb (x86_clock irq R tm) None st'"
  using assms io_apic_mapped[of p]
  by (cases irq) (auto simp: x86_kernel_static_def x86_kernel_booted_def x86_clock_def init_kernel_def x86_init_defs
      x86_ratio split: if_splits)

lemma x86_kernel_off:
  "pw_system_off (x86_power_if cfg raw code ap page False keys) =
    Some ([PortWrite16 0x604 0x2000, Halt] @ [HaltForever], Inr ())"
  by (simp add: x86_power_if_def x86_system_off_def io_simps)

interpretation x86_kernel: kernel_platform
  "x86_linked p rtc irq False U R Tb push x86_pc_config inp s keys" "x86_time_if p R (x86_clock irq R tm)"
  "[PortWrite16 0x604 0x2000, Halt]" "x86_kernel_static p rtc push inp Tb tm" "x86_kernel_booted Tb (x86_clock irq R tm) None"
  by unfold_locales (simp_all add: x86_linked_def x86_kernel_boots x86_kernel_off[simplified], simp_all add: x86_kernel_booted_def)

interpretation x86_irq_kernel: irq_platform
  "x86_linked p rtc True False U R Tb push x86_pc_config inp s keys" "x86_time_if p R (x86_clock True R tm)"
  "[PortWrite16 0x604 0x2000, Halt]" "x86_kernel_static p rtc push inp Tb tm" "x86_kernel_booted Tb (x86_clock True R tm) None"
  update "x86_kernel_booted Tb (x86_clock True R tm) (Some update)"
proof unfold_locales
  let ?A = "x86_linked p rtc True False U R Tb push x86_pc_config inp s keys"
  show "\<exists>cs st'. if_register (lk_irq ?A) (lk_timer_irq ?A) update st = (cs, Inr (True, st')) \<and>
      x86_kernel_booted Tb (x86_clock True R tm) (Some update) st'"
    if "x86_kernel_booted Tb (x86_clock True R tm) None st" for st
    using that apic_irqs.register_ok[where s = "x86_apic st" and i = "0xF0" and h = update and Tb = Tb]
    by (auto simp: x86_linked_def x86_timer_irq x86_kernel_booted_def on_part_def ret_io_def)
  show "\<exists>pre post. if_handle (lk_irq ?A) (lk_timer_irq ?A) st = (pre @ Call update # post, Inr ()) \<and>
      no_call pre \<and> no_call post" if "x86_kernel_booted Tb (x86_clock True R tm) (Some update) st" for st
    using that apic_irqs.handle_ok[where s = "x86_apic st" and i = "0xF0" and v = "0xF0" and Tb = Tb]
    by (simp add: x86_linked_def x86_timer_irq x86_kernel_booted_def on_part_def)
qed (simp_all add: x86_linked_def x86_kernel_booted_def x86_kernel_off[simplified])


section \<open>The kernels on their platforms\<close>

text \<open>Whatever happens, a kernel that is over has turned the machine off.\<close>

definition always_off :: "('w::len word, 's, 'h) linked_platform \<Rightarrow> bool" where
  "always_off A \<longleftrightarrow> (\<forall>p update reads handled n inp left cpu_id arg st.
     ends_off (hello_main p A reads left cpu_id arg st) \<and>
     ends_off (irq_main p A update reads handled left cpu_id arg st) \<and>
     ends_off (smp_main p A update n inp left cpu_id arg st) \<and>
     ends_off (smp_secondary_main A n (inited_loads inp) left cpu_id st))"

lemma always_offI:
  assumes "\<And>st m. pw_system_off (lk_power A st) = Some m \<Longrightarrow> stays_off m"
  shows "always_off A"
  unfolding always_off_def
  by (intro allI conjI; rule hello_main_ends irq_main_ends smp_main_ends smp_secondary_main_ends; erule assms)

lemma psci_stays: "psci_system_off hvc 0 = m \<Longrightarrow> stays_off m"
  using stays_off_simps(1) by blast


text \<open>A clock with a second between two readings, and a table without handlers.\<close>

lemma unat_of_nat_small: "n < 2 ^ 64 \<Longrightarrow> unat (of_nat n :: u64) = n"
  by (simp add: unat_of_nat)

lemma riscv_npt: "riscv_NANOS_PER_TICK riscv64_qemu_config = 100"
  by (simp add: riscv_NANOS_PER_TICK_def config_defs)

lemma riscv_seconds:
  assumes "K \<le> 100"
  shows "ticking (riscv_time_if p riscv64_qemu_config 0) (\<lambda>j. of_nat (j * 10000000)) (\<lambda>j. of_nat (j * 1000000000)) 1 K"
proof -
  have t: "unat (of_nat (j * 10000000) :: u64) = j * 10000000" "unat (of_nat (j * 1000000000) :: u64) = j * 1000000000"
    if "j < K" for j
    using that assms unat_of_nat_small[of "j * 10000000"] unat_of_nat_small[of "j * 1000000000"] by simp_all
  have "monotonic_time_nanos (riscv_time_if p riscv64_qemu_config 0) (of_nat (j * 10000000)) = Inr (of_nat (j * 1000000000))"
    if "j < K" for j
  proof -
    have exact: "unat (of_nat (j * 10000000) :: u64) * unat (100 :: u64) < 2 ^ LENGTH(64)"
      using that assms t(1)[OF that] by simp
    then show ?thesis
      by (simp only: monotonic_time_nanos_def riscv_time_if_def time_if.select_convs rbind.simps riscv_npt umul_exact[OF exact])
        simp
  qed
  moreover have "unat (of_nat (j * 1000000000) :: u64) + unat (0 :: u64) < 2 ^ 64" if "j < K" for j
    using t(2)[OF that] that assms by (simp del: of_nat_mult)
  moreover have "(of_nat (i * 1000000000) :: u64) \<le> of_nat (j * 1000000000)" if "i \<le> j" "j < K" for i j
    using t(2)[of i] t(2)[of j] that by (simp add: word_le_nat_alt del: of_nat_mult)
  moreover have "unat (of_nat (i * 1000000000) :: u64) + 10 ^ 9 \<le> unat (of_nat ((i + 1) * 1000000000) :: u64)"
    if "i + 1 < K" for i
    using t(2)[of i] t(2)[of "i + 1"] that by (simp del: of_nat_mult of_nat_add of_nat_Suc)
  moreover have "epochoffset_nanos (riscv_time_if p riscv64_qemu_config 0) = 0" by (simp add: riscv_time_if_def)
  ultimately show ?thesis unfolding ticking_def by (simp del: of_nat_mult of_nat_add of_nat_Suc)
qed

definition riscv_witness :: "((u64 \<Rightarrow> string option), string) riscv_platform" where
  "riscv_witness = \<lparr>rv_EPOCHOFFSET = 0,
     rv_irqs = \<lparr>TIMER_HANDLER = None, IPI_HANDLER = None, riscv_table = \<lambda>_. None\<rparr>\<rparr>"

lemma riscv_witness_static: "riscv_kernel_static p False 0 0 (map_table 1024) 0 riscv_witness"
  by (simp add: riscv_kernel_static_def riscv_witness_def map_table_doc riscv_time_init_early_def)

text \<open>What the hello kernel does on a platform that keeps its contract.\<close>

definition greets ::
  "profile \<Rightarrow> ('w::len word, 's, 'h) linked_platform \<Rightarrow> 'w word power_cmd list \<Rightarrow> (nat \<Rightarrow> u64) \<Rightarrow> u64 \<Rightarrow> 's \<Rightarrow> bool" where
  "greets p A off_cmds reads now st \<longleftrightarrow> (\<forall>left cpu_id arg. \<exists>ts.
     hello_main p A reads left cpu_id arg st =
       (fst (kernel_init A cpu_id arg st) @ fst (greeting cpu_id arg) @ map elapsed_line ts @
         PrintLine [Lit ''All done, shutting down!''] # map PowerCmd (off_cmds @ [HaltForever]), Some (Inr ())) \<and>
     length ts = 5 \<and> second_apart (unat now) (map unat ts))"

text \<open>
  C14: The hello kernel runs to its end on each of the five platforms, from the
  statics of the image, when the clock goes on: after the initialisation it
  prints its two lines, then five times, a second or more apart, the time since boot, and shuts
  the machine down by the commands of its platform.
\<close>

theorem hello_kernel_runs:
  assumes "5 * (m + 2) < K"
  shows "(arm_kernel_static p rtc R inp Tb 0xFFFF000009010000 off qst \<and>
      ticking (arm_time_if p R (generic_timer_init_early R (counter_freq inp)) off) reads w m K \<longrightarrow>
      greets p (aarch64_qemu_linked p rtc irq U new R Tb h aarch64_qemu_config inp g entry 0)
        [Hvc PSCI_0_2_FN_SYSTEM_OFF 0 0 0] reads (w 0) qst) \<and>
    (arm_kernel_static p rtc R inp Tb 0x89010000 off ast \<and>
      ticking (arm_time_if p R (generic_timer_init_early R (counter_freq inp)) off) reads w m K \<longrightarrow>
      greets p (arm_qemu_linked p rtc irq U new_arm R Tb arm_qemu_config inp g arm_entry 0)
        [Hvc PSCI_0_2_FN_SYSTEM_OFF 0 0 0] reads (w 0) ast) \<and>
    (riscv_kernel_static p rtc secs c Tb' off rst \<and> ticking (riscv_time_if p riscv64_qemu_config off) reads w m K \<longrightarrow>
      greets p (riscv_linked p rtc irq Tb' riscv64_qemu_config secs c entry hsm) [SbiShutdown] reads (w 0) rst) \<and>
    (la_kernel_static p rtc C li Tl npt off lst \<and> ticking (loongarch_time_if p npt off) reads w m K \<longrightarrow>
      greets p (la_linked p rtc smp irq C Tl loongarch64_qemu_config ln li status entry)
        [WriteReg8 0xFFFF0000100E001C 0x34, Halt] reads (w 0) lst) \<and>
    (x86_kernel_static p rtc push xi Tx tm xst \<and> ticking (x86_time_if p R (x86_clock irq R tm)) reads w m K \<longrightarrow>
      greets p (x86_linked p rtc irq False U R Tx push x86_pc_config xi s keys) [PortWrite16 0x604 0x2000, Halt]
        reads (w 0) xst)"
  unfolding greets_def
  by (intro conjI impI allI; elim conjE;
      rule qemu_kernel.hello_runs arm_qemu_kernel.hello_runs riscv_kernel.hello_runs la_kernel.hello_runs
        x86_kernel.hello_runs; (assumption | rule assms)?)

theorem hello_kernel_runs_witness:
  "greets Debug (riscv_linked Debug False False (map_table 1024) riscv64_qemu_config 0 0 0xFFFFFFC080200000 True)
     [SbiShutdown] (\<lambda>j. of_nat (j * 10000000)) (of_nat (0 * 1000000000)) riscv_witness"
  by (rule mp[OF conjunct1[OF conjunct2[OF conjunct2[OF hello_kernel_runs[of 1 16]]]] conjI[OF riscv_witness_static riscv_seconds]])
    simp_all


section \<open>The interrupt kernel on its platforms\<close>

text \<open>The handler of the kernel without its commands: the statics after it, or its panic.\<close>

definition update_timer_result :: "profile \<Rightarrow> time_if \<Rightarrow> u64 \<times> u64 \<Rightarrow> irq_kernel \<Rightarrow> panic + irq_kernel" where
  "update_timer_result p T cs k =
     rbind (monotonic_time_nanos T (fst cs)) (\<lambda>now_ns.
     rbind (irq_kernel_update_timer p now_ns k) (\<lambda>(deadline, k').
     rbind (snd (set_oneshot_timer T (snd cs) deadline)) (\<lambda>_. Inr k')))"

fun update_results :: "profile \<Rightarrow> time_if \<Rightarrow> (u64 \<times> u64) list \<Rightarrow> irq_kernel \<Rightarrow> panic + irq_kernel" where
  "update_results p T [] k = Inr k"
| "update_results p T (cs # css) k = rbind (update_timer_result p T cs k) (update_results p T css)"

lemma update_timer_io_result: "snd (update_timer_io p T cs k) = update_timer_result p T cs k"
proof (cases "monotonic_time_nanos T (fst cs)")
  case (Inr now)
  then show ?thesis
    by (cases "irq_kernel_update_timer p now k")
      (auto simp: update_timer_io_def update_timer_result_def lift_io_def bind_io_cases seq_io_def via_def ret_io_def
        split: sum.splits)
qed (simp add: update_timer_io_def update_timer_result_def lift_io_def)

lemma taking_results: "snd (taking (update_timer_io p T) css k) = update_results p T css k"
proof (induction css arbitrary: k)
  case (Cons cs css)
  then show ?case by (cases "update_timer_result p T cs k") (simp_all add: bind_io_cases update_timer_io_result)
qed (simp add: ret_io_def)

text \<open>None of the interrupts before the first \<open>M\<close> accesses makes the handler panic, and they can be counted.\<close>

definition handlers_return :: "profile \<Rightarrow> time_if \<Rightarrow> (nat \<Rightarrow> (u64 \<times> u64) list) \<Rightarrow> nat \<Rightarrow> bool" where
  "handlers_return p T handled M \<longleftrightarrow> length (concat (map handled [0..<M])) < 2 ^ 64 \<and>
     (case update_results p T (concat (map handled [0..<M])) \<lparr>IRQ_COUNTER = 0, NEXT_DEADLINE = 0\<rparr> of
        Inl e \<Rightarrow> False | Inr k \<Rightarrow> True)"

text \<open>What the interrupt kernel does on a platform that keeps its contract.\<close>

definition tests_irqs ::
  "profile \<Rightarrow> ('w::len word, 's, 'h) linked_platform \<Rightarrow> 'h \<Rightarrow> 'w word power_cmd list \<Rightarrow> (nat \<Rightarrow> u64) \<Rightarrow>
    (nat \<Rightarrow> (u64 \<times> u64) list) \<Rightarrow> (nat \<Rightarrow> u64) \<Rightarrow> 's \<Rightarrow> bool" where
  "tests_irqs p A update off_cmds reads handled w st \<longleftrightarrow> (\<forall>left cpu_id arg. \<exists>cs N.
     unat (w 0) + 5 * 10 ^ 9 \<le> unat (w N) \<and>
     irq_main p A update reads handled left cpu_id arg st =
       (cs @ test_report (length (concat (map handled [0..<N + 1]))) @ map PowerCmd (off_cmds @ [HaltForever]),
        Some (Inr ())))"

context irq_platform
begin

lemma tests:
  assumes "5 * (m + 3) < K" and "static st" and "ticking T reads w m K" and "handlers_return p T handled (5 * (m + 3) + 1)"
  shows "tests_irqs p A update off_cmds reads handled w st"
proof -
  have few: "length (concat (map handled [0..<5 * (m + 3) + 1])) < 2 ^ 64"
    using assms(4) unfolding handlers_return_def by blast
  obtain kx where "snd (taking (update_timer_io p T :: _ \<Rightarrow> _ \<Rightarrow> (('w word, 'h) kernel_cmd, irq_kernel) io)
      (concat (map handled [0..<5 * (m + 3) + 1])) \<lparr>IRQ_COUNTER = 0, NEXT_DEADLINE = 0\<rparr>) = Inr kx"
    using assms(4) unfolding handlers_return_def taking_results by (auto split: sum.splits)
  from irq_kernel_reports[OF assms(2,3,1) few this] show ?thesis unfolding tests_irqs_def by blast
qed

end

text \<open>
  C15: The test of the interrupt kernel measures what it claims, on each
  of the five platforms, from the statics of the image, when the clock goes on and no
  handler panics: the test takes five seconds or more, the handler that was registered runs
  exactly once for each timer interrupt, the printed count is the number
  of interrupts, and the test passes if and only if there were 500; otherwise the kernel panics, and in
  both cases it shuts the machine down.
\<close>

theorem irq_kernel_tests:
  assumes "5 * (m + 3) < K" and "ack_intid ack = 30"
  shows "(arm_kernel_static p rtc R inp Tb 0xFFFF000009010000 off qst \<and>
      ticking (arm_time_if p R (generic_timer_init_early R (counter_freq inp)) off) reads w m K \<and>
      handlers_return p (arm_time_if p R (generic_timer_init_early R (counter_freq inp)) off) handled (5 * (m + 3) + 1) \<longrightarrow>
      tests_irqs p (aarch64_qemu_linked p rtc True U new R Tb h aarch64_qemu_config inp (g\<lparr>acked := ack\<rparr>) entry 0) update
        [Hvc PSCI_0_2_FN_SYSTEM_OFF 0 0 0] reads handled w qst) \<and>
    (arm_kernel_static p rtc R inp Tb 0x89010000 off ast \<and>
      ticking (arm_time_if p R (generic_timer_init_early R (counter_freq inp)) off) reads w m K \<and>
      handlers_return p (arm_time_if p R (generic_timer_init_early R (counter_freq inp)) off) handled (5 * (m + 3) + 1) \<longrightarrow>
      tests_irqs p (arm_qemu_linked p rtc True U new_arm R Tb arm_qemu_config inp (g\<lparr>acked := ack\<rparr>) arm_entry 0) update
        [Hvc PSCI_0_2_FN_SYSTEM_OFF 0 0 0] reads handled w ast) \<and>
    (riscv_kernel_static p rtc secs c Tb' off rst \<and> ticking (riscv_time_if p riscv64_qemu_config off) reads w m K \<and>
      handlers_return p (riscv_time_if p riscv64_qemu_config off) handled (5 * (m + 3) + 1) \<longrightarrow>
      tests_irqs p (riscv_linked p rtc True Tb' riscv64_qemu_config secs c entry hsm) update [SbiShutdown] reads handled w rst) \<and>
    (la_kernel_static p rtc C li Tl npt off lst \<and> ticking (loongarch_time_if p npt off) reads w m K \<and>
      handlers_return p (loongarch_time_if p npt off) handled (5 * (m + 3) + 1) \<longrightarrow>
      tests_irqs p (la_linked p rtc smp True C Tl loongarch64_qemu_config ln li status entry) update
        [WriteReg8 0xFFFF0000100E001C 0x34, Halt] reads handled w lst) \<and>
    (x86_kernel_static p rtc push xi Tx tm xst \<and> ticking (x86_time_if p R (x86_clock True R tm)) reads w m K \<and>
      handlers_return p (x86_time_if p R (x86_clock True R tm)) handled (5 * (m + 3) + 1) \<longrightarrow>
      tests_irqs p (x86_linked p rtc True False U R Tx push x86_pc_config xi s keys) update
        [PortWrite16 0x604 0x2000, Halt] reads handled w xst)"
  by (intro conjI impI; elim conjE;
      rule qemu_irq_kernel.tests arm_qemu_irq_kernel.tests riscv_irq_kernel.tests la_irq_kernel.tests
        x86_irq_kernel.tests; (assumption | rule assms | (rule conjI, rule assms, assumption))?)

text \<open>500 interrupts at time 0 do not make the handler panic: the deadlines grow by the period.\<close>

lemma results_from_run:
  assumes "\<And>cs. cs \<in> set css \<Longrightarrow> monotonic_time_nanos T (fst cs) = Inr (now cs)"
    and "\<And>c d. snd (set_oneshot_timer T c d) = Inr ()"
  shows "irq_kernel_run p (map now css) k = Inr (ds, k') \<Longrightarrow> update_results p T css k = Inr k'"
  using assms(1)
proof (induction css arbitrary: k ds)
  case (Cons cs css)
  then obtain d k1 ds' where "irq_kernel_update_timer p (now cs) k = Inr (d, k1)" "irq_kernel_run p (map now css) k1 = Inr (ds', k')"
    by (auto simp: rbind_Inr_iff)
  with Cons.IH[of k1 ds'] Cons.prems(2) show ?case by (simp add: update_timer_result_def assms(2))
qed simp

lemma prompt_zeros: "0 < d \<Longrightarrow> prompt i d (replicate n 0)"
  by (induction n arbitrary: d) simp_all

lemma zero_interrupts_return:
  "handlers_return p (riscv_time_if p riscv64_qemu_config 0) (\<lambda>i. if i = 0 then replicate 500 (0, 0) else []) (Suc n)"
proof -
  let ?T = "riscv_time_if p riscv64_qemu_config 0"
  have all: "concat (map (\<lambda>i. if i = 0 then replicate 500 (0, 0) else []) [0..<Suc n]) = (replicate 500 (0, 0) :: (u64 \<times> u64) list)"
    by (simp add: upt_conv_Cons del: upt_Suc)
  have "\<exists>ds st'. irq_kernel_run p (0 # replicate 499 0) \<lparr>IRQ_COUNTER = 0, NEXT_DEADLINE = 0\<rparr> = Inr (ds, st') \<and>
      IRQ_COUNTER st' = of_nat (length (replicate 499 (0 :: u64)) + 1) \<and>
      unat (last ds) = unat (0 :: u64) + (length (replicate 499 (0 :: u64)) + 1) * 10000000"
    by (rule irq_kernel_run_periodic) (simp_all add: map_replicate_const prompt_zeros)
  then obtain ds st' where "irq_kernel_run p (0 # replicate 499 0) \<lparr>IRQ_COUNTER = 0, NEXT_DEADLINE = 0\<rparr> = Inr (ds, st')"
    by blast
  moreover have "map (\<lambda>_. 0) (replicate 500 (0, 0) :: (u64 \<times> u64) list) = 0 # replicate 499 (0 :: u64)"
    by (simp add: map_replicate_const numeral_eq_Suc)
  ultimately have "irq_kernel_run p (map (\<lambda>_. 0) (replicate 500 (0, 0) :: (u64 \<times> u64) list))
      \<lparr>IRQ_COUNTER = 0, NEXT_DEADLINE = 0\<rparr> = Inr (ds, st')" by (simp only:)
  then have "update_results p ?T (replicate 500 (0, 0)) \<lparr>IRQ_COUNTER = 0, NEXT_DEADLINE = 0\<rparr> = Inr st'"
    by (rule results_from_run[rotated 2])
      (auto simp: monotonic_time_nanos_def riscv_time_if_def umul_def riscv_npt udiv_def io_simps)
  then show ?thesis unfolding handlers_return_def all by simp
qed

theorem irq_kernel_tests_witness:
  "tests_irqs Debug (riscv_linked Debug False True (map_table 1024) riscv64_qemu_config 0 0 0xFFFFFFC080200000 True)
     ''update_timer'' [SbiShutdown] (\<lambda>j. of_nat (j * 10000000)) (\<lambda>i. if i = 0 then replicate 500 (0, 0) else [])
     (\<lambda>j. of_nat (j * 1000000000)) riscv_witness"
proof (rule mp[OF conjunct1[OF conjunct2[OF conjunct2[OF irq_kernel_tests[of 1 21 "Ack_Other 30"]]]]])
  show "riscv_kernel_static Debug False 0 0 (map_table 1024) 0 riscv_witness \<and>
      ticking (riscv_time_if Debug riscv64_qemu_config 0) (\<lambda>j. of_nat (j * 10000000)) (\<lambda>j. of_nat (j * 1000000000)) 1 21 \<and>
      handlers_return Debug (riscv_time_if Debug riscv64_qemu_config 0)
        (\<lambda>i. if i = 0 then replicate 500 (0, 0) else []) (5 * (1 + 3) + 1)"
    using riscv_witness_static riscv_seconds zero_interrupts_return[of Debug 20] by simp
qed simp_all

end
