(* ===== verification/Axplat_Macros.thy ===== *)
theory Axplat_Macros
  imports Rust_Prelude
begin

text \<open>
  The entry points of a kernel: the attribute macros of \<^verbatim>\<open>axplat-macros\<close> that
  export a function of the kernel under a fixed symbol, and the functions
  \<^verbatim>\<open>call_main\<close> and \<^verbatim>\<open>call_secondary_main\<close> of \<^verbatim>\<open>axplat/src/lib.rs\<close> with which a
  platform enters it.  Parsing Rust is the work of the crate \<^verbatim>\<open>syn\<close>: the macros
  get the function it has parsed, or nothing; a type is the string that
  \<^verbatim>\<open>quote!\<close> prints for it.
\<close>

section \<open>The macros\<close>

datatype fn_arg = Receiver | Typed string

datatype return_type = DefaultReturn | ReturnTy string

record item_fn =
  fn_ident :: string
  sig_inputs :: "fn_arg list"
  sig_output :: return_type

text \<open>What a macro expands to: the error of \<^verbatim>\<open>syn\<close>, one of its own, or the exported function.\<close>

datatype expansion = SynError | CompileError string | Exported string item_fn

text \<open>The loop over the arguments, which stops at the first type that is not \<^verbatim>\<open>usize\<close>.\<close>

fun args_err :: "fn_arg list \<Rightarrow> bool \<Rightarrow> bool" where
  "args_err [] err = err"
| "args_err (Typed ty # as) err = (if ty \<noteq> ''usize'' then True else args_err as err)"
| "args_err (Receiver # as) err = args_err as err"

definition common_main :: "item_fn option \<Rightarrow> nat \<Rightarrow> string \<Rightarrow> string \<Rightarrow> expansion" where
  "common_main item arg_num export_name err_msg =
    (case item of
       None \<Rightarrow> SynError
     | Some main \<Rightarrow>
        (let err = (case sig_output main of ReturnTy ty \<Rightarrow> ty \<noteq> ''!'' | DefaultReturn \<Rightarrow> True);
             err1 = args_err (sig_inputs main) err;
             err2 = (if length (sig_inputs main) \<noteq> arg_num then True else err1)
         in if err2 then CompileError err_msg else Exported export_name main))"

definition axplat_main :: "'t list \<Rightarrow> item_fn option \<Rightarrow> expansion" where
  "axplat_main attr item =
    (if attr \<noteq> [] then CompileError ''expect an empty attribute or `#[axplat::main]`''
     else common_main item 2 ''__axplat_main''
       ''expect a function with type `fn(cpu_id: usize, arg: usize) -> !`'')"

definition axplat_secondary_main :: "'t list \<Rightarrow> item_fn option \<Rightarrow> expansion" where
  "axplat_secondary_main attr item =
    (if attr \<noteq> [] then CompileError ''expect an empty attribute or `#[axplat::secondary_main]`''
     else common_main item 1 ''__axplat_secondary_main''
       ''expect a function with type `fn(cpu_id: usize) -> !`'')"

section \<open>Compile-time checks and calls of the crate axplat\<close>

text \<open>The check of two constant strings, with the message of a failure.\<close>

definition assert_str_eq :: "string \<Rightarrow> string \<Rightarrow> string option \<Rightarrow> string + unit" where
  "assert_str_eq expect actual mes =
    (if expect = actual then Inr ()
     else Inl (case mes of Some m \<Rightarrow> m | None \<Rightarrow> ''assertion failed: expected != actual.''))"

text \<open>
  A kernel's uses of the two attributes, and the symbols it exports; a use that
  does not expand to a function stops the compiler.
\<close>

datatype 't entry_use = UseMain "'t list" "item_fn option" | UseSecondary "'t list" "item_fn option"

fun expand_use :: "'t entry_use \<Rightarrow> expansion" where
  "expand_use (UseMain attr item) = axplat_main attr item"
| "expand_use (UseSecondary attr item) = axplat_secondary_main attr item"

fun exported_symbols :: "'t entry_use list \<Rightarrow> (string \<times> item_fn) list option" where
  "exported_symbols [] = Some []"
| "exported_symbols (u # us) =
    (case expand_use u of
       Exported n f \<Rightarrow> map_option (Cons (n, f)) (exported_symbols us)
     | _ \<Rightarrow> None)"

text \<open>The linker takes a symbol that is defined exactly once.\<close>

definition resolve :: "string \<Rightarrow> (string \<times> 'f) list \<Rightarrow> 'f option" where
  "resolve n syms = (case filter (\<lambda>s. fst s = n) syms of [s] \<Rightarrow> Some (snd s) | _ \<Rightarrow> None)"

text \<open>The function that is entered, and the arguments it gets.\<close>

definition call_main :: "(string \<times> 'f) list \<Rightarrow> 'w \<Rightarrow> 'w \<Rightarrow> ('f \<times> 'w list) option" where
  "call_main syms cpu_id arg = map_option (\<lambda>f. (f, [cpu_id, arg])) (resolve ''__axplat_main'' syms)"

definition call_secondary_main :: "(string \<times> 'f) list \<Rightarrow> 'w \<Rightarrow> ('f \<times> 'w list) option" where
  "call_secondary_main syms cpu_id =
     map_option (\<lambda>f. (f, [cpu_id])) (resolve ''__axplat_secondary_main'' syms)"

section \<open>Acceptance\<close>

lemma args_err_iff: "args_err as err \<longleftrightarrow> err \<or> (\<exists>a\<in>set as. a \<noteq> Receiver \<and> a \<noteq> Typed ''usize'')"
  by (induction as err rule: args_err.induct) auto

text \<open>The signature that the documentation of the macros asks for, with \<open>n\<close> arguments.\<close>

definition entry_signature :: "nat \<Rightarrow> item_fn \<Rightarrow> bool" where
  "entry_signature n f \<longleftrightarrow> length (sig_inputs f) = n \<and>
     set (sig_inputs f) \<subseteq> {Receiver, Typed ''usize''} \<and> sig_output f = ReturnTy ''!''"

lemma common_main_Exported:
  "common_main item n name msg = Exported m f \<longleftrightarrow> item = Some f \<and> m = name \<and> entry_signature n f"
  by (auto simp: common_main_def entry_signature_def args_err_iff Let_def
      split: option.splits return_type.splits if_splits)

lemma axplat_main_Exported:
  "axplat_main attr item = Exported m f \<longleftrightarrow>
    attr = [] \<and> item = Some f \<and> m = ''__axplat_main'' \<and> entry_signature 2 f"
  by (auto simp: axplat_main_def common_main_Exported)

lemma axplat_secondary_main_Exported:
  "axplat_secondary_main attr item = Exported m f \<longleftrightarrow>
    attr = [] \<and> item = Some f \<and> m = ''__axplat_secondary_main'' \<and> entry_signature 1 f"
  by (auto simp: axplat_secondary_main_def common_main_Exported)

lemma accepted:
  "entry_signature 2 f \<Longrightarrow> axplat_main [] (Some f) = Exported ''__axplat_main'' f"
  "entry_signature 1 f \<Longrightarrow> axplat_secondary_main [] (Some f) = Exported ''__axplat_secondary_main'' f"
  by (simp_all add: axplat_main_Exported axplat_secondary_main_Exported)

lemma two_entries:
  assumes "entry_signature 2 f" and "entry_signature 1 g"
  shows "exported_symbols [UseMain [] (Some f), UseSecondary [] (Some g)]
    = Some [(''__axplat_main'', f), (''__axplat_secondary_main'', g)]"
  using assms by (simp add: accepted del: One_nat_def)

lemmas macro_Exported = axplat_main_Exported axplat_secondary_main_Exported

lemma exported_symbolsD:
  assumes "exported_symbols us = Some syms" and "(n, f) \<in> set syms"
  obtains "UseMain [] (Some f) \<in> set us" and "n = ''__axplat_main''" and "entry_signature 2 f"
  | "UseSecondary [] (Some f) \<in> set us" and "n = ''__axplat_secondary_main''" and "entry_signature 1 f"
proof -
  have "(UseMain [] (Some f) \<in> set us \<and> n = ''__axplat_main'' \<and> entry_signature 2 f) \<or>
    (UseSecondary [] (Some f) \<in> set us \<and> n = ''__axplat_secondary_main'' \<and> entry_signature 1 f)"
    using assms
  proof (induction us arbitrary: syms)
    case (Cons u us)
    then show ?case
      by (cases u) (auto simp: macro_Exported split: expansion.splits)
  qed simp
  then show thesis using that by blast
qed

lemma resolve_in: "resolve n syms = Some f \<Longrightarrow> (n, f) \<in> set syms"
proof -
  assume "resolve n syms = Some f"
  then obtain s where s: "filter (\<lambda>s. fst s = n) syms = [s]" "f = snd s"
    by (auto simp: resolve_def split: list.splits)
  from s(1) have "s \<in> set (filter (\<lambda>s. fst s = n) syms)" by simp
  then show ?thesis using s(2) by auto
qed

lemma resolve_once:
  "resolve n (xs @ (n, f) # ys) = Some f" if "n \<notin> fst ` set xs" "n \<notin> fst ` set ys"
proof -
  have "filter (\<lambda>s. fst s = n) xs = []" "filter (\<lambda>s. fst s = n) ys = []"
    using that by (auto simp: filter_empty_conv)
  then show ?thesis by (simp add: resolve_def)
qed

text \<open>
  C20: What a platform enters in a kernel that compiles is well typed: \<^verbatim>\<open>call_main\<close>
  only reaches a function that is marked with \<^verbatim>\<open>axplat::main\<close>, has as many
  parameters as the call has arguments, all of type \<^verbatim>\<open>usize\<close> (or a receiver,
  which the compiler allows in no free function), and never returns;
  likewise \<^verbatim>\<open>call_secondary_main\<close>.  A kernel that marks one function of each kind with the
  documented signature is entered at these two functions.
\<close>

theorem entry_points_well_typed:
  assumes "exported_symbols us = Some syms"
  shows "(call_main syms c a = Some (f, args) \<longrightarrow>
      UseMain [] (Some f) \<in> set us \<and> args = [c, a] \<and> entry_signature (length args) f) \<and>
    (call_secondary_main syms c = Some (g, args) \<longrightarrow>
      UseSecondary [] (Some g) \<in> set us \<and> args = [c] \<and> entry_signature (length args) g) \<and>
    (entry_signature 2 f \<and> entry_signature 1 g \<longrightarrow>
      (\<exists>syms. exported_symbols [UseMain [] (Some f), UseSecondary [] (Some g)] = Some syms \<and>
        call_main syms c a = Some (f, [c, a]) \<and> call_secondary_main syms c = Some (g, [c])))"
proof (intro conjI impI)
  assume "entry_signature 2 f \<and> entry_signature 1 g"
  then show "\<exists>syms. exported_symbols [UseMain [] (Some f), UseSecondary [] (Some g)] = Some syms \<and>
      call_main syms c a = Some (f, [c, a]) \<and> call_secondary_main syms c = Some (g, [c])"
    by (simp add: two_entries call_main_def call_secondary_main_def resolve_def del: exported_symbols.simps)
qed (auto simp: call_main_def call_secondary_main_def numeral_2_eq_2 elim!: exported_symbolsD[OF assms resolve_in])

theorem entry_points_well_typed_witness:
  "call_main [(''__axplat_main'', \<lparr>fn_ident = ''main'', sig_inputs = [Typed ''usize'', Typed ''usize''],
      sig_output = ReturnTy ''!''\<rparr>)] (0 :: u64) 1 =
    Some (\<lparr>fn_ident = ''main'', sig_inputs = [Typed ''usize'', Typed ''usize''],
      sig_output = ReturnTy ''!''\<rparr>, [0, 1]) \<and>
   entry_signature 2 \<lparr>fn_ident = ''main'', sig_inputs = [Typed ''usize'', Typed ''usize''],
      sig_output = ReturnTy ''!''\<rparr>"
proof -
  let ?f = "\<lparr>fn_ident = ''main'', sig_inputs = [Typed ''usize'', Typed ''usize''], sig_output = ReturnTy ''!''\<rparr>"
  have e: "exported_symbols [UseMain [] (Some ?f)] = Some [(''__axplat_main'', ?f)]"
    by (simp add: axplat_main_def common_main_def)
  have c: "call_main [(''__axplat_main'', ?f)] (0 :: u64) 1 = Some (?f, [0, 1])"
    by (simp add: call_main_def resolve_def)
  have "entry_signature (length [0 :: u64, 1]) ?f"
    using mp[OF conjunct1[OF entry_points_well_typed[OF e]] c] by blast
  then show ?thesis using c by (simp add: numeral_2_eq_2)
qed

end
