(* ===== verification/Crate_Roots.thy ===== *)
theory Crate_Roots
  imports Axplat_Macros
begin

text \<open>
  How the crates fit together when they are compiled: the modules and traits of \<^verbatim>\<open>axplat\<close>, the
  root module of every platform crate and of the template for new ones, which macros and modules
  implement which trait, and the check of the configured package.  The features
  \<^verbatim>\<open>irq\<close> and \<^verbatim>\<open>smp\<close> gate modules, implementations and functions, in each crate by its own
  features; Cargo enables a feature of a dependency with the crate's own feature of that name.
\<close>

section \<open>Crates as data\<close>

text \<open>
  A gate is the attribute \<^verbatim>\<open>cfg(feature = ...)\<close> of an item.  An implementation of a trait has the
  functions it gives, and whether their bodies are all \<^verbatim>\<open>todo!()\<close>.
\<close>

datatype trait_name = InitIf | MemIf | TimeIf | ConsoleIf | IrqIf | PowerIf

datatype fn_name =
    Init_early | Init_early_secondary | Init_later | Init_later_secondary | Phys_ram_ranges
    | Reserved_phys_ram_ranges | Mmio_ranges | Phys_to_virt | Virt_to_phys | Current_ticks
    | Ticks_to_nanos | Nanos_to_ticks | Epochoffset_nanos | Set_oneshot_timer | Write_bytes
    | Read_bytes | Set_enable | Register | Unregister | Handle | Send_ipi | Cpu_boot | System_off
    | Cpu_num

datatype mod_name =
    Apic_rs | Boot_rs | Console_rs | Dw_apb_uart_rs | Generic_timer_rs | Gic_rs | Init_rs | Irq_rs
    | Mem_rs | Misc_rs | Mp_rs | Pl011_rs | Pl031_rs | Power_rs | Psci_rs | Time_rs

datatype macro_name = Time_if_impl | Irq_if_impl | Console_if_impl

datatype gate = Always | Irq_On | Smp_On

datatype item = Module mod_name | Invoke macro_name

datatype fn_bodies = Code | Stubs

datatype impl_block = Impl gate trait_name fn_bodies "(fn_name \<times> gate) list"

text \<open>\<open>files\<close> are the source files of a crate that implement traits.\<close>

record crate_root =
  crate_name :: string
  config_package :: string
  items :: "(gate \<times> item) list"
  files :: "(mod_name \<times> impl_block list) list"

record feature_set =
  irq_on :: bool
  smp_on :: bool

fun enabled :: "feature_set \<Rightarrow> gate \<Rightarrow> bool" where
  "enabled f Always = True"
| "enabled f Irq_On = irq_on f"
| "enabled f Smp_On = smp_on f"

definition kept :: "feature_set \<Rightarrow> (gate \<times> 'a) list \<Rightarrow> 'a list" where
  "kept f xs = map snd (filter (\<lambda>(g, _). enabled f g) xs)"

definition kept_fns :: "feature_set \<Rightarrow> (fn_name \<times> gate) list \<Rightarrow> fn_name list" where
  "kept_fns f fns = map fst (filter (\<lambda>(_, g). enabled f g) fns)"

section \<open>axplat and the shared drivers\<close>

definition axplat_items :: "(gate \<times> item) list" where
  "axplat_items =
     [(Always, Module Console_rs), (Always, Module Init_rs), (Irq_On, Module Irq_rs),
     (Always, Module Mem_rs), (Always, Module Power_rs), (Always, Module Time_rs)]"

definition axplat_traits :: "(mod_name \<times> trait_name \<times> (fn_name \<times> gate) list) list" where
  "axplat_traits =
    [(Init_rs, InitIf, [(Init_early, Always), (Init_early_secondary, Smp_On),
      (Init_later, Always), (Init_later_secondary, Smp_On)]),
     (Mem_rs, MemIf, [(Phys_ram_ranges, Always), (Reserved_phys_ram_ranges, Always),
      (Mmio_ranges, Always), (Phys_to_virt, Always), (Virt_to_phys, Always)]),
     (Time_rs, TimeIf, [(Current_ticks, Always), (Ticks_to_nanos, Always),
      (Nanos_to_ticks, Always), (Epochoffset_nanos, Always), (Set_oneshot_timer, Irq_On)]),
     (Console_rs, ConsoleIf, [(Write_bytes, Always), (Read_bytes, Always)]),
     (Irq_rs, IrqIf, [(Set_enable, Always), (Register, Always), (Unregister, Always),
      (Handle, Always), (Send_ipi, Always)]),
     (Power_rs, PowerIf, [(Cpu_boot, Smp_On), (System_off, Always), (Cpu_num, Always)])]"

text \<open>The macros that implement a trait, and the modules that declare them.\<close>

definition arm_macros :: "(macro_name \<times> mod_name \<times> impl_block) list" where
  "arm_macros =
    [(Time_if_impl, Generic_timer_rs, Impl Always TimeIf Code [(Current_ticks, Always), (Ticks_to_nanos, Always),
        (Nanos_to_ticks, Always), (Epochoffset_nanos, Always), (Set_oneshot_timer, Irq_On)]),
     (Irq_if_impl, Gic_rs, Impl Always IrqIf Code [(Set_enable, Always), (Register, Always),
        (Unregister, Always), (Handle, Always), (Send_ipi, Always)]),
     (Console_if_impl, Pl011_rs, Impl Always ConsoleIf Code [(Write_bytes, Always), (Read_bytes, Always)])]"

definition arm_items :: "(gate \<times> item) list" where
  "arm_items =
     [(Always, Module Generic_timer_rs), (Irq_On, Module Gic_rs), (Always, Module Pl011_rs),
     (Always, Module Pl031_rs), (Always, Module Psci_rs)]"

section \<open>The platform crates\<close>

definition aarch64_qemu_root :: crate_root where
  "aarch64_qemu_root =
    \<lparr>crate_name = ''axplat-aarch64-qemu-virt'',
     config_package = ''axplat-aarch64-qemu-virt'',
     items =
      [(Always, Module Boot_rs), (Always, Module Init_rs), (Always, Module Mem_rs),
      (Always, Module Power_rs), (Always, Invoke Console_if_impl), (Always, Invoke Time_if_impl),
      (Irq_On, Invoke Irq_if_impl)],
     files =
      [(Init_rs, [Impl Always InitIf Code [(Init_early, Always), (Init_early_secondary, Smp_On),
        (Init_later, Always), (Init_later_secondary, Smp_On)]]),
      (Mem_rs, [Impl Always MemIf Code [(Phys_ram_ranges, Always), (Reserved_phys_ram_ranges, Always),
        (Mmio_ranges, Always), (Phys_to_virt, Always), (Virt_to_phys, Always)]]),
      (Power_rs, [Impl Always PowerIf Code [(Cpu_boot, Smp_On), (System_off, Always),
        (Cpu_num, Always)]])]\<rparr>"

definition phytium_root :: crate_root where
  "phytium_root =
    \<lparr>crate_name = ''axplat-aarch64-phytium-pi'',
     config_package = ''axplat-aarch64-phytium-pi'',
     items =
      [(Always, Module Boot_rs), (Always, Module Init_rs), (Always, Module Mem_rs),
      (Always, Module Power_rs), (Always, Invoke Console_if_impl), (Always, Invoke Time_if_impl),
      (Irq_On, Invoke Irq_if_impl)],
     files =
      [(Init_rs, [Impl Always InitIf Code [(Init_early, Always), (Init_early_secondary, Smp_On),
        (Init_later, Always), (Init_later_secondary, Smp_On)]]),
      (Mem_rs, [Impl Always MemIf Code [(Phys_ram_ranges, Always), (Reserved_phys_ram_ranges, Always),
        (Mmio_ranges, Always), (Phys_to_virt, Always), (Virt_to_phys, Always)]]),
      (Power_rs, [Impl Always PowerIf Code [(Cpu_boot, Smp_On), (System_off, Always),
        (Cpu_num, Always)]])]\<rparr>"

definition bsta_root :: crate_root where
  "bsta_root =
    \<lparr>crate_name = ''axplat-aarch64-bsta1000b'',
     config_package = ''axplat-aarch64-bsta1000b'',
     items =
      [(Always, Module Boot_rs), (Always, Module Dw_apb_uart_rs), (Always, Module Init_rs),
      (Always, Module Mem_rs), (Always, Module Misc_rs), (Smp_On, Module Mp_rs),
      (Always, Module Power_rs), (Always, Invoke Time_if_impl), (Irq_On, Invoke Irq_if_impl)],
     files =
      [(Dw_apb_uart_rs, [Impl Always ConsoleIf Code [(Write_bytes, Always), (Read_bytes, Always)]]),
      (Init_rs, [Impl Always InitIf Code [(Init_early, Always), (Init_early_secondary, Smp_On),
        (Init_later, Always), (Init_later_secondary, Smp_On)]]),
      (Mem_rs, [Impl Always MemIf Code [(Phys_ram_ranges, Always), (Reserved_phys_ram_ranges, Always),
        (Mmio_ranges, Always), (Phys_to_virt, Always), (Virt_to_phys, Always)]]),
      (Power_rs, [Impl Always PowerIf Code [(Cpu_boot, Smp_On), (System_off, Always),
        (Cpu_num, Always)]])]\<rparr>"

definition raspi_root :: crate_root where
  "raspi_root =
    \<lparr>crate_name = ''axplat-aarch64-raspi'',
     config_package = ''axplat-aarch64-raspi'',
     items =
      [(Always, Module Boot_rs), (Always, Module Init_rs), (Always, Module Mem_rs),
      (Always, Module Power_rs), (Smp_On, Module Mp_rs), (Always, Invoke Console_if_impl),
      (Always, Invoke Time_if_impl), (Irq_On, Invoke Irq_if_impl)],
     files =
      [(Init_rs, [Impl Always InitIf Code [(Init_early, Always), (Init_early_secondary, Smp_On),
        (Init_later, Always), (Init_later_secondary, Smp_On)]]),
      (Mem_rs, [Impl Always MemIf Code [(Phys_ram_ranges, Always), (Reserved_phys_ram_ranges, Always),
        (Mmio_ranges, Always), (Phys_to_virt, Always), (Virt_to_phys, Always)]]),
      (Power_rs, [Impl Always PowerIf Code [(Cpu_boot, Smp_On), (System_off, Always),
        (Cpu_num, Always)]])]\<rparr>"

definition arm_qemu_root :: crate_root where
  "arm_qemu_root =
    \<lparr>crate_name = ''axplat-arm-qemu-virt'',
     config_package = ''axplat-arm-qemu-virt'',
     items =
      [(Always, Module Boot_rs), (Always, Module Init_rs), (Always, Module Mem_rs),
      (Always, Module Power_rs), (Always, Invoke Console_if_impl), (Always, Invoke Time_if_impl),
      (Irq_On, Invoke Irq_if_impl)],
     files =
      [(Init_rs, [Impl Always InitIf Code [(Init_early, Always), (Init_early_secondary, Smp_On),
        (Init_later, Always), (Init_later_secondary, Smp_On)]]),
      (Mem_rs, [Impl Always MemIf Code [(Phys_ram_ranges, Always), (Reserved_phys_ram_ranges, Always),
        (Mmio_ranges, Always), (Phys_to_virt, Always), (Virt_to_phys, Always)]]),
      (Power_rs, [Impl Always PowerIf Code [(Cpu_boot, Smp_On), (System_off, Always),
        (Cpu_num, Always)]])]\<rparr>"

definition riscv_root :: crate_root where
  "riscv_root =
    \<lparr>crate_name = ''axplat-riscv64-qemu-virt'',
     config_package = ''axplat-riscv64-qemu-virt'',
     items =
      [(Always, Module Boot_rs), (Always, Module Console_rs), (Always, Module Init_rs),
      (Irq_On, Module Irq_rs), (Always, Module Mem_rs), (Always, Module Power_rs),
      (Always, Module Time_rs)],
     files =
      [(Console_rs, [Impl Always ConsoleIf Code [(Write_bytes, Always), (Read_bytes, Always)]]),
      (Init_rs, [Impl Always InitIf Code [(Init_early, Always), (Init_early_secondary, Smp_On),
        (Init_later, Always), (Init_later_secondary, Smp_On)]]),
      (Irq_rs, [Impl Always IrqIf Code [(Set_enable, Always), (Register, Always),
        (Unregister, Always), (Handle, Always), (Send_ipi, Always)]]),
      (Mem_rs, [Impl Always MemIf Code [(Phys_ram_ranges, Always), (Reserved_phys_ram_ranges, Always),
        (Mmio_ranges, Always), (Phys_to_virt, Always), (Virt_to_phys, Always)]]),
      (Power_rs, [Impl Always PowerIf Code [(Cpu_boot, Smp_On), (System_off, Always),
        (Cpu_num, Always)]]),
      (Time_rs, [Impl Always TimeIf Code [(Current_ticks, Always), (Ticks_to_nanos, Always),
        (Nanos_to_ticks, Always), (Epochoffset_nanos, Always), (Set_oneshot_timer, Irq_On)]])]\<rparr>"

definition la_root :: crate_root where
  "la_root =
    \<lparr>crate_name = ''axplat-loongarch64-qemu-virt'',
     config_package = ''axplat-loongarch64-qemu-virt'',
     items =
      [(Always, Module Boot_rs), (Always, Module Console_rs), (Always, Module Init_rs),
      (Irq_On, Module Irq_rs), (Always, Module Mem_rs), (Smp_On, Module Mp_rs),
      (Always, Module Power_rs), (Always, Module Time_rs)],
     files =
      [(Console_rs, [Impl Always ConsoleIf Code [(Write_bytes, Always), (Read_bytes, Always)]]),
      (Init_rs, [Impl Always InitIf Code [(Init_early, Always), (Init_early_secondary, Smp_On),
        (Init_later, Always), (Init_later_secondary, Smp_On)]]),
      (Irq_rs, [Impl Always IrqIf Code [(Set_enable, Always), (Register, Always),
        (Unregister, Always), (Handle, Always), (Send_ipi, Always)]]),
      (Mem_rs, [Impl Always MemIf Code [(Phys_ram_ranges, Always), (Reserved_phys_ram_ranges, Always),
        (Mmio_ranges, Always), (Phys_to_virt, Always), (Virt_to_phys, Always)]]),
      (Power_rs, [Impl Always PowerIf Code [(Cpu_boot, Smp_On), (System_off, Always),
        (Cpu_num, Always)]]),
      (Time_rs, [Impl Always TimeIf Code [(Current_ticks, Always), (Epochoffset_nanos, Always),
        (Ticks_to_nanos, Always), (Nanos_to_ticks, Always), (Set_oneshot_timer, Irq_On)]])]\<rparr>"

definition x86_root :: crate_root where
  "x86_root =
    \<lparr>crate_name = ''axplat-x86-pc'',
     config_package = ''axplat-x86-pc'',
     items =
      [(Always, Module Apic_rs), (Always, Module Boot_rs), (Always, Module Console_rs),
      (Always, Module Init_rs), (Always, Module Mem_rs), (Always, Module Power_rs),
      (Always, Module Time_rs), (Smp_On, Module Mp_rs)],
     files =
      [(Apic_rs, [Impl Irq_On IrqIf Code [(Set_enable, Always), (Register, Always),
        (Unregister, Always), (Handle, Always), (Send_ipi, Always)]]),
      (Console_rs, [Impl Always ConsoleIf Code [(Write_bytes, Always), (Read_bytes, Always)]]),
      (Init_rs, [Impl Always InitIf Code [(Init_early, Always), (Init_early_secondary, Smp_On),
        (Init_later, Always), (Init_later_secondary, Smp_On)]]),
      (Mem_rs, [Impl Always MemIf Code [(Phys_ram_ranges, Always), (Reserved_phys_ram_ranges, Always),
        (Mmio_ranges, Always), (Phys_to_virt, Always), (Virt_to_phys, Always)]]),
      (Power_rs, [Impl Always PowerIf Code [(Cpu_boot, Smp_On), (System_off, Always),
        (Cpu_num, Always)]]),
      (Time_rs, [Impl Always TimeIf Code [(Current_ticks, Always), (Ticks_to_nanos, Always),
        (Nanos_to_ticks, Always), (Epochoffset_nanos, Always), (Set_oneshot_timer, Irq_On)]])]\<rparr>"

definition platform_roots :: "crate_root list" where
  "platform_roots =
    [aarch64_qemu_root, phytium_root, bsta_root, raspi_root, arm_qemu_root, riscv_root, la_root, x86_root]"

text \<open>The template for a new platform; \<^verbatim>\<open>cargo axplat new\<close> sets its names.\<close>

definition template_console :: impl_block where
  "template_console =
     Impl Always ConsoleIf Stubs [(Write_bytes, Always), (Read_bytes, Always)]"

definition template_init :: impl_block where
  "template_init =
     Impl Always InitIf Stubs [(Init_early, Always), (Init_early_secondary, Smp_On),
       (Init_later, Always), (Init_later_secondary, Smp_On)]"

definition template_irq :: impl_block where
  "template_irq =
     Impl Always IrqIf Stubs [(Set_enable, Always), (Register, Always),
       (Unregister, Always), (Handle, Always), (Send_ipi, Always)]"

definition template_mem :: impl_block where
  "template_mem =
     Impl Always MemIf Stubs [(Phys_ram_ranges, Always), (Reserved_phys_ram_ranges, Always),
       (Mmio_ranges, Always), (Phys_to_virt, Always), (Virt_to_phys, Always)]"

definition template_power :: impl_block where
  "template_power =
     Impl Always PowerIf Stubs [(Cpu_boot, Smp_On), (System_off, Always),
       (Cpu_num, Always)]"

definition template_time :: impl_block where
  "template_time =
     Impl Always TimeIf Stubs [(Current_ticks, Always), (Ticks_to_nanos, Always),
       (Nanos_to_ticks, Always), (Epochoffset_nanos, Always), (Set_oneshot_timer, Irq_On)]"

definition template_root :: crate_root where
  "template_root =
    \<lparr>crate_name = ''axplat-example'',
     config_package = ''<PACKAGE>'',
     items =
      [(Always, Module Console_rs), (Always, Module Init_rs), (Irq_On, Module Irq_rs),
      (Always, Module Mem_rs), (Always, Module Power_rs), (Always, Module Time_rs)],
     files =
      [(Console_rs, [template_console]),
      (Init_rs, [template_init]),
      (Irq_rs, [template_irq]),
      (Mem_rs, [template_mem]),
      (Power_rs, [template_power]),
      (Time_rs, [template_time])]\<rparr>"

section \<open>Compiling a crate\<close>

text \<open>
  The traits that \<^verbatim>\<open>axplat\<close> declares under its features, with their functions, and the
  implementations in a platform under its own; a macro of the shared drivers has to be compiled
  to be found.
\<close>

definition declared :: "feature_set \<Rightarrow> (trait_name \<times> fn_name list) list" where
  "declared ax =
     map (\<lambda>(_, t, fns). (t, kept_fns ax fns))
       (filter (\<lambda>(m, _). Module m \<in> set (kept ax axplat_items)) axplat_traits)"

fun item_impls :: "bool \<Rightarrow> crate_root \<Rightarrow> item \<Rightarrow> impl_block list option" where
  "item_impls arm_irq c (Module m) =
     Some (case map_of (files c) m of None \<Rightarrow> [] | Some bs \<Rightarrow> bs)"
| "item_impls arm_irq c (Invoke mac) =
     (case map_of arm_macros mac of
        None \<Rightarrow> None
      | Some (m, b) \<Rightarrow>
          if Module m \<in> set (kept \<lparr>irq_on = arm_irq, smp_on = False\<rparr> arm_items) then Some [b] else None)"

fun all_impls :: "bool \<Rightarrow> crate_root \<Rightarrow> item list \<Rightarrow> impl_block list option" where
  "all_impls arm_irq c [] = Some []"
| "all_impls arm_irq c (i # is) =
     (case item_impls arm_irq c i of
        None \<Rightarrow> None
      | Some bs \<Rightarrow> map_option (\<lambda>rest. bs @ rest) (all_impls arm_irq c is))"

fun impl_entry :: "feature_set \<Rightarrow> impl_block \<Rightarrow> (trait_name \<times> fn_name list) list" where
  "impl_entry f (Impl g t b fns) = (if enabled f g then [(t, kept_fns f fns)] else [])"

definition impls :: "bool \<Rightarrow> feature_set \<Rightarrow> crate_root \<Rightarrow> (trait_name \<times> fn_name list) list option" where
  "impls arm_irq pf c =
     map_option (\<lambda>bs. concat (map (impl_entry pf) bs)) (all_impls arm_irq c (kept pf (items c)))"

text \<open>
  The compiler accepts an implementation of a declared trait with exactly its functions.
  The interface is complete when every declared trait has one implementation.
\<close>

definition same_names :: "fn_name list \<Rightarrow> fn_name list \<Rightarrow> bool" where
  "same_names xs ys \<longleftrightarrow> length xs = length ys \<and> list_all (\<lambda>x. x \<in> set ys) xs \<and> list_all (\<lambda>y. y \<in> set xs) ys"

definition platform_builds :: "feature_set \<Rightarrow> bool \<Rightarrow> feature_set \<Rightarrow> crate_root \<Rightarrow> bool" where
  "platform_builds ax arm_irq pf c =
    (case impls arm_irq pf c of
       None \<Rightarrow> False
     | Some bs \<Rightarrow>
         list_all (\<lambda>(t, fns). case map_of (declared ax) t of None \<Rightarrow> False | Some ds \<Rightarrow> same_names fns ds) bs)"

definition interface_complete :: "feature_set \<Rightarrow> bool \<Rightarrow> feature_set \<Rightarrow> crate_root \<Rightarrow> bool" where
  "interface_complete ax arm_irq pf c =
    (case impls arm_irq pf c of
       None \<Rightarrow> False
     | Some bs \<Rightarrow> list_all (\<lambda>(t, _). length (filter (\<lambda>(u, _). u = t) bs) = 1) (declared ax))"

text \<open>
  The features that Cargo enables: those of the platform, and those that other crates of the
  kernel ask of the shared drivers (\<open>arm\<close>) and of \<^verbatim>\<open>axplat\<close> (\<open>others\<close>) themselves.
\<close>

definition arm_feature :: "feature_set \<Rightarrow> bool \<Rightarrow> bool" where
  "arm_feature pf arm \<longleftrightarrow> irq_on pf \<or> arm"

definition axplat_features :: "feature_set \<Rightarrow> bool \<Rightarrow> feature_set \<Rightarrow> feature_set" where
  "axplat_features pf arm others =
     \<lparr>irq_on = irq_on pf \<or> arm \<or> irq_on others, smp_on = smp_on pf \<or> smp_on others\<rparr>"

section \<open>The configuration module\<close>

text \<open>
  \<^verbatim>\<open>pub mod config\<close>, the same in every crate.  \<open>include_configs\<close> is the third-party macro,
  from the value of the environment variable and the fallback to a configuration or an error.
\<close>

definition package_message :: string where
  "package_message =
     ''`PACKAGE` field in the configuration does not match the Package name. Please check your configuration file.''"

definition config_module ::
  "(string option \<Rightarrow> string \<Rightarrow> string + 'c) \<Rightarrow> ('c \<Rightarrow> string) \<Rightarrow> string option \<Rightarrow> string \<Rightarrow> string + 'c" where
  "config_module include_configs package path_env pkg_name =
     rbind (include_configs path_env ''axconfig.toml'') (\<lambda>cfg.
     rbind (assert_str_eq (package cfg) pkg_name (Some package_message)) (\<lambda>_. Inr cfg))"

text \<open>What the documentation of the module says of the macro, for a file system \<open>read\<close>.\<close>

definition reading :: "(string \<Rightarrow> 'c option) \<Rightarrow> string option \<Rightarrow> string \<Rightarrow> string + 'c" where
  "reading read path_env fallback =
     (case read (case path_env of Some p \<Rightarrow> p | None \<Rightarrow> fallback) of None \<Rightarrow> Inl ''include_configs'' | Some cfg \<Rightarrow> Inr cfg)"

text \<open>The build script of every platform crate, as the lines it prints for Cargo.\<close>

definition platform_build :: "string option \<Rightarrow> string list" where
  "platform_build path_env =
     ''cargo:rerun-if-env-changed=AX_CONFIG_PATH'' #
     (case path_env of Some config_path \<Rightarrow> [''cargo:rerun-if-changed='' @ config_path] | None \<Rightarrow> [])"

section \<open>Every platform fits the interface\<close>

lemmas template_defs = template_console_def template_init_def template_irq_def template_mem_def template_power_def
  template_time_def

lemmas root_defs = aarch64_qemu_root_def phytium_root_def bsta_root_def raspi_root_def arm_qemu_root_def
  riscv_root_def la_root_def x86_root_def template_root_def

abbreviation "feats i s \<equiv> \<lparr>irq_on = i, smp_on = s\<rparr>"

definition fits_own :: "feature_set \<Rightarrow> bool \<Rightarrow> crate_root \<Rightarrow> bool" where
  "fits_own pf arm c \<longleftrightarrow> platform_builds pf arm pf c \<and> interface_complete pf arm pf c"

lemma same_names_iff: "same_names xs ys \<longleftrightarrow> length xs = length ys \<and> set xs = set ys"
  unfolding same_names_def list_all_iff by blast

text \<open>
  If a platform fits the interface under its own features, then it is compiled with other features
  of \<^verbatim>\<open>axplat\<close> exactly when the declared traits that it implements stay the same.
\<close>

definition agree :: "feature_set \<Rightarrow> feature_set \<Rightarrow> bool" where
  "agree ax pf \<longleftrightarrow> list_all (\<lambda>(t, ds). case map_of (declared ax) t of None \<Rightarrow> False | Some es \<Rightarrow> same_names ds es) (declared pf)"

lemma builds_iff_agree:
  assumes "fits_own pf arm c" and "distinct (map fst (declared pf))"
  shows "platform_builds ax arm pf c \<longleftrightarrow> agree ax pf"
proof -
  obtain bs where bs: "impls arm pf c = Some bs"
    using assms(1) by (auto simp: fits_own_def platform_builds_def split: option.splits)
  have own: "\<exists>ds. (t, ds) \<in> set (declared pf) \<and> same_names fns ds" if "(t, fns) \<in> set bs" for t fns
    using bspec[OF assms(1)[unfolded fits_own_def platform_builds_def bs option.case list_all_iff, THEN conjunct1] that]
    by (auto split: option.splits dest: map_of_SomeD)
  have given: "\<exists>fns. (t, fns) \<in> set bs" if d: "(t, ds) \<in> set (declared pf)" for t ds
  proof -
    have "length (filter (\<lambda>(u, _). u = t) bs) = 1"
      using d assms(1) by (auto simp: fits_own_def interface_complete_def bs list_all_iff)
    then have "filter (\<lambda>(u, _). u = t) bs \<noteq> []" by auto
    then show ?thesis by (auto simp: filter_empty_conv)
  qed
  have unique: "ds = es" if "(t, ds) \<in> set (declared pf)" "(t, es) \<in> set (declared pf)" for t ds es
    using that assms(2) by (metis eq_key_imp_eq_value)
  let ?ok = "\<lambda>t xs. case map_of (declared ax) t of None \<Rightarrow> False | Some es \<Rightarrow> same_names xs es"
  have swap: "?ok t xs \<longleftrightarrow> ?ok t ys" if "same_names xs ys" for t xs ys
    using that by (simp add: same_names_iff split: option.splits)
  have "list_all (\<lambda>(t, fns). ?ok t fns) bs \<longleftrightarrow> list_all (\<lambda>(t, ds). ?ok t ds) (declared pf)"
    (is "?L \<longleftrightarrow> ?R")
  proof
    assume L: ?L
    have "?ok t ds" if d: "(t, ds) \<in> set (declared pf)" for t ds
    proof -
      obtain fns where f: "(t, fns) \<in> set bs" using given[OF d] by blast
      then obtain es where "(t, es) \<in> set (declared pf)" "same_names fns es" using own by blast
      then have "same_names fns ds" using unique d by blast
      then show ?thesis using L f swap by (simp add: list_all_iff) (metis (no_types, lifting) case_prodD)
    qed
    then show ?R by (auto simp: list_all_iff)
  next
    assume R: ?R
    have "?ok t fns" if "(t, fns) \<in> set bs" for t fns
      using own[OF that] swap R by (simp add: list_all_iff) (metis (no_types, lifting) case_prodD)
    then show ?L by (auto simp: list_all_iff)
  qed
  then show ?thesis by (simp add: platform_builds_def bs agree_def)
qed

lemma declared_eq:
  "declared f =
    [(InitIf, if smp_on f then [Init_early, Init_early_secondary, Init_later, Init_later_secondary] else [Init_early, Init_later]),
     (MemIf, [Phys_ram_ranges, Reserved_phys_ram_ranges, Mmio_ranges, Phys_to_virt, Virt_to_phys]),
     (TimeIf, [Current_ticks, Ticks_to_nanos, Nanos_to_ticks, Epochoffset_nanos] @ (if irq_on f then [Set_oneshot_timer] else [])),
     (ConsoleIf, [Write_bytes, Read_bytes])] @
    (if irq_on f then [(IrqIf, [Set_enable, Register, Unregister, Handle, Send_ipi])] else []) @
    [(PowerIf, if smp_on f then [Cpu_boot, System_off, Cpu_num] else [System_off, Cpu_num])]"
  by (simp add: declared_def axplat_traits_def axplat_items_def kept_def kept_fns_def)

lemma declared_distinct: "distinct (map fst (declared f))"
  by (simp add: declared_eq)

lemma agree_iff: "agree ax pf \<longleftrightarrow> ax = pf"
proof
  assume "agree ax pf"
  then have "irq_on ax = irq_on pf" "smp_on ax = smp_on pf"
    by (auto simp: agree_def declared_eq same_names_iff split: if_splits)
  then show "ax = pf" by simp
qed (auto simp: agree_def list_all_iff map_of_is_SomeI[OF declared_distinct] same_names_iff)

lemma fits_without_irq:
  "list_all (fits_own (feats False False) arm) (template_root # platform_roots)"
  "list_all (fits_own (feats False True) arm) (template_root # platform_roots)"
  by (cases arm; simp only:; code_simp)+

lemma fits_with_irq:
  "list_all (fits_own (feats True False) True) (template_root # platform_roots)"
  "list_all (fits_own (feats True True) True) (template_root # platform_roots)"
  by code_simp+

lemma fits_all: "list_all (fits_own pf (arm_feature pf arm)) (template_root # platform_roots)"
proof (cases "irq_on pf")
  case True
  then have "pf = feats True False \<or> pf = feats True True" by (cases pf) auto
  then show ?thesis using fits_with_irq by (auto simp: arm_feature_def)
next
  case False
  then have "pf = feats False False \<or> pf = feats False True" by (cases pf) auto
  then show ?thesis using fits_without_irq by (auto simp: arm_feature_def)
qed

fun stub :: "impl_block \<Rightarrow> bool" where
  "stub (Impl g t b fns) \<longleftrightarrow> b = Stubs"

definition impl_blocks :: "crate_root \<Rightarrow> impl_block list" where
  "impl_blocks c = concat (map snd (files c))"

lemma config_module_iff:
  "config_module include_configs package path_env name = Inr cfg \<longleftrightarrow>
     include_configs path_env ''axconfig.toml'' = Inr cfg \<and> package cfg = name"
  by (auto simp: config_module_def assert_str_eq_def rbind_Inr_iff)


end
