(* ===== verification/Cargo_Axplat.thy ===== *)
theory Cargo_Axplat
  imports Axplat_Macros "HOL-Library.Sublist"
begin

text \<open>
  The tool \<^verbatim>\<open>cargo axplat\<close>: the arguments that it hands to \<^verbatim>\<open>cargo add\<close> and
  \<^verbatim>\<open>cargo new\<close>, the template of a new platform package, the information it shows
  about a package, and the build script that collects the template's files.

  The file system, the processes and the crates \<^verbatim>\<open>toml_edit\<close>, \<^verbatim>\<open>cargo_metadata\<close> and
  \<^verbatim>\<open>camino\<close> are parameters: records of the operations that the tool uses, with their
  documented behaviour as predicates.  Parsing the command line is the work of
  \<^verbatim>\<open>clap\<close>: a command is the record it fills in.
\<close>

section \<open>Strings and paths\<close>

text \<open>\<^verbatim>\<open>str::replace\<close>: every occurrence of a (non-empty) pattern, from the left.\<close>

function str_replace :: "string \<Rightarrow> string \<Rightarrow> string \<Rightarrow> string" where
  "str_replace pat new [] = []"
| "str_replace pat new (c # cs) =
    (if pat \<noteq> [] \<and> prefix pat (c # cs)
     then new @ str_replace pat new (drop (length pat) (c # cs))
     else c # str_replace pat new cs)"
  by pat_completeness auto
termination
  by (relation "measure (\<lambda>(pat, new, s). length s)") (auto simp: neq_Nil_conv)

lemma str_replace_skip:
  "c \<notin> set xs \<Longrightarrow> str_replace (c # pat) new (xs @ ys) = xs @ str_replace (c # pat) new ys"
  by (induction xs) auto

lemma str_replace_absent: "c \<notin> set xs \<Longrightarrow> str_replace (c # pat) new xs = xs"
  using str_replace_skip[of c xs pat new "[]"] by simp

lemma str_replace_here:
  "str_replace (c # pat) new (c # pat @ ys) = new @ str_replace (c # pat) new ys"
  by simp

text \<open>\<^verbatim>\<open>Path::join\<close>.\<close>

definition path_join :: "string \<Rightarrow> string \<Rightarrow> string" where
  "path_join dir name =
    (if name \<noteq> [] \<and> hd name = CHR ''/'' then name
     else if dir = [] \<or> last dir = CHR ''/'' then dir @ name
     else dir @ ''/'' @ name)"

lemma path_join_inj:
  "path_join d m = path_join d n \<longleftrightarrow> m = n"
  if "m = [] \<or> hd m \<noteq> CHR ''/''" and "n = [] \<or> hd n \<noteq> CHR ''/''"
  using that by (auto simp: path_join_def)

section \<open>Running cargo\<close>

datatype io_error = NotFound | InvalidData | OtherIo string

text \<open>What a process left: whether it succeeded, its exit code and its output.\<close>

record process_output =
  success :: bool
  code :: "int option"
  out :: "u8 list"

text \<open>How a step of the tool ends: with a value, or with the exit of the process.\<close>

datatype 'a outcome = Returns 'a | Exits int

text \<open>
  \<open>cargo\<close> runs a command line on the state of the world, or cannot be started;
  its error output goes to the terminal and is left out.
\<close>

definition run_cargo_command ::
  "(string list \<Rightarrow> 's \<Rightarrow> (process_output \<times> 's) option) \<Rightarrow> (u8 list \<Rightarrow> string option) \<Rightarrow>
    string \<Rightarrow> string list \<Rightarrow> 's \<Rightarrow> panic + (string \<times> 's) outcome" where
  "run_cargo_command cargo from_utf8 command args s =
    (case cargo ([''cargo'', command, ''--color'', ''always''] @ args) s of
       None \<Rightarrow> Inl ExplicitPanic
     | Some (output, s') \<Rightarrow>
         if \<not> success output then Inr (Exits (case code output of Some c \<Rightarrow> c | None \<Rightarrow> 1))
         else case from_utf8 (out output) of
                None \<Rightarrow> Inl UnwrapNone
              | Some text \<Rightarrow> Inr (Returns (text, s')))"

section \<open>cargo axplat add\<close>

record platform_crate =
  dep_id :: "string list"
  add_path :: "string option"
  git :: "string option"

record command_add =
  plat :: platform_crate
  add_package :: "string option"
  add_manifest_path :: "string option"
  branch :: "string option"
  tag :: "string option"
  rev_of :: "string option"
  features :: "string option"
  target :: "string option"

definition option_arg :: "string \<Rightarrow> string option \<Rightarrow> string list" where
  "option_arg flag v = (case v of Some x \<Rightarrow> [flag, x] | None \<Rightarrow> [])"

definition add_args :: "command_add \<Rightarrow> string list" where
  "add_args args =
     dep_id (plat args) @
     option_arg ''--git'' (git (plat args)) @
     option_arg ''--path'' (add_path (plat args)) @
     option_arg ''-p'' (add_package args) @
     option_arg ''--manifest-path'' (add_manifest_path args) @
     option_arg ''--branch'' (branch args) @
     option_arg ''--tag'' (tag args) @
     option_arg ''--rev'' (rev_of args) @
     option_arg ''-F'' (features args) @
     option_arg ''--target'' (target args)"

definition add_platform ::
  "(string list \<Rightarrow> 's \<Rightarrow> (process_output \<times> 's) option) \<Rightarrow> (u8 list \<Rightarrow> string option) \<Rightarrow>
    command_add \<Rightarrow> 's \<Rightarrow> panic + (string \<times> 's) outcome" where
  "add_platform cargo from_utf8 args s = run_cargo_command cargo from_utf8 ''add'' (add_args args) s"

text \<open>
  What these arguments mean to \<^verbatim>\<open>cargo add\<close>, by its documentation: options
  with a value each, and dependencies.
\<close>

fun set_option :: "string \<Rightarrow> string \<Rightarrow> command_add \<Rightarrow> command_add option" where
  "set_option flag v a =
    (if flag = ''--git'' then Some (a\<lparr>plat := (plat a)\<lparr>git := Some v\<rparr>\<rparr>)
     else if flag = ''--path'' then Some (a\<lparr>plat := (plat a)\<lparr>add_path := Some v\<rparr>\<rparr>)
     else if flag = ''-p'' then Some (a\<lparr>add_package := Some v\<rparr>)
     else if flag = ''--manifest-path'' then Some (a\<lparr>add_manifest_path := Some v\<rparr>)
     else if flag = ''--branch'' then Some (a\<lparr>branch := Some v\<rparr>)
     else if flag = ''--tag'' then Some (a\<lparr>tag := Some v\<rparr>)
     else if flag = ''--rev'' then Some (a\<lparr>rev_of := Some v\<rparr>)
     else if flag = ''-F'' then Some (a\<lparr>features := Some v\<rparr>)
     else if flag = ''--target'' then Some (a\<lparr>target := Some v\<rparr>)
     else None)"

definition is_option :: "string \<Rightarrow> bool" where
  "is_option s \<longleftrightarrow> s \<noteq> [] \<and> hd s = CHR ''-''"

fun read_add :: "string list \<Rightarrow> command_add \<Rightarrow> command_add option" where
  "read_add [] a = Some a"
| "read_add [x] a = (if is_option x then None else Some (a\<lparr>plat := (plat a)\<lparr>dep_id := dep_id (plat a) @ [x]\<rparr>\<rparr>))"
| "read_add (x # y # xs) a =
    (if is_option x
     then case set_option x y a of Some a' \<Rightarrow> read_add xs a' | None \<Rightarrow> None
     else read_add (y # xs) (a\<lparr>plat := (plat a)\<lparr>dep_id := dep_id (plat a) @ [x]\<rparr>\<rparr>))"

definition no_options :: command_add where
  "no_options = \<lparr>plat = \<lparr>dep_id = [], add_path = None, git = None\<rparr>, add_package = None,
     add_manifest_path = None, branch = None, tag = None, rev_of = None, features = None, target = None\<rparr>"

lemma read_dep:
  "\<not> is_option x \<Longrightarrow> read_add (x # xs) a = read_add xs (a\<lparr>plat := (plat a)\<lparr>dep_id := dep_id (plat a) @ [x]\<rparr>\<rparr>)"
  by (cases xs) simp_all

lemma read_deps:
  "\<forall>x\<in>set ds. \<not> is_option x \<Longrightarrow>
    read_add (ds @ xs) a = read_add xs (a\<lparr>plat := (plat a)\<lparr>dep_id := dep_id (plat a) @ ds\<rparr>\<rparr>)"
  by (induction ds arbitrary: a) (simp_all add: read_dep)

text \<open>Reading one option, present or not.\<close>

lemma set_options:
  "set_option ''--git'' v a = Some (a\<lparr>plat := (plat a)\<lparr>git := Some v\<rparr>\<rparr>)"
  "set_option ''--path'' v a = Some (a\<lparr>plat := (plat a)\<lparr>add_path := Some v\<rparr>\<rparr>)"
  "set_option ''-p'' v a = Some (a\<lparr>add_package := Some v\<rparr>)"
  "set_option ''--manifest-path'' v a = Some (a\<lparr>add_manifest_path := Some v\<rparr>)"
  "set_option ''--branch'' v a = Some (a\<lparr>branch := Some v\<rparr>)"
  "set_option ''--tag'' v a = Some (a\<lparr>tag := Some v\<rparr>)"
  "set_option ''--rev'' v a = Some (a\<lparr>rev_of := Some v\<rparr>)"
  "set_option ''-F'' v a = Some (a\<lparr>features := Some v\<rparr>)"
  "set_option ''--target'' v a = Some (a\<lparr>target := Some v\<rparr>)"
  by simp_all

lemma absent_options:
  "git (plat a) = None \<Longrightarrow> a\<lparr>plat := (plat a)\<lparr>git := None\<rparr>\<rparr> = a"
  "add_path (plat a) = None \<Longrightarrow> a\<lparr>plat := (plat a)\<lparr>add_path := None\<rparr>\<rparr> = a"
  "add_package a = None \<Longrightarrow> a\<lparr>add_package := None\<rparr> = a"
  "add_manifest_path a = None \<Longrightarrow> a\<lparr>add_manifest_path := None\<rparr> = a"
  "branch a = None \<Longrightarrow> a\<lparr>branch := None\<rparr> = a"
  "tag a = None \<Longrightarrow> a\<lparr>tag := None\<rparr> = a"
  "rev_of a = None \<Longrightarrow> a\<lparr>rev_of := None\<rparr> = a"
  "features a = None \<Longrightarrow> a\<lparr>features := None\<rparr> = a"
  "target a = None \<Longrightarrow> a\<lparr>target := None\<rparr> = a"
  by (cases a; cases "plat a"; simp)+

lemma are_options:
  "is_option ''--git''"
  "is_option ''--path''"
  "is_option ''-p''"
  "is_option ''--manifest-path''"
  "is_option ''--branch''"
  "is_option ''--tag''"
  "is_option ''--rev''"
  "is_option ''-F''"
  "is_option ''--target''"
  by (simp_all add: is_option_def)

lemma read_option:
  "is_option flag \<Longrightarrow> (\<And>y. set_option flag y a = Some (upd (Some y))) \<Longrightarrow> upd None = a \<Longrightarrow>
    read_add (option_arg flag v @ xs) a = read_add xs (upd v)"
  by (cases v) (simp_all add: option_arg_def del: set_option.simps)

lemma read_options:
  "git (plat a) = None \<Longrightarrow>
    read_add (option_arg ''--git'' v @ xs) a = read_add xs (a\<lparr>plat := (plat a)\<lparr>git := v\<rparr>\<rparr>)"
  "add_path (plat a) = None \<Longrightarrow>
    read_add (option_arg ''--path'' v @ xs) a = read_add xs (a\<lparr>plat := (plat a)\<lparr>add_path := v\<rparr>\<rparr>)"
  "add_package a = None \<Longrightarrow>
    read_add (option_arg ''-p'' v @ xs) a = read_add xs (a\<lparr>add_package := v\<rparr>)"
  "add_manifest_path a = None \<Longrightarrow>
    read_add (option_arg ''--manifest-path'' v @ xs) a = read_add xs (a\<lparr>add_manifest_path := v\<rparr>)"
  "branch a = None \<Longrightarrow>
    read_add (option_arg ''--branch'' v @ xs) a = read_add xs (a\<lparr>branch := v\<rparr>)"
  "tag a = None \<Longrightarrow>
    read_add (option_arg ''--tag'' v @ xs) a = read_add xs (a\<lparr>tag := v\<rparr>)"
  "rev_of a = None \<Longrightarrow>
    read_add (option_arg ''--rev'' v @ xs) a = read_add xs (a\<lparr>rev_of := v\<rparr>)"
  "features a = None \<Longrightarrow>
    read_add (option_arg ''-F'' v @ xs) a = read_add xs (a\<lparr>features := v\<rparr>)"
  "target a = None \<Longrightarrow>
    read_add (option_arg ''--target'' v) a = Some (a\<lparr>target := v\<rparr>)"
  subgoal by (rule read_option[where upd = "\<lambda>v. a\<lparr>plat := (plat a)\<lparr>git := v\<rparr>\<rparr>", OF are_options(1) set_options(1) absent_options(1)])
  subgoal by (rule read_option[where upd = "\<lambda>v. a\<lparr>plat := (plat a)\<lparr>add_path := v\<rparr>\<rparr>", OF are_options(2) set_options(2) absent_options(2)])
  subgoal by (rule read_option[where upd = "\<lambda>v. a\<lparr>add_package := v\<rparr>", OF are_options(3) set_options(3) absent_options(3)])
  subgoal by (rule read_option[where upd = "\<lambda>v. a\<lparr>add_manifest_path := v\<rparr>", OF are_options(4) set_options(4) absent_options(4)])
  subgoal by (rule read_option[where upd = "\<lambda>v. a\<lparr>branch := v\<rparr>", OF are_options(5) set_options(5) absent_options(5)])
  subgoal by (rule read_option[where upd = "\<lambda>v. a\<lparr>tag := v\<rparr>", OF are_options(6) set_options(6) absent_options(6)])
  subgoal by (rule read_option[where upd = "\<lambda>v. a\<lparr>rev_of := v\<rparr>", OF are_options(7) set_options(7) absent_options(7)])
  subgoal by (rule read_option[where upd = "\<lambda>v. a\<lparr>features := v\<rparr>", OF are_options(8) set_options(8) absent_options(8)])
  subgoal using read_option[where upd = "\<lambda>v. a\<lparr>target := v\<rparr>" and xs = "[]", OF are_options(9) set_options(9) absent_options(9)] by simp
  done

text \<open>
  \<^verbatim>\<open>cargo axplat add\<close> hands every dependency and every option that it was given
  to \<^verbatim>\<open>cargo add\<close>, with its value and under the option's own name, and nothing else.
\<close>

theorem add_args_roundtrip:
  assumes "\<forall>x\<in>set (dep_id (plat args)). \<not> is_option x"
  shows "read_add (add_args args) no_options = Some args"
  unfolding add_args_def read_deps[OF assms] by (simp add: read_options no_options_def)

theorem add_args_roundtrip_witness:
  "add_args (no_options\<lparr>plat := \<lparr>dep_id = [''axplat-x86-pc''], add_path = None, git = None\<rparr>, features := Some ''smp''\<rparr>)
    = [''axplat-x86-pc'', ''-F'', ''smp''] \<and>
   read_add [''axplat-x86-pc'', ''-F'', ''smp''] no_options
    = Some (no_options\<lparr>plat := \<lparr>dep_id = [''axplat-x86-pc''], add_path = None, git = None\<rparr>, features := Some ''smp''\<rparr>)"
proof -
  let ?a = "no_options\<lparr>plat := \<lparr>dep_id = [''axplat-x86-pc''], add_path = None, git = None\<rparr>, features := Some ''smp''\<rparr>"
  have a: "add_args ?a = [''axplat-x86-pc'', ''-F'', ''smp'']"
    by (simp add: add_args_def option_arg_def no_options_def)
  have "\<forall>x\<in>set (dep_id (plat ?a)). \<not> is_option x" by (simp add: is_option_def)
  from add_args_roundtrip[OF this] a show ?thesis by simp
qed

section \<open>cargo axplat new\<close>

record command_new =
  new_path :: string
  new_arch :: string
  new_name :: "string option"
  edition :: "string option"
  axplat_path :: "string option"

definition new_args :: "command_new \<Rightarrow> string list" where
  "new_args args =
     [''--lib'', new_path args] @ option_arg ''--name'' (new_name args) @
     option_arg ''--edition'' (edition args)"

text \<open>
  The documents of \<^verbatim>\<open>toml_edit\<close>: parsing, printing, the value of a key, reading a
  string or a key of a table, and setting a key; \<open>as_table\<close> says whether an item is a
  table, and \<open>table_with_path\<close> is the inline table with the key \<^verbatim>\<open>path\<close>.
\<close>

record ('d, 'i) toml_ops =
  toml_parse :: "string \<Rightarrow> 'd option"
  toml_print :: "'d \<Rightarrow> string"
  toml_get :: "'d \<Rightarrow> string \<Rightarrow> 'i option"
  toml_set :: "'d \<Rightarrow> string \<Rightarrow> 'i \<Rightarrow> 'd"
  as_str :: "'i \<Rightarrow> string option"
  as_table :: "'i \<Rightarrow> bool"
  item_get :: "'i \<Rightarrow> string \<Rightarrow> 'i option"
  item_set :: "'i \<Rightarrow> string \<Rightarrow> 'i \<Rightarrow> 'i option"
  table_with_path :: "string \<Rightarrow> 'i"

text \<open>Indexing for reading panics when the key is not there.\<close>

definition unwrap_opt :: "'a option \<Rightarrow> panic + 'a" where
  "unwrap_opt x = (case x of Some y \<Rightarrow> Inr y | None \<Rightarrow> Inl UnwrapNone)"

definition apply_cargo_toml_template ::
  "('d, 'i, 'm) toml_ops_scheme \<Rightarrow> 'd \<Rightarrow> 'd \<Rightarrow> string option \<Rightarrow> panic + 'd" where
  "apply_cargo_toml_template T orig new path =
     rbind (unwrap_opt (toml_get T new ''dependencies'')) (\<lambda>deps.
     rbind (unwrap_opt (toml_get T new ''features'')) (\<lambda>feats.
      (let orig' = toml_set T (toml_set T orig ''dependencies'' deps) ''features'' feats
       in case path of
            None \<Rightarrow> Inr orig'
          | Some p \<Rightarrow>
              rbind (unwrap_opt (toml_get T orig' ''dependencies'')) (\<lambda>d.
              rbind (unwrap_opt (item_set T d ''axplat'' (table_with_path T p))) (\<lambda>d'.
              Inr (toml_set T orig' ''dependencies'' d'))))))"

text \<open>Files that are read and written whole; a failed write changes nothing.\<close>

record 's fs_ops =
  fs_read :: "'s \<Rightarrow> string \<Rightarrow> io_error + string"
  fs_write :: "'s \<Rightarrow> string \<Rightarrow> string \<Rightarrow> io_error + 's"

definition fs_doc :: "('s, 'm) fs_ops_scheme \<Rightarrow> bool" where
  "fs_doc F \<longleftrightarrow> (\<forall>s p c s'. fs_write F s p c = Inr s' \<longrightarrow>
     fs_read F s' p = Inr c \<and> (\<forall>q. q \<noteq> p \<longrightarrow> fs_read F s' q = fs_read F s q))"

text \<open>
  The loop over the template: the state of the files, the document of the
  package's \<^verbatim>\<open>Cargo.toml\<close>, and the result; an error ends it, with the files written
  so far.
\<close>

fun apply_files ::
  "('d, 'i, 'm) toml_ops_scheme \<Rightarrow> ('s, 'k) fs_ops_scheme \<Rightarrow> string \<Rightarrow> string \<Rightarrow> string \<Rightarrow> string option \<Rightarrow>
    (string \<times> string) list \<Rightarrow> 'd \<Rightarrow> 's \<Rightarrow> panic + 's \<times> (io_error + unit)" where
  "apply_files T F path arch package_name axp [] orig s = Inr (s, Inr ())"
| "apply_files T F path arch package_name axp ((name, content) # ts) orig s =
    (let dst = path_join path name in
     if name = ''Cargo.toml'' then
       rbind (unwrap_opt (toml_parse T content)) (\<lambda>new_table.
       rbind (apply_cargo_toml_template T orig new_table axp) (\<lambda>orig'.
         case fs_write F s dst (toml_print T orig') of
           Inl e \<Rightarrow> Inr (s, Inl e)
         | Inr s' \<Rightarrow> apply_files T F path arch package_name axp ts orig' s'))
     else if name = ''axconfig.toml'' then
       (let content' = str_replace ''<PACKAGE>'' package_name (str_replace ''<ARCH>'' arch content)
        in case fs_write F s dst content' of
             Inl e \<Rightarrow> Inr (s, Inl e)
           | Inr s' \<Rightarrow> apply_files T F path arch package_name axp ts orig s')
     else
       (case fs_write F s dst content of
          Inl e \<Rightarrow> Inr (s, Inl e)
        | Inr s' \<Rightarrow> apply_files T F path arch package_name axp ts orig s'))"

definition apply_template ::
  "('d, 'i, 'm) toml_ops_scheme \<Rightarrow> ('s, 'k) fs_ops_scheme \<Rightarrow> (string \<times> string) list \<Rightarrow>
    string \<Rightarrow> string \<Rightarrow> string option \<Rightarrow> 's \<Rightarrow> panic + 's \<times> (io_error + unit)" where
  "apply_template T F template path arch axp s =
    (case fs_read F s (path_join path ''Cargo.toml'') of
       Inl e \<Rightarrow> Inr (s, Inl e)
     | Inr cargo_toml \<Rightarrow>
        rbind (unwrap_opt (toml_parse T cargo_toml)) (\<lambda>orig_table.
        rbind (unwrap_opt (toml_get T orig_table ''package'')) (\<lambda>package.
        if \<not> as_table T package then Inl UnwrapNone
        else rbind (unwrap_opt (item_get T package ''name'')) (\<lambda>nm.
        rbind (unwrap_opt (as_str T nm)) (\<lambda>package_name.
        apply_files T F path arch package_name axp template orig_table s)))))"

definition new_platform ::
  "(string list \<Rightarrow> 's \<Rightarrow> (process_output \<times> 's) option) \<Rightarrow> (u8 list \<Rightarrow> string option) \<Rightarrow>
    ('d, 'i, 'm) toml_ops_scheme \<Rightarrow> ('s, 'k) fs_ops_scheme \<Rightarrow> (string \<times> string) list \<Rightarrow>
    command_new \<Rightarrow> 's \<Rightarrow> panic + 's outcome" where
  "new_platform cargo from_utf8 T F template args s =
     rbind (run_cargo_command cargo from_utf8 ''new'' (new_args args) s) (\<lambda>r. case r of
       Exits c \<Rightarrow> Inr (Exits c)
     | Returns (_, s1) \<Rightarrow>
         rbind (apply_template T F template (new_path args) (new_arch args) (axplat_path args) s1)
           (\<lambda>(s2, res). case res of Inl _ \<Rightarrow> Inl UnwrapErr | Inr _ \<Rightarrow> Inr (Returns s2)))"

text \<open>The identifiers at the top of the template's \<^verbatim>\<open>axconfig.toml\<close>, with the given values.\<close>

definition axconfig_head :: "string \<Rightarrow> string \<Rightarrow> string \<Rightarrow> string" where
  \<open>axconfig_head arch platform package =
     ''# Architecture identifier.'' @ [CHR 0x0A] @
     ''arch = "'' @ arch @ ''"                                 # str'' @ [CHR 0x0A] @
     ''# Platform identifier.'' @ [CHR 0x0A] @
     ''platform = "'' @ platform @ ''"                         # str'' @ [CHR 0x0A] @
     ''# Platform package.'' @ [CHR 0x0A] @
     ''package = "'' @ package @ ''"                           # str'' @ [CHR 0x0A]\<close>

lemma axconfig_identifiers:
  assumes "CHR ''<'' \<notin> set arch" and "CHR ''<'' \<notin> set rest"
  shows "str_replace ''<PACKAGE>'' package
      (str_replace ''<ARCH>'' arch (axconfig_head ''<ARCH>'' ''<PLATFORM>'' ''<PACKAGE>'' @ rest)) =
    axconfig_head arch ''<PLATFORM>'' package @ rest"
  using assms by (simp add: axconfig_head_def str_replace_skip str_replace_absent)

text \<open>What a file of the template becomes.\<close>

definition written ::
  "('d, 'i, 'm) toml_ops_scheme \<Rightarrow> string \<Rightarrow> string \<Rightarrow> string option \<Rightarrow> 'd \<Rightarrow> string \<Rightarrow> string \<Rightarrow>
    panic + string" where
  "written T arch package_name axp orig name content =
    (if name = ''Cargo.toml''
     then rbind (unwrap_opt (toml_parse T content)) (\<lambda>new_table.
          rbind (apply_cargo_toml_template T orig new_table axp) (\<lambda>d. Inr (toml_print T d)))
     else if name = ''axconfig.toml''
     then Inr (str_replace ''<PACKAGE>'' package_name (str_replace ''<ARCH>'' arch content))
     else Inr content)"

definition relative :: "string \<Rightarrow> bool" where
  "relative name \<longleftrightarrow> name = [] \<or> hd name \<noteq> CHR ''/''"

lemma path_join_relative:
  "relative m \<Longrightarrow> relative n \<Longrightarrow> path_join d m = path_join d n \<longleftrightarrow> m = n"
  by (rule path_join_inj) (simp_all add: relative_def)

lemma write_then:
  "(case m of Inl e \<Rightarrow> Inr (s, Inl e) | Inr s1 \<Rightarrow> f s1) = Inr (s', Inr ()) \<longleftrightarrow>
    (\<exists>s1. m = Inr s1 \<and> f s1 = Inr (s', Inr ()))"
  by (cases m) auto

lemma apply_files_Cons:
  assumes "apply_files T F path arch pn axp ((name, content) # ts) orig s = Inr (s', Inr ())"
  obtains w s1 orig' where "written T arch pn axp orig name content = Inr w"
    and "fs_write F s (path_join path name) w = Inr s1"
    and "apply_files T F path arch pn axp ts orig' s1 = Inr (s', Inr ())"
    and "name = ''Cargo.toml'' \<or> orig' = orig"
  using assms
  by (auto simp: written_def rbind_Inr_iff Let_def write_then split: if_splits)

lemma apply_files_written:
  assumes "fs_doc F" and "apply_files T F path arch pn axp ts orig s = Inr (s', Inr ())"
    and "distinct (map fst ts)" and "\<forall>t\<in>set ts. relative (fst t)"
  shows "(\<forall>t\<in>set ts. \<exists>w. written T arch pn axp orig (fst t) (snd t) = Inr w \<and>
      fs_read F s' (path_join path (fst t)) = Inr w) \<and>
    (\<forall>q. q \<notin> path_join path ` fst ` set ts \<longrightarrow> fs_read F s' q = fs_read F s q)"
  using assms(2-)
proof (induction ts arbitrary: orig s)
  case (Cons t ts)
  obtain name content where t: "t = (name, content)" by fastforce
  obtain w s1 orig' where w: "written T arch pn axp orig name content = Inr w"
      "fs_write F s (path_join path name) w = Inr s1"
      "apply_files T F path arch pn axp ts orig' s1 = Inr (s', Inr ())"
      "name = ''Cargo.toml'' \<or> orig' = orig"
    using Cons.prems(1) unfolding t by (rule apply_files_Cons)
  have IH: "\<forall>t\<in>set ts. \<exists>w. written T arch pn axp orig' (fst t) (snd t) = Inr w \<and>
      fs_read F s' (path_join path (fst t)) = Inr w"
    "\<forall>q. q \<notin> path_join path ` fst ` set ts \<longrightarrow> fs_read F s' q = fs_read F s1 q"
    using Cons.IH[OF w(3)] Cons.prems(2,3) by auto
  have new: "path_join path name \<notin> path_join path ` fst ` set ts"
    using Cons.prems(2,3) t path_join_relative by fastforce
  have same: "written T arch pn axp orig' (fst t') (snd t') = written T arch pn axp orig (fst t') (snd t')"
    if "t' \<in> set ts" for t'
  proof -
    have "fst t' \<noteq> name" using that Cons.prems(2) t by force
    then show ?thesis using w(4) by (auto simp: written_def)
  qed
  have s1: "fs_read F s1 (path_join path name) = Inr w"
    "\<And>q. q \<noteq> path_join path name \<Longrightarrow> fs_read F s1 q = fs_read F s q"
    using assms(1) w(2) by (auto simp: fs_doc_def)
  show ?case
    using IH new same s1 w(1) t by auto
qed simp

lemma apply_files_total:
  assumes "\<And>s p c. \<exists>s'. fs_write F s p c = Inr s'"
    and "\<And>orig t. t \<in> set ts \<Longrightarrow> \<exists>w. written T arch pn axp orig (fst t) (snd t) = Inr w"
  shows "\<exists>s'. apply_files T F path arch pn axp ts orig s = Inr (s', Inr ())"
  using assms(2)
proof (induction ts arbitrary: orig s)
  case (Cons t ts)
  obtain name content where t: "t = (name, content)" by fastforce
  have IH: "\<exists>s'. apply_files T F path arch pn axp ts orig s = Inr (s', Inr ())" for orig s
    using Cons by simp
  obtain w where w: "written T arch pn axp orig name content = Inr w"
    using Cons.prems[of t orig] t by auto
  show ?case
  proof (cases "name = ''Cargo.toml''")
    case True
    then obtain d d' where d: "unwrap_opt (toml_parse T content) = Inr d"
      "apply_cargo_toml_template T orig d axp = Inr d'"
      using w by (auto simp: written_def rbind_Inr_iff)
    obtain s1 where "fs_write F s (path_join path name) (toml_print T d') = Inr s1"
      using assms(1) by blast
    then show ?thesis using IH[of d' s1] d True t by (simp add: Let_def)
  next
    case False
    obtain s1 where s1: "fs_write F s (path_join path name) w = Inr s1" using assms(1) by blast
    then show ?thesis using IH[of orig s1] w False t by (auto simp: Let_def written_def)
  qed
qed simp


text \<open>A file system that is a map, and documents without content.\<close>

definition map_fs :: "(string \<Rightarrow> string option) fs_ops" where
  "map_fs = \<lparr>fs_read = \<lambda>s p. case s p of Some c \<Rightarrow> Inr c | None \<Rightarrow> Inl NotFound,
     fs_write = \<lambda>s p c. Inr (s(p := Some c))\<rparr>"

lemma map_fs_doc: "fs_doc map_fs"
  by (auto simp: fs_doc_def map_fs_def)

definition one_doc :: "string \<Rightarrow> (unit, unit) toml_ops" where
  "one_doc name = \<lparr>toml_parse = \<lambda>_. Some (), toml_print = \<lambda>_. [], toml_get = \<lambda>_ _. Some (),
     toml_set = \<lambda>_ _ _. (), as_str = \<lambda>_. Some name, as_table = \<lambda>_. True, item_get = \<lambda>_ _. Some (),
     item_set = \<lambda>_ _ _. Some (), table_with_path = \<lambda>_. ()\<rparr>"


section \<open>cargo axplat info\<close>

record command_info =
  info_package :: string
  directory :: "string option"
  info_manifest_path :: "string option"
  show_plat :: bool
  show_arch :: bool
  show_version :: bool
  show_source :: bool
  show_config_path :: bool

datatype 'e platform_info_err =
    Metadata 'e | PackageNotFound string | NoConfig string | ConfigIo io_error string
  | InvalidConfig string | InvalidManifestPath string

record platform_info =
  info_platform :: string
  info_arch :: string
  info_version :: string
  info_source :: string
  info_config_path :: string

text \<open>
  A package of \<^verbatim>\<open>cargo_metadata\<close>; its manifest path is a string, or the lossy
  form of one that is not UTF-8.
\<close>

record package =
  pkg_name :: string
  pkg_version :: string
  pkg_source :: "string option"
  pkg_id :: string
  manifest_path :: "string + string"

text \<open>The settings of a metadata command.\<close>

record metadata_command =
  all_features :: bool
  verbose :: bool
  current_dir :: "string option"
  metadata_manifest :: "string option"

definition parse_config ::
  "('d, 'i, 'm) toml_ops_scheme \<Rightarrow> (string \<Rightarrow> io_error + string) \<Rightarrow> string \<Rightarrow>
    panic + 'e platform_info_err + string \<times> string" where
  "parse_config T read path =
    (case read path of
       Inl err \<Rightarrow> Inr (Inl (if err = NotFound then NoConfig path else ConfigIo err path))
     | Inr text \<Rightarrow>
       (case toml_parse T text of
          None \<Rightarrow> Inr (Inl (InvalidConfig path))
        | Some config \<Rightarrow>
            rbind (unwrap_opt (toml_get T config ''platform'')) (\<lambda>p.
            case as_str T p of
              None \<Rightarrow> Inr (Inl (InvalidConfig path))
            | Some plat_name \<Rightarrow>
                rbind (unwrap_opt (toml_get T config ''arch'')) (\<lambda>a.
                case as_str T a of
                  None \<Rightarrow> Inr (Inl (InvalidConfig path))
                | Some ar \<Rightarrow> Inr (Inr (plat_name, ar))))))"

text \<open>\<open>parent\<close> is the parent directory of a path, if it has one.\<close>

definition platform_info_new ::
  "('d, 'i, 'm) toml_ops_scheme \<Rightarrow> (string \<Rightarrow> io_error + string) \<Rightarrow> (string \<Rightarrow> string option) \<Rightarrow>
    package \<Rightarrow> panic + 'e platform_info_err + platform_info" where
  "platform_info_new T read parent pkg =
    (let src = (case pkg_source pkg of Some x \<Rightarrow> x | None \<Rightarrow> pkg_id pkg)
     in case manifest_path pkg of
          Inl lossy \<Rightarrow> Inr (Inl (InvalidManifestPath lossy))
        | Inr mpath \<Rightarrow>
          (case parent mpath of
             None \<Rightarrow> Inr (Inl (InvalidManifestPath mpath))
           | Some root_dir \<Rightarrow>
              (let cpath = path_join root_dir ''axconfig.toml''
               in rbind (parse_config T read cpath) (\<lambda>r. case r of
                    Inl e \<Rightarrow> Inr (Inl e)
                  | Inr (plat_name, ar) \<Rightarrow> Inr (Inr \<lparr>info_platform = plat_name, info_arch = ar,
                      info_version = pkg_version pkg, info_source = src, info_config_path = cpath\<rparr>)))))"

fun find_package :: "string \<Rightarrow> package list \<Rightarrow> package option" where
  "find_package n [] = None"
| "find_package n (p # ps) = (if pkg_name p = n then Some p else find_package n ps)"

definition metadata_args :: "command_info \<Rightarrow> metadata_command" where
  "metadata_args args = \<lparr>all_features = True, verbose = True, current_dir = directory args,
     metadata_manifest = info_manifest_path args\<rparr>"

definition platform_info_from ::
  "('d, 'i, 'm) toml_ops_scheme \<Rightarrow> (string \<Rightarrow> io_error + string) \<Rightarrow> (string \<Rightarrow> string option) \<Rightarrow>
    (metadata_command \<Rightarrow> 'e + package list) \<Rightarrow> command_info \<Rightarrow>
    panic + 'e platform_info_err + platform_info" where
  "platform_info_from T read parent exec args =
    (case exec (metadata_args args) of
       Inl e \<Rightarrow> Inr (Inl (Metadata e))
     | Inr packages \<Rightarrow>
         (case find_package (info_package args) packages of
            Some p \<Rightarrow> platform_info_new T read parent p
          | None \<Rightarrow> Inr (Inl (PackageNotFound (info_package args)))))"

definition display :: "platform_info \<Rightarrow> command_info \<Rightarrow> string list" where
  "display i args =
     (if show_plat args then [info_platform i] else []) @
     (if show_arch args then [info_arch i] else []) @
     (if show_version args then [info_version i] else []) @
     (if show_source args then [info_source i] else []) @
     (if show_config_path args then [info_config_path i] else [])"

definition display_all :: "platform_info \<Rightarrow> string list" where
  "display_all i =
    [''platform: '' @ info_platform i, ''arch: '' @ info_arch i, ''version: '' @ info_version i,
     ''source: '' @ info_source i, ''config_path: '' @ info_config_path i]"

text \<open>The lines that are printed, or the error before an exit with code 1.\<close>

definition platform_info_cmd ::
  "('d, 'i, 'm) toml_ops_scheme \<Rightarrow> (string \<Rightarrow> io_error + string) \<Rightarrow> (string \<Rightarrow> string option) \<Rightarrow>
    (metadata_command \<Rightarrow> 'e + package list) \<Rightarrow> command_info \<Rightarrow>
    panic + 'e platform_info_err + string list" where
  "platform_info_cmd T read parent exec args =
     rbind (platform_info_from T read parent exec args) (\<lambda>r. case r of
       Inr i \<Rightarrow> Inr (Inr (if show_plat args \<or> show_arch args \<or> show_version args \<or> show_source args \<or>
                   show_config_path args
                 then display i args else display_all i))
     | Inl e \<Rightarrow> Inr (Inl e))"

lemma platform_info_missing:
  "\<forall>p\<in>set ps. pkg_name p \<noteq> info_package args \<Longrightarrow>
    platform_info_from T read parent (\<lambda>_. Inr ps) args = Inr (Inl (PackageNotFound (info_package args)))"
proof -
  assume "\<forall>p\<in>set ps. pkg_name p \<noteq> info_package args"
  then have "find_package (info_package args) ps = None" by (induction ps) auto
  then show ?thesis by (simp add: platform_info_from_def)
qed

lemma platform_info_found:
  assumes "exec (metadata_args args) = Inr (before @ pkg # others)"
    and "pkg_name pkg = info_package args" and "\<forall>p\<in>set before. pkg_name p \<noteq> info_package args"
  shows "platform_info_from T read parent exec args = platform_info_new T read parent pkg"
proof -
  have "find_package (info_package args) (before @ pkg # others) = Some pkg"
    using assms(2,3) by (induction before) auto
  then show ?thesis using assms(1) by (simp add: platform_info_from_def)
qed



section \<open>The template of the build script\<close>

text \<open>
  What \<^verbatim>\<open>read_dir\<close> gives: a directory that cannot be read, or its entries, each of
  which may fail; the name of an entry is missing when its path is not UTF-8.
\<close>

datatype dir_tree = Unreadable io_error | Entries "dir_entry list"
and dir_entry = FailedEntry io_error | FileEntry "string option" | DirEntry "string option" dir_tree

definition full_name :: "string \<Rightarrow> string \<Rightarrow> string" where
  "full_name pre path_name = (if pre = [] then path_name else pre @ ''/'' @ path_name)"

fun get_files_recursively :: "dir_tree \<Rightarrow> string \<Rightarrow> io_error + string list"
and files_loop :: "dir_entry list \<Rightarrow> string \<Rightarrow> string list \<Rightarrow> io_error + string list" where
  "get_files_recursively (Unreadable e) pre = Inl e"
| "get_files_recursively (Entries es) pre = files_loop es pre []"
| "files_loop [] pre files = Inr files"
| "files_loop (FailedEntry e # es) pre files = Inl e"
| "files_loop (FileEntry None # es) pre files = Inl InvalidData"
| "files_loop (FileEntry (Some n) # es) pre files = files_loop es pre (files @ [full_name pre n])"
| "files_loop (DirEntry None d # es) pre files = Inl InvalidData"
| "files_loop (DirEntry (Some n) d # es) pre files =
    (case get_files_recursively d (full_name pre n) of
       Inl e \<Rightarrow> Inl e
     | Inr fs \<Rightarrow> files_loop es pre (files @ fs))"

text \<open>
  The generated constant \<^verbatim>\<open>TEMPLATE\<close>: for every file its name in the package and the
  path that is included.
\<close>

definition template_entries :: "string \<Rightarrow> string list \<Rightarrow> (string \<times> string) list" where
  "template_entries src_dir files =
     map (\<lambda>file. if file = ''_Cargo.toml'' then (''Cargo.toml'', path_join src_dir ''_Cargo.toml'')
                 else (file, path_join src_dir file)) files"

definition build_template :: "string \<Rightarrow> dir_tree \<Rightarrow> io_error + (string \<times> string) list" where
  "build_template src_dir d =
    (case get_files_recursively d [] of Inl e \<Rightarrow> Inl e | Inr files \<Rightarrow> Inr (template_entries src_dir files))"

text \<open>The files of a tree, as lists of names from the top.\<close>

inductive file_at :: "dir_entry list \<Rightarrow> string list \<Rightarrow> bool" where
  "FileEntry (Some n) \<in> set es \<Longrightarrow> file_at es [n]"
| "DirEntry (Some n) (Entries ds) \<in> set es \<Longrightarrow> file_at ds ns \<Longrightarrow> file_at es (n # ns)"

inductive_simps file_at_Nil: "file_at [] ns"

fun slash_path :: "string \<Rightarrow> string list \<Rightarrow> string" where
  "slash_path pre [] = pre"
| "slash_path pre (n # ns) = slash_path (full_name pre n) ns"

lemma file_at_Cons:
  "file_at (e # es) ns \<longleftrightarrow> file_at [e] ns \<or> file_at es ns"
  by (simp only: file_at.simps[of "e # es" ns] file_at.simps[of "[e]" ns] file_at.simps[of es ns]) auto

lemma file_at_entry:
  "file_at [FileEntry (Some n)] ns \<longleftrightarrow> ns = [n]"
  "file_at [DirEntry (Some n) (Entries ds)] ns \<longleftrightarrow> (\<exists>ms. ns = n # ms \<and> file_at ds ms)"
  by (simp_all only: file_at.simps[of "[_]" ns]) auto

text \<open>The list holds exactly the files of the tree, by their paths from the top.\<close>

lemma get_files_all:
  "get_files_recursively d pre = Inr files \<Longrightarrow>
    \<exists>es. d = Entries es \<and> set files = slash_path pre ` {ns. file_at es ns}"
  "files_loop es pre acc = Inr files \<Longrightarrow> set files = set acc \<union> slash_path pre ` {ns. file_at es ns}"
proof (induction d pre and es pre acc arbitrary: files and files rule: get_files_recursively_files_loop.induct)
  case (6 n es pre acc)
  have "{ns. file_at (FileEntry (Some n) # es) ns} = insert [n] {ns. file_at es ns}"
    by (subst file_at_Cons) (auto simp: file_at_entry)
  then show ?case using 6 by auto
next
  case (8 n d es pre acc)
  then obtain fs where fs: "get_files_recursively d (full_name pre n) = Inr fs"
    "files_loop es pre (acc @ fs) = Inr files" by (auto split: sum.splits)
  with 8 obtain ds where ds: "d = Entries ds" "set fs = slash_path (full_name pre n) ` {ns. file_at ds ns}"
    by blast
  have "{ns. file_at (DirEntry (Some n) d # es) ns} = (Cons n) ` {ns. file_at ds ns} \<union> {ns. file_at es ns}"
    unfolding ds(1) by (subst file_at_Cons) (auto simp: file_at_entry)
  then show ?case using 8(2)[OF fs] fs(1) 8 ds(2) by (auto simp: image_Un image_image)
qed (auto simp: file_at_Nil)

end
