(* ===== verification/Cargo_Main.thy ===== *)
theory Cargo_Main
  imports Cargo_Axplat Crate_Roots
begin

text \<open>
  The dispatch of \<^verbatim>\<open>cargo axplat\<close> (\<^verbatim>\<open>cargo-axplat/src/main.rs\<close>), and two commands one after the
  other: what the tool says of a package that it has made, and whether the package is accepted by
  the check in its own configuration module.
\<close>

section \<open>The command line\<close>

text \<open>What \<^verbatim>\<open>clap\<close> makes of the arguments.\<close>

datatype axplat_command = New command_new | Add command_add | Info command_info

record cargo_command =
  version :: bool
  command :: "axplat_command option"

text \<open>The processes, files and crates that the commands use.\<close>

record ('s, 'd, 'i, 'e) tool_world =
  run_cargo :: "string list \<Rightarrow> 's \<Rightarrow> (process_output \<times> 's) option"
  utf8 :: "u8 list \<Rightarrow> string option"
  toml_edit :: "('d, 'i) toml_ops"
  file_system :: "'s fs_ops"
  TEMPLATE :: "(string \<times> string) list"
  parent_dir :: "string \<Rightarrow> string option"
  exec_metadata :: "'s \<Rightarrow> metadata_command \<Rightarrow> 'e + package list"

section \<open>main\<close>

text \<open>The lines on the standard output, with the world that a command leaves.\<close>

definition cargo_axplat_main ::
  "('s, 'd, 'i, 'e) tool_world \<Rightarrow> string \<Rightarrow> cargo_command \<Rightarrow> 's \<Rightarrow> panic + (string list \<times> 's) outcome" where
  "cargo_axplat_main W cargo_version axplat s =
    (if version axplat then Inr (Returns ([''cargo-axplat '' @ cargo_version], s))
     else rbind (unwrap_opt (command axplat)) (\<lambda>c. case c of
         New args \<Rightarrow>
           rbind (new_platform (run_cargo W) (utf8 W) (toml_edit W) (file_system W) (TEMPLATE W) args s) (\<lambda>r.
             Inr (case r of Exits n \<Rightarrow> Exits n | Returns s' \<Rightarrow> Returns ([], s')))
       | Add args \<Rightarrow>
           rbind (add_platform (run_cargo W) (utf8 W) args s) (\<lambda>r.
             Inr (case r of Exits n \<Rightarrow> Exits n | Returns (_, s') \<Rightarrow> Returns ([], s')))
       | Info args \<Rightarrow>
           rbind (platform_info_cmd (toml_edit W) (fs_read (file_system W) s) (parent_dir W) (exec_metadata W s) args) (\<lambda>r.
             Inr (case r of Inl err \<Rightarrow> Exits 1 | Inr ls \<Rightarrow> Returns (ls, s)))))"

section \<open>A new package\<close>

text \<open>
  What \<^verbatim>\<open>toml_edit\<close> and the macro \<^verbatim>\<open>include_configs\<close> read in a text: the string under a key.
\<close>

definition string_key :: "('d, 'i, 'm) toml_ops_scheme \<Rightarrow> string \<Rightarrow> string \<Rightarrow> string option" where
  "string_key T text key =
     Option.bind (toml_parse T text) (\<lambda>d. Option.bind (toml_get T d key) (as_str T))"

lemma string_key_Some:
  "string_key T text key = Some v \<longleftrightarrow>
     (\<exists>d i. toml_parse T text = Some d \<and> toml_get T d key = Some i \<and> as_str T i = Some v)"
  by (auto simp: string_key_def bind_eq_Some_conv)

text \<open>The name in the \<^verbatim>\<open>Cargo.toml\<close> of a package.\<close>

definition cargo_name :: "('d, 'i, 'm) toml_ops_scheme \<Rightarrow> string \<Rightarrow> string \<Rightarrow> bool" where
  "cargo_name T text name \<longleftrightarrow> (\<exists>d pkg nm. toml_parse T text = Some d \<and>
     toml_get T d ''package'' = Some pkg \<and> as_table T pkg \<and> item_get T pkg ''name'' = Some nm \<and> as_str T nm = Some name)"

lemma new_config_written:
  assumes "fs_doc F" and "distinct (map fst ts)" and "\<forall>t\<in>set ts. relative (fst t)"
    and "fs_read F s (path_join path ''Cargo.toml'') = Inr text" and "cargo_name T text name"
    and "(''axconfig.toml'', axconfig_head ''<ARCH>'' ''<PLATFORM>'' ''<PACKAGE>'' @ rest) \<in> set ts"
    and "CHR ''<'' \<notin> set arch" and "CHR ''<'' \<notin> set rest"
    and "apply_template T F ts path arch axp s = Inr (s', Inr ())"
  shows "fs_read F s' (path_join path ''axconfig.toml'') = Inr (axconfig_head arch ''<PLATFORM>'' name @ rest)"
proof -
  obtain d where "apply_template T F ts path arch axp s = apply_files T F path arch name axp ts d s"
    using assms(4,5) by (auto simp: apply_template_def unwrap_opt_def cargo_name_def)
  with assms(9) have "apply_files T F path arch name axp ts d s = Inr (s', Inr ())" by simp
  from apply_files_written[OF assms(1) this assms(2,3)] assms(6)
  obtain w where "written T arch name axp d ''axconfig.toml''
        (axconfig_head ''<ARCH>'' ''<PLATFORM>'' ''<PACKAGE>'' @ rest) = Inr w"
      and "fs_read F s' (path_join path ''axconfig.toml'') = Inr w"
    by fastforce
  then show ?thesis using axconfig_identifiers[OF assms(7,8), of name] by (simp add: written_def)
qed

lemma new_platform_steps:
  assumes "new_platform cargo from_utf8 T F ts args s = Inr (Returns s')"
  obtains s1 where "apply_template T F ts (new_path args) (new_arch args) (axplat_path args) s1 = Inr (s', Inr ())"
    and "\<exists>po. cargo ([''cargo'', ''new'', ''--color'', ''always''] @ new_args args) s = Some (po, s1)"
proof -
  obtain r where r: "run_cargo_command cargo from_utf8 ''new'' (new_args args) s = Inr r"
    using assms by (cases "run_cargo_command cargo from_utf8 ''new'' (new_args args) s") (auto simp: new_platform_def)
  then obtain tx s1 where "r = Returns (tx, s1)"
    using assms by (cases r) (auto simp: new_platform_def)
  moreover from this r have "\<exists>po. cargo ([''cargo'', ''new'', ''--color'', ''always''] @ new_args args) s = Some (po, s1)"
    by (auto simp: run_cargo_command_def split: option.splits if_splits)
  moreover obtain s2 res where "apply_template T F ts (new_path args) (new_arch args) (axplat_path args) s1 = Inr (s2, res)"
    using assms r calculation(1) by (auto simp: new_platform_def rbind_Inr_iff)
  moreover from this assms r calculation(1) have "res = Inr () \<and> s2 = s'"
    by (cases res) (auto simp: new_platform_def)
  ultimately show ?thesis using that by blast
qed

lemma main_new:
  assumes "cargo_axplat_main W v \<lparr>version = False, command = Some (New args)\<rparr> s = Inr (Returns (ls, s'))"
  shows "new_platform (run_cargo W) (utf8 W) (toml_edit W) (file_system W) (TEMPLATE W) args s = Inr (Returns s')"
proof -
  obtain r where r: "new_platform (run_cargo W) (utf8 W) (toml_edit W) (file_system W) (TEMPLATE W) args s = Inr r"
    using assms by (auto simp: cargo_axplat_main_def unwrap_opt_def rbind_Inr_iff)
  then show ?thesis using assms by (cases r) (simp_all add: cargo_axplat_main_def unwrap_opt_def)
qed


text \<open>A reader of quoted strings, enough for the head of the configuration, and a cargo that makes a package.\<close>

fun value_after :: "string \<Rightarrow> string \<Rightarrow> string option" where
  "value_after pat [] = None"
| "value_after pat (c # cs) =
     (if take (length pat) (c # cs) = pat then Some (takeWhile (\<lambda>x. x \<noteq> CHR 0x22) (drop (length pat) (c # cs)))
      else value_after pat cs)"

definition text_toml :: "(string, string) toml_ops" where
  "text_toml = \<lparr>toml_parse = Some, toml_print = \<lambda>d. d,
     toml_get = \<lambda>d k. case value_after (k @ '' = '' @ [CHR 0x22]) d of Some v \<Rightarrow> Some v | None \<Rightarrow> Some d,
     toml_set = \<lambda>d k i. d, as_str = Some, as_table = \<lambda>_. True,
     item_get = \<lambda>i k. value_after (k @ '' = '' @ [CHR 0x22]) i, item_set = \<lambda>i k j. Some i, table_with_path = \<lambda>p. p\<rparr>"

definition demo_world :: "(string \<Rightarrow> string option, string, string, unit) tool_world" where
  "demo_world = \<lparr>run_cargo = \<lambda>_ s. Some (\<lparr>success = True, code = Some 0, out = []\<rparr>,
       s(''p/Cargo.toml'' \<mapsto> ''name = '' @ [CHR 0x22] @ ''plat'' @ [CHR 0x22])),
     utf8 = \<lambda>_. Some [], toml_edit = text_toml, file_system = map_fs,
     TEMPLATE = [(''axconfig.toml'', axconfig_head ''<ARCH>'' ''<PLATFORM>'' ''<PACKAGE>'')],
     parent_dir = \<lambda>_. Some ''p'',
     exec_metadata = \<lambda>s _. Inr [\<lparr>pkg_name = ''plat'', pkg_version = ''0.1'', pkg_source = None, pkg_id = ''id'',
       manifest_path = Inr ''p/Cargo.toml''\<rparr>]\<rparr>"

definition demo_new :: command_new where
  "demo_new = \<lparr>new_path = ''p'', new_arch = ''riscv64'', new_name = Some ''plat'', edition = None, axplat_path = None\<rparr>"

definition demo_info :: command_info where
  "demo_info = \<lparr>info_package = ''plat'', directory = None, info_manifest_path = None, show_plat = True,
     show_arch = True, show_version = False, show_source = False, show_config_path = False\<rparr>"

lemmas demo_defs = demo_world_def demo_new_def demo_info_def

lemma demo_keys:
  "string_key text_toml (axconfig_head ''riscv64'' ''<PLATFORM>'' ''plat'') ''arch'' = Some ''riscv64''"
  "string_key text_toml (axconfig_head ''riscv64'' ''<PLATFORM>'' ''plat'') ''platform'' = Some ''<PLATFORM>''"
  "string_key text_toml (axconfig_head ''riscv64'' ''<PLATFORM>'' ''plat'') ''package'' = Some ''plat''"
  by (simp_all add: string_key_def text_toml_def axconfig_head_def)

lemma demo_new_runs:
  "\<exists>s'. cargo_axplat_main demo_world ''0.1'' \<lparr>version = False, command = Some (New demo_new)\<rparr> (\<lambda>_. None) = Inr (Returns ([], s'))"
  by (simp add: cargo_axplat_main_def demo_defs unwrap_opt_def new_platform_def run_cargo_command_def
      apply_template_def map_fs_def path_join_def text_toml_def Let_def)


section \<open>The build script\<close>

text \<open>
  The template is a constant of the tool, generated before it is compiled: \<open>env\<close> reads the environment
  and \<open>tree\<close> the directory.  The script prints one line for Cargo.
\<close>

datatype var_error = NotPresent | NotUnicode string

fun var_io_error :: "var_error \<Rightarrow> io_error" where
  "var_io_error NotPresent = NotFound"
| "var_io_error (NotUnicode s) = InvalidData"

definition NL :: string where "NL = [CHR 0x0A]"

definition template_line :: "string \<times> string \<Rightarrow> string" where
  "template_line = (\<lambda>(name, include_path).
     ''    ('' @ [CHR 0x22] @ name @ [CHR 0x22] @ '', include_str!(r#'' @ [CHR 0x22] @ include_path @ [CHR 0x22] @ ''#)),'' @ NL)"

definition template_rs :: "(string \<times> string) list \<Rightarrow> string" where
  "template_rs entries =
     ''pub const TEMPLATE: &[(&str, &str)] = &['' @ NL @ concat (map template_line entries) @ ''];'' @ NL"

definition build_main ::
  "(string \<Rightarrow> var_error + string) \<Rightarrow> ('s, 'm) fs_ops_scheme \<Rightarrow> (string \<Rightarrow> dir_tree) \<Rightarrow> 's \<Rightarrow>
    's \<times> string list \<times> (io_error + unit)" where
  "build_main env F tree s =
    (case env ''CARGO_MANIFEST_DIR'' of
       Inl e \<Rightarrow> (s, [], Inl (var_io_error e))
     | Inr manifest_dir \<Rightarrow>
        (let src_dir = path_join manifest_dir ''template'';
             printed = [''cargo:rerun-if-changed='' @ src_dir]
         in case env ''OUT_DIR'' of
              Inl e \<Rightarrow> (s, printed, Inl (var_io_error e))
            | Inr out_dir \<Rightarrow>
               (let out_path = path_join out_dir ''template.rs''
                in case fs_write F s out_path (''pub const TEMPLATE: &[(&str, &str)] = &['' @ NL) of
                     Inl e \<Rightarrow> (s, printed, Inl e)
                   | Inr s1 \<Rightarrow>
                      (case build_template src_dir (tree src_dir) of
                         Inl e \<Rightarrow> (s1, printed, Inl e)
                       | Inr entries \<Rightarrow>
                          (case fs_write F s1 out_path (template_rs entries) of
                             Inl e \<Rightarrow> (s1, printed, Inl e)
                           | Inr s2 \<Rightarrow> (s2, printed, Inr ()))))))"

text \<open>
  When the script succeeds, the generated file lists exactly the files of the template, by their names in a package, and no
  other file has changed.
\<close>

lemma build_main_generates:
  assumes "fs_doc F" and "build_main env F tree s = (s', printed, Inr ())"
  obtains manifest_dir out_dir files where "env ''CARGO_MANIFEST_DIR'' = Inr manifest_dir" and "env ''OUT_DIR'' = Inr out_dir"
    and "get_files_recursively (tree (path_join manifest_dir ''template'')) [] = Inr files"
    and "fs_read F s' (path_join out_dir ''template.rs'') =
      Inr (template_rs (template_entries (path_join manifest_dir ''template'') files))"
    and "\<And>q. q \<noteq> path_join out_dir ''template.rs'' \<Longrightarrow> fs_read F s' q = fs_read F s q"
proof -
  obtain manifest_dir out_dir where env: "env ''CARGO_MANIFEST_DIR'' = Inr manifest_dir" "env ''OUT_DIR'' = Inr out_dir"
    using assms(2) by (auto simp: build_main_def Let_def split: sum.splits)
  then obtain s1 files where w1: "fs_write F s (path_join out_dir ''template.rs'') (''pub const TEMPLATE: &[(&str, &str)] = &['' @ NL) = Inr s1"
      and files: "get_files_recursively (tree (path_join manifest_dir ''template'')) [] = Inr files"
    using assms(2) by (auto simp: build_main_def build_template_def Let_def split: sum.splits)
  with env assms(2) have w2: "fs_write F s1 (path_join out_dir ''template.rs'')
      (template_rs (template_entries (path_join manifest_dir ''template'') files)) = Inr s'"
    by (auto simp: build_main_def build_template_def Let_def split: sum.splits)
  show ?thesis using that[OF env files] w1 w2 assms(1) by (auto simp: fs_doc_def)
qed

end
