(* ===== verification/Kernel_Build.thy ===== *)
theory Kernel_Build
  imports Mem_If Cargo_Axplat
begin

text \<open>
  The build scripts of the example kernels: the address at which a kernel is
  linked, and the linker script that they generate from \<^verbatim>\<open>linker.lds.S\<close>.  The scripts of
  the single-core kernels are the same file; that of the multi-core kernel also
  sets the number of CPUs.  Environment variables are arguments, absent ones are
  \<open>None\<close>; files are those of the library's file systems.
\<close>

section \<open>Hexadecimal numbers\<close>

definition hex_digit :: "nat \<Rightarrow> char" where
  "hex_digit d = ''0123456789abcdef'' ! d"

fun hex_digits :: "nat \<Rightarrow> string" where
  "hex_digits n = (if n < 16 then [hex_digit n] else hex_digits (n div 16) @ [hex_digit (n mod 16)])"

declare hex_digits.simps [simp del]

text \<open>The format \<^verbatim>\<open>{:#x}\<close>.\<close>

definition format_hex :: "u64 \<Rightarrow> string" where
  "format_hex w = ''0x'' @ hex_digits (unat w)"

text \<open>The value of a digit and of a number, for reading it back.\<close>

definition digit_value :: "char \<Rightarrow> nat" where
  "digit_value c = (if (of_char c :: nat) \<le> 57 then of_char c - 48 else of_char c - 87)"

definition read_hex :: "string \<Rightarrow> nat" where
  "read_hex s = foldl (\<lambda>n c. 16 * n + digit_value c) 0 s"

section \<open>The scripts\<close>

definition kernel_base :: "string \<Rightarrow> panic + u64" where
  "kernel_base arch =
    (if arch = ''x86_64'' then Inr 0xFFFF800000200000
     else if arch = ''aarch64'' then Inr 0xFFFF000040200000
     else if arch = ''riscv64'' then Inr 0xFFFFFFC080200000
     else if arch = ''loongarch64'' then Inr 0xFFFF000080000000
     else if arch = ''arm'' then Inr 0xC0010000
     else Inl ExplicitPanic)"

text \<open>The line for cargo and the files afterwards.\<close>

definition gen_linker_script ::
  "('s, 'k) fs_ops_scheme \<Rightarrow> string option \<Rightarrow> string \<Rightarrow> 's \<Rightarrow> panic + io_error + string \<times> 's" where
  "gen_linker_script F manifest_dir arch s =
    (case fs_read F s ''linker.lds.S'' of
       Inl e \<Rightarrow> Inr (Inl e)
     | Inr ld_content \<Rightarrow>
        rbind (kernel_base arch) (\<lambda>base.
        let ld = str_replace ''%KERNEL_BASE%'' (format_hex base) ld_content
        in rbind (unwrap_opt manifest_dir) (\<lambda>root.
           let out_fname = ''linker_'' @ arch @ ''.lds''
           in case fs_write F s out_fname ld of
                Inl e \<Rightarrow> Inr (Inl e)
              | Inr s' \<Rightarrow> Inr (Inr (''cargo:rustc-link-arg=-T'' @ root @ ''/'' @ out_fname, s')))))"

definition gen_linker_script_smp ::
  "('s, 'k) fs_ops_scheme \<Rightarrow> string option \<Rightarrow> string option \<Rightarrow> string \<Rightarrow> 's \<Rightarrow>
    panic + io_error + string \<times> 's" where
  "gen_linker_script_smp F ax_cpu_num manifest_dir arch s =
    (case fs_read F s ''linker.lds.S'' of
       Inl e \<Rightarrow> Inr (Inl e)
     | Inr ld_content \<Rightarrow>
        rbind (kernel_base arch) (\<lambda>base.
        let ld = str_replace ''%KERNEL_BASE%'' (format_hex base) ld_content;
            cpu_num = (case ax_cpu_num of Some n \<Rightarrow> n | None \<Rightarrow> ''1'');
            ld' = str_replace ''%CPU_NUM%'' cpu_num ld
        in rbind (unwrap_opt manifest_dir) (\<lambda>root.
           let out_fname = ''linker_'' @ arch @ ''.lds''
           in case fs_write F s out_fname ld' of
                Inl e \<Rightarrow> Inr (Inl e)
              | Inr s' \<Rightarrow> Inr (Inr (''cargo:rustc-link-arg=-T'' @ root @ ''/'' @ out_fname, s')))))"

definition build_kernel ::
  "('s, 'k) fs_ops_scheme \<Rightarrow> string option \<Rightarrow> string option \<Rightarrow> 's \<Rightarrow> panic + string list \<times> 's" where
  "build_kernel F manifest_dir target_arch s =
     rbind (unwrap_opt target_arch) (\<lambda>arch.
     rbind (gen_linker_script F manifest_dir arch s) (\<lambda>r. case r of
       Inl e \<Rightarrow> Inl UnwrapErr
     | Inr (line, s') \<Rightarrow> Inr ([line, ''cargo:rustc-link-arg=-no-pie''], s')))"

definition build_kernel_smp ::
  "('s, 'k) fs_ops_scheme \<Rightarrow> string option \<Rightarrow> string option \<Rightarrow> string option \<Rightarrow> 's \<Rightarrow>
    panic + string list \<times> 's" where
  "build_kernel_smp F ax_cpu_num manifest_dir target_arch s =
     rbind (unwrap_opt target_arch) (\<lambda>arch.
     rbind (gen_linker_script_smp F ax_cpu_num manifest_dir arch s) (\<lambda>r. case r of
       Inl e \<Rightarrow> Inl UnwrapErr
     | Inr (line, s') \<Rightarrow> Inr ([line, ''cargo:rustc-link-arg=-no-pie'',
         ''cargo:rerun-if-env-changed=AX_CPU_NUM''], s')))"

section \<open>Where a kernel is linked\<close>

lemma digit_value_hex_digit: "d < 16 \<Longrightarrow> digit_value (hex_digit d) = d"
proof -
  assume "d < 16"
  then have "d \<in> set [0..<16]" by simp
  moreover have "\<forall>d\<in>set [0..<16]. digit_value (hex_digit d) = d"
    by (simp add: upt_rec digit_value_def hex_digit_def)
  ultimately show ?thesis by blast
qed

lemma read_hex_snoc: "read_hex (s @ [c]) = 16 * read_hex s + digit_value c"
  by (simp add: read_hex_def)

lemma read_hex_digits: "read_hex (hex_digits n) = n"
proof (induction n rule: hex_digits.induct)
  case (1 n)
  show ?case
  proof (cases "n < 16")
    case True
    then show ?thesis by (simp add: hex_digits.simps[of n] read_hex_def digit_value_hex_digit)
  next
    case False
    then show ?thesis
      using 1 by (simp add: hex_digits.simps[of n] read_hex_snoc digit_value_hex_digit)
  qed
qed

lemma hex_digit_not_percent: "d < 16 \<Longrightarrow> hex_digit d \<noteq> CHR ''%''"
proof -
  assume "d < 16"
  then have "hex_digit d \<in> set ''0123456789abcdef''" unfolding hex_digit_def by (intro nth_mem) simp
  then show ?thesis by auto
qed

lemma percent_not_in_hex: "CHR ''%'' \<notin> set (hex_digits n)"
proof (induction n rule: hex_digits.induct)
  case (1 n)
  then show ?case
    using hex_digit_not_percent[of n] hex_digit_not_percent[of "n mod 16"]
    by (cases "n < 16") (auto simp: hex_digits.simps[of n])
qed

lemma percent_pattern_absent: "CHR ''%'' \<notin> set ys \<Longrightarrow> \<not> prefix (xs @ [CHR ''%'']) ys"
  by (auto simp: prefix_def)

text \<open>The two substitutions, in a script that names each placeholder once.\<close>

lemma replace_base:
  assumes "CHR ''%'' \<notin> set pre" and "CHR ''%'' \<notin> set post"
  shows "str_replace ''%KERNEL_BASE%'' new (pre @ ''%KERNEL_BASE%'' @ post) = pre @ new @ post"
  using assms by (simp add: str_replace_skip str_replace_absent)

lemma replace_base_and_cpus:
  assumes "CHR ''%'' \<notin> set pre" and "CHR ''%'' \<notin> set mid" and "CHR ''%'' \<notin> set post"
    and "CHR ''%'' \<notin> set new"
  shows "str_replace ''%CPU_NUM%'' n
      (str_replace ''%KERNEL_BASE%'' new (pre @ ''%KERNEL_BASE%'' @ mid @ ''%CPU_NUM%'' @ post)) =
    pre @ new @ mid @ n @ post"
  using assms percent_pattern_absent[of post "''KERNEL_BASE''"]
  by (simp add: str_replace_skip str_replace_absent)

text \<open>
  The address the script of an architecture names is the virtual base address of
  the platform that the example kernels use on it, and where its linear mapping puts
  the physical base address.
\<close>

lemma kernel_base_of_platform:
  "kernel_base ''x86_64'' = Inr (KERNEL_BASE_VADDR x86_pc_config)"
  "kernel_base ''aarch64'' = Inr (KERNEL_BASE_VADDR aarch64_qemu_config)"
  "kernel_base ''riscv64'' = Inr (KERNEL_BASE_VADDR riscv64_qemu_config)"
  "kernel_base ''loongarch64'' = Inr (KERNEL_BASE_VADDR loongarch64_qemu_config)"
  "kernel_base ''arm'' = Inr (ucast (KERNEL_BASE_VADDR arm_qemu_config))"
  by (simp_all add: kernel_base_def config_defs)

lemma kernel_base_mapped:
  "phys_to_virt (x86_pc_mem_if p x86_pc_config rs) (KERNEL_BASE_PADDR x86_pc_config)
    = Inr (KERNEL_BASE_VADDR x86_pc_config)"
  "phys_to_virt (aarch64_qemu_mem_if p aarch64_qemu_config) (KERNEL_BASE_PADDR aarch64_qemu_config)
    = Inr (KERNEL_BASE_VADDR aarch64_qemu_config)"
  "phys_to_virt (riscv64_qemu_mem_if p riscv64_qemu_config) (KERNEL_BASE_PADDR riscv64_qemu_config)
    = Inr (KERNEL_BASE_VADDR riscv64_qemu_config)"
  "phys_to_virt (loongarch64_qemu_mem_if p loongarch64_qemu_config) (KERNEL_BASE_PADDR loongarch64_qemu_config)
    = Inr (KERNEL_BASE_VADDR loongarch64_qemu_config)"
  "phys_to_virt (arm_qemu_mem_if p arm_qemu_config) (KERNEL_BASE_PADDR arm_qemu_config)
    = Inr (KERNEL_BASE_VADDR arm_qemu_config)"
  by (simp_all add: x86_pc_mem_if_def static_mem_if_defs config_defs add_offset_def uadd_def)

lemma gen_linker_script_smp_eq:
  assumes "fs_read F s ''linker.lds.S'' = Inr (pre @ ''%KERNEL_BASE%'' @ mid @ ''%CPU_NUM%'' @ post)"
    and "CHR ''%'' \<notin> set pre" and "CHR ''%'' \<notin> set mid" and "CHR ''%'' \<notin> set post"
    and "kernel_base arch = Inr base"
    and "fs_write F s (''linker_'' @ arch @ ''.lds'')
      (pre @ format_hex base @ mid @ (case n of Some n \<Rightarrow> n | None \<Rightarrow> ''1'') @ post) = Inr s'"
  shows "gen_linker_script_smp F n (Some root) arch s =
    Inr (Inr (''cargo:rustc-link-arg=-T'' @ root @ ''/linker_'' @ arch @ ''.lds'', s'))"
proof -
  have "CHR ''%'' \<notin> set (format_hex base)" by (simp add: format_hex_def percent_not_in_hex)
  note r = replace_base_and_cpus[OF assms(2-4) this]
  show ?thesis
    using assms(6) unfolding gen_linker_script_smp_def assms(1,5) sum.case rbind.simps Let_def r
    by (simp add: unwrap_opt_def)
qed

text \<open>
  The linker script that is generated for the multi-core kernel is the template
  with the link address and the number of CPUs in place of their
  placeholders, and the linker is pointed to it.  On each architecture the link address,
  read back from its hexadecimal form, is the virtual base address in the
  configuration of the platform the kernel runs on, to which that platform's linear mapping
  takes its physical base address.
\<close>

theorem kernel_link_address:
  assumes "fs_doc F" and "\<And>p c. \<exists>s'. fs_write F s p c = Inr s'"
    and "fs_read F s ''linker.lds.S'' = Inr (pre @ ''%KERNEL_BASE%'' @ mid @ ''%CPU_NUM%'' @ post)"
    and "CHR ''%'' \<notin> set pre" and "CHR ''%'' \<notin> set mid" and "CHR ''%'' \<notin> set post"
    and "(arch, vaddr, mapped) \<in>
      {(''x86_64'', KERNEL_BASE_VADDR x86_pc_config,
          phys_to_virt (x86_pc_mem_if p x86_pc_config rs) (KERNEL_BASE_PADDR x86_pc_config)),
       (''aarch64'', KERNEL_BASE_VADDR aarch64_qemu_config,
          phys_to_virt (aarch64_qemu_mem_if p aarch64_qemu_config) (KERNEL_BASE_PADDR aarch64_qemu_config)),
       (''riscv64'', KERNEL_BASE_VADDR riscv64_qemu_config,
          phys_to_virt (riscv64_qemu_mem_if p riscv64_qemu_config) (KERNEL_BASE_PADDR riscv64_qemu_config)),
       (''loongarch64'', KERNEL_BASE_VADDR loongarch64_qemu_config,
          phys_to_virt (loongarch64_qemu_mem_if p loongarch64_qemu_config)
            (KERNEL_BASE_PADDR loongarch64_qemu_config))}"
  shows "\<exists>s' digits. gen_linker_script_smp F n (Some root) arch s =
      Inr (Inr (''cargo:rustc-link-arg=-T'' @ root @ ''/linker_'' @ arch @ ''.lds'', s')) \<and>
    fs_read F s' (''linker_'' @ arch @ ''.lds'') =
      Inr (pre @ ''0x'' @ digits @ mid @ (case n of Some n \<Rightarrow> n | None \<Rightarrow> ''1'') @ post) \<and>
    read_hex digits = unat vaddr \<and> mapped = Inr vaddr"
proof -
  have base: "kernel_base arch = Inr vaddr" and mapped: "mapped = Inr vaddr"
    using assms(7) by (auto simp: kernel_base_of_platform kernel_base_mapped)
  let ?out = "pre @ format_hex vaddr @ mid @ (case n of Some n \<Rightarrow> n | None \<Rightarrow> ''1'') @ post"
  obtain s' where s': "fs_write F s (''linker_'' @ arch @ ''.lds'') ?out = Inr s'" using assms(2) by blast
  then have "fs_read F s' (''linker_'' @ arch @ ''.lds'') = Inr ?out"
    using assms(1) by (auto simp: fs_doc_def)
  then show ?thesis
    using gen_linker_script_smp_eq[OF assms(3-6) base s'] mapped
    by (intro exI[of _ s'] exI[of _ "hex_digits (unat vaddr)"]) (simp add: format_hex_def read_hex_digits)
qed

theorem kernel_link_address_witness:
  "\<exists>s' digits. gen_linker_script_smp map_fs (Some ''4'') (Some ''/k'') ''riscv64''
      [''linker.lds.S'' \<mapsto> ''. = %KERNEL_BASE%; * %CPU_NUM%;''] =
      Inr (Inr (''cargo:rustc-link-arg=-T/k/linker_riscv64.lds'', s')) \<and>
    fs_read map_fs s' ''linker_riscv64.lds'' = Inr (''. = 0x'' @ digits @ ''; * 4;'') \<and>
    read_hex digits = 0xFFFFFFC080200000"
proof -
  have v: "KERNEL_BASE_VADDR riscv64_qemu_config = 0xFFFFFFC080200000" by (simp add: config_defs)
  have w: "\<And>p c. \<exists>s'. fs_write map_fs [''linker.lds.S'' \<mapsto> ''. = %KERNEL_BASE%; * %CPU_NUM%;''] p c = Inr s'"
    by (simp add: map_fs_def)
  show ?thesis
    using kernel_link_address[OF map_fs_doc w, where pre = "''. = ''" and mid = "''; * ''" and post = "'';''"
        and arch = "''riscv64''" and n = "Some ''4''" and root = "''/k''"
        and vaddr = "KERNEL_BASE_VADDR riscv64_qemu_config" and p = Debug and rs = "[]"
        and mapped = "phys_to_virt (riscv64_qemu_mem_if Debug riscv64_qemu_config) (KERNEL_BASE_PADDR riscv64_qemu_config)"]
    by (simp add: map_fs_def v kernel_base_mapped)
qed

end
