(* ===== verification/Spec2Isabelle.thy ===== *)
theory Spec2Isabelle
  imports Mem_If Mem_Tests Console_If Image_Header X86_Start Kernel_Boards Crate_Roots Cargo_Main Kernel_Build
begin

text \<open>
  A model of \<^verbatim>\<open>axplat\<close>, the hardware abstraction layer of ArceOS: the interface
  crate \<^verbatim>\<open>axplat\<close>, its implementations for eight platforms, the drivers that the Arm
  platforms share, the example kernels and the tool \<^verbatim>\<open>cargo axplat\<close>.

  A kernel calls the traits \<^verbatim>\<open>InitIf\<close>, \<^verbatim>\<open>MemIf\<close>, \<^verbatim>\<open>TimeIf\<close>, \<^verbatim>\<open>ConsoleIf\<close>, \<^verbatim>\<open>IrqIf\<close> and
  \<^verbatim>\<open>PowerIf\<close> of \<^verbatim>\<open>axplat\<close>; one platform crate is linked that implements them.  The
  platform's entry code runs first, sets up the boot page table and a stack, and
  enters the kernel through \<^verbatim>\<open>call_main\<close>; a kernel starts further CPUs with \<^verbatim>\<open>cpu_boot\<close>,
  which enter it through \<^verbatim>\<open>call_secondary_main\<close>.

  Conventions (theory \<open>Rust_Prelude\<close>).  Machine integers are words.  Arithmetic that
  the code leaves unchecked is checked by the build profile: it panics in a debug build and
  wraps in a release build, and both are modelled.  Code that may panic returns
  \<open>panic + 'a\<close>; code that drives a device or firmware returns the list of the
  commands it issued and its result (type \<open>io\<close>).  What hardware, firmware or a
  boot loader answers is an argument.  Crates that are not in the repository are
  parameters: records of the operations that are used, with predicates \<open>..._doc\<close> for
  what their documentation promises, and an instance of each for the witnesses.

  The theories, in the order in which they build on each other, and their sources:

  \<^item> \<open>Mem_Ranges\<close>: \<^verbatim>\<open>axplat/src/mem.rs\<close>, the flags and regions, the overlap check and
    the difference of two lists of ranges, with their errors.  \<open>ranges_difference_correct\<close>
    compares the loop with sets of addresses, \<open>check_sorted_iff_disjoint\<close> the check with
    a reference definition.  \<open>Mem_Tests\<close> has the unit tests of the file, which the model passes.
  \<^item> \<open>Platform_Config\<close>: every \<^verbatim>\<open>axconfig.toml\<close>.
  \<^item> \<open>Mem_If\<close>: \<^verbatim>\<open>mem.rs\<close> of the platforms.  The lemmas give, for every board, the memory that
    a kernel may allocate, that the address translations are inverse to each other, and
    which device registers lie in the listed MMIO ranges.
  \<^item> \<open>Time_If\<close>: \<^verbatim>\<open>axplat/src/time.rs\<close> and the clocks and timers of the platforms (\<^verbatim>\<open>time.rs\<close>,
    \<^verbatim>\<open>generic_timer.rs\<close>, \<^verbatim>\<open>pl031.rs\<close>).  Busy waiting is a partial function over the readings of the
    counter: whether it returns is a theorem.  Bounds say up to which counter values the
    conversions are exact.
  \<^item> \<open>Console_If\<close>: \<^verbatim>\<open>axplat/src/console.rs\<close>, the UART drivers and the SBI console.
  \<^item> \<open>Irq_If\<close>: \<^verbatim>\<open>axplat/src/irq.rs\<close>, \<^verbatim>\<open>gic.rs\<close>, \<^verbatim>\<open>apic.rs\<close> and the \<^verbatim>\<open>irq.rs\<close> of RISC-V and
    LoongArch; the locale \<open>handler_store\<close> is the contract of a table of handlers.  \<open>Irq_Boards\<close>
    has the trait as a record, and its contract as the locale \<open>irq_controller\<close>, a sublocale of the
    store, interpreted on the four controllers.
  \<^item> \<open>Power_If\<close> and \<open>Power_Boards\<close>: \<^verbatim>\<open>psci.rs\<close>, \<^verbatim>\<open>mp.rs\<close>, \<^verbatim>\<open>misc.rs\<close>, and \<^verbatim>\<open>power.rs\<close> of every
    platform as a record of \<^verbatim>\<open>PowerIf\<close>: which CPU a logical id starts, what happens for an
    id that does not exist, and that shutting down does not return.
  \<^item> \<open>Boot\<close>: the boot page tables of \<^verbatim>\<open>boot.rs\<close>, walked as the hardware does; every board
    sees its physical memory at its linear offset, and the 32-bit Arm board section by section.
  \<^item> \<open>Boot_Entry\<close>: the naked entry functions of \<^verbatim>\<open>boot.rs\<close> as sequences of calls with the
    registers they pass on; a secondary CPU gets the stack and the id that \<^verbatim>\<open>cpu_boot\<close>
    was given.  \<open>X86_Start\<close> does the same for x86: \<^verbatim>\<open>boot.rs\<close> with \<^verbatim>\<open>multiboot.S\<close> and
    \<^verbatim>\<open>ap_start.S\<close>, their page tables and the walk of the hardware.  \<open>Image_Header\<close>
    is the header of the arm64 images, byte by byte.
  \<^item> \<open>Platform_Init\<close>: \<^verbatim>\<open>axplat/src/init.rs\<close> as a record, \<^verbatim>\<open>init.rs\<close> of every platform, which
    composes the components above, and the kernels' use of it.
  \<^item> \<open>Init_Contract\<close>: the contract of \<^verbatim>\<open>InitIf\<close> as the locale \<open>platform_init\<close>, and that all eight
    platforms meet it, for any number of CPUs.
  \<^item> \<open>Smp_Kernel\<close>: the start of the secondary CPUs in \<^verbatim>\<open>examples/smp-kernel\<close> as a step relation
    over the shared state, with an invariant, a measure that every step decreases, and the
    refinement of a platform that passes the stack through one shared slot to one that
    passes it as an argument.
  \<^item> \<open>Kernel_Timer\<close>: the periodic timer of the example kernels and the interrupt test.
  \<^item> \<open>Linked_Platform\<close>: the platform that a kernel links, as its traits over one state, for the five
    that the example kernels choose from.
  \<^item> \<open>Kernel_Main\<close> and \<open>Smp_Main\<close>: the \<^verbatim>\<open>main\<close> functions of the three example kernels and their panic
    handlers on a linked platform.  A run is the list of what the kernel does and prints, and a
    result unless it waits forever; interrupts come between the accesses of \<^verbatim>\<open>main\<close> to the counter
    and to the variables that it shares with the handler.
  \<^item> \<open>Kernel_Contract\<close> and \<open>Kernel_Boards\<close>: what the kernels need of a platform, as the locales
    \<open>kernel_platform\<close> and \<open>irq_platform\<close>, and their interpretations on the five platforms: that the
    kernels run to their end, that the interrupt test counts the interrupts, and that every run
    that ends shuts the machine down.
  \<^item> \<open>Axplat_Macros\<close>: the attribute macros and \<^verbatim>\<open>axplat/src/lib.rs\<close>, how a platform finds the
    kernel's entry points and that they are well typed.
  \<^item> \<open>Crate_Roots\<close>: \<^verbatim>\<open>lib.rs\<close> of the platforms and the template as data, which traits they
    implement under which features, and what the compiler makes of them.
  \<^item> \<open>Cargo_Axplat\<close>, \<open>Cargo_Main\<close> and \<open>Kernel_Build\<close>: the tool \<^verbatim>\<open>cargo axplat\<close>, its commands and their
    dispatch, its build script, and the build scripts of the example kernels.

  Loops over lists are structural recursions, so no fuel is used; the loops that
  may not end (busy waiting, the SBI console) are partial functions, and theorems say when they
  return.

  Not modelled: the descriptor tables of the x86 start-up code, beyond the selectors that the code
  loads; the derives of \<^verbatim>\<open>clap\<close> and the macro \<^verbatim>\<open>include_configs\<close>, whose results are
  arguments; the formatting of printed values; log and debug output; the locks of
  the consoles, each of which is held for one operation; the memory callbacks of the multiboot parser; and the
  \<^verbatim>\<open>Aligned4K\<close> and \<^verbatim>\<open>Aligned16K\<close> wrappers, which have no behaviour.
\<close>

end
